(* ===== verification/Prelude.thy ===== *)
theory Prelude
  imports Main "HOL-Library.Word"
begin

text \<open>
  The shared base of the development: the machine integers of the Rust sources, the result type
  with the \<open>?\<close> operator in its pure and its state-passing form, the byte-order conversions
  \<open>to_le_bytes\<close>, \<open>from_le_bytes\<close>, \<open>to_be_bytes\<close>, \<open>from_be_bytes\<close> of the standard library, decimal
  printing and parsing, and the UTF-8 check of \<open>String::from_utf8\<close>.  The lemmas are collected in
  \<open>result_simps\<close> (inversion of the result operators) and \<open>byte_simps\<close> (widths and round trips).
\<close>

section \<open>Machine integers\<close>

type_synonym u8 = "8 word"
type_synonym i8 = "8 word"
type_synonym u16 = "16 word"
type_synonym u32 = "32 word"
type_synonym u64 = "64 word"
type_synonym i64 = "64 word"
type_synonym bytes = "u8 list"
type_synonym path = string

named_theorems result_simps
named_theorems byte_simps

section \<open>Results\<close>

text \<open>
  \<open>Result<A, E>\<close> is \<open>'e + 'a\<close>, \<open>Inl\<close> the error.  \<open>res_bind m f\<close> is \<open>f(m?)\<close>; \<open>st_bind\<close> is the same for
  code that also mutates a state, which is kept on both branches.
\<close>

definition res_bind :: "'e + 'a \<Rightarrow> ('a \<Rightarrow> 'e + 'b) \<Rightarrow> 'e + 'b" where
  "res_bind m f = (case m of Inl e \<Rightarrow> Inl e | Inr x \<Rightarrow> f x)"

definition map_err :: "('e \<Rightarrow> 'f) \<Rightarrow> 'e + 'a \<Rightarrow> 'f + 'a" where
  "map_err g m = (case m of Inl e \<Rightarrow> Inl (g e) | Inr x \<Rightarrow> Inr x)"

definition st_bind :: "('e + 'a) \<times> 's \<Rightarrow> ('a \<Rightarrow> 's \<Rightarrow> ('e + 'b) \<times> 't) \<Rightarrow> ('s \<Rightarrow> 't) \<Rightarrow> ('e + 'b) \<times> 't" where
  "st_bind m f h = (case m of (Inl e, s) \<Rightarrow> (Inl e, h s) | (Inr x, s) \<Rightarrow> f x s)"

definition st_map_err :: "('e \<Rightarrow> 'f) \<Rightarrow> ('e + 'a) \<times> 's \<Rightarrow> ('f + 'a) \<times> 's" where
  "st_map_err g m = (map_err g (fst m), snd m)"

lemma res_bind_simps [simp]: "res_bind (Inl e) f = Inl e" "res_bind (Inr x) f = f x"
  by (simp_all add: res_bind_def)

lemma map_err_simps [simp]: "map_err g (Inl e) = Inl (g e)" "map_err g (Inr x) = Inr x"
  by (simp_all add: map_err_def)

lemma st_bind_simps [simp]:
  "st_bind (Inl e, s) f h = (Inl e, h s)" "st_bind (Inr x, s) f h = f x s"
  by (simp_all add: st_bind_def)

lemma st_map_err_simps [simp]:
  "st_map_err g (Inl e, s) = (Inl (g e), s)" "st_map_err g (Inr x, s) = (Inr x, s)"
  by (simp_all add: st_map_err_def)

lemma res_bind_eq_Inr [result_simps]:
  "res_bind m f = Inr y \<longleftrightarrow> (\<exists>x. m = Inr x \<and> f x = Inr y)"
  by (cases m) auto

lemma res_bind_eq_Inl [result_simps]:
  "res_bind m f = Inl e \<longleftrightarrow> m = Inl e \<or> (\<exists>x. m = Inr x \<and> f x = Inl e)"
  by (cases m) auto

lemma map_err_eq_Inr [result_simps]: "map_err g m = Inr x \<longleftrightarrow> m = Inr x"
  by (cases m) auto

lemma map_err_eq_Inl [result_simps]: "map_err g m = Inl e \<longleftrightarrow> (\<exists>e'. m = Inl e' \<and> e = g e')"
  by (cases m) auto

lemma st_bind_eq_Inr [result_simps]:
  "st_bind m f h = (Inr y, t) \<longleftrightarrow> (\<exists>x s. m = (Inr x, s) \<and> f x s = (Inr y, t))"
  by (cases m; cases "fst m") (auto simp: st_bind_def)

lemma st_bind_eq_Inl [result_simps]:
  "st_bind m f h = (Inl e, t) \<longleftrightarrow>
     (\<exists>s. m = (Inl e, s) \<and> t = h s) \<or> (\<exists>x s. m = (Inr x, s) \<and> f x s = (Inl e, t))"
  by (cases m; cases "fst m") (auto simp: st_bind_def)

lemma st_map_err_eq_Inr [result_simps]: "st_map_err g m = (Inr x, s) \<longleftrightarrow> m = (Inr x, s)"
  by (cases m; cases "fst m") auto

lemma st_map_err_eq_Inl [result_simps]:
  "st_map_err g m = (Inl e, s) \<longleftrightarrow> (\<exists>e'. m = (Inl e', s) \<and> e = g e')"
  by (cases m; cases "fst m") auto

text \<open>A Rust panic, with its message, where the sources can reach one.\<close>

datatype panic = Panic string

section \<open>Byte order\<close>

text \<open>
  \<open>le_bytes n v\<close> is the little-endian form of \<open>v\<close> in \<open>n\<close> bytes (higher bytes are cut off),
  \<open>of_le_bytes\<close> its inverse; big-endian is the reverse.
\<close>

fun le_bytes :: "nat \<Rightarrow> nat \<Rightarrow> bytes" where
  "le_bytes 0 v = []"
| "le_bytes (Suc n) v = word_of_nat v # le_bytes n (v div 256)"

fun of_le_bytes :: "bytes \<Rightarrow> nat" where
  "of_le_bytes [] = 0"
| "of_le_bytes (b # bs) = unat b + 256 * of_le_bytes bs"

definition be_bytes :: "nat \<Rightarrow> nat \<Rightarrow> bytes" where
  "be_bytes n v = rev (le_bytes n v)"

definition of_be_bytes :: "bytes \<Rightarrow> nat" where
  "of_be_bytes bs = of_le_bytes (rev bs)"

lemma length_le_bytes [simp, byte_simps]: "length (le_bytes n v) = n"
  by (induction n arbitrary: v) auto

lemma length_be_bytes [simp, byte_simps]: "length (be_bytes n v) = n"
  by (simp add: be_bytes_def)

lemma unat_byte_of_nat: "unat (word_of_nat v :: u8) = v mod 256"
  by (simp add: unat_of_nat)

lemma of_le_bytes_le_bytes_mod: "of_le_bytes (le_bytes n v) = v mod 256 ^ n"
proof (induction n arbitrary: v)
  case (Suc n)
  have "v mod 256 + 256 * (v div 256 mod 256 ^ n) = v mod (256 * 256 ^ n)"
    by (simp add: mod_mult2_eq)
  with Suc show ?case by (simp add: unat_byte_of_nat)
qed simp

lemma of_le_bytes_le_bytes [byte_simps]: "v < 256 ^ n \<Longrightarrow> of_le_bytes (le_bytes n v) = v"
  by (simp add: of_le_bytes_le_bytes_mod)

lemma of_le_bytes_bound: "of_le_bytes bs < 256 ^ length bs"
proof (induction bs)
  case (Cons b bs)
  have "unat b < 256" using unsigned_less [of b] by simp
  with Cons show ?case by simp
qed simp

lemma le_bytes_of_le_bytes [byte_simps]: "length bs = n \<Longrightarrow> le_bytes n (of_le_bytes bs) = bs"
proof (induction bs arbitrary: n)
  case (Cons b bs)
  have lt: "unat b < 256" using unsigned_less [of b] by simp
  have hd: "(word_of_nat (unat b + 256 * of_le_bytes bs) :: u8) = b"
  proof (rule word_unat_eq_iff [THEN iffD2])
    show "unat (word_of_nat (unat b + 256 * of_le_bytes bs) :: u8) = unat b"
      using lt by (simp only: unat_byte_of_nat mod_mult_self2 mod_less)
  qed
  have "(unat b + 256 * of_le_bytes bs) div 256 = of_le_bytes bs" using lt by simp
  with Cons hd show ?case by auto
qed simp

lemma of_be_bytes_be_bytes [byte_simps]: "v < 256 ^ n \<Longrightarrow> of_be_bytes (be_bytes n v) = v"
  by (simp add: of_be_bytes_def be_bytes_def of_le_bytes_le_bytes)

lemma be_bytes_of_be_bytes [byte_simps]: "length bs = n \<Longrightarrow> be_bytes n (of_be_bytes bs) = bs"
  by (simp add: of_be_bytes_def be_bytes_def le_bytes_of_le_bytes)

text \<open>\<open>u64::to_be_bytes\<close> and \<open>u64::from_be_bytes\<close>.\<close>

definition u64_to_be_bytes :: "u64 \<Rightarrow> bytes" where
  "u64_to_be_bytes w = be_bytes 8 (unat w)"

definition u64_from_be_bytes :: "bytes \<Rightarrow> u64" where
  "u64_from_be_bytes bs = word_of_nat (of_be_bytes bs)"

lemma length_u64_to_be_bytes [simp, byte_simps]: "length (u64_to_be_bytes w) = 8"
  by (simp add: u64_to_be_bytes_def)

lemma u64_from_to_be_bytes [simp, byte_simps]: "u64_from_be_bytes (u64_to_be_bytes w) = w"
proof -
  have "unat w < 256 ^ 8" using unsigned_less [of w] by simp
  then show ?thesis
    by (simp add: u64_from_be_bytes_def u64_to_be_bytes_def of_be_bytes_be_bytes)
qed

lemma u64_to_from_be_bytes [byte_simps]:
  assumes "length bs = 8"
  shows "u64_to_be_bytes (u64_from_be_bytes bs) = bs"
proof -
  have "of_be_bytes bs < 256 ^ 8"
    using of_le_bytes_bound [of "rev bs"] assms by (simp add: of_be_bytes_def)
  then have "unat (u64_from_be_bytes bs) = of_be_bytes bs"
    by (simp add: u64_from_be_bytes_def unat_of_nat)
  then show ?thesis
    using assms by (simp add: u64_to_be_bytes_def be_bytes_of_be_bytes)
qed

section \<open>Text\<close>

text \<open>
  A \<open>String\<close> whose content the code inspects byte by byte is \<open>bytes\<close>; other strings are \<open>string\<close>,
  and \<open>as_bytes\<close> goes from one to the other.  \<open>dec_digits\<close> is what \<open>Display\<close> prints for an unsigned
  integer.
\<close>

definition as_bytes :: "string \<Rightarrow> bytes" where
  "as_bytes s = map of_char s"

definition text_of :: "bytes \<Rightarrow> string" where
  "text_of bs = map (\<lambda>b. char_of (unat b)) bs"

lemma as_bytes_text_of [byte_simps]: "as_bytes (text_of b) = b"
proof -
  have "of_char (char_of (unat x)) = x" for x :: u8
  proof -
    have "unat x < 256" using unsigned_less [of x] by simp
    then have "of_char (char_of (unat x)) = unat x" by (simp only: of_char_of mod_less)
    then show ?thesis using of_nat_of_char [of "char_of (unat x)", where ?'a = "u8"] by simp
  qed
  then show ?thesis by (simp add: as_bytes_def text_of_def o_def)
qed

fun dec_digits :: "nat \<Rightarrow> nat list" where
  "dec_digits n = (if n < 10 then [n] else dec_digits (n div 10) @ [n mod 10])"

declare dec_digits.simps [simp del]

definition show_nat :: "nat \<Rightarrow> string" where
  "show_nat n = map (\<lambda>d. char_of (48 + d)) (dec_digits n)"

definition show_int :: "int \<Rightarrow> string" where
  "show_int i = (if i < 0 then ''-'' @ show_nat (nat (- i)) else show_nat (nat i))"

definition dec_bytes :: "nat \<Rightarrow> bytes" where
  "dec_bytes n = map (\<lambda>d. word_of_nat (48 + d)) (dec_digits n)"

text \<open>
  \<open>str::parse::<u32>\<close>: an optional \<open>+\<close>, at least one digit, no overflow.
\<close>

definition is_digit_byte :: "u8 \<Rightarrow> bool" where
  "is_digit_byte b \<longleftrightarrow> 48 \<le> unat b \<and> unat b \<le> 57"

definition digits_value :: "bytes \<Rightarrow> nat" where
  "digits_value bs = foldl (\<lambda>acc b. acc * 10 + (unat b - 48)) 0 bs"

definition parse_u32 :: "bytes \<Rightarrow> nat option" where
  "parse_u32 bs =
     (let ds = (case bs of b # rest \<Rightarrow> if b = 43 then rest else bs | [] \<Rightarrow> [])
      in if ds \<noteq> [] \<and> list_all is_digit_byte ds \<and> digits_value ds < 2 ^ 32
         then Some (digits_value ds) else None)"

lemma dec_digits_nonempty [simp]: "dec_digits n \<noteq> []"
  by (subst dec_digits.simps) simp

lemma dec_digits_small: "d \<in> set (dec_digits n) \<Longrightarrow> d < 10"
proof (induction n rule: dec_digits.induct)
  case (1 n)
  then show ?case
    by (cases "n < 10") (auto simp: dec_digits.simps [of n])
qed

lemma dec_bytes_nonempty [simp]: "dec_bytes n \<noteq> []"
  by (simp add: dec_bytes_def)

lemma dec_bytes_digits: "list_all is_digit_byte (dec_bytes n)"
proof -
  have "is_digit_byte (word_of_nat (48 + d))" if "d < 10" for d
  proof -
    have "unat (word_of_nat (48 + d) :: u8) = 48 + d"
      using that unat_byte_of_nat [of "48 + d"] by simp
    then show ?thesis using that by (simp only: is_digit_byte_def) simp
  qed
  then show ?thesis
    using dec_digits_small [of _ n]
    by (auto simp: dec_bytes_def list_all_iff)
qed

lemma digits_value_snoc:
  "digits_value (bs @ [b]) = digits_value bs * 10 + (unat b - 48)"
  by (simp add: digits_value_def)

lemma digits_value_dec_bytes [byte_simps]: "digits_value (dec_bytes n) = n"
proof (induction n rule: dec_digits.induct)
  case (1 n)
  have u: "unat (word_of_nat (48 + d) :: u8) = 48 + d" if "d < 10" for d
    using that unat_byte_of_nat [of "48 + d"] by simp
  show ?case
  proof (cases "n < 10")
    case True
    then have "dec_bytes n = [word_of_nat (48 + n)]"
      by (simp add: dec_bytes_def dec_digits.simps [of n])
    with u [OF True] show ?thesis
      by (simp only: digits_value_def foldl.simps)
  next
    case False
    then have "dec_bytes n = dec_bytes (n div 10) @ [word_of_nat (48 + n mod 10)]"
      by (simp add: dec_bytes_def dec_digits.simps [of n])
    moreover have "unat (word_of_nat (48 + n mod 10) :: u8) = 48 + n mod 10"
      by (rule u) simp
    ultimately have "digits_value (dec_bytes n) = digits_value (dec_bytes (n div 10)) * 10 + n mod 10"
      by (simp add: digits_value_snoc)
    with 1 False show ?thesis by simp
  qed
qed

lemma parse_u32_dec_bytes [byte_simps]: "n < 2 ^ 32 \<Longrightarrow> parse_u32 (dec_bytes n) = Some n"
proof -
  assume n: "n < 2 ^ 32"
  obtain b bs where eq: "dec_bytes n = b # bs" by (cases "dec_bytes n") auto
  then have "is_digit_byte b" using dec_bytes_digits [of n] by simp
  then have "b \<noteq> 43" by (auto simp: is_digit_byte_def)
  then have "(case dec_bytes n of b # rest \<Rightarrow> if b = 43 then rest else dec_bytes n | [] \<Rightarrow> []) = dec_bytes n"
    by (simp add: eq)
  with n show ?thesis
    by (simp add: parse_u32_def dec_bytes_digits digits_value_dec_bytes)
qed

text \<open>
  \<open>String::from_utf8\<close> accepts exactly the well-formed sequences of the Unicode standard
  (no overlong forms, no surrogates, nothing above U+10FFFF).
\<close>

definition cont :: "u8 \<Rightarrow> bool" where
  "cont b \<longleftrightarrow> 128 \<le> unat b \<and> unat b \<le> 191"

definition in_range :: "nat \<Rightarrow> nat \<Rightarrow> u8 \<Rightarrow> bool" where
  "in_range lo hi b \<longleftrightarrow> lo \<le> unat b \<and> unat b \<le> hi"

fun utf8_valid :: "bytes \<Rightarrow> bool" where
  "utf8_valid [] = True"
| "utf8_valid (a # r) =
     (if unat a < 128 then utf8_valid r
      else if in_range 194 223 a then
        (case r of b # r1 \<Rightarrow> cont b \<and> utf8_valid r1 | _ \<Rightarrow> False)
      else if in_range 224 239 a then
        (case r of b # c # r2 \<Rightarrow>
            (if unat a = 224 then in_range 160 191 b
             else if unat a = 237 then in_range 128 159 b else cont b)
            \<and> cont c \<and> utf8_valid r2
          | _ \<Rightarrow> False)
      else if in_range 240 244 a then
        (case r of b # c # d # r3 \<Rightarrow>
            (if unat a = 240 then in_range 144 191 b
             else if unat a = 244 then in_range 128 143 b else cont b)
            \<and> cont c \<and> cont d \<and> utf8_valid r3
          | _ \<Rightarrow> False)
      else False)"

lemma utf8_valid_ascii: "list_all (\<lambda>b. unat b < 128) bs \<Longrightarrow> utf8_valid bs"
  by (induction bs) auto

lemma utf8_valid_dec_bytes [simp]: "utf8_valid (dec_bytes n)"
proof (rule utf8_valid_ascii)
  show "list_all (\<lambda>b. unat b < 128) (dec_bytes n)"
    using dec_bytes_digits [of n] by (auto simp: list_all_iff is_digit_byte_def)
qed

section \<open>Steps\<close>

text \<open>A number of steps of code that may stop or not return.\<close>

fun repeat_step :: "('h \<Rightarrow> 'h option) \<Rightarrow> nat \<Rightarrow> 'h \<Rightarrow> 'h option" where
  "repeat_step stp 0 h = Some h"
| "repeat_step stp (Suc n) h = Option.bind (stp h) (repeat_step stp n)"

lemma repeat_step_add: "repeat_step stp a h = Some h1 \<Longrightarrow> repeat_step stp b h1 = Some h2 \<Longrightarrow> repeat_step stp (a + b) h = Some h2"
  by (induction a arbitrary: h) (auto split: Option.bind_splits)

section \<open>Invariants of step relations\<close>

text \<open>A step relation with an invariant: it holds in every state that steps reach from the first one, or from any state that has it.\<close>

locale step_invariant =
  fixes step :: "'s \<Rightarrow> 's \<Rightarrow> bool" and first :: 's and inv :: "'s \<Rightarrow> bool"
  assumes inv_first: "inv first"
    and inv_step: "step s s' \<Longrightarrow> inv s \<Longrightarrow> inv s'"
begin

lemma inv_steps: "step\<^sup>*\<^sup>* s s' \<Longrightarrow> inv s \<Longrightarrow> inv s'"
  by (induction rule: rtranclp_induct) (auto intro: inv_step)

lemma inv_reach: "step\<^sup>*\<^sup>* first s \<Longrightarrow> inv s"
  using inv_steps inv_first by blast

lemma stable_steps:
  assumes "step\<^sup>*\<^sup>* s s'" "inv s" "P s" and "\<And>a b. step a b \<Longrightarrow> inv a \<Longrightarrow> P a \<Longrightarrow> P b"
  shows "P s'"
proof -
  from assms(1-3) have "inv s' \<and> P s'"
    by (induction rule: rtranclp_induct) (auto intro: inv_step assms(4))
  then show ?thesis ..
qed

end

end
