(* ===== verification/Std_IO.thy ===== *)
theory Std_IO
  imports Prelude
begin

text \<open>
  The part of \<open>std::io\<close> and \<open>std::fs\<close> that the sources use.  A socket is its environment's script:
  the list of what the next reads deliver (a chunk of bytes or an error), what the next writes
  accept (a number of bytes or an error), and the bytes written so far.  An exhausted read script
  is the end of the stream, an exhausted write script accepts everything.  So a statement for
  every socket covers every chunking, short read, short write and error.  The file system maps paths
  to contents, and carries the script of the errors its next operations meet.
\<close>

section \<open>I/O errors\<close>

datatype error_kind = NotFound | PermissionDenied | ConnectionReset | BrokenPipe | WouldBlock
  | TimedOut | Interrupted | WriteZero | UnexpectedEof | InvalidInput | InvalidData | Other

datatype io_error = IoErr (io_kind: error_kind) (io_payload: string)

abbreviation io_error_of :: "error_kind \<Rightarrow> io_error" where
  "io_error_of k \<equiv> IoErr k ''''"

section \<open>Sockets\<close>

datatype read_event = RData bytes | RErr io_error

datatype write_event = WAccept nat | WErr io_error

record sock =
  rx :: "read_event list"
  wx :: "write_event list"
  sent :: bytes

text \<open>\<open>Read::read\<close> into a buffer of \<open>n\<close> bytes: the bytes delivered.\<close>

definition sock_read :: "nat \<Rightarrow> sock \<Rightarrow> (io_error + bytes) \<times> sock" where
  "sock_read n s =
     (case rx s of
        [] \<Rightarrow> (Inr [], s)
      | RErr e # es \<Rightarrow> (Inl e, s\<lparr>rx := es\<rparr>)
      | RData d # es \<Rightarrow>
          (Inr (take n d), s\<lparr>rx := (if length d \<le> n then es else RData (drop n d) # es)\<rparr>))"

text \<open>
  \<open>Read::read_exact\<close>: reads until the buffer is full, retries when interrupted, and fails with
  \<open>UnexpectedEof\<close> on an empty read.
\<close>

fun read_exact_events :: "nat \<Rightarrow> read_event list \<Rightarrow> (io_error + bytes) \<times> read_event list" where
  "read_exact_events n [] =
     (if n = 0 then Inr [] else Inl (IoErr UnexpectedEof ''failed to fill whole buffer''), [])"
| "read_exact_events n (RErr e # es) =
     (if n = 0 then (Inr [], RErr e # es)
      else if io_kind e = Interrupted then read_exact_events n es
      else (Inl e, es))"
| "read_exact_events n (RData d # es) =
     (if n = 0 then (Inr [], RData d # es)
      else if d = [] then (Inl (IoErr UnexpectedEof ''failed to fill whole buffer''), es)
      else if length d \<le> n then
        (case read_exact_events (n - length d) es of
           (Inl e, es') \<Rightarrow> (Inl e, es')
         | (Inr bs, es') \<Rightarrow> (Inr (d @ bs), es'))
      else (Inr (take n d), RData (drop n d) # es))"

definition sock_read_exact :: "nat \<Rightarrow> sock \<Rightarrow> (io_error + bytes) \<times> sock" where
  "sock_read_exact n s =
     (case read_exact_events n (rx s) of (r, es) \<Rightarrow> (r, s\<lparr>rx := es\<rparr>))"

text \<open>
  \<open>Write::write_all\<close>: writes the rest after a short write, retries when interrupted, fails with
  \<open>WriteZero\<close> when nothing is accepted.  The last component is what reached the wire.
\<close>

fun write_all_events ::
    "bytes \<Rightarrow> write_event list \<Rightarrow> (io_error + unit) \<times> write_event list \<times> bytes" where
  "write_all_events data [] = (Inr (), [], data)"
| "write_all_events data (WErr e # ws) =
     (if data = [] then (Inr (), WErr e # ws, [])
      else if io_kind e = Interrupted then write_all_events data ws
      else (Inl e, ws, []))"
| "write_all_events data (WAccept k # ws) =
     (if data = [] then (Inr (), WAccept k # ws, [])
      else if k = 0 then (Inl (IoErr WriteZero ''failed to write whole buffer''), ws, [])
      else if length data \<le> k then (Inr (), ws, data)
      else (case write_all_events (drop k data) ws of
              (r, ws', out) \<Rightarrow> (r, ws', take k data @ out)))"

definition sock_write_all :: "bytes \<Rightarrow> sock \<Rightarrow> (io_error + unit) \<times> sock" where
  "sock_write_all data s =
     (case write_all_events data (wx s) of
        (r, ws, out) \<Rightarrow> (r, s\<lparr>wx := ws, sent := sent s @ out\<rparr>))"

text \<open>\<open>Write::flush\<close> of a socket does nothing and succeeds.\<close>

definition sock_flush :: "sock \<Rightarrow> (io_error + unit) \<times> sock" where
  "sock_flush s = (Inr (), s)"

subsection \<open>What the sockets deliver\<close>

text \<open>
  \<open>rx_bytes\<close> is the byte stream a script delivers when every chunk of it is read; a script is
  \<open>rx_clean\<close> when it has no error and no empty chunk.
\<close>

fun rx_bytes :: "read_event list \<Rightarrow> bytes" where
  "rx_bytes [] = []"
| "rx_bytes (RData d # es) = d @ rx_bytes es"
| "rx_bytes (RErr e # es) = rx_bytes es"

fun rx_clean :: "read_event list \<Rightarrow> bool" where
  "rx_clean [] = True"
| "rx_clean (RData d # es) = (d \<noteq> [] \<and> rx_clean es)"
| "rx_clean (RErr e # es) = False"

text \<open>\<open>read_exact\<close> is the loop over \<open>read\<close> that the standard library documents.\<close>

lemma sock_read_exact_unfold:
  "sock_read_exact n s =
     (if n = 0 then (Inr [], s)
      else case sock_read n s of
        (Inl e, s') \<Rightarrow> if io_kind e = Interrupted then sock_read_exact n s' else (Inl e, s')
      | (Inr bs, s') \<Rightarrow>
          if bs = [] then (Inl (IoErr UnexpectedEof ''failed to fill whole buffer''), s')
          else (case sock_read_exact (n - length bs) s' of
                  (Inl e, s'') \<Rightarrow> (Inl e, s'')
                | (Inr cs, s'') \<Rightarrow> (Inr (bs @ cs), s'')))"
proof (cases "rx s")
  case Nil
  then show ?thesis by (auto simp: sock_read_exact_def sock_read_def)
next
  case (Cons ev es)
  have z: "read_exact_events 0 es' = (Inr [], es')" for es'
    by (cases es'; cases "hd es'") auto
  show ?thesis
    using Cons
    by (cases ev) (auto simp: sock_read_exact_def sock_read_def z split: prod.splits sum.splits)
qed

lemma read_exact_clean:
  assumes "rx_clean es" "n \<le> length (rx_bytes es)"
  shows "\<exists>es'. read_exact_events n es = (Inr (take n (rx_bytes es)), es') \<and> rx_clean es'
           \<and> rx_bytes es' = drop n (rx_bytes es)"
  using assms
proof (induction n es rule: read_exact_events.induct)
  case (3 n d es)
  show ?case
  proof (cases "n \<noteq> 0 \<and> length d \<le> n")
    case True
    with 3 have "\<exists>es'. read_exact_events (n - length d) es = (Inr (take (n - length d) (rx_bytes es)), es')
        \<and> rx_clean es' \<and> rx_bytes es' = drop (n - length d) (rx_bytes es)"
      by auto
    with True "3.prems" show ?thesis by auto
  next
    case False
    with "3.prems" show ?thesis by auto
  qed
qed auto

lemma write_all_events_Inr:
  "write_all_events data ws = (Inr u, ws', out) \<Longrightarrow> out = data"
  by (induction data ws arbitrary: ws' out rule: write_all_events.induct)
     (auto split: if_splits prod.splits)

lemma write_all_events_prefix:
  "write_all_events data ws = (r, ws', out) \<Longrightarrow> \<exists>rest. data = out @ rest"
proof (induction data ws arbitrary: ws' out rule: write_all_events.induct)
  case (3 data k ws)
  show ?case
  proof (cases "data = [] \<or> k = 0 \<or> length data \<le> k")
    case True
    with "3.prems" show ?thesis by (auto split: if_splits)
  next
    case False
    then obtain out' where o: "write_all_events (drop k data) ws = (r, ws', out')"
      and out: "out = take k data @ out'"
      using "3.prems" by (auto split: prod.splits)
    from "3.IH" False o obtain rest where "drop k data = out' @ rest" by blast
    with out have "data = out @ rest" by (metis append.assoc append_take_drop_id)
    then show ?thesis ..
  qed
qed (auto split: if_splits)

lemma sock_write_all_Inr:
  "sock_write_all data s = (Inr u, s') \<Longrightarrow> sent s' = sent s @ data \<and> rx s' = rx s"
  by (auto simp: sock_write_all_def dest: write_all_events_Inr split: prod.splits)

lemma sock_write_all_sent:
  "sock_write_all data s = (r, s') \<Longrightarrow> \<exists>out rest. data = out @ rest \<and> sent s' = sent s @ out"
  by (auto simp: sock_write_all_def dest: write_all_events_prefix split: prod.splits)

lemma sock_write_all_ideal [simp]:
  "wx s = [] \<Longrightarrow> sock_write_all data s = (Inr (), s\<lparr>sent := sent s @ data\<rparr>)"
  by (simp add: sock_write_all_def)

lemma sock_read_split:
  assumes "rx_clean (rx s)" "0 < n" "rx_bytes (rx s) \<noteq> []"
  shows "\<exists>bs s'. sock_read n s = (Inr bs, s') \<and> bs \<noteq> [] \<and> length bs \<le> n
           \<and> rx_bytes (rx s) = bs @ rx_bytes (rx s') \<and> rx_clean (rx s')"
proof (cases "rx s")
  case (Cons ev es)
  with assms show ?thesis by (cases ev) (auto simp: sock_read_def)
qed (use assms in simp)

section \<open>Files\<close>

record fs =
  files :: "path \<Rightarrow> bytes option"
  faults :: "io_error option list"

definition next_fault :: "fs \<Rightarrow> io_error option \<times> fs" where
  "next_fault f = (case faults f of [] \<Rightarrow> (None, f) | x # r \<Rightarrow> (x, f\<lparr>faults := r\<rparr>))"

text \<open>
  \<open>fs::read\<close> and \<open>fs::read_to_string\<close>: the latter refuses contents that are not UTF-8.
\<close>

definition fs_read :: "path \<Rightarrow> fs \<Rightarrow> (io_error + bytes) \<times> fs" where
  "fs_read p f =
     (case next_fault f of
        (Some e, f') \<Rightarrow> (Inl e, f')
      | (None, f') \<Rightarrow>
          (case files f p of
             None \<Rightarrow> (Inl (io_error_of NotFound), f')
           | Some c \<Rightarrow> (Inr c, f')))"

definition fs_read_to_string :: "path \<Rightarrow> fs \<Rightarrow> (io_error + bytes) \<times> fs" where
  "fs_read_to_string p f =
     (case fs_read p f of
        (Inl e, f') \<Rightarrow> (Inl e, f')
      | (Inr c, f') \<Rightarrow>
          if utf8_valid c then (Inr c, f')
          else (Inl (IoErr InvalidData ''stream did not contain valid UTF-8''), f'))"

text \<open>
  \<open>OpenOptions::new().create(true).write(true).truncate(true).open(p)\<close> followed by \<open>write_all\<close>: a
  failing \<open>open\<close> leaves the file alone, a failing write leaves the part already written in place of
  the truncated contents (\<open>k\<close> bytes, from the script of accepted writes \<open>ws\<close>).
\<close>

definition fs_truncate_write :: "path \<Rightarrow> bytes \<Rightarrow> write_event list \<Rightarrow> fs \<Rightarrow> (io_error + unit) \<times> fs" where
  "fs_truncate_write p data ws f =
     (case next_fault f of
        (Some e, f') \<Rightarrow> (Inl e, f')
      | (None, f') \<Rightarrow>
          (case write_all_events data ws of
             (r, _, out) \<Rightarrow> (r, f'\<lparr>files := (files f')(p \<mapsto> out)\<rparr>)))"

text \<open>
  \<open>Path::parent\<close> of a path: none for the empty path and the root; trailing separators and
  trailing \<open>.\<close> components do not count.  \<open>strip_end\<close> works on the reversed path.
\<close>

fun strip_end :: "string \<Rightarrow> string" where
  "strip_end [] = []"
| "strip_end (c # r) =
     (if c = CHR ''/'' then strip_end r
      else if c = CHR ''.'' \<and> r \<noteq> [] \<and> hd r = CHR ''/'' then strip_end r
      else c # r)"

definition path_parent :: "path \<Rightarrow> path option" where
  "path_parent p =
     (let q = strip_end (rev p) in
      if q = [] then None
      else let d = dropWhile (\<lambda>c. c \<noteq> CHR ''/'') q in
           if d = [] then Some []
           else if strip_end d = [] then Some ''/''
           else Some (rev (strip_end d)))"

text \<open>\<open>Path::join\<close> with a relative name.\<close>

definition path_join :: "path \<Rightarrow> string \<Rightarrow> path" where
  "path_join p name = (if p = [] \<or> last p = CHR ''/'' then p @ name else p @ ''/'' @ name)"

lemma path_join_last: "name \<noteq> [] \<Longrightarrow> last (path_join p name) = last name"
  by (simp add: path_join_def)

lemma path_parent_file:
  "path_parent ''state/priv_validator_state.json'' = Some ''state''"
  "path_parent ''a'' = Some []" "path_parent ''/a'' = Some ''/''" "path_parent ''/'' = None"
  by (simp_all add: path_parent_def)

lemma next_fault_files: "next_fault f = (x, f') \<Longrightarrow> files f' = files f"
  by (auto simp: next_fault_def split: list.splits)

lemma next_fault_subset: "next_fault f = (x, f') \<Longrightarrow> set (faults f') \<subseteq> set (faults f)"
  by (auto simp: next_fault_def split: list.splits)

lemma next_fault_Some: "next_fault f = (Some e, f') \<Longrightarrow> Some e \<in> set (faults f)"
  by (auto simp: next_fault_def split: list.splits)

lemma fs_read_files: "fs_read p f = (r, f') \<Longrightarrow> files f' = files f \<and> set (faults f') \<subseteq> set (faults f)"
  by (auto simp: fs_read_def next_fault_def split: prod.splits option.splits list.splits)

lemma fs_read_to_string_files:
  "fs_read_to_string p f = (r, f') \<Longrightarrow> files f' = files f \<and> set (faults f') \<subseteq> set (faults f)"
  by (auto simp: fs_read_to_string_def dest: fs_read_files split: prod.splits sum.splits if_splits)

lemma fs_read_Inr: "fs_read p f = (Inr c, f') \<Longrightarrow> files f p = Some c \<and> files f' = files f"
  by (auto simp: fs_read_def next_fault_def split: prod.splits option.splits list.splits)

lemma fs_read_to_string_Inr:
  "fs_read_to_string p f = (Inr c, f') \<Longrightarrow> files f p = Some c \<and> utf8_valid c"
  by (auto simp: fs_read_to_string_def fs_read_def
           split: prod.splits sum.splits if_splits option.splits)

lemma fs_read_to_string_NotFound:
  assumes "fs_read_to_string p f = (Inl e, f')" "io_kind e = NotFound"
    and "\<And>x. Some x \<in> set (faults f) \<Longrightarrow> io_kind x \<noteq> NotFound"
  shows "files f p = None"
  using assms
  by (auto simp: fs_read_to_string_def fs_read_def dest: next_fault_Some
           split: prod.splits sum.splits if_splits option.splits)

lemma fs_truncate_write_Inr:
  "fs_truncate_write p data ws f = (Inr u, f') \<Longrightarrow> files f' = (files f)(p \<mapsto> data)"
  by (auto simp: fs_truncate_write_def next_fault_def dest: write_all_events_Inr
           split: prod.splits option.splits list.splits)

end
