(* ===== verification/Tm_Types.thy ===== *)
theory Tm_Types
  imports Prelude
begin

text \<open>
  The data of the \<open>tendermint\<close> and \<open>tendermint-proto\<close> crates as far as the sources construct it or read
  its fields.  What the sources only pass on (timestamps, validator addresses, the protobuf form of
  a request) is kept as an opaque byte string.  A block identifier is compared for equality only.
\<close>

type_synonym height = u64
type_synonym round = u32
type_synonym block_id = bytes
type_synonym chain_id = string
type_synonym signature = bytes
type_synonym signing_key = bytes
type_synonym verification_key = bytes

text \<open>\<open>tendermint::consensus::State\<close>\<close>

record consensus_state =
  cs_height :: height
  cs_round :: round
  cs_step :: i8
  cs_block_id :: "block_id option"

text \<open>\<open>consensus::State { height: 0u32.into(), ..Default::default() }\<close>\<close>

definition initial_consensus_state :: consensus_state where
  "initial_consensus_state = \<lparr>cs_height = 0, cs_round = 0, cs_step = 0, cs_block_id = None\<rparr>"

record proposal =
  prop_height :: height
  prop_round :: round
  prop_block_id :: "block_id option"
  prop_signature :: "signature option"
  prop_rest :: bytes

record vote =
  vote_height :: height
  vote_round :: round
  vote_is_precommit :: bool
  vote_block_id :: "block_id option"
  vote_signature :: "signature option"
  vote_rest :: bytes

record sign_proposal_request =
  spr_proposal :: proposal
  spr_chain_id :: chain_id

record sign_vote_request =
  svr_vote :: vote
  svr_chain_id :: chain_id

record pub_key_request =
  pkr_chain_id :: chain_id

text \<open>\<open>tendermint_proto::privval\<close>: the error sent to the validator and the messages.\<close>

record remote_signer_error =
  rse_code :: int
  rse_description :: string

record raw_vote_response =
  rvr_vote :: "bytes option"
  rvr_error :: "remote_signer_error option"

record raw_proposal_response =
  rpr_proposal :: "bytes option"
  rpr_error :: "remote_signer_error option"

record pub_key_response =
  pkresp_pub_key :: "bytes option"
  pkresp_error :: "remote_signer_error option"

datatype privval_sum =
    SumPubKeyRequest bytes
  | SumPubKeyResponse pub_key_response
  | SumSignVoteRequest bytes
  | SumSignedVoteResponse raw_vote_response
  | SumSignProposalRequest bytes
  | SumSignedProposalResponse raw_proposal_response
  | SumPingRequest
  | SumPingResponse

text \<open>
  The value range of \<open>block::Height\<close>: its constructors refuse what does not fit into an \<open>i64\<close>.
\<close>

definition valid_height :: "height \<Rightarrow> bool" where
  "valid_height h \<longleftrightarrow> unat h < 2 ^ 63"

lemma sint_valid_height: "valid_height h \<Longrightarrow> sint h = int (unat h)"
proof -
  assume "valid_height h"
  then have "int (unat h) < int (2 ^ 63)"
    unfolding valid_height_def by (rule of_nat_less_iff [THEN iffD2])
  then have "uint h < 2 ^ 63" by simp
  moreover have "- (2 ^ 63) \<le> uint h"
    by (rule order_trans [of _ 0]) simp_all
  ultimately have "signed_take_bit 63 (uint h) = uint h"
    by (intro signed_take_bit_int_eq_self)
  then show ?thesis by (simp add: sint_uint)
qed

end
