(* ===== verification/Errors.thy ===== *)
theory Errors
  imports Std_IO Tm_Types
begin

text \<open>
  The two error types of the library crate (\<open>src/chain/state/error.rs\<close> and \<open>src/error.rs\<close>), with the
  constructors of the \<open>define_error!\<close> blocks and the detail each one carries.
\<close>

type_synonym serde_error = string
type_synonym tm_error = string

text \<open>\<open>StateError\<close> and the messages of its formatters.\<close>

datatype state_error =
    HeightRegressionError (last_height: height) (new_height: height)
  | RoundRegressionError (rre_height: height) (last_round: round) (new_round: round)
  | StepRegressionError (sre_height: height) (sre_round: round) (last_step: i8) (new_step: i8)
  | DoubleSignError (dse_height: height) (dse_round: round) (dse_step: i8)
      (old_block_id: string) (new_block_id: string)
  | SyncError (sync_path: path) (sync_source: io_error)
  | SyncEncDecError (path_or_msg: string) (sync_serde: serde_error)
  | SyncOtherError (error_message: string)

fun state_error_message :: "state_error \<Rightarrow> string" where
  "state_error_message (HeightRegressionError lh nh) =
     ''last height:'' @ show_nat (unat lh) @ '' new height:'' @ show_nat (unat nh)"
| "state_error_message (RoundRegressionError h lr nr) =
     ''round regression at height:'' @ show_nat (unat h) @ '' last round:'' @ show_nat (unat lr)
       @ '' new round:'' @ show_nat (unat nr)"
| "state_error_message (StepRegressionError h r ls ns) =
     ''round regression at height:'' @ show_nat (unat h) @ '' round:'' @ show_nat (unat r)
       @ '' last step:'' @ show_int (sint ls) @ '' new step:'' @ show_int (sint ns)"
| "state_error_message (DoubleSignError h r s old new) =
     ''Attempting to sign a second proposal at height:'' @ show_nat (unat h) @ '' round:''
       @ show_nat (unat r) @ '' step:'' @ show_int (sint s) @ '' old block id:'' @ old
       @ '' new block '' @ new"
| "state_error_message (SyncError p _) = ''Error syncing '' @ p"
| "state_error_message (SyncEncDecError p _) = ''Error parsing or serializing in syncing '' @ p"
| "state_error_message (SyncOtherError m) = ''Error state syncing: '' @ m"

definition is_double_sign :: "state_error \<Rightarrow> bool" where
  "is_double_sign e = (case e of DoubleSignError _ _ _ _ _ \<Rightarrow> True | _ \<Rightarrow> False)"

text \<open>
  A method that returns a \<open>StateError\<close> and can also panic: both outcomes are values.
\<close>

datatype sync_failure = StateErr state_error | SyncPanicked string

text \<open>\<open>Error\<close>\<close>

datatype error =
    SigningTendermintError string tm_error
  | SigningStateError string state_error
  | AccessError
  | ChainIdError chain_id
  | DoubleSign
  | ExceedMaxHeight (request_height: i64) (max_height_limit: u64)
  | InvalidKeyError
  | IoError string io_error
  | PanicError
  | ProtocolError string io_error
  | ProtocolErrorTendermint string tm_error
  | ProtocolErrorMsg string "privval_sum option"
  | SerializationError serde_error

text \<open>The formatters; \<open>detail\<close> is the text of the detail that the macro generates for \<open>SerializationError\<close>.\<close>

fun lib_error_message :: "(serde_error \<Rightarrow> string) \<Rightarrow> error \<Rightarrow> string" where
  "lib_error_message detail (SigningTendermintError err _) = err"
| "lib_error_message detail (SigningStateError err _) = err"
| "lib_error_message detail AccessError = ''Access Denied''"
| "lib_error_message detail (ChainIdError chain_id) = ''chain ID error: '' @ chain_id"
| "lib_error_message detail DoubleSign = ''Attempted double sign''"
| "lib_error_message detail (ExceedMaxHeight req limit) =
     ''attempted to sign at height '' @ show_int (sint req) @ '' which is greater than ''
       @ show_nat (unat limit)"
| "lib_error_message detail InvalidKeyError = ''invalid key''"
| "lib_error_message detail (IoError err _) = err"
| "lib_error_message detail PanicError = ''internal crash''"
| "lib_error_message detail (ProtocolError err _) = err"
| "lib_error_message detail (ProtocolErrorTendermint err _) = err"
| "lib_error_message detail (ProtocolErrorMsg err _) = err"
| "lib_error_message detail (SerializationError e) = ''serialization error: '' @ detail e"

text \<open>\<open>io_error_wrap\<close>: the wrapped error appears as its text.\<close>

definition io_error_wrap :: "string \<Rightarrow> string \<Rightarrow> error" where
  "io_error_wrap message err = IoError message (IoErr Other err)"

end
