(* ===== verification/Chain_State.thy ===== *)
theory Chain_State
  imports Errors
begin

text \<open>
  \<open>src/chain/state.rs\<close>: the state that prevents double signing.  A consensus state has a position
  (height, round, step); positions are linearly ordered (instance of \<open>linorder\<close>), and a new
  state is accepted when its position is not before the last one and its block does not
  conflict with the last one.  \<open>check_update_consensus_state\<close> persists an accepted state before it
  stores it.
\<close>

section \<open>The code\<close>

record State =
  consensus_state :: consensus_state

text \<open>
  The trait \<open>PersistStateSync\<close> as the table of its two methods over an implementation's state \<open>'s\<close>.
\<close>

record 's persist_state_sync =
  load_state :: "'s \<Rightarrow> (sync_failure + State) \<times> 's"
  persist_state :: "'s \<Rightarrow> consensus_state \<Rightarrow> (sync_failure + unit) \<times> 's"

definition check_height :: "State \<Rightarrow> consensus_state \<Rightarrow> state_error + unit" where
  "check_height self new_state =
     (if cs_height new_state < cs_height (consensus_state self)
      then Inl (HeightRegressionError (cs_height (consensus_state self)) (cs_height new_state))
      else Inr ())"

definition check_round :: "State \<Rightarrow> consensus_state \<Rightarrow> state_error + unit" where
  "check_round self new_state =
     (if cs_height new_state = cs_height (consensus_state self)
         \<and> cs_round new_state < cs_round (consensus_state self)
      then Inl (RoundRegressionError (cs_height new_state) (cs_round (consensus_state self))
                  (cs_round new_state))
      else Inr ())"

text \<open>Steps are \<open>i8\<close>: they are compared as signed numbers.\<close>

definition check_step :: "State \<Rightarrow> consensus_state \<Rightarrow> state_error + unit" where
  "check_step self new_state =
     (if cs_height new_state = cs_height (consensus_state self)
         \<and> cs_round new_state = cs_round (consensus_state self)
         \<and> sint (cs_step new_state) < sint (cs_step (consensus_state self))
      then Inl (StepRegressionError (cs_height new_state) (cs_round new_state)
                  (cs_step (consensus_state self)) (cs_step new_state))
      else Inr ())"

text \<open>
  \<open>block_id_prefix\<close> is a method of \<open>tendermint::consensus::State\<close>, passed as \<open>prefix\<close>; it only fills the
  error.
\<close>

definition check_block_id ::
    "(consensus_state \<Rightarrow> string) \<Rightarrow> State \<Rightarrow> consensus_state \<Rightarrow> state_error + unit" where
  "check_block_id prefix self new_state =
     (if cs_height new_state = cs_height (consensus_state self)
         \<and> cs_round new_state = cs_round (consensus_state self)
         \<and> (cs_block_id new_state \<noteq> cs_block_id (consensus_state self)
            \<and> ((cs_block_id new_state \<noteq> None \<and> cs_block_id (consensus_state self) \<noteq> None)
                \<or> cs_step new_state = cs_step (consensus_state self)))
      then Inl (DoubleSignError (cs_height new_state) (cs_round new_state) (cs_step new_state)
                  (prefix (consensus_state self)) (prefix new_state))
      else Inr ())"

definition check_consensus_state ::
    "(consensus_state \<Rightarrow> string) \<Rightarrow> State \<Rightarrow> consensus_state \<Rightarrow> state_error + unit" where
  "check_consensus_state prefix self new_state =
     res_bind (check_height self new_state) (\<lambda>_.
     res_bind (check_round self new_state) (\<lambda>_.
     res_bind (check_step self new_state) (\<lambda>_.
     check_block_id prefix self new_state)))"

text \<open>The result, the state after it and the syncer after it.\<close>

definition check_update_consensus_state ::
    "(consensus_state \<Rightarrow> string) \<Rightarrow> 's persist_state_sync \<Rightarrow> consensus_state \<Rightarrow> State \<Rightarrow> 's
      \<Rightarrow> (sync_failure + unit) \<times> State \<times> 's" where
  "check_update_consensus_state prefix ops new_state self syncer =
     (case check_consensus_state prefix self new_state of
        Inl e \<Rightarrow> (Inl (StateErr e), self, syncer)
      | Inr _ \<Rightarrow>
          (case persist_state ops syncer new_state of
             (Inl e, syncer') \<Rightarrow> (Inl e, self, syncer')
           | (Inr _, syncer') \<Rightarrow> (Inr (), self\<lparr>consensus_state := new_state\<rparr>, syncer')))"

definition State_from :: "consensus_state \<Rightarrow> State" where
  "State_from cs = \<lparr>consensus_state = cs\<rparr>"

definition State_from_proposal :: "sign_proposal_request \<Rightarrow> State" where
  "State_from_proposal req =
     \<lparr>consensus_state =
        \<lparr>cs_height = prop_height (spr_proposal req), cs_round = prop_round (spr_proposal req),
         cs_step = 0, cs_block_id = prop_block_id (spr_proposal req)\<rparr>\<rparr>"

definition State_from_vote :: "sign_vote_request \<Rightarrow> State" where
  "State_from_vote req =
     \<lparr>consensus_state =
        \<lparr>cs_height = vote_height (svr_vote req), cs_round = vote_round (svr_vote req),
         cs_step = (if vote_is_precommit (svr_vote req) then 2 else 1),
         cs_block_id = vote_block_id (svr_vote req)\<rparr>\<rparr>"

lemmas check_defs = check_height_def check_round_def check_step_def check_block_id_def

section \<open>Positions\<close>

datatype hrs = Hrs (hrs_height: nat) (hrs_round: nat) (hrs_step: int)

instantiation hrs :: linorder
begin

definition less_eq_hrs :: "hrs \<Rightarrow> hrs \<Rightarrow> bool" where
  "less_eq_hrs a b \<longleftrightarrow>
     hrs_height a < hrs_height b
     \<or> (hrs_height a = hrs_height b \<and>
         (hrs_round a < hrs_round b \<or> (hrs_round a = hrs_round b \<and> hrs_step a \<le> hrs_step b)))"

definition less_hrs :: "hrs \<Rightarrow> hrs \<Rightarrow> bool" where
  "less_hrs a b \<longleftrightarrow> a \<le> b \<and> \<not> b \<le> (a :: hrs)"

instance
  by standard (auto simp: less_eq_hrs_def less_hrs_def intro: hrs.expand)

end

definition position :: "consensus_state \<Rightarrow> hrs" where
  "position cs = Hrs (unat (cs_height cs)) (unat (cs_round cs)) (sint (cs_step cs))"

text \<open>
  The block of \<open>new\<close> conflicts with the one of \<open>old\<close>: same height and round, different block
  identifiers, and either both vote for a block or the steps agree.
\<close>

definition conflicting :: "consensus_state \<Rightarrow> consensus_state \<Rightarrow> bool" where
  "conflicting old new \<longleftrightarrow>
     cs_height new = cs_height old \<and> cs_round new = cs_round old
     \<and> cs_block_id new \<noteq> cs_block_id old
     \<and> (cs_block_id new \<noteq> None \<and> cs_block_id old \<noteq> None \<or> cs_step new = cs_step old)"

text \<open>The specification of the register of the last signed state.\<close>

definition may_follow :: "consensus_state \<Rightarrow> consensus_state \<Rightarrow> bool" where
  "may_follow old new \<longleftrightarrow> position old \<le> position new \<and> \<not> conflicting old new"

lemma position_le_iff:
  "position a \<le> position b \<longleftrightarrow>
     cs_height a < cs_height b
     \<or> (cs_height a = cs_height b \<and>
         (cs_round a < cs_round b
          \<or> (cs_round a = cs_round b \<and> sint (cs_step a) \<le> sint (cs_step b))))"
  by (simp add: less_eq_hrs_def position_def word_less_nat_alt word_unat_eq_iff)

lemma position_eq_iff:
  "position a = position b \<longleftrightarrow>
     cs_height a = cs_height b \<and> cs_round a = cs_round b \<and> cs_step a = cs_step b"
  by (auto simp: position_def intro: signed_word_eqI word_unat_eq_iff [THEN iffD2])

lemma position_same_conflict:
  "position a = position b \<Longrightarrow> cs_block_id a \<noteq> cs_block_id b \<Longrightarrow> conflicting a b"
  by (auto simp: conflicting_def position_eq_iff)

lemma check_consensus_state_Inr:
  "check_consensus_state prefix self new = Inr u \<longleftrightarrow> may_follow (consensus_state self) new"
  by (auto simp: check_consensus_state_def check_defs result_simps may_follow_def conflicting_def
        position_le_iff not_less)

lemma check_consensus_state_Inl:
  assumes "check_consensus_state prefix self new = Inl e"
  shows "if is_double_sign e
         then position (consensus_state self) \<le> position new \<and> conflicting (consensus_state self) new
         else position new < position (consensus_state self)"
  using assms
  by (auto simp: check_consensus_state_def check_defs result_simps conflicting_def is_double_sign_def
        less_hrs_def position_le_iff not_less split: if_splits)

lemma check_update_Inr:
  assumes "check_update_consensus_state prefix ops new self syncer = (Inr u, self', syncer')"
  shows "may_follow (consensus_state self) new \<and> consensus_state self' = new
         \<and> persist_state ops syncer new = (Inr (), syncer')"
  using assms
  by (auto simp: check_update_consensus_state_def check_consensus_state_Inr
           split: sum.splits prod.splits)

lemma check_update_Inl:
  assumes "check_update_consensus_state prefix ops new self syncer = (Inl e, self', syncer')"
  shows "self' = self \<and>
         ((\<exists>e'. e = StateErr e' \<and> check_consensus_state prefix self new = Inl e') \<and> syncer' = syncer
          \<or> may_follow (consensus_state self) new \<and> persist_state ops syncer new = (Inl e, syncer'))"
  using assms
  by (auto simp: check_update_consensus_state_def check_consensus_state_Inr
           split: sum.splits prod.splits)

section \<open>Sequences of accepted states\<close>

text \<open>\<open>follows last xs\<close>: starting from \<open>last\<close>, the states \<open>xs\<close> are accepted one after the other.\<close>

fun follows :: "consensus_state \<Rightarrow> consensus_state list \<Rightarrow> bool" where
  "follows l [] = True"
| "follows l (x # xs) = (may_follow l x \<and> follows x xs)"

definition double_sign :: "consensus_state \<Rightarrow> consensus_state \<Rightarrow> bool" where
  "double_sign a b \<longleftrightarrow> position a = position b \<and> cs_block_id a \<noteq> cs_block_id b"

lemma follows_from:
  assumes "follows l xs" "y \<in> set xs"
  shows "position l \<le> position y \<and> \<not> double_sign l y"
  using assms
proof (induction xs arbitrary: l)
  case (Cons x xs)
  then have lx: "position l \<le> position x" "\<not> conflicting l x" by (auto simp: may_follow_def)
  show ?case
  proof (cases "y = x")
    case True
    with lx show ?thesis by (auto simp: double_sign_def dest: position_same_conflict)
  next
    case False
    with Cons have xy: "position x \<le> position y" "\<not> double_sign x y" by auto
    have "\<not> double_sign l y"
    proof
      assume d: "double_sign l y"
      then have "position x = position l" using lx xy by (auto simp: double_sign_def)
      then have "cs_block_id x = cs_block_id l" using lx position_same_conflict by metis
      with d xy \<open>position x = position l\<close> show False by (simp add: double_sign_def)
    qed
    with lx xy show ?thesis by auto
  qed
qed simp

lemma double_sign_sym: "double_sign a b \<longleftrightarrow> double_sign b a"
  by (auto simp: double_sign_def)

lemma follows_no_double_sign:
  assumes "follows l xs" "a \<in> set (l # xs)" "b \<in> set (l # xs)"
  shows "\<not> double_sign a b"
  using assms
proof (induction xs arbitrary: l)
  case Nil
  then show ?case by (simp add: double_sign_def)
next
  case (Cons x xs)
  from Cons.prems(1) have l: "\<not> double_sign l y" if "y \<in> set (x # xs)" for y
    using that follows_from by blast
  have "\<not> double_sign l l" by (simp add: double_sign_def)
  with l Cons.IH [of x] Cons.prems show ?case
    by (metis double_sign_sym follows.simps(2) set_ConsD)
qed

lemma follows_append:
  "follows l (xs @ ys) \<longleftrightarrow> follows l xs \<and> follows (last (l # xs)) ys"
  by (induction xs arbitrary: l) auto

lemma follows_snoc: "follows l (xs @ [x]) \<longleftrightarrow> follows l xs \<and> may_follow (last (l # xs)) x"
  by (simp add: follows_append)

lemma follows_sorted: "follows l xs \<Longrightarrow> sorted (map position (l # xs))"
  by (induction xs arbitrary: l) (auto simp: may_follow_def dest: follows_from)

lemma follows_last_max:
  assumes "follows l xs" "y \<in> set (l # xs)"
  shows "position y \<le> position (last (l # xs))"
  using assms
proof (induction xs arbitrary: l y)
  case (Cons x xs)
  then have "position l \<le> position x" by (simp add: may_follow_def)
  also have "position x \<le> position (last (x # xs))" using Cons.IH [of x x] Cons.prems by simp
  finally have l: "position l \<le> position (last (x # xs))" .
  show ?case
  proof (cases "y = l")
    case True
    with l show ?thesis by simp
  next
    case False
    with Cons.IH [of x y] Cons.prems show ?thesis by simp
  qed
qed simp

text \<open>The states that \<open>check_update_consensus_state\<close> accepts out of a list of attempts.\<close>

fun accepted ::
    "(consensus_state \<Rightarrow> string) \<Rightarrow> 's persist_state_sync \<Rightarrow> consensus_state list \<Rightarrow> State \<Rightarrow> 's
      \<Rightarrow> consensus_state list" where
  "accepted prefix ops [] self syncer = []"
| "accepted prefix ops (x # xs) self syncer =
     (case check_update_consensus_state prefix ops x self syncer of
        (Inr _, self', syncer') \<Rightarrow> x # accepted prefix ops xs self' syncer'
      | (Inl _, self', syncer') \<Rightarrow> accepted prefix ops xs self' syncer')"

lemma accepted_follows: "follows (consensus_state self) (accepted prefix ops xs self syncer)"
proof (induction xs arbitrary: self syncer)
  case (Cons x xs)
  obtain r self' syncer' where u: "check_update_consensus_state prefix ops x self syncer = (r, self', syncer')"
    by (metis prod_cases3)
  show ?case
  proof (cases r)
    case (Inl e)
    with u have "self' = self" by (auto dest: check_update_Inl)
    with Cons.IH [of self syncer'] u Inl show ?thesis by simp
  next
    case (Inr v)
    with u have "may_follow (consensus_state self) x" "consensus_state self' = x"
      by (auto dest: check_update_Inr)
    with Cons.IH [of self' syncer'] u Inr show ?thesis by simp
  qed
qed simp

section \<open>Properties\<close>

text \<open>
  C3. \<open>check_consensus_state\<close> implements the register of the last signed state: it succeeds exactly when the
  new state may follow; it reports a double sign exactly when the new state is not behind the last
  one and its block conflicts, and a regression exactly when the new position is behind.
\<close>

theorem check_consensus_state_refines_register:
  "case check_consensus_state prefix (State_from old) new of
     Inr _ \<Rightarrow> may_follow old new
   | Inl e \<Rightarrow> (if position new < position old then \<not> is_double_sign e
              else is_double_sign e \<and> conflicting old new)"
proof (cases "check_consensus_state prefix (State_from old) new")
  case (Inl e)
  from check_consensus_state_Inl [OF this] Inl show ?thesis
    by (auto simp: State_from_def split: if_splits)
next
  case (Inr u)
  then show ?thesis using check_consensus_state_Inr [of prefix "State_from old" new u]
    by (simp add: State_from_def)
qed

text \<open>
  C2. Feed any list of states, in any order, to \<open>check_update_consensus_state\<close> with any persistence: the positions of the
  accepted ones never decrease, and no two of them, nor one of them and the state at the start, have the same height,
  round and step with different blocks.
\<close>

theorem accepted_states_never_double_sign:
  "sorted (map position (consensus_state self # accepted prefix ops xs self syncer))
   \<and> pairwise (\<lambda>a b. \<not> double_sign a b)
       (set (consensus_state self # accepted prefix ops xs self syncer))"
proof
  let ?acc = "accepted prefix ops xs self syncer"
  have f: "follows (consensus_state self) ?acc" by (rule accepted_follows)
  show "sorted (map position (consensus_state self # ?acc))"
    using f by (rule follows_sorted)
  show "pairwise (\<lambda>a b. \<not> double_sign a b) (set (consensus_state self # ?acc))"
    using follows_no_double_sign [OF f] unfolding pairwise_def by blast
qed

text \<open>
  \<open>check_update_consensus_state\<close> stores a state only after \<open>persist_state\<close> accepted that very state; on every error the
  stored state is the old one, and a state that fails the check never reaches the persistence.
\<close>

theorem check_update_failure_keeps_state:
  "case check_update_consensus_state prefix ops new self syncer of
     (Inr _, self', syncer') \<Rightarrow>
        consensus_state self' = new \<and> persist_state ops syncer new = (Inr (), syncer')
   | (Inl e, self', syncer') \<Rightarrow>
        self' = self \<and> (syncer' = syncer \<or> persist_state ops syncer new = (Inl e, syncer'))"
  by (cases "check_update_consensus_state prefix ops new self syncer")
     (auto split: sum.splits dest!: check_update_Inr check_update_Inl)

text \<open>
  C40. The comment in \<open>check_block_id\<close> says that voting for two different blocks in different steps of a round is
  disallowed. The check compares with the last state only: a different block is refused directly after the
  first one, but accepted after a step that votes nil.
\<close>

theorem nil_step_lets_block_change:
  fixes h :: height and r :: round and b1 b2 :: block_id
  defines "proposed \<equiv> \<lparr>cs_height = h, cs_round = r, cs_step = 0, cs_block_id = Some b1\<rparr>"
    and "prevote_nil \<equiv> \<lparr>cs_height = h, cs_round = r, cs_step = 1, cs_block_id = None\<rparr>"
    and "precommit \<equiv> \<lparr>cs_height = h, cs_round = r, cs_step = 2, cs_block_id = Some b2\<rparr>"
  assumes "b1 \<noteq> b2"
  shows "check_consensus_state prefix (State_from proposed) precommit
           = Inl (DoubleSignError h r 2 (prefix proposed) (prefix precommit))
         \<and> check_consensus_state prefix (State_from proposed) prevote_nil = Inr ()
         \<and> check_consensus_state prefix (State_from prevote_nil) precommit = Inr ()"
  using assms by (simp add: check_consensus_state_def check_defs State_from_def)

theorem nil_step_lets_block_change_witness:
  "check_consensus_state (\<lambda>_. [])
     (State_from \<lparr>cs_height = 5, cs_round = 0, cs_step = 0, cs_block_id = Some [1]\<rparr>)
     \<lparr>cs_height = 5, cs_round = 0, cs_step = 1, cs_block_id = None\<rparr> = Inr ()"
  using nil_step_lets_block_change [of "[1]" "[2]" "\<lambda>_. []" 5 0] by simp

end
