(* ===== verification/Connection.thy ===== *)
theory Connection
  imports Std_IO
begin

text \<open>
  \<open>src/connection.rs\<close>: the trait \<open>Connection\<close> as the table of the reads and writes a session performs on a
  boxed connection, and the plain connection, which passes every call on to its socket.  The secret
  connection is a type of \<open>tendermint_p2p\<close>; a session takes its table as an argument like any other.
\<close>

record 'c connection_ops =
  conn_read :: "nat \<Rightarrow> 'c \<Rightarrow> (io_error + bytes) \<times> 'c"
  conn_write_all :: "bytes \<Rightarrow> 'c \<Rightarrow> (io_error + unit) \<times> 'c"

record plain_connection =
  socket :: sock

definition plain_new :: "sock \<Rightarrow> plain_connection" where
  "plain_new s = \<lparr>socket = s\<rparr>"

definition plain_read :: "nat \<Rightarrow> plain_connection \<Rightarrow> (io_error + bytes) \<times> plain_connection" where
  "plain_read n c = (case sock_read n (socket c) of (r, s) \<Rightarrow> (r, c\<lparr>socket := s\<rparr>))"

text \<open>
  \<open>write_all\<close> of the trait \<open>Write\<close> repeats \<open>write\<close>, which the plain connection forwards to the socket.
\<close>

definition plain_write_all :: "bytes \<Rightarrow> plain_connection \<Rightarrow> (io_error + unit) \<times> plain_connection" where
  "plain_write_all data c =
     (case sock_write_all data (socket c) of (r, s) \<Rightarrow> (r, c\<lparr>socket := s\<rparr>))"

definition plain_flush :: "plain_connection \<Rightarrow> (io_error + unit) \<times> plain_connection" where
  "plain_flush c = (case sock_flush (socket c) of (r, s) \<Rightarrow> (r, c\<lparr>socket := s\<rparr>))"

definition plain_ops :: "plain_connection connection_ops" where
  "plain_ops = \<lparr>conn_read = plain_read, conn_write_all = plain_write_all\<rparr>"

end
