(* ===== verification/Rpc.thy ===== *)
theory Rpc
  imports Errors Connection
begin

text \<open>
  \<open>src/rpc.rs\<close>: reading a request of the validator and building the responses.  Protobuf coding, the
  conversions to domain types, the bytes to be signed and the signature scheme are code of other
  crates; they are the fields of \<open>tm_lib\<close>, and the laws the code relies on are stated where a
  property uses them.
\<close>

record signed_vote_response =
  svresp_vote :: "vote option"
  svresp_error :: "remote_signer_error option"

record signed_proposal_response =
  spresp_proposal :: "proposal option"
  spresp_error :: "remote_signer_error option"

record tm_lib =
  data_max_size :: nat
  block_id_prefix :: "consensus_state \<Rightarrow> string"
  decode_length_delimited :: "bytes \<Rightarrow> io_error + privval_sum option"
  encode_length_delimited :: "privval_sum option \<Rightarrow> io_error + bytes"
  sign_vote_try_from :: "bytes \<Rightarrow> tm_error + sign_vote_request"
  sign_proposal_try_from :: "bytes \<Rightarrow> tm_error + sign_proposal_request"
  pub_key_try_from :: "bytes \<Rightarrow> tm_error + pub_key_request"
  signed_vote_into_raw :: "signed_vote_response \<Rightarrow> raw_vote_response"
  signed_proposal_into_raw :: "signed_proposal_response \<Rightarrow> raw_proposal_response"
  vote_signable_vec :: "sign_vote_request \<Rightarrow> tm_error + bytes"
  proposal_signable_vec :: "sign_proposal_request \<Rightarrow> tm_error + bytes"
  sign :: "signing_key \<Rightarrow> bytes \<Rightarrow> signature"
  verification_key :: "signing_key \<Rightarrow> bytes"
  from_raw_ed25519 :: "bytes \<Rightarrow> bytes option"

section \<open>Requests\<close>

datatype Request =
    SignProposal sign_proposal_request
  | SignVote sign_vote_request
  | ShowPublicKey pub_key_request
  | ReplyPing

definition read_msg :: "tm_lib \<Rightarrow> 'c connection_ops \<Rightarrow> 'c \<Rightarrow> (error + bytes) \<times> 'c" where
  "read_msg lib co conn =
     st_map_err (IoError ''read msg failed'') (conn_read co (data_max_size lib) conn)"

definition decode_request :: "tm_lib \<Rightarrow> bytes \<Rightarrow> error + Request" where
  "decode_request lib msg =
     res_bind (map_err (ProtocolError ''malformed message packet'') (decode_length_delimited lib msg))
       (\<lambda>m. case m of
          Some (SumSignVoteRequest req) \<Rightarrow>
            res_bind (map_err (ProtocolErrorTendermint ''sign vote request domain type error'')
                       (sign_vote_try_from lib req)) (\<lambda>svr. Inr (SignVote svr))
        | Some (SumSignProposalRequest spr) \<Rightarrow>
            res_bind (map_err (ProtocolErrorTendermint ''sign proposal request domain type error'')
                       (sign_proposal_try_from lib spr)) (\<lambda>spr. Inr (SignProposal spr))
        | Some (SumPubKeyRequest pkr) \<Rightarrow>
            res_bind (map_err (ProtocolErrorTendermint ''pubkey request domain type error'')
                       (pub_key_try_from lib pkr)) (\<lambda>pkr. Inr (ShowPublicKey pkr))
        | Some SumPingRequest \<Rightarrow> Inr ReplyPing
        | _ \<Rightarrow> Inl (ProtocolErrorMsg ''invalid RPC message'' m))"

definition Request_read :: "tm_lib \<Rightarrow> 'c connection_ops \<Rightarrow> 'c \<Rightarrow> (error + Request) \<times> 'c" where
  "Request_read lib co conn =
     (case read_msg lib co conn of
        (Inl e, conn') \<Rightarrow> (Inl e, conn')
      | (Inr msg, conn') \<Rightarrow> (decode_request lib msg, conn'))"

section \<open>Responses\<close>

datatype Response =
    SignedVote signed_vote_response
  | SignedVoteError remote_signer_error
  | SignedProposal signed_proposal_response
  | SignedProposalError remote_signer_error
  | PingReply
  | PublicKeyReply bytes
  | PublicKeyError remote_signer_error

datatype DoubleSignErrorType = DoubleSignVote | DoubleSignProposal

datatype ChainIdErrorType = ChainIdPubkey | ChainIdVote | ChainIdProposal

definition vote_response :: "sign_vote_request \<Rightarrow> signature \<Rightarrow> Response" where
  "vote_response req sig =
     SignedVote \<lparr>svresp_vote = Some ((svr_vote req)\<lparr>vote_signature := Some sig\<rparr>),
                 svresp_error = None\<rparr>"

definition proposal_response :: "sign_proposal_request \<Rightarrow> signature \<Rightarrow> Response" where
  "proposal_response req sig =
     SignedProposal \<lparr>spresp_proposal = Some ((spr_proposal req)\<lparr>prop_signature := Some sig\<rparr>),
                     spresp_error = None\<rparr>"

definition double_sign_response :: "DoubleSignErrorType \<Rightarrow> i64 \<Rightarrow> Response" where
  "double_sign_response req_type height =
     (let error = \<lparr>rse_code = 2,
            rse_description = ''double signing requested at height: '' @ show_int (sint height)\<rparr>
      in case req_type of
           DoubleSignVote \<Rightarrow> SignedVoteError error
         | DoubleSignProposal \<Rightarrow> SignedProposalError error)"

definition invalid_chain_id :: "ChainIdErrorType \<Rightarrow> chain_id \<Rightarrow> Response" where
  "invalid_chain_id req_type cid =
     (let error = \<lparr>rse_code = 1, rse_description = ''invalid chain id: '' @ cid\<rparr>
      in case req_type of
           ChainIdVote \<Rightarrow> SignedVoteError error
         | ChainIdProposal \<Rightarrow> SignedProposalError error
         | ChainIdPubkey \<Rightarrow> PublicKeyError error)"

definition response_message :: "tm_lib \<Rightarrow> Response \<Rightarrow> privval_sum" where
  "response_message lib resp =
     (case resp of
        SignedVote r \<Rightarrow> SumSignedVoteResponse (signed_vote_into_raw lib r)
      | SignedProposal r \<Rightarrow> SumSignedProposalResponse (signed_proposal_into_raw lib r)
      | PingReply \<Rightarrow> SumPingResponse
      | PublicKeyReply pk \<Rightarrow> SumPubKeyResponse \<lparr>pkresp_pub_key = Some pk, pkresp_error = None\<rparr>
      | SignedVoteError e \<Rightarrow> SumSignedVoteResponse \<lparr>rvr_vote = None, rvr_error = Some e\<rparr>
      | SignedProposalError e \<Rightarrow>
          SumSignedProposalResponse \<lparr>rpr_proposal = None, rpr_error = Some e\<rparr>
      | PublicKeyError e \<Rightarrow> SumPubKeyResponse \<lparr>pkresp_pub_key = None, pkresp_error = Some e\<rparr>)"

definition Response_encode :: "tm_lib \<Rightarrow> Response \<Rightarrow> error + bytes" where
  "Response_encode lib resp =
     map_err (ProtocolError ''failed to encode response'')
       (encode_length_delimited lib (Some (response_message lib resp)))"

lemma decode_request_ping:
  "decode_length_delimited lib msg = Inr (Some SumPingRequest) \<Longrightarrow> decode_request lib msg = Inr ReplyPing"
  by (simp add: decode_request_def)

text \<open>A response is never decoded as a request.\<close>

lemma decode_request_response:
  "decode_length_delimited lib msg = Inr (Some (response_message lib resp)) \<Longrightarrow>
     decode_request lib msg
       = Inl (ProtocolErrorMsg ''invalid RPC message'' (Some (response_message lib resp)))"
  by (cases resp) (simp_all add: decode_request_def response_message_def)

end
