(* ===== verification/State_Files.thy ===== *)
theory State_Files
  imports Chain_State
begin

text \<open>
  What the three providers share when they keep the consensus state in a file: the JSON coding of
  \<open>serde_json\<close>, the temporary files of the crate \<open>tempfile\<close>, and the write-then-rename pattern that
  each of their \<open>persist_state\<close> functions contains.  Both crates are arguments; \<open>json_ok\<close> and \<open>tempfile_ok\<close> state what
  their documentation promises.
\<close>

section \<open>The crates\<close>

record state_json =
  to_json :: "consensus_state \<Rightarrow> serde_error + bytes"
  from_json :: "bytes \<Rightarrow> serde_error + consensus_state"

text \<open>A serialised state is a string, and parses back to the state.\<close>

definition json_ok :: "state_json \<Rightarrow> bool" where
  "json_ok js \<longleftrightarrow> (\<forall>cs b. to_json js cs = Inr b \<longrightarrow> utf8_valid b \<and> from_json js b = Inr cs)"

record tmpfile =
  tmp_path :: path
  tmp_content :: bytes

record tempfile_lib =
  tf_new_in :: "path \<Rightarrow> fs \<Rightarrow> (io_error + tmpfile) \<times> fs"
  tf_write_all :: "tmpfile \<Rightarrow> bytes \<Rightarrow> fs \<Rightarrow> (io_error + tmpfile) \<times> fs"
  tf_persist :: "tmpfile \<Rightarrow> path \<Rightarrow> fs \<Rightarrow> (io_error + unit) \<times> fs"
  tf_is_tmp :: "path \<Rightarrow> bool"

text \<open>Only temporary files differ, and no new error is waiting.\<close>

definition same_named :: "tempfile_lib \<Rightarrow> fs \<Rightarrow> fs \<Rightarrow> bool" where
  "same_named tf f f' \<longleftrightarrow>
     (\<forall>q. \<not> tf_is_tmp tf q \<longrightarrow> files f' q = files f q) \<and> set (faults f') \<subseteq> set (faults f)"

text \<open>
  A new temporary file is empty; writing appends; persisting replaces the target by the
  content in one step; and whatever fails leaves the other files alone.
\<close>

definition tempfile_ok :: "tempfile_lib \<Rightarrow> bool" where
  "tempfile_ok tf \<longleftrightarrow>
     (\<forall>d f r f'. tf_new_in tf d f = (r, f') \<longrightarrow>
        same_named tf f f' \<and> (\<forall>t. r = Inr t \<longrightarrow> tmp_content t = []))
     \<and> (\<forall>t b f r f'. tf_write_all tf t b f = (r, f') \<longrightarrow>
        same_named tf f f' \<and> (\<forall>t'. r = Inr t' \<longrightarrow> tmp_content t' = tmp_content t @ b))
     \<and> (\<forall>t p f e f'. tf_persist tf t p f = (Inl e, f') \<longrightarrow> same_named tf f f')
     \<and> (\<forall>t p f u f'. tf_persist tf t p f = (Inr u, f') \<longrightarrow>
        files f' p = Some (tmp_content t) \<and> set (faults f') \<subseteq> set (faults f)
        \<and> (\<forall>q. q \<noteq> p \<longrightarrow> \<not> tf_is_tmp tf q \<longrightarrow> files f' q = files f q))"

section \<open>Replacing a file\<close>

text \<open>
  \<open>NamedTempFile::new_in(dir)?; state_file.write_all(json)?; state_file.persist(path)?\<close>, with the I/O
  error of the first call that fails.
\<close>

definition replace_file ::
    "tempfile_lib \<Rightarrow> path \<Rightarrow> path \<Rightarrow> bytes \<Rightarrow> fs \<Rightarrow> (io_error + unit) \<times> fs" where
  "replace_file tf dir p data f =
     st_bind (tf_new_in tf dir f) (\<lambda>t f1.
     st_bind (tf_write_all tf t data f1) (\<lambda>t f2.
     tf_persist tf t p f2) id) id"

lemma same_named_trans: "same_named tf a b \<Longrightarrow> same_named tf b c \<Longrightarrow> same_named tf a c"
  by (auto simp: same_named_def)

lemma tempfile_new_in:
  "tempfile_ok tf \<Longrightarrow> tf_new_in tf d f = (r, f') \<Longrightarrow>
     same_named tf f f' \<and> (\<forall>t. r = Inr t \<longrightarrow> tmp_content t = [])"
  unfolding tempfile_ok_def by (elim conjE) metis

lemma tempfile_write_all:
  "tempfile_ok tf \<Longrightarrow> tf_write_all tf t b f = (r, f') \<Longrightarrow>
     same_named tf f f' \<and> (\<forall>t'. r = Inr t' \<longrightarrow> tmp_content t' = tmp_content t @ b)"
  unfolding tempfile_ok_def by blast

lemma tempfile_persist_Inl:
  "tempfile_ok tf \<Longrightarrow> tf_persist tf t p f = (Inl e, f') \<Longrightarrow> same_named tf f f'"
  unfolding tempfile_ok_def by blast

lemma tempfile_persist_Inr:
  "tempfile_ok tf \<Longrightarrow> tf_persist tf t p f = (Inr u, f') \<Longrightarrow>
     files f' p = Some (tmp_content t) \<and> set (faults f') \<subseteq> set (faults f)
     \<and> (\<forall>q. q \<noteq> p \<longrightarrow> \<not> tf_is_tmp tf q \<longrightarrow> files f' q = files f q)"
  unfolding tempfile_ok_def by blast

lemma replace_file_Inl:
  assumes tf: "tempfile_ok tf" and r: "replace_file tf dir p data f = (Inl e, f')"
  shows "same_named tf f f'"
  using r unfolding replace_file_def
  by (auto simp: result_simps
      dest!: tempfile_new_in [OF tf] tempfile_write_all [OF tf] tempfile_persist_Inl [OF tf]
      intro: same_named_trans)

lemma replace_file_Inr:
  assumes tf: "tempfile_ok tf" and r: "replace_file tf dir p data f = (Inr u, f')"
  shows "files f' p = Some data \<and> set (faults f') \<subseteq> set (faults f)
         \<and> (\<forall>q. q \<noteq> p \<longrightarrow> \<not> tf_is_tmp tf q \<longrightarrow> files f' q = files f q)"
proof -
  from r obtain t f1 t' f2 where n: "tf_new_in tf dir f = (Inr t, f1)"
    and w: "tf_write_all tf t data f1 = (Inr t', f2)" and p: "tf_persist tf t' p f2 = (Inr u, f')"
    unfolding replace_file_def by (auto simp: result_simps)
  show ?thesis
    using tempfile_new_in [OF tf n] tempfile_write_all [OF tf w] tempfile_persist_Inr [OF tf p]
    by (auto simp: same_named_def)
qed

lemma replace_file_others:
  assumes "tempfile_ok tf" "replace_file tf dir p data f = (r, f')" "q \<noteq> p" "\<not> tf_is_tmp tf q"
  shows "files f' q = files f q"
proof (cases r)
  case (Inl e)
  with replace_file_Inl [OF assms(1)] assms(2,4) show ?thesis by (simp add: same_named_def)
next
  case (Inr u)
  with replace_file_Inr [OF assms(1)] assms(2-4) show ?thesis by blast
qed

text \<open>The directory of the file exists and can be written to: without pending errors the file can be replaced.\<close>

definition replaceable :: "tempfile_lib \<Rightarrow> path \<Rightarrow> bool" where
  "replaceable tf p \<longleftrightarrow>
     (\<exists>dir. path_parent p = Some dir
        \<and> (\<forall>data f. faults f = [] \<longrightarrow> (\<exists>f'. replace_file tf dir p data f = (Inr (), f'))))"

definition state_written :: "state_json \<Rightarrow> path \<Rightarrow> fs \<Rightarrow> consensus_state \<Rightarrow> bool" where
  "state_written js p f cs \<longleftrightarrow> (\<exists>b. to_json js cs = Inr b \<and> files f p = Some b)"

text \<open>The state a file holds, if there is a file and it parses.\<close>

definition state_in_file :: "state_json \<Rightarrow> path \<Rightarrow> fs \<Rightarrow> consensus_state option" where
  "state_in_file js p f =
     (case files f p of
        None \<Rightarrow> None
      | Some c \<Rightarrow> (case from_json js c of Inl _ \<Rightarrow> None | Inr cs \<Rightarrow> Some cs))"

definition no_spurious_not_found :: "fs \<Rightarrow> bool" where
  "no_spurious_not_found f \<longleftrightarrow> (\<forall>e. Some e \<in> set (faults f) \<longrightarrow> io_kind e \<noteq> NotFound)"

text \<open>
  The surroundings in which a state file is reliable: the two crates behave as documented, the
  path is not one of a temporary file, and reading an existing file does not fail as \<open>NotFound\<close>.
\<close>

definition reliable :: "tempfile_lib \<Rightarrow> state_json \<Rightarrow> path \<Rightarrow> fs \<Rightarrow> bool" where
  "reliable tf js p f \<longleftrightarrow>
     tempfile_ok tf \<and> json_ok js \<and> \<not> tf_is_tmp tf p \<and> no_spurious_not_found f"

lemma same_named_reliable:
  "same_named tf f f' \<Longrightarrow> reliable tf js p f \<Longrightarrow>
     reliable tf js p f' \<and> state_in_file js p f' = state_in_file js p f"
  by (auto simp: reliable_def same_named_def no_spurious_not_found_def state_in_file_def)

lemma fs_read_to_string_same_named: "fs_read_to_string p f = (r, f') \<Longrightarrow> same_named tf f f'"
  by (auto simp: same_named_def dest!: fs_read_to_string_files)

lemma replace_file_reliable_Inl:
  "reliable tf js p f \<Longrightarrow> replace_file tf dir p data f = (Inl e, f') \<Longrightarrow>
     reliable tf js p f' \<and> state_in_file js p f' = state_in_file js p f"
  by (metis replace_file_Inl same_named_reliable reliable_def)

lemma replace_file_reliable_Inr:
  "reliable tf js p f \<Longrightarrow> to_json js cs = Inr data \<Longrightarrow> replace_file tf dir p data f = (Inr u, f') \<Longrightarrow>
     reliable tf js p f' \<and> state_in_file js p f' = Some cs"
  by (auto simp: reliable_def json_ok_def no_spurious_not_found_def state_in_file_def
           dest!: replace_file_Inr)

end
