(* ===== verification/Concrete_Env.thy ===== *)
theory Concrete_Env
  imports Rpc State_Files
begin

text \<open>
  Concrete surroundings that satisfy the documented behaviour of the crates the model takes as
  arguments: a JSON coding of the consensus state, a temporary-file library, and a small
  protobuf and signature library.  They show that the hypotheses of the properties can hold.
\<close>

section \<open>A coding of the consensus state in ASCII\<close>

definition nib :: "u8 \<Rightarrow> bytes" where
  "nib b = [word_of_nat (64 + unat b div 16), word_of_nat (64 + unat b mod 16)]"

fun unnib :: "bytes \<Rightarrow> bytes" where
  "unnib (a # b # r) = word_of_nat ((unat a - 64) * 16 + (unat b - 64)) # unnib r"
| "unnib [_] = []"
| "unnib [] = []"

definition demo_raw :: "consensus_state \<Rightarrow> bytes" where
  "demo_raw cs =
     le_bytes 8 (unat (cs_height cs)) @ le_bytes 4 (unat (cs_round cs)) @ [cs_step cs]
     @ (case cs_block_id cs of None \<Rightarrow> [0] | Some b \<Rightarrow> 1 # b)"

definition demo_json :: state_json where
  "demo_json =
     \<lparr>to_json = (\<lambda>cs. Inr (concat (map nib (demo_raw cs)))),
      from_json = (\<lambda>b. let d = unnib b in
         if length d < 14 then Inl ''short''
         else Inr \<lparr>cs_height = word_of_nat (of_le_bytes (take 8 d)),
                   cs_round = word_of_nat (of_le_bytes (take 4 (drop 8 d))),
                   cs_step = d ! 12,
                   cs_block_id = (if d ! 13 = 0 then None else Some (drop 14 d))\<rparr>)\<rparr>"

lemma unat_small_byte: "n < 256 \<Longrightarrow> unat (word_of_nat n :: u8) = n"
  by (simp only: unat_byte_of_nat mod_less)

lemma nib_values:
  fixes b :: u8
  shows "unat (word_of_nat (64 + unat b div 16) :: u8) = 64 + unat b div 16"
  "unat (word_of_nat (64 + unat b mod 16) :: u8) = 64 + unat b mod 16"
proof -
  have "unat b < 256" using unsigned_less [of b] by simp
  then have "64 + unat b div 16 < 256" "64 + unat b mod 16 < 256" by auto
  then show "unat (word_of_nat (64 + unat b div 16) :: u8) = 64 + unat b div 16"
    "unat (word_of_nat (64 + unat b mod 16) :: u8) = 64 + unat b mod 16"
    by (simp_all only: unat_small_byte)
qed

lemma unnib_nib: "unnib (concat (map nib bs)) = bs"
proof (induction bs)
  case (Cons b bs)
  have "(word_of_nat (unat b div 16 * 16 + unat b mod 16) :: u8) = b" by simp
  with Cons show ?case
    by (simp only: nib_def list.map concat.simps append_Cons append_Nil unnib.simps nib_values
          diff_add_inverse)
qed simp

lemma utf8_valid_nib: "utf8_valid (concat (map nib bs))"
proof (rule utf8_valid_ascii, induction bs)
  case (Cons b bs)
  have "unat b < 256" using unsigned_less [of b] by simp
  then have "64 + unat b div 16 < 128" "64 + unat b mod 16 < 128" by auto
  with Cons show ?case
    by (simp only: nib_def list.map concat.simps append_Cons append_Nil list.pred_inject nib_values)
qed simp

lemma word_le_bytes_8: "(word_of_nat (of_le_bytes (le_bytes 8 (unat w))) :: u64) = w"
proof -
  have "unat w < 256 ^ 8" using unsigned_less [of w] by simp
  then show ?thesis by (simp add: of_le_bytes_le_bytes)
qed

lemma word_le_bytes_4: "(word_of_nat (of_le_bytes (le_bytes 4 (unat w))) :: u32) = w"
proof -
  have "unat w < 256 ^ 4" using unsigned_less [of w] by simp
  then show ?thesis by (simp add: of_le_bytes_le_bytes)
qed

lemma demo_raw_fields:
  "14 \<le> length (demo_raw cs)"
  "(word_of_nat (of_le_bytes (take 8 (demo_raw cs))) :: u64) = cs_height cs"
  "(word_of_nat (of_le_bytes (take 4 (drop 8 (demo_raw cs)))) :: u32) = cs_round cs"
  "demo_raw cs ! 12 = cs_step cs"
  "(if demo_raw cs ! 13 = 0 then None else Some (drop 14 (demo_raw cs))) = cs_block_id cs"
  by (auto simp: demo_raw_def word_le_bytes_8 word_le_bytes_4 nth_append split: option.splits)

lemma demo_json_from: "from_json demo_json (concat (map nib (demo_raw cs))) = Inr cs"
proof -
  have "\<not> length (demo_raw cs) < 14" using demo_raw_fields(1) [of cs] by simp
  then show ?thesis
    unfolding demo_json_def Let_def state_json.simps unnib_nib if_False
    by (simp only: demo_raw_fields(2-) if_False not_False_eq_True) simp
qed

lemma demo_json_ok: "json_ok demo_json"
proof -
  have "to_json demo_json cs = Inr b \<Longrightarrow> b = concat (map nib (demo_raw cs))" for cs b
    by (simp add: demo_json_def)
  then show ?thesis
    unfolding json_ok_def using demo_json_from utf8_valid_nib by blast
qed

section \<open>Temporary files\<close>

definition demo_tempfile :: tempfile_lib where
  "demo_tempfile =
     \<lparr>tf_new_in = (\<lambda>dir f. (Inr \<lparr>tmp_path = dir @ ''/.tmp'', tmp_content = []\<rparr>, f)),
      tf_write_all = (\<lambda>t b f. (Inr (t\<lparr>tmp_content := tmp_content t @ b\<rparr>), f)),
      tf_persist = (\<lambda>t p f. (Inr (), f\<lparr>files := (files f)(p \<mapsto> tmp_content t)\<rparr>)),
      tf_is_tmp = (\<lambda>p. False)\<rparr>"

lemma demo_replaceable: "path_parent p \<noteq> None \<Longrightarrow> replaceable demo_tempfile p"
  by (auto simp: replaceable_def replace_file_def demo_tempfile_def)

lemma demo_tempfile_ok: "tempfile_ok demo_tempfile"
  by (simp add: tempfile_ok_def demo_tempfile_def same_named_def)

section \<open>Messages and signatures\<close>

text \<open>
  The first byte of a message is its kind, the next two the height and the block; a signature is
  the key followed by the bytes.
\<close>

definition demo_vote_request :: "u8 \<Rightarrow> u8 \<Rightarrow> sign_vote_request" where
  "demo_vote_request h b =
     \<lparr>svr_vote = \<lparr>vote_height = word_of_nat (unat h), vote_round = 0, vote_is_precommit = False,
        vote_block_id = Some [b], vote_signature = None, vote_rest = []\<rparr>,
      svr_chain_id = ''chain-1''\<rparr>"

definition demo_proposal_request :: "u8 \<Rightarrow> u8 \<Rightarrow> sign_proposal_request" where
  "demo_proposal_request h b =
     \<lparr>spr_proposal = \<lparr>prop_height = word_of_nat (unat h), prop_round = 0,
        prop_block_id = Some [b], prop_signature = None, prop_rest = []\<rparr>,
      spr_chain_id = ''chain-1''\<rparr>"

definition demo_lib :: tm_lib where
  "demo_lib =
     \<lparr>data_max_size = 1024,
      block_id_prefix = (\<lambda>cs. []),
      decode_length_delimited = (\<lambda>m. case m of
          [] \<Rightarrow> Inl (io_error_of InvalidData)
        | t # r \<Rightarrow>
            if t = 1 then Inr (Some (SumSignVoteRequest r))
            else if t = 2 then Inr (Some (SumSignProposalRequest r))
            else if t = 3 then Inr (Some (SumPubKeyRequest r))
            else if t = 4 then Inr (Some SumPingRequest)
            else Inr None),
      encode_length_delimited = (\<lambda>m. Inr [0]),
      sign_vote_try_from = (\<lambda>r. case r of
          [h, b] \<Rightarrow> Inr (demo_vote_request h b) | _ \<Rightarrow> Inl ''invalid vote''),
      sign_proposal_try_from = (\<lambda>r. case r of
          [h, b] \<Rightarrow> Inr (demo_proposal_request h b) | _ \<Rightarrow> Inl ''invalid proposal''),
      pub_key_try_from = (\<lambda>r. Inr \<lparr>pkr_chain_id = text_of r\<rparr>),
      signed_vote_into_raw = (\<lambda>r. \<lparr>rvr_vote = map_option vote_rest (svresp_vote r),
          rvr_error = svresp_error r\<rparr>),
      signed_proposal_into_raw = (\<lambda>r. \<lparr>rpr_proposal = map_option prop_rest (spresp_proposal r),
          rpr_error = spresp_error r\<rparr>),
      vote_signable_vec = (\<lambda>r. Inr (vote_rest (svr_vote r))),
      proposal_signable_vec = (\<lambda>r. Inr (prop_rest (spr_proposal r))),
      sign = (\<lambda>k b. k @ b),
      verification_key = (\<lambda>k. k),
      from_raw_ed25519 = Some\<rparr>"

text \<open>A persistence that remembers every state it is given.\<close>

definition demo_sync :: "consensus_state list persist_state_sync" where
  "demo_sync = \<lparr>load_state = (\<lambda>l. (Inr (State_from initial_consensus_state), l)),
     persist_state = (\<lambda>l cs. (Inr (), l @ [cs]))\<rparr>"

end
