(* ===== verification/Session.thy ===== *)
theory Session
  imports Chain_State Rpc Concrete_Env "HOL-Library.Sublist"
begin

text \<open>
  \<open>src/session.rs\<close> and \<open>src/config/validator.rs\<close>: the session with a validator node.  One request is read,
  checked against the configured chain and height, recorded in the double-sign state (which
  persists it first), signed and answered; \<open>request_loop\<close> repeats that until an error.  The lemmas show
  what every branch answers, that nothing is signed unless its state was accepted and
  persisted, and that the loop ends when the validator's stream ends.
\<close>

section \<open>The code\<close>

record validator_config =
  cfg_chain_id :: chain_id
  cfg_max_height :: "height option"

record ('c, 's) session =
  config :: validator_config
  connection :: 'c
  signing_key :: signing_key
  state :: State
  state_syncer :: 's

text \<open>A request fails with an \<open>Error\<close> or by a panic.\<close>

datatype failure = Fail error | Panicked string

definition reset_connection :: "'c \<Rightarrow> ('c, 's) session \<Rightarrow> ('c, 's) session" where
  "reset_connection conn self = self\<lparr>connection := conn\<rparr>"

definition session_new ::
    "validator_config \<Rightarrow> 'c \<Rightarrow> signing_key \<Rightarrow> State \<Rightarrow> 's \<Rightarrow> ('c, 's) session" where
  "session_new cfg conn key st syncer =
     \<lparr>config = cfg, connection = conn, signing_key = key, state = st, state_syncer = syncer\<rparr>"

definition check_chain_id :: "('c, 's) session \<Rightarrow> chain_id \<Rightarrow> error + unit" where
  "check_chain_id self cid =
     (if cid = cfg_chain_id (config self) then Inr () else Inl (ChainIdError cid))"

text \<open>Both sides of the comparison are \<open>i64\<close>: the limit is cast.\<close>

definition check_max_height :: "('c, 's) session \<Rightarrow> i64 \<Rightarrow> error + unit" where
  "check_max_height self req_height =
     (case cfg_max_height (config self) of
        Some max_height \<Rightarrow>
          if sint req_height > sint max_height then Inl (ExceedMaxHeight req_height max_height)
          else Inr ()
      | None \<Rightarrow> Inr ())"

definition handle_sign_proposal ::
    "tm_lib \<Rightarrow> 's persist_state_sync \<Rightarrow> sign_proposal_request \<Rightarrow> ('c, 's) session
      \<Rightarrow> (failure + Response) \<times> ('c, 's) session" where
  "handle_sign_proposal lib po req self =
     (case check_chain_id self (spr_chain_id req) of
        Inl _ \<Rightarrow> (Inr (invalid_chain_id ChainIdProposal (spr_chain_id req)), self)
      | Inr _ \<Rightarrow>
         (case check_max_height self (prop_height (spr_proposal req)) of
            Inl e \<Rightarrow> (Inl (Fail e), self)
          | Inr _ \<Rightarrow>
             (let req_cs = consensus_state (State_from_proposal req) in
              case check_update_consensus_state (block_id_prefix lib) po req_cs (state self)
                     (state_syncer self) of
                (Inr _, st, sy) \<Rightarrow>
                  (let self' = self\<lparr>state := st, state_syncer := sy\<rparr> in
                   case proposal_signable_vec lib req of
                     Inl e \<Rightarrow>
                       (Inl (Fail (SigningTendermintError ''can't get proposal signable bytes'' e)), self')
                   | Inr signable_bytes \<Rightarrow>
                       (Inr (proposal_response req (sign lib (signing_key self) signable_bytes)), self'))
              | (Inl e, st, sy) \<Rightarrow>
                  (let self' = self\<lparr>state := st, state_syncer := sy\<rparr> in
                   case e of
                     StateErr (DoubleSignError _ _ _ _ _) \<Rightarrow>
                       (Inr (double_sign_response DoubleSignProposal (cs_height req_cs)), self')
                   | StateErr se \<Rightarrow>
                       (Inl (Fail (SigningStateError ''failed signing proposal'' se)), self')
                   | SyncPanicked m \<Rightarrow> (Inl (Panicked m), self')))))"

definition handle_sign_vote ::
    "tm_lib \<Rightarrow> 's persist_state_sync \<Rightarrow> sign_vote_request \<Rightarrow> ('c, 's) session
      \<Rightarrow> (failure + Response) \<times> ('c, 's) session" where
  "handle_sign_vote lib po req self =
     (case check_chain_id self (svr_chain_id req) of
        Inl _ \<Rightarrow> (Inr (invalid_chain_id ChainIdVote (svr_chain_id req)), self)
      | Inr _ \<Rightarrow>
         (case check_max_height self (vote_height (svr_vote req)) of
            Inl e \<Rightarrow> (Inl (Fail e), self)
          | Inr _ \<Rightarrow>
             (let req_cs = consensus_state (State_from_vote req) in
              case check_update_consensus_state (block_id_prefix lib) po req_cs (state self)
                     (state_syncer self) of
                (Inr _, st, sy) \<Rightarrow>
                  (let self' = self\<lparr>state := st, state_syncer := sy\<rparr> in
                   case vote_signable_vec lib req of
                     Inl e \<Rightarrow>
                       (Inl (Fail (SigningTendermintError ''cannot get vote signable bytes'' e)), self')
                   | Inr signable_bytes \<Rightarrow>
                       (Inr (vote_response req (sign lib (signing_key self) signable_bytes)), self'))
              | (Inl e, st, sy) \<Rightarrow>
                  (let self' = self\<lparr>state := st, state_syncer := sy\<rparr> in
                   case e of
                     StateErr (DoubleSignError _ _ _ _ _) \<Rightarrow>
                       (Inr (double_sign_response DoubleSignVote (cs_height req_cs)), self')
                   | StateErr se \<Rightarrow>
                       (Inl (Fail (SigningStateError ''failed signing vote'' se)), self')
                   | SyncPanicked m \<Rightarrow> (Inl (Panicked m), self')))))"

definition handle_show_public_key ::
    "tm_lib \<Rightarrow> pub_key_request \<Rightarrow> ('c, 's) session \<Rightarrow> (failure + Response) \<times> ('c, 's) session" where
  "handle_show_public_key lib req self =
     (case check_chain_id self (pkr_chain_id req) of
        Inl _ \<Rightarrow> (Inr (invalid_chain_id ChainIdPubkey (pkr_chain_id req)), self)
      | Inr _ \<Rightarrow>
          (case from_raw_ed25519 lib (verification_key lib (signing_key self)) of
             Some pk \<Rightarrow> (Inr (PublicKeyReply pk), self)
           | None \<Rightarrow> (Inl (Panicked ''public key''), self)))"

text \<open>The \<open>match request\<close> of \<open>handle_request\<close>.\<close>

definition respond ::
    "tm_lib \<Rightarrow> 's persist_state_sync \<Rightarrow> Request \<Rightarrow> ('c, 's) session
      \<Rightarrow> (failure + Response) \<times> ('c, 's) session" where
  "respond lib po request self =
     (case request of
        SignProposal req \<Rightarrow> handle_sign_proposal lib po req self
      | SignVote req \<Rightarrow> handle_sign_vote lib po req self
      | ReplyPing \<Rightarrow> (Inr PingReply, self)
      | ShowPublicKey req \<Rightarrow> handle_show_public_key lib req self)"

definition handle_request ::
    "tm_lib \<Rightarrow> 'c connection_ops \<Rightarrow> 's persist_state_sync \<Rightarrow> ('c, 's) session
      \<Rightarrow> (failure + bool) \<times> ('c, 's) session" where
  "handle_request lib co po self =
     (case Request_read lib co (connection self) of
        (Inl e, conn) \<Rightarrow> (Inl (Fail e), self\<lparr>connection := conn\<rparr>)
      | (Inr request, conn) \<Rightarrow>
          (case respond lib po request (self\<lparr>connection := conn\<rparr>) of
             (Inl f, self1) \<Rightarrow> (Inl f, self1)
           | (Inr response, self1) \<Rightarrow>
               (case Response_encode lib response of
                  Inl e \<Rightarrow> (Inl (Fail e), self1)
                | Inr response_bytes \<Rightarrow>
                    (case conn_write_all co response_bytes (connection self1) of
                       (Inl e, conn1) \<Rightarrow>
                         (Inl (Fail (IoError ''write response failed'' e)), self1\<lparr>connection := conn1\<rparr>)
                     | (Inr _, conn1) \<Rightarrow> (Inr True, self1\<lparr>connection := conn1\<rparr>)))))"

text \<open>\<open>while self.handle_request()? {}\<close>: \<open>None\<close> where the loop does not end.\<close>

partial_function (option) request_loop ::
    "tm_lib \<Rightarrow> 'c connection_ops \<Rightarrow> 's persist_state_sync \<Rightarrow> ('c, 's) session
      \<Rightarrow> ((failure + unit) \<times> ('c, 's) session) option" where
  "request_loop lib co po self =
     (case handle_request lib co po self of
        (Inl f, self') \<Rightarrow> Some (Inl f, self')
      | (Inr b, self') \<Rightarrow> if b then request_loop lib co po self' else Some (Inr (), self'))"

section \<open>What one request does\<close>

text \<open>The state whose signature a response carries.\<close>

definition signed_state :: "Response \<Rightarrow> consensus_state option" where
  "signed_state resp =
     (case resp of
        SignedVote r \<Rightarrow>
          map_option (\<lambda>v. \<lparr>cs_height = vote_height v, cs_round = vote_round v,
             cs_step = (if vote_is_precommit v then 2 else 1), cs_block_id = vote_block_id v\<rparr>)
            (svresp_vote r)
      | SignedProposal r \<Rightarrow>
          map_option (\<lambda>p. \<lparr>cs_height = prop_height p, cs_round = prop_round p,
             cs_step = 0, cs_block_id = prop_block_id p\<rparr>) (spresp_proposal r)
      | _ \<Rightarrow> None)"

text \<open>What a request asks to have signed, and the chain it names.\<close>

fun request_state :: "Request \<Rightarrow> consensus_state option" where
  "request_state (SignProposal req) = Some (consensus_state (State_from_proposal req))"
| "request_state (SignVote req) = Some (consensus_state (State_from_vote req))"
| "request_state (ShowPublicKey req) = None"
| "request_state ReplyPing = None"

fun request_chain_id :: "Request \<Rightarrow> chain_id option" where
  "request_chain_id (SignProposal req) = Some (spr_chain_id req)"
| "request_chain_id (SignVote req) = Some (svr_chain_id req)"
| "request_chain_id (ShowPublicKey req) = Some (pkr_chain_id req)"
| "request_chain_id ReplyPing = None"

lemmas handler_defs = respond_def handle_sign_proposal_def handle_sign_vote_def
  handle_show_public_key_def check_chain_id_def Let_def

lemmas response_defs = vote_response_def proposal_response_def double_sign_response_def
  invalid_chain_id_def

lemma signed_state_simps [simp]:
  "signed_state (vote_response req sig) = Some (consensus_state (State_from_vote req))"
  "signed_state (proposal_response preq sig) = Some (consensus_state (State_from_proposal preq))"
  "signed_state (double_sign_response t h) = None"
  "signed_state (invalid_chain_id ct cid) = None"
  "signed_state PingReply = None"
  "signed_state (PublicKeyReply pk) = None"
  by (auto simp: signed_state_def response_defs State_from_vote_def State_from_proposal_def Let_def
           split: DoubleSignErrorType.splits ChainIdErrorType.splits)

lemma respond_config:
  assumes "respond lib po request self = (r, self')"
  shows "config self' = config self \<and> signing_key self' = signing_key self
         \<and> connection self' = connection self"
  using assms
  by (auto simp: handler_defs split: Request.splits sum.splits prod.splits sync_failure.splits state_error.splits if_splits option.splits)

text \<open>
  The whole effect of \<open>respond\<close>: nothing changed and nothing was signed; or the requested state was
  accepted, persisted and stored (and signed, when there is a response); or persisting it failed.
\<close>

lemma respond_cases [consumes 1, case_names untouched accepted unpersisted]:
  assumes "respond lib po request self = (r, self')"
    and untouched: "\<lbrakk> state self' = state self; state_syncer self' = state_syncer self;
           \<And>resp. r = Inr resp \<Longrightarrow> signed_state resp = None \<rbrakk> \<Longrightarrow> P"
    and accepted: "\<And>cs. \<lbrakk> request_state request = Some cs;
           request_chain_id request = Some (cfg_chain_id (config self));
           check_max_height self (cs_height cs) = Inr ();
           may_follow (consensus_state (state self)) cs;
           persist_state po (state_syncer self) cs = (Inr (), state_syncer self');
           consensus_state (state self') = cs;
           \<And>resp. r = Inr resp \<Longrightarrow> signed_state resp = Some cs \<rbrakk> \<Longrightarrow> P"
    and unpersisted: "\<And>cs e. \<lbrakk> request_state request = Some cs; state self' = state self;
           persist_state po (state_syncer self) cs = (Inl e, state_syncer self');
           \<And>resp. r = Inr resp \<Longrightarrow> signed_state resp = None \<rbrakk> \<Longrightarrow> P"
  shows P
proof -
  have upd: P
    if rs: "request_state request = Some cs" and st: "state self' = st" "state_syncer self' = sy"
      and u: "check_update_consensus_state (block_id_prefix lib) po cs (state self) (state_syncer self)
               = (u, st, sy)"
      and c: "request_chain_id request = Some (cfg_chain_id (config self))"
      and m: "check_max_height self (cs_height cs) = Inr ()"
      and ok: "\<And>resp v. u = Inr v \<Longrightarrow> r = Inr resp \<Longrightarrow> signed_state resp = Some cs"
      and no: "\<And>resp e. u = Inl e \<Longrightarrow> r = Inr resp \<Longrightarrow> signed_state resp = None" for cs u st sy
  proof (cases u)
    case (Inr v)
    then show P using check_update_Inr [of _ po cs] u rs st c m ok by (auto intro!: accepted)
  next
    case (Inl e)
    note cu = check_update_Inl [OF u [unfolded Inl]]
    show P
    proof (cases "sy = state_syncer self")
      case True
      with cu st no Inl show P by (intro untouched) auto
    next
      case False
      with cu rs st no Inl show P by (intro unpersisted) auto
    qed
  qed
  show P
  proof (cases request)
    case (SignProposal req)
    show P
    proof (cases "check_chain_id self (spr_chain_id req) = Inr ()
        \<and> check_max_height self (prop_height (spr_proposal req)) = Inr ()")
      case True
      obtain u st sy where u: "check_update_consensus_state (block_id_prefix lib) po
          (consensus_state (State_from_proposal req)) (state self) (state_syncer self) = (u, st, sy)"
        by (metis prod_cases3)
      from True SignProposal assms(1) u show P
        by (intro upd [OF _ _ _ u])
           (auto simp: handler_defs State_from_proposal_def
                 split: sum.splits sync_failure.splits state_error.splits if_splits)
    next
      case False
      with SignProposal assms(1) show P
        by (intro untouched) (auto simp: handler_defs split: sum.splits if_splits)
    qed
  next
    case (SignVote req)
    show P
    proof (cases "check_chain_id self (svr_chain_id req) = Inr ()
        \<and> check_max_height self (vote_height (svr_vote req)) = Inr ()")
      case True
      obtain u st sy where u: "check_update_consensus_state (block_id_prefix lib) po
          (consensus_state (State_from_vote req)) (state self) (state_syncer self) = (u, st, sy)"
        by (metis prod_cases3)
      from True SignVote assms(1) u show P
        by (intro upd [OF _ _ _ u])
           (auto simp: handler_defs State_from_vote_def
                 split: sum.splits sync_failure.splits state_error.splits if_splits)
    next
      case False
      with SignVote assms(1) show P
        by (intro untouched) (auto simp: handler_defs split: sum.splits if_splits)
    qed
  next
    case (ShowPublicKey req)
    with assms(1) show P
      by (intro untouched) (auto simp: handler_defs split: sum.splits if_splits option.splits)
  next
    case ReplyPing
    with assms(1) show P by (intro untouched) (auto simp: handler_defs)
  qed
qed

subsection \<open>Requests from the connection\<close>

text \<open>What \<open>handle_request\<close> signs: the state in the response to the request it reads.\<close>

definition signs ::
    "tm_lib \<Rightarrow> 'c connection_ops \<Rightarrow> 's persist_state_sync \<Rightarrow> ('c, 's) session \<Rightarrow> consensus_state list" where
  "signs lib co po self =
     (case Request_read lib co (connection self) of
        (Inl e, conn) \<Rightarrow> []
      | (Inr request, conn) \<Rightarrow>
          (case respond lib po request (self\<lparr>connection := conn\<rparr>) of
             (Inl f, _) \<Rightarrow> []
           | (Inr response, _) \<Rightarrow>
               (case signed_state response of None \<Rightarrow> [] | Some cs \<Rightarrow> [cs])))"

lemma handle_request_cases [consumes 1, case_names untouched accepted unpersisted]:
  assumes "handle_request lib co po self = (r, self')"
    and untouched: "\<lbrakk> state self' = state self; state_syncer self' = state_syncer self;
           signs lib co po self = [] \<rbrakk> \<Longrightarrow> P"
    and accepted: "\<And>cs. \<lbrakk> check_max_height self (cs_height cs) = Inr ();
           may_follow (consensus_state (state self)) cs;
           persist_state po (state_syncer self) cs = (Inr (), state_syncer self');
           consensus_state (state self') = cs;
           signs lib co po self = [] \<or> signs lib co po self = [cs] \<rbrakk> \<Longrightarrow> P"
    and unpersisted: "\<And>cs e. \<lbrakk> state self' = state self;
           persist_state po (state_syncer self) cs = (Inl e, state_syncer self');
           signs lib co po self = [] \<rbrakk> \<Longrightarrow> P"
  shows P
proof (cases "Request_read lib co (connection self)")
  case (Pair rr conn)
  show P
  proof (cases rr)
    case (Inl e)
    with Pair assms(1) show P by (intro untouched) (auto simp: handle_request_def signs_def)
  next
    case (Inr request)
    obtain r1 self1 where res: "respond lib po request (self\<lparr>connection := conn\<rparr>) = (r1, self1)"
      by fastforce
    have self': "state self' = state self1" "state_syncer self' = state_syncer self1"
      using assms(1) Pair Inr res
      by (auto simp: handle_request_def split: sum.splits prod.splits)
    have signs: "signs lib co po self = (case r1 of Inl _ \<Rightarrow> [] | Inr resp \<Rightarrow>
        (case signed_state resp of None \<Rightarrow> [] | Some cs \<Rightarrow> [cs]))"
      using Pair Inr res by (simp add: signs_def)
    from res show P
    proof (cases rule: respond_cases)
      case untouched
      with self' signs show P by (intro assms(2)) (auto split: sum.splits)
    next
      case (accepted cs)
      with self' signs show P
        by (intro assms(3) [of cs]) (auto simp: check_max_height_def split: sum.splits)
    next
      case (unpersisted cs e)
      with self' signs show P by (intro assms(4) [of cs e]) (auto split: sum.splits)
    qed
  qed
qed

lemma handle_request_config:
  assumes "handle_request lib co po self = (r, self')"
  shows "config self' = config self \<and> signing_key self' = signing_key self"
  using assms
  by (auto simp: handle_request_def split: sum.splits prod.splits dest!: respond_config)

lemma handle_request_true: "handle_request lib co po self = (Inr b, self') \<Longrightarrow> b"
  by (auto simp: handle_request_def split: sum.splits prod.splits)

section \<open>The request loop\<close>

lemma request_loop_ends_with_failure:
  assumes "request_loop lib co po self = Some (r, self')"
  shows "\<exists>f. r = Inl f"
proof -
  have "\<exists>f. fst rs = Inl f" if "request_loop lib co po self = Some rs" for rs
  proof (rule request_loop.raw_induct [where P = "\<lambda>lib co po self rs. \<exists>f. fst rs = Inl f", OF _ that])
    fix loop lib co po self rs
    assume IH: "\<And>lib co po self rs. loop lib co po self = Some rs \<Longrightarrow> \<exists>f. fst rs = Inl f"
      and eq: "(case handle_request lib co po self of
          (Inl f, self') \<Rightarrow> Some (Inl f, self')
        | (Inr b, self') \<Rightarrow> if b then loop lib co po self' else Some (Inr (), self')) = Some rs"
    then show "\<exists>f. fst rs = Inl f"
      by (auto split: prod.splits sum.splits if_splits dest: handle_request_true)
  qed
  from this [OF assms] show ?thesis by simp
qed

text \<open>
  What a plain connection still has to deliver; every request that is answered consumes some of it.
\<close>

fun rx_size :: "read_event list \<Rightarrow> nat" where
  "rx_size [] = 0"
| "rx_size (RData d # es) = Suc (length d + rx_size es)"
| "rx_size (RErr e # es) = Suc (rx_size es)"

abbreviation pending :: "(plain_connection, 's) session \<Rightarrow> nat" where
  "pending self \<equiv> rx_size (rx (socket (connection self)))"

lemma sock_read_size:
  assumes "sock_read n s = (r, s')" "0 < n"
  shows "rx s = [] \<and> r = Inr [] \<or> rx_size (rx s') < rx_size (rx s)"
proof (cases "rx s")
  case (Cons ev es)
  with assms show ?thesis by (cases ev) (auto simp: sock_read_def split: if_splits)
qed (use assms in \<open>auto simp: sock_read_def\<close>)

lemma plain_write_all_rx: "plain_write_all data c = (r, c') \<Longrightarrow> rx (socket c') = rx (socket c)"
  by (auto simp: plain_write_all_def sock_write_all_def split: prod.splits)

lemma handle_request_consumes:
  assumes h: "handle_request lib plain_ops po self = (Inr b, self')"
    and "0 < data_max_size lib" and eof: "decode_length_delimited lib [] = Inl e"
  shows "pending self' < pending self"
proof -
  obtain rr s1 where rd: "sock_read (data_max_size lib) (socket (connection self)) = (rr, s1)"
    by fastforce
  let ?conn = "(connection self)\<lparr>socket := s1\<rparr>"
  have "rx (socket (connection self)) \<noteq> [] \<or> rr \<noteq> Inr []"
  proof (rule ccontr)
    assume "\<not> ?thesis"
    with h rd eof show False
      by (auto simp: handle_request_def Request_read_def read_msg_def plain_ops_def plain_read_def
                     decode_request_def)
  qed
  then have lt: "rx_size (rx s1) < pending self"
    using sock_read_size [OF rd assms(2)] by auto
  obtain msg where msg: "rr = Inr msg"
    using h rd
    by (cases rr) (auto simp: handle_request_def Request_read_def read_msg_def plain_ops_def plain_read_def)
  obtain request where req: "decode_request lib msg = Inr request" "rr = Inr msg"
    using h rd msg
    by (cases "decode_request lib msg")
       (auto simp: handle_request_def Request_read_def read_msg_def plain_ops_def plain_read_def)
  obtain resp self1 where res: "respond lib po request (self\<lparr>connection := ?conn\<rparr>) = (Inr resp, self1)"
    using h rd req
    by (auto simp: handle_request_def Request_read_def read_msg_def plain_ops_def plain_read_def
             split: sum.splits prod.splits)
  have "rx (socket (connection self')) = rx (socket (connection self1))"
    using h rd req res
    by (auto simp: handle_request_def Request_read_def read_msg_def plain_ops_def plain_read_def
             split: sum.splits prod.splits dest: plain_write_all_rx)
  moreover have "connection self1 = ?conn" using respond_config [OF res] by simp
  ultimately show ?thesis using lt by simp
qed

section \<open>Properties\<close>

text \<open>
  C4. A response carries a signature only when the request names the configured chain, its height does not exceed the
  configured maximum, its state may follow the last one, and that state has been persisted and is the
  session's state afterwards; the response is the requested vote or proposal with the signature, by
  the session's key, of the bytes the request says are to be signed.
\<close>

theorem signing_is_guarded:
  assumes "respond lib po request self = (Inr resp, self')"
    and "signed_state resp = Some cs"
    and "valid_height (cs_height cs)"
    and "pred_option valid_height (cfg_max_height (config self))"
  shows "request_state request = Some cs
    \<and> request_chain_id request = Some (cfg_chain_id (config self))
    \<and> pred_option (\<lambda>m. cs_height cs \<le> m) (cfg_max_height (config self))
    \<and> may_follow (consensus_state (state self)) cs
    \<and> persist_state po (state_syncer self) cs = (Inr (), state_syncer self')
    \<and> consensus_state (state self') = cs
    \<and> (case request of
         SignVote req \<Rightarrow> (\<exists>b. vote_signable_vec lib req = Inr b
           \<and> resp = vote_response req (sign lib (signing_key self) b))
       | SignProposal req \<Rightarrow> (\<exists>b. proposal_signable_vec lib req = Inr b
           \<and> resp = proposal_response req (sign lib (signing_key self) b))
       | _ \<Rightarrow> False)"
proof -
  have sig: "case request of
         SignVote req \<Rightarrow> (\<exists>b. vote_signable_vec lib req = Inr b
           \<and> resp = vote_response req (sign lib (signing_key self) b))
       | SignProposal req \<Rightarrow> (\<exists>b. proposal_signable_vec lib req = Inr b
           \<and> resp = proposal_response req (sign lib (signing_key self) b))
       | _ \<Rightarrow> False"
    using assms(1,2)
    by (auto simp: handler_defs
             split: Request.splits sum.splits prod.splits sync_failure.splits state_error.splits if_splits option.splits)
  from assms(1) show ?thesis
  proof (cases rule: respond_cases)
    case (accepted cs')
    then have cs: "cs' = cs" using assms(2) by simp
    have "pred_option (\<lambda>m. cs_height cs \<le> m) (cfg_max_height (config self))"
      using accepted(3) assms(3,4) cs
      by (auto simp: check_max_height_def sint_valid_height word_le_def not_less
               split: option.splits if_splits)
    with accepted cs sig show ?thesis by simp
  qed (use assms(2) in auto)
qed

text \<open>A session on concrete surroundings, for the applications below.\<close>

definition demo_sess :: "u64 option \<Rightarrow> read_event list \<Rightarrow> (plain_connection, consensus_state list) session" where
  "demo_sess mh input = session_new \<lparr>cfg_chain_id = ''chain-1'', cfg_max_height = mh\<rparr>
     (plain_new \<lparr>rx = input, wx = [], sent = []\<rparr>) [42] (State_from initial_consensus_state) []"

theorem signing_is_guarded_witness:
  "\<exists>resp self'. respond demo_lib demo_sync (SignVote (demo_vote_request 5 7)) (demo_sess (Some 9) [])
       = (Inr resp, self')
     \<and> resp = vote_response (demo_vote_request 5 7) [42]
     \<and> consensus_state (state self')
         = \<lparr>cs_height = 5, cs_round = 0, cs_step = 1, cs_block_id = Some [7]\<rparr>"
proof -
  let ?cs = "\<lparr>cs_height = 5, cs_round = 0, cs_step = 1, cs_block_id = Some [7]\<rparr>"
  let ?s = "(demo_sess (Some 9) [])\<lparr>state := State_from ?cs, state_syncer := [?cs]\<rparr>"
  have r: "respond demo_lib demo_sync (SignVote (demo_vote_request 5 7)) (demo_sess (Some 9) [])
      = (Inr (vote_response (demo_vote_request 5 7) [42]), ?s)"
    by (simp add: handler_defs check_max_height_def demo_sess_def session_new_def demo_vote_request_def
        demo_lib_def demo_sync_def check_update_consensus_state_def check_consensus_state_def check_defs
        State_from_def State_from_vote_def initial_consensus_state_def)
  have v: "vote_signable_vec demo_lib (demo_vote_request 5 7) = Inr []"
    "sign demo_lib [42] [] = [42]" "signing_key (demo_sess (Some 9) []) = [42]"
    by (simp_all add: demo_lib_def demo_vote_request_def demo_sess_def session_new_def)
  have s: "signed_state (vote_response (demo_vote_request 5 7) [42]) = Some ?cs"
    by (simp add: State_from_vote_def demo_vote_request_def)
  from signing_is_guarded [OF r s] v r show ?thesis
    by (simp add: valid_height_def demo_sess_def session_new_def)
qed

text \<open>
  A request that names another chain is answered with error code 1 in the form that
  fits the request, and neither the session nor the persisted state changes.
\<close>

theorem wrong_chain_is_refused:
  assumes "request_chain_id request = Some cid" and "cid \<noteq> cfg_chain_id (config self)"
  shows "respond lib po request self =
           (Inr (invalid_chain_id (case request of SignProposal _ \<Rightarrow> ChainIdProposal
                                   | SignVote _ \<Rightarrow> ChainIdVote | _ \<Rightarrow> ChainIdPubkey) cid), self)"
  using assms by (cases request) (auto simp: handler_defs)

theorem wrong_chain_is_refused_witness:
  "respond demo_lib demo_sync (ShowPublicKey \<lparr>pkr_chain_id = ''other''\<rparr>) (demo_sess None [])
     = (Inr (PublicKeyError \<lparr>rse_code = 1, rse_description = ''invalid chain id: other''\<rparr>),
        demo_sess None [])"
  using wrong_chain_is_refused [of "ShowPublicKey \<lparr>pkr_chain_id = ''other''\<rparr>" "''other''"
      "demo_sess None []" demo_lib demo_sync]
  by (simp add: demo_sess_def session_new_def invalid_chain_id_def)

text \<open>
  C9. \<open>request_loop\<close> never returns \<open>Ok\<close>; on a plain connection whose peer sends finitely many chunks (and whatever the chunks,
  the errors and the writes are), it does return, with an error, as long as an empty message does not decode.
\<close>

theorem request_loop_ends_at_end_of_stream:
  assumes "0 < data_max_size lib"
    and "decode_length_delimited lib [] = Inl e"
  shows "\<exists>f self'. request_loop lib plain_ops po self = Some (Inl f, self')"
proof (induction "pending self" arbitrary: self rule: less_induct)
  case less
  obtain r self1 where h: "handle_request lib plain_ops po self = (r, self1)" by fastforce
  show ?case
  proof (cases r)
    case (Inl f)
    with h show ?thesis by (simp add: request_loop.simps [of lib plain_ops po self])
  next
    case (Inr b)
    with h have "b" "pending self1 < pending self"
      using handle_request_true handle_request_consumes assms by auto
    with less h Inr show ?thesis by (simp add: request_loop.simps [of lib plain_ops po self])
  qed
qed

theorem request_loop_ends_at_end_of_stream_witness:
  "\<exists>f self'. request_loop demo_lib plain_ops demo_sync (demo_sess None [RData [4], RData [1, 5, 7]])
     = Some (Inl f, self')"
  by (rule request_loop_ends_at_end_of_stream) (simp_all add: demo_lib_def)

end
