(* ===== verification/Kms_Run.thy ===== *)
theory Kms_Run
  imports Session
begin

text \<open>
  The lifetime of a signer: requests, new connections and restarts of the process in any order.
  \<open>kms_run\<close> is the step relation, its list the states signed so far.  The locale
  \<open>durable_persistence\<close> is the contract of a \<open>PersistStateSync\<close> implementation whose stored state survives a
  restart; under it no run ever signs two conflicting states.
\<close>

section \<open>Runs\<close>

inductive kms_run ::
    "tm_lib \<Rightarrow> 'c connection_ops \<Rightarrow> 's persist_state_sync \<Rightarrow> ('c, 's) session
      \<Rightarrow> consensus_state list \<Rightarrow> ('c, 's) session \<Rightarrow> bool"
  for lib co po s0 where
  start: "kms_run lib co po s0 [] s0"
| request: "\<lbrakk> kms_run lib co po s0 log s; handle_request lib co po s = (r, s') \<rbrakk>
    \<Longrightarrow> kms_run lib co po s0 (log @ signs lib co po s) s'"
| reconnect: "kms_run lib co po s0 log s \<Longrightarrow> kms_run lib co po s0 log (reset_connection conn s)"
| restart: "\<lbrakk> kms_run lib co po s0 log s; load_state po (state_syncer s) = (Inr st, sy) \<rbrakk>
    \<Longrightarrow> kms_run lib co po s0 log (session_new cfg conn key st sy)"
| failed_restart: "\<lbrakk> kms_run lib co po s0 log s; load_state po (state_syncer s) = (Inl e, sy) \<rbrakk>
    \<Longrightarrow> kms_run lib co po s0 log (s\<lparr>state_syncer := sy\<rparr>)"

text \<open>\<open>request_loop\<close> only makes steps of this relation.\<close>

lemma request_loop_kms_run:
  assumes "request_loop lib co po s = Some (r, s')"
  shows "\<exists>log. kms_run lib co po s log s'"
proof -
  have prepend: "\<exists>log. kms_run lib co po s log t"
    if "kms_run lib co po s1 log1 t" "handle_request lib co po s = (r1, s1)"
    for lib :: tm_lib and co :: "'c connection_ops" and po :: "'s persist_state_sync"
      and s s1 t r1 log1
    using that
  proof (induction rule: kms_run.induct)
    case start
    then show ?case using kms_run.request [OF kms_run.start] by blast
  qed (blast intro: kms_run.intros)+
  have "\<exists>log. kms_run lib co po s log (snd rs)" if "request_loop lib co po s = Some rs" for rs
  proof (rule request_loop.raw_induct
      [where P = "\<lambda>lib co po s rs. \<exists>log. kms_run lib co po s log (snd rs)", OF _ that])
    fix loop :: "tm_lib \<Rightarrow> 'c connection_ops \<Rightarrow> 's persist_state_sync \<Rightarrow> ('c, 's) session
        \<Rightarrow> ((failure + unit) \<times> ('c, 's) session) option"
      and lib co po s rs
    assume IH: "\<And>lib co po s rs. loop lib co po s = Some rs \<Longrightarrow> \<exists>log. kms_run lib co po s log (snd rs)"
      and eq: "(case handle_request lib co po s of
          (Inl f, self') \<Rightarrow> Some (Inl f, self')
        | (Inr b, self') \<Rightarrow> if b then loop lib co po self' else Some (Inr (), self')) = Some rs"
    obtain r1 s1 where h: "handle_request lib co po s = (r1, s1)" by fastforce
    show "\<exists>log. kms_run lib co po s log (snd rs)"
    proof (cases "snd rs = s1")
      case True
      with h show ?thesis using kms_run.request [OF kms_run.start h] by auto
    next
      case False
      with eq h have "loop lib co po s1 = Some rs"
        by (auto split: sum.splits if_splits)
      then obtain log where "kms_run lib co po s1 log (snd rs)" using IH by blast
      then show ?thesis using h by (rule prepend)
    qed
  qed
  from this [OF assms] show ?thesis by simp
qed

lemma subseq_set: "subseq xs ys \<Longrightarrow> set xs \<subseteq> set ys"
  by (induction rule: list_emb.induct) auto

lemma subseq_sorted: "subseq xs ys \<Longrightarrow> sorted ys \<Longrightarrow> sorted (xs :: 'a :: linorder list)"
  by (induction rule: list_emb.induct) (auto dest: subseq_set)

section \<open>Well-formed states\<close>

text \<open>
  The states that requests stand for: the step is that of a proposal, a prevote or a precommit, and the height fits
  an \<open>i64\<close>, as \<open>tendermint::block::Height\<close> guarantees for what the conversions of the requests return.
\<close>

definition wf_state :: "consensus_state \<Rightarrow> bool" where
  "wf_state cs \<longleftrightarrow> cs_step cs \<in> {0, 1, 2} \<and> valid_height (cs_height cs)"

definition heights_checked :: "tm_lib \<Rightarrow> bool" where
  "heights_checked lib \<longleftrightarrow>
     (\<forall>b req. sign_vote_try_from lib b = Inr req \<longrightarrow> valid_height (vote_height (svr_vote req)))
     \<and> (\<forall>b req. sign_proposal_try_from lib b = Inr req \<longrightarrow> valid_height (prop_height (spr_proposal req)))"

lemma decode_request_signs:
  assumes "decode_request lib msg = Inr request"
  shows "case request of
      SignVote req \<Rightarrow> \<exists>b. sign_vote_try_from lib b = Inr req
    | SignProposal req \<Rightarrow> \<exists>b. sign_proposal_try_from lib b = Inr req
    | _ \<Rightarrow> True"
proof -
  from assms obtain m where m: "decode_length_delimited lib msg = Inr m"
    by (auto simp: decode_request_def res_bind_eq_Inr map_err_eq_Inr)
  show ?thesis
  proof (cases m)
    case None
    with assms m show ?thesis by (simp add: decode_request_def)
  next
    case (Some sum)
    with assms m show ?thesis
      by (cases sum) (auto simp: decode_request_def res_bind_eq_Inr map_err_eq_Inr)
  qed
qed

lemma decoded_state_wf:
  assumes "heights_checked lib" "decode_request lib msg = Inr req" "request_state req = Some cs"
  shows "wf_state cs"
proof (cases req)
  case (SignProposal r)
  with assms decode_request_signs [OF assms(2)] show ?thesis
    by (auto simp: heights_checked_def wf_state_def State_from_proposal_def)
next
  case (SignVote r)
  with assms decode_request_signs [OF assms(2)] show ?thesis
    by (auto simp: heights_checked_def wf_state_def State_from_vote_def)
qed (use assms(3) in simp_all)

lemma handle_request_wf:
  assumes "heights_checked lib" "handle_request lib co po s = (r, s')" "wf_state (consensus_state (state s))"
  shows "wf_state (consensus_state (state s')) \<and> (\<forall>cs \<in> set (signs lib co po s). wf_state cs)"
proof (cases "Request_read lib co (connection s)")
  case (Pair rr conn)
  show ?thesis
  proof (cases rr)
    case (Inl e)
    with Pair assms(2,3) show ?thesis by (auto simp: handle_request_def signs_def)
  next
    case (Inr request)
    with Pair obtain msg where dec: "decode_request lib msg = Inr request"
      by (auto simp: Request_read_def split: prod.splits sum.splits)
    obtain r1 s1 where res: "respond lib po request (s\<lparr>connection := conn\<rparr>) = (r1, s1)" by fastforce
    have st: "state s' = state s1"
      using assms(2) Pair Inr res by (auto simp: handle_request_def split: sum.splits prod.splits)
    have signs: "signs lib co po s = (case r1 of Inl _ \<Rightarrow> [] | Inr resp \<Rightarrow>
        (case signed_state resp of None \<Rightarrow> [] | Some cs \<Rightarrow> [cs]))"
      using Pair Inr res by (simp add: signs_def)
    from res show ?thesis
      by (cases rule: respond_cases)
         (use st signs assms(3) decoded_state_wf [OF assms(1) dec] in \<open>auto split: sum.splits option.splits\<close>)
  qed
qed

section \<open>The persistence contract\<close>

text \<open>Persisting a list of states, one after the other.\<close>

fun persist_all :: "'s persist_state_sync \<Rightarrow> consensus_state list \<Rightarrow> 's \<Rightarrow> (sync_failure + unit) \<times> 's" where
  "persist_all ops [] s = (Inr (), s)"
| "persist_all ops (cs # css) s = st_bind (persist_state ops s cs) (\<lambda>_ s'. persist_all ops css s') id"

locale durable_persistence =
  fixes ops :: "'s persist_state_sync"
    and stored :: "'s \<Rightarrow> consensus_state option"
    and invar :: "'s \<Rightarrow> bool"
  assumes persist_Inr:
      "invar s \<Longrightarrow> persist_state ops s cs = (Inr u, s') \<Longrightarrow> stored s' = Some cs \<and> invar s'"
    and persist_Inl:
      "invar s \<Longrightarrow> persist_state ops s cs = (Inl e, s') \<Longrightarrow> stored s' = stored s \<and> invar s'"
    and load_Inr:
      "invar s \<Longrightarrow> load_state ops s = (Inr st, s') \<Longrightarrow>
         stored s' = Some (consensus_state st) \<and> invar s'
         \<and> (stored s = None \<or> stored s = Some (consensus_state st))"
    and load_Inl:
      "invar s \<Longrightarrow> load_state ops s = (Inl e, s') \<Longrightarrow> stored s' = stored s \<and> invar s'"
begin

definition synced :: "('c, 's) session \<Rightarrow> bool" where
  "synced s \<longleftrightarrow> invar (state_syncer s) \<and> stored (state_syncer s) = Some (consensus_state (state s))"

lemma synced_after_load:
  "invar sy \<Longrightarrow> load_state ops sy = (Inr st, sy') \<Longrightarrow> synced (session_new cfg conn key st sy')"
  using load_Inr by (simp add: synced_def session_new_def)

lemma handle_request_synced:
  assumes "handle_request lib co ops s = (r, s')" "synced s"
  shows "synced s'"
  using assms(1)
proof (cases rule: handle_request_cases)
  case untouched
  with assms(2) show ?thesis by (simp add: synced_def)
next
  case (accepted cs)
  with assms(2) show ?thesis by (auto simp: synced_def dest: persist_Inr)
next
  case (unpersisted cs e)
  with assms(2) show ?thesis by (auto simp: synced_def dest: persist_Inl)
qed

lemma run_invariant:
  assumes "kms_run lib co ops s0 log s" "synced s0"
  shows "synced s \<and> (\<exists>full. follows (consensus_state (state s0)) full \<and> subseq log full
           \<and> last (consensus_state (state s0) # full) = consensus_state (state s))"
  using assms
proof (induction rule: kms_run.induct)
  case start
  then show ?case by (auto intro: exI [of _ "[]"])
next
  case (request log s r s')
  then obtain full where full: "follows (consensus_state (state s0)) full" "subseq log full"
      "last (consensus_state (state s0) # full) = consensus_state (state s)" by blast
  from request have "synced s'" using handle_request_synced by blast
  from request(2) show ?case
  proof (cases rule: handle_request_cases)
    case untouched
    with full \<open>synced s'\<close> show ?thesis by (intro conjI exI [of _ full]) simp_all
  next
    case (accepted cs)
    then have "follows (consensus_state (state s0)) (full @ [cs])"
      using full by (simp add: follows_snoc)
    moreover have "subseq (signs lib co ops s) [cs]" using accepted(5) by auto
    then have "subseq (log @ signs lib co ops s) (full @ [cs])"
      by (rule list_emb_append_mono [OF full(2)])
    moreover have "last (consensus_state (state s0) # full @ [cs]) = consensus_state (state s')"
      using accepted(4) by simp
    ultimately show ?thesis using \<open>synced s'\<close> by blast
  next
    case (unpersisted cs e)
    with full \<open>synced s'\<close> show ?thesis by (intro conjI exI [of _ full]) simp_all
  qed
next
  case (reconnect log s conn)
  then show ?case by (simp add: reset_connection_def synced_def)
next
  case (restart log s st sy cfg conn key)
  then have sy: "invar (state_syncer s)" "stored (state_syncer s) = Some (consensus_state (state s))"
    by (simp_all add: synced_def)
  then have "consensus_state st = consensus_state (state s)"
    using load_Inr [OF sy(1) restart(2)] by simp
  moreover have "synced (session_new cfg conn key st sy)"
    using sy(1) restart(2) by (rule synced_after_load)
  ultimately show ?case using restart.IH restart.prems by (simp add: session_new_def)
next
  case (failed_restart log s e sy)
  then have sy: "invar (state_syncer s)" "stored (state_syncer s) = Some (consensus_state (state s))"
    by (simp_all add: synced_def)
  with load_Inl [OF sy(1) failed_restart(2)] failed_restart.IH failed_restart.prems
  show ?case by (simp add: synced_def)
qed

lemma run_well_formed:
  assumes "kms_run lib co ops s0 log s" "synced s0" "heights_checked lib" "wf_state (consensus_state (state s0))"
  shows "wf_state (consensus_state (state s)) \<and> (\<forall>cs \<in> set log. wf_state cs)"
  using assms
proof (induction rule: kms_run.induct)
  case (request log s r s')
  with handle_request_wf [of lib co ops s r s'] show ?case by auto
next
  case (restart log s st sy cfg conn key)
  then have "synced s" using run_invariant by blast
  then have "consensus_state st = consensus_state (state s)"
    using load_Inr [OF _ restart(2)] by (simp add: synced_def)
  with restart show ?case by (simp add: session_new_def)
qed (simp_all add: reset_connection_def)

lemma run_never_double_signs:
  assumes "kms_run lib co ops s0 log s" "synced s0"
  shows "sorted (map position log) \<and> pairwise (\<lambda>a b. \<not> double_sign a b) (set log)
         \<and> (\<forall>a\<in>set log. position a \<le> position (consensus_state (state s)))"
proof -
  let ?l = "consensus_state (state s0)"
  from run_invariant [OF assms] obtain full where full: "follows ?l full" "subseq log full"
      "last (?l # full) = consensus_state (state s)" by blast
  have sub: "set log \<subseteq> set full" using full(2) by (rule subseq_set)
  have srt: "sorted (map position (?l # full))" using full(1) by (rule follows_sorted)
  have "subseq (map position log) (map position full)" using full(2) by (rule subseq_map)
  then have "sorted (map position log)" by (rule subseq_sorted) (use srt in simp)
  moreover have "pairwise (\<lambda>a b. \<not> double_sign a b) (set log)"
    using follows_no_double_sign [OF full(1)] sub by (auto simp: pairwise_def)
  moreover have "\<forall>a\<in>set log. position a \<le> position (consensus_state (state s))"
    using follows_last_max [OF full(1)] sub full(3) by auto
  ultimately show ?thesis by blast
qed

end

end
