(* ===== verification/Enclave_Base.thy ===== *)
theory Enclave_Base
  imports Kms_Run Connection
begin

text \<open>
  What the Nitro and the SGX enclave programs share: the network as the outcome of every connection
  attempt, boxed connections, the loop that keeps a session going over new connections, and the
  fact that one lifetime of an enclave never signs conflicting states, whatever its persistence
  does.
\<close>

section \<open>The network\<close>

type_synonym node_id = bytes

text \<open>\<open>tendermint_config::net::Address\<close>\<close>

datatype address = Tcp "node_id option" string u16 | Unix path

text \<open>
  The outcome of the \<open>n\<close>-th attempt: \<open>TcpStream::connect\<close>, \<open>VsockStream::connect\<close> and the handshake of \<open>SecretConnection::new\<close>; \<open>'x\<close> is a secret
  connection.
\<close>

record 'x net =
  tcp_connect :: "nat \<Rightarrow> string \<Rightarrow> io_error + sock"
  vsock_connect :: "nat \<Rightarrow> u32 \<Rightarrow> u32 \<Rightarrow> io_error + sock"
  secret_new :: "nat \<Rightarrow> sock \<Rightarrow> signing_key \<Rightarrow> tm_error + 'x"
  secret_peer_id :: "'x \<Rightarrow> node_id"
  secret_ops :: "'x connection_ops"

text \<open>\<open>Box<dyn Connection>\<close> and its dispatch.\<close>

datatype 'x boxed = BoxPlain plain_connection | BoxSecret 'x

definition boxed_ops :: "'x net \<Rightarrow> 'x boxed connection_ops" where
  "boxed_ops net =
     \<lparr>conn_read = (\<lambda>n c. case c of
          BoxPlain p \<Rightarrow> (case plain_read n p of (r, p') \<Rightarrow> (r, BoxPlain p'))
        | BoxSecret x \<Rightarrow> (case conn_read (secret_ops net) n x of (r, x') \<Rightarrow> (r, BoxSecret x'))),
      conn_write_all = (\<lambda>b c. case c of
          BoxPlain p \<Rightarrow> (case plain_write_all b p of (r, p') \<Rightarrow> (r, BoxPlain p'))
        | BoxSecret x \<Rightarrow> (case conn_write_all (secret_ops net) b x of (r, x') \<Rightarrow> (r, BoxSecret x')))\<rparr>"

section \<open>Retrying\<close>

text \<open>
  \<open>loop { if let Err(e) = conn { sleep } else { return conn.unwrap() } }\<close> over the attempts \<open>n, n + 1, ...\<close>; with the number of the
  next attempt.
\<close>

partial_function (option) retry_connect :: "(nat \<Rightarrow> io_error + 'c) \<Rightarrow> nat \<Rightarrow> ('c \<times> nat) option" where
  "retry_connect attempt n =
     (case attempt n of
        Inl e \<Rightarrow> retry_connect attempt (Suc n)
      | Inr c \<Rightarrow> Some (c, Suc n))"

lemma retry_connect_first:
  assumes "attempt (n + k) = Inr c" "\<And>i. i < k \<Longrightarrow> \<exists>e. attempt (n + i) = Inl e"
  shows "retry_connect attempt n = Some (c, Suc (n + k))"
  using assms
proof (induction k arbitrary: n)
  case 0
  then show ?case by (simp add: retry_connect.simps [of attempt n])
next
  case (Suc k)
  from Suc.prems(2) [of 0] obtain e where "attempt n = Inl e" by auto
  moreover have "retry_connect attempt (Suc n) = Some (c, Suc (Suc n + k))"
    using Suc.prems(1) Suc.prems(2) [of "Suc i" for i] by (intro Suc.IH) auto
  ultimately show ?case by (simp add: retry_connect.simps [of attempt n])
qed

lemma retry_connect_Some:
  assumes "retry_connect attempt n = Some (c, n')"
  shows "n < n' \<and> attempt (n' - 1) = Inr c"
proof -
  have "n < snd r \<and> attempt (snd r - 1) = Inr (fst r)" if "retry_connect attempt n = Some r" for r
  proof (rule retry_connect.raw_induct
      [where P = "\<lambda>attempt n r. n < snd r \<and> attempt (snd r - 1) = Inr (fst r)", OF _ that])
    fix loop :: "(nat \<Rightarrow> io_error + 'c) \<Rightarrow> nat \<Rightarrow> ('c \<times> nat) option" and attempt n r
    assume IH: "\<And>attempt n r. loop attempt n = Some r \<Longrightarrow> n < snd r \<and> attempt (snd r - 1) = Inr (fst r)"
      and eq: "(case attempt n of Inl e \<Rightarrow> loop attempt (Suc n) | Inr c \<Rightarrow> Some (c, Suc n)) = Some r"
    then show "n < snd r \<and> attempt (snd r - 1) = Inr (fst r)"
      by (auto split: sum.splits dest: IH)
  qed
  from this [OF assms] show ?thesis by simp
qed

section \<open>The session loop\<close>

text \<open>
  One round of \<open>loop { session.request_loop(); session.reset_connection(get_connection()) }\<close>: \<open>None\<close> when it does not return, a failure
  only for a panic.
\<close>

definition session_round ::
    "tm_lib \<Rightarrow> 'c connection_ops \<Rightarrow> 's persist_state_sync \<Rightarrow> (nat \<Rightarrow> ('c \<times> nat) option)
      \<Rightarrow> ('c, 's) session \<times> nat \<Rightarrow> (failure + ('c, 's) session \<times> nat) option" where
  "session_round lib co po get_conn sn =
     (case request_loop lib co po (fst sn) of
        None \<Rightarrow> None
      | Some (Inl (Panicked m), _) \<Rightarrow> Some (Inl (Panicked m))
      | Some (_, s') \<Rightarrow>
          map_option (\<lambda>(conn, n'). Inr (reset_connection conn s', n')) (get_conn (snd sn)))"

fun session_rounds ::
    "tm_lib \<Rightarrow> 'c connection_ops \<Rightarrow> 's persist_state_sync \<Rightarrow> (nat \<Rightarrow> ('c \<times> nat) option) \<Rightarrow> nat
      \<Rightarrow> ('c, 's) session \<times> nat \<Rightarrow> (failure + ('c, 's) session \<times> nat) option" where
  "session_rounds lib co po get_conn 0 sn = Some (Inr sn)"
| "session_rounds lib co po get_conn (Suc k) sn =
     (case session_round lib co po get_conn sn of
        Some (Inr sn') \<Rightarrow> session_rounds lib co po get_conn k sn'
      | r \<Rightarrow> r)"

text \<open>
  The same loop one request at a time, so that rounds in which \<open>request_loop\<close> never returns are included: after a call of \<open>handle_request\<close> the loop goes on, or \<open>request_loop\<close> returns and a new
  connection is made.  \<open>None\<close>: the program has panicked, or waits for a connection for ever.
\<close>

definition session_request ::
    "tm_lib \<Rightarrow> 'c connection_ops \<Rightarrow> 's persist_state_sync \<Rightarrow> (nat \<Rightarrow> ('c \<times> nat) option)
      \<Rightarrow> ('c, 's) session \<times> nat \<Rightarrow> (('c, 's) session \<times> nat) option" where
  "session_request lib co po get_conn sn =
     (case handle_request lib co po (fst sn) of
        (Inr True, s') \<Rightarrow> Some (s', snd sn)
      | (Inl (Panicked m), s') \<Rightarrow> None
      | (_, s') \<Rightarrow> map_option (\<lambda>(conn, n'). (reset_connection conn s', n')) (get_conn (snd sn)))"

text \<open>The states signed in the first \<open>k\<close> calls of \<open>handle_request\<close>, in order: all of them and no others.\<close>

fun session_trace ::
    "tm_lib \<Rightarrow> 'c connection_ops \<Rightarrow> 's persist_state_sync \<Rightarrow> (nat \<Rightarrow> ('c \<times> nat) option) \<Rightarrow> nat
      \<Rightarrow> ('c, 's) session \<times> nat \<Rightarrow> consensus_state list" where
  "session_trace lib co po get_conn 0 sn = []"
| "session_trace lib co po get_conn (Suc k) sn =
     signs lib co po (fst sn)
     @ (case session_request lib co po get_conn sn of
          Some sn' \<Rightarrow> session_trace lib co po get_conn k sn'
        | None \<Rightarrow> [])"

section \<open>One lifetime\<close>

text \<open>Requests and new connections, without restarts.\<close>

inductive session_run ::
    "tm_lib \<Rightarrow> 'c connection_ops \<Rightarrow> 's persist_state_sync \<Rightarrow> ('c, 's) session
      \<Rightarrow> consensus_state list \<Rightarrow> ('c, 's) session \<Rightarrow> bool"
  for lib co po where
  run_start: "session_run lib co po s [] s"
| run_request: "\<lbrakk> handle_request lib co po s = (r, s1); session_run lib co po s1 log s' \<rbrakk>
    \<Longrightarrow> session_run lib co po s (signs lib co po s @ log) s'"
| run_reconnect: "session_run lib co po (reset_connection conn s) log s' \<Longrightarrow> session_run lib co po s log s'"

inductive_cases session_run_cases: "session_run lib co po s log s'"

lemma session_run_trans:
  "session_run lib co po s log s1 \<Longrightarrow> session_run lib co po s1 log' s2 \<Longrightarrow>
     session_run lib co po s (log @ log') s2"
  by (induction rule: session_run.induct) (auto intro: session_run.intros)

lemma session_run_follows:
  assumes "session_run lib co po s log s'"
  shows "\<exists>full. follows (consensus_state (state s)) full \<and> subseq log full
           \<and> last (consensus_state (state s) # full) = consensus_state (state s')"
  using assms
proof (induction rule: session_run.induct)
  case (run_start s)
  then show ?case by (auto intro: exI [of _ "[]"])
next
  case (run_request s r s1 log s')
  then obtain full where full: "follows (consensus_state (state s1)) full" "subseq log full"
    "last (consensus_state (state s1) # full) = consensus_state (state s')" by blast
  from run_request(1) show ?case
  proof (cases rule: handle_request_cases)
    case untouched
    with full show ?thesis by (intro exI [of _ full]) simp
  next
    case (accepted cs)
    then have "subseq (signs lib co po s) [cs]" by auto
    then have "subseq (signs lib co po s @ log) ([cs] @ full)" using full(2) by (rule list_emb_append_mono)
    with accepted full show ?thesis by (intro exI [of _ "cs # full"]) simp
  next
    case (unpersisted cs e)
    with full show ?thesis by (intro exI [of _ full]) simp
  qed
next
  case (run_reconnect conn s log s')
  then show ?case by (simp add: reset_connection_def)
qed

lemma session_run_no_double_sign:
  assumes "session_run lib co po s log s'"
  shows "sorted (map position log) \<and> pairwise (\<lambda>a b. \<not> double_sign a b) (set log)"
proof -
  from session_run_follows [OF assms] obtain full where
    full: "follows (consensus_state (state s)) full" "subseq log full" by blast
  have "sorted (map position full)" using follows_sorted [OF full(1)] by simp
  then have "sorted (map position log)" using subseq_sorted [OF subseq_map [OF full(2)]] by blast
  moreover have "pairwise (\<lambda>a b. \<not> double_sign a b) (set log)"
    using follows_no_double_sign [OF full(1)] subseq_set [OF full(2)] by (auto simp: pairwise_def)
  ultimately show ?thesis ..
qed

text \<open>What the loop signs, from a session on: a sequence that follows the session's state.\<close>

lemma session_trace_run: "\<exists>s'. session_run lib co po (fst sn) (session_trace lib co po get_conn k sn) s'"
proof (induction k arbitrary: sn)
  case 0
  then show ?case by (auto intro: run_start)
next
  case (Suc k)
  obtain r s1 where h: "handle_request lib co po (fst sn) = (r, s1)" by fastforce
  show ?case
  proof (cases "session_request lib co po get_conn sn")
    case None
    then show ?thesis using run_request [OF h run_start] by auto
  next
    case (Some sn')
    with h have "fst sn' = s1 \<or> (\<exists>conn. fst sn' = reset_connection conn s1)"
      by (auto simp: session_request_def split: sum.splits bool.splits failure.splits)
    with Suc.IH [of sn'] have "\<exists>s'. session_run lib co po s1 (session_trace lib co po get_conn k sn') s'"
      by (metis run_reconnect)
    with Some show ?thesis using run_request [OF h] by auto
  qed
qed

lemma session_trace_no_double_sign:
  "sorted (map position (consensus_state (state s) # session_trace lib co po get_conn k (s, n)))
   \<and> pairwise (\<lambda>a b. \<not> double_sign a b) (set (consensus_state (state s) # session_trace lib co po get_conn k (s, n)))"
proof -
  let ?l = "consensus_state (state s)" and ?log = "session_trace lib co po get_conn k (s, n)"
  from session_trace_run [of lib co po "(s, n)" get_conn k] obtain s' where run: "session_run lib co po s ?log s'" by auto
  from session_run_follows [OF run] obtain full where full: "follows ?l full" "subseq ?log full" by blast
  have "\<forall>a \<in> set ?log. position ?l \<le> position a"
    using follows_from [OF full(1)] subseq_set [OF full(2)] by blast
  moreover have "pairwise (\<lambda>a b. \<not> double_sign a b) (set (?l # ?log))"
    using follows_no_double_sign [OF full(1)] subseq_set [OF full(2)] by (auto simp: pairwise_def)
  ultimately show ?thesis using session_run_no_double_sign [OF run] by simp
qed

text \<open>Completed rounds consist of such calls.\<close>

lemma request_loop_requests:
  assumes "request_loop lib co po s = Some (r, s')" "\<forall>m. r \<noteq> Inl (Panicked m)" "get_conn n = Some (conn, n')"
  shows "\<exists>k. repeat_step (session_request lib co po get_conn) k (s, n) = Some (reset_connection conn s', n')"
proof -
  let ?P = "\<lambda>lib co po s (rs :: (failure + unit) \<times> _). (\<forall>m. fst rs \<noteq> Inl (Panicked m)) \<longrightarrow>
    (\<exists>k. repeat_step (session_request lib co po get_conn) k (s, n) = Some (reset_connection conn (snd rs), n'))"
  have "?P lib co po s rs" if "request_loop lib co po s = Some rs" for rs
  proof (rule request_loop.raw_induct [where P = ?P, OF _ that], intro impI)
    fix loop lib co po s and rs :: "(failure + unit) \<times> _"
    assume IH: "\<And>lib co po s rs. loop lib co po s = Some rs \<Longrightarrow> ?P lib co po s rs"
      and eq: "(case handle_request lib co po s of
          (Inl f, self') \<Rightarrow> Some (Inl f, self')
        | (Inr b, self') \<Rightarrow> if b then loop lib co po self' else Some (Inr (), self')) = Some rs"
      and np: "\<forall>m. fst rs \<noteq> Inl (Panicked m)"
    obtain r1 s1 where h: "handle_request lib co po s = (r1, s1)" by fastforce
    show "\<exists>k. repeat_step (session_request lib co po get_conn) k (s, n) = Some (reset_connection conn (snd rs), n')"
    proof (cases "r1 = Inr True")
      case True
      with eq h have "loop lib co po s1 = Some rs" by simp
      from IH [OF this] np obtain k where
        "repeat_step (session_request lib co po get_conn) k (s1, n) = Some (reset_connection conn (snd rs), n')" by blast
      with True h show ?thesis by (intro exI [of _ "Suc k"]) (simp add: session_request_def)
    next
      case False
      with eq h np assms(3) have "session_request lib co po get_conn (s, n) = Some (reset_connection conn (snd rs), n')"
        by (auto simp: session_request_def split: sum.splits failure.splits if_splits)
      then show ?thesis by (intro exI [of _ 1]) simp
    qed
  qed
  from this [OF assms(1)] assms(2) show ?thesis by simp
qed

lemma session_rounds_requests:
  assumes "session_rounds lib co po get_conn j sn = Some (Inr sn')"
  shows "\<exists>k. repeat_step (session_request lib co po get_conn) k sn = Some sn'"
  using assms
proof (induction j arbitrary: sn)
  case 0
  then show ?case by (intro exI [of _ 0]) simp
next
  case (Suc j)
  then obtain sn1 where r: "session_round lib co po get_conn sn = Some (Inr sn1)"
    and rest: "session_rounds lib co po get_conn j sn1 = Some (Inr sn')"
    by (auto split: option.splits sum.splits)
  from r obtain f s2 conn where "request_loop lib co po (fst sn) = Some (f, s2)" "\<forall>m. f \<noteq> Inl (Panicked m)"
    "get_conn (snd sn) = Some (conn, snd sn1)" "fst sn1 = reset_connection conn s2"
    by (fastforce simp: session_round_def split: option.splits sum.splits failure.splits prod.splits)
  from request_loop_requests [where get_conn = get_conn, OF this(1-3)] this(4) obtain a where
    "repeat_step (session_request lib co po get_conn) a sn = Some sn1" by (metis prod.collapse)
  with Suc.IH [OF rest] show ?case by (metis repeat_step_add)
qed

end
