(* ===== verification/Utils.thy ===== *)
theory Utils
  imports Errors
begin

text \<open>
  \<open>src/utils.rs\<close>: how the public key is displayed, and the frames that the enclaves and their hosts
  exchange, a 16-bit little-endian length followed by the payload.  The framing is shown to
  carry every sequence of payloads over every chunking of the stream, which is stated once
  for any frame reader and writer (locale \<open>framed_channel\<close>) and interpreted on the code's two
  functions.
\<close>

section \<open>Displaying the public key\<close>

datatype pubkey_display = Base64 | Bech32

definition pubkey_display_from_str :: "string \<Rightarrow> string + pubkey_display" where
  "pubkey_display_from_str s =
     (if s = ''base64'' then Inr Base64
      else if s = ''bech32'' then Inr Bech32
      else Inl ''unknown display type'')"

text \<open>
  The encoders are functions of third-party crates: \<open>subtle_encoding\<close> and the node identifier of
  \<open>tendermint\<close> (\<open>None\<close> where the conversion refuses the key).
\<close>

record display_lib =
  bech32_encode :: "string \<Rightarrow> bytes \<Rightarrow> string"
  base64_encode :: "bytes \<Rightarrow> bytes"
  node_id :: "verification_key \<Rightarrow> string option"

text \<open>The lines printed, and whether the call returns or panics.\<close>

definition print_pubkey ::
    "display_lib \<Rightarrow> string option \<Rightarrow> pubkey_display option \<Rightarrow> verification_key
      \<Rightarrow> string list \<times> (panic + unit)" where
  "print_pubkey lib bech32_prefix ptype public =
     (case ptype of
        Some Bech32 \<Rightarrow>
          (let prefix = (case bech32_prefix of Some p \<Rightarrow> p | None \<Rightarrow> ''cosmosvalconspub'');
               data = [0x16, 0x24, 0xDE, 0x64, 0x20] @ public
           in ([''public key: '' @ bech32_encode lib prefix data], Inr ()))
      | _ \<Rightarrow>
          (let enc = base64_encode lib public
           in if \<not> utf8_valid enc then ([], Inl (Panic ''unwrap''))
              else (case node_id lib public of
                      None \<Rightarrow> ([''public key: '' @ text_of enc], Inl (Panic ''public key''))
                    | Some nid \<Rightarrow>
                        ([''public key: '' @ text_of enc, ''address: '' @ nid], Inr ()))))"

section \<open>Frames with a 16-bit length\<close>

text \<open>
  The loop of \<open>read_u16_payload\<close>: \<open>acc\<close> is \<open>state_raw[..total]\<close>.  Any error ends it, as does an
  empty read.
\<close>

function read_payload_loop :: "nat \<Rightarrow> bytes \<Rightarrow> sock \<Rightarrow> bytes \<times> sock" where
  "read_payload_loop l acc s =
     (case sock_read (l - length acc) s of
        (Inl e, s') \<Rightarrow> (acc, s')
      | (Inr bs, s') \<Rightarrow>
          (if bs = [] \<or> l \<le> length (acc @ bs) then (acc @ bs, s')
           else read_payload_loop l (acc @ bs) s'))"
  by pat_completeness auto
termination
  by (relation "measure (\<lambda>(l, acc, s). l - length acc)") (auto intro!: diff_less_mono2)

declare read_payload_loop.simps [simp del]

definition read_u16_payload :: "sock \<Rightarrow> (error + bytes) \<times> sock" where
  "read_u16_payload s =
     (case sock_read_exact 2 s of
        (Inl e, s') \<Rightarrow> (Inl (IoError ''Error reading length'' e), s')
      | (Inr len_b, s') \<Rightarrow>
          (let l = of_le_bytes len_b in
           if l > 0 then
             (case read_payload_loop l [] s' of
                (state_raw, s'') \<Rightarrow>
                  if length state_raw = 0
                  then (Inl (IoError ''Zero length'' (io_error_of UnexpectedEof)), s'')
                  else (Inr state_raw, s''))
           else (Inr [], s')))"

definition write_u16_payload :: "bytes \<Rightarrow> sock \<Rightarrow> (io_error + unit) \<times> sock" where
  "write_u16_payload data s =
     (if length data > 65535 then (Inl (io_error_of InvalidInput), s)
      else st_bind (sock_write_all (le_bytes 2 (length data)) s) (\<lambda>_ s1.
           st_bind (sock_write_all data s1) (\<lambda>_ s2. sock_flush s2) id) id)"

subsection \<open>The writer\<close>

text \<open>\<open>frame\<close> is what a payload looks like on the wire.\<close>

definition frame :: "bytes \<Rightarrow> bytes" where
  "frame data = le_bytes 2 (length data) @ data"

lemma write_u16_payload_Inr:
  assumes "write_u16_payload data s = (Inr u, s')"
  shows "length data \<le> 65535 \<and> sent s' = sent s @ frame data \<and> rx s' = rx s"
  using assms
  by (auto simp: write_u16_payload_def frame_def result_simps sock_flush_def
           dest!: sock_write_all_Inr split: if_splits)

lemma write_u16_payload_oversize:
  "length data > 65535 \<Longrightarrow> write_u16_payload data s = (Inl (io_error_of InvalidInput), s)"
  by (simp add: write_u16_payload_def)

lemma write_u16_payload_ideal:
  "length data \<le> 65535 \<Longrightarrow> wx s = [] \<Longrightarrow>
     write_u16_payload data s = (Inr (), s\<lparr>sent := sent s @ frame data\<rparr>)"
  by (simp add: write_u16_payload_def frame_def sock_flush_def)

subsection \<open>The reader\<close>

lemma read_payload_loop_bound:
  "length acc \<le> l \<Longrightarrow> length (fst (read_payload_loop l acc s)) \<le> l"
proof (induction l acc s rule: read_payload_loop.induct)
  case (1 l acc s)
  have "length bs \<le> l - length acc" if "sock_read (l - length acc) s = (Inr bs, s')" for bs s'
    using that by (auto simp: sock_read_def split: list.splits read_event.splits)
  with 1 show ?case
    by (auto simp: read_payload_loop.simps [of l acc s] split: prod.splits sum.splits)
qed

lemma read_payload_loop_clean:
  assumes "rx_clean (rx s)" "length acc < l" "l - length acc \<le> length (rx_bytes (rx s))"
  shows "\<exists>s'. read_payload_loop l acc s = (acc @ take (l - length acc) (rx_bytes (rx s)), s')
           \<and> rx_clean (rx s') \<and> rx_bytes (rx s') = drop (l - length acc) (rx_bytes (rx s))"
  using assms
proof (induction l acc s rule: read_payload_loop.induct)
  case (1 l acc s)
  let ?n = "l - length acc"
  have "0 < ?n" "rx_bytes (rx s) \<noteq> []" using "1.prems" by auto
  then obtain bs s1 where r: "sock_read ?n s = (Inr bs, s1)" and ne: "bs \<noteq> []"
    and le: "length bs \<le> ?n" and split: "rx_bytes (rx s) = bs @ rx_bytes (rx s1)"
    and cl: "rx_clean (rx s1)"
    using sock_read_split [of s ?n] "1.prems" by blast
  show ?case
  proof (cases "l \<le> length (acc @ bs)")
    case True
    then have "length bs = ?n" using le "1.prems" by auto
    with True r ne split cl show ?thesis by (simp add: read_payload_loop.simps [of l acc s])
  next
    case False
    with r ne have step: "read_payload_loop l acc s = read_payload_loop l (acc @ bs) s1"
      by (simp add: read_payload_loop.simps [of l acc s])
    have "\<exists>s'. read_payload_loop l (acc @ bs) s1
        = ((acc @ bs) @ take (l - length (acc @ bs)) (rx_bytes (rx s1)), s')
        \<and> rx_clean (rx s') \<and> rx_bytes (rx s') = drop (l - length (acc @ bs)) (rx_bytes (rx s1))"
      using "1.IH" [OF r [symmetric] refl] False ne cl "1.prems" split by auto
    with step split le show ?thesis by (auto simp: diff_diff_left)
  qed
qed

lemma read_u16_payload_frame:
  assumes "rx_clean (rx s)" "rx_bytes (rx s) = frame data @ rest" "length data \<le> 65535"
  shows "\<exists>s'. read_u16_payload s = (Inr data, s') \<and> rx_clean (rx s') \<and> rx_bytes (rx s') = rest"
proof -
  have "2 \<le> length (rx_bytes (rx s))" by (simp add: assms(2) frame_def)
  then obtain es where es: "read_exact_events 2 (rx s) = (Inr (take 2 (rx_bytes (rx s))), es)"
    and cl: "rx_clean es" and by_es: "rx_bytes es = drop 2 (rx_bytes (rx s))"
    using read_exact_clean [OF assms(1)] by blast
  define s1 where "s1 = s\<lparr>rx := es\<rparr>"
  have len: "take 2 (rx_bytes (rx s)) = le_bytes 2 (length data)"
    and body: "rx_bytes (rx s1) = data @ rest"
    using assms(2) by_es by (simp_all add: frame_def s1_def)
  have re: "sock_read_exact 2 s = (Inr (le_bytes 2 (length data)), s1)"
    using es len by (simp add: sock_read_exact_def s1_def)
  have l: "of_le_bytes (le_bytes 2 (length data)) = length data"
    using assms(3) by (intro of_le_bytes_le_bytes) simp
  show ?thesis
  proof (cases "data = []")
    case True
    then have z: "of_le_bytes (le_bytes 2 0) = 0" using l by simp
    show ?thesis using True re body cl by (simp add: read_u16_payload_def z s1_def)
  next
    case False
    then have "\<exists>s'. read_payload_loop (length data) [] s1 = (data, s') \<and> rx_clean (rx s')
        \<and> rx_bytes (rx s') = rest"
      using read_payload_loop_clean [of s1 "[]" "length data"] body cl by (auto simp: s1_def)
    with False re l show ?thesis by (auto simp: read_u16_payload_def)
  qed
qed

text \<open>Reading leaves the writing side of a socket alone.\<close>

lemma sock_read_sent: "sock_read n s = (r, s') \<Longrightarrow> sent s' = sent s \<and> wx s' = wx s"
  by (auto simp: sock_read_def split: list.splits read_event.splits)

lemma read_payload_loop_sent: "read_payload_loop l acc s = (r, s') \<Longrightarrow> sent s' = sent s \<and> wx s' = wx s"
proof (induction l acc s rule: read_payload_loop.induct)
  case (1 l acc s)
  then show ?case
    by (auto simp: read_payload_loop.simps [of l acc s] dest: sock_read_sent
             split: prod.splits sum.splits if_splits)
qed

lemma read_u16_payload_sent: "read_u16_payload s = (r, s') \<Longrightarrow> sent s' = sent s \<and> wx s' = wx s"
  by (auto simp: read_u16_payload_def sock_read_exact_def Let_def dest: read_payload_loop_sent
           split: prod.splits sum.splits if_splits)

text \<open>
  A stream that ends inside the payload: the loop stops at the empty read and returns what it
  has.
\<close>

lemma read_payload_loop_short:
  assumes "rx_clean (rx s)" "length acc + length (rx_bytes (rx s)) < l"
  shows "\<exists>s'. read_payload_loop l acc s = (acc @ rx_bytes (rx s), s') \<and> rx s' = []"
  using assms
proof (induction l acc s rule: read_payload_loop.induct)
  case (1 l acc s)
  let ?n = "l - length acc"
  show ?case
  proof (cases "rx s")
    case Nil
    then show ?thesis by (simp add: read_payload_loop.simps [of l acc s] sock_read_def)
  next
    case (Cons ev es)
    then have "rx_bytes (rx s) \<noteq> []" using "1.prems"(1) by (cases ev) auto
    moreover have "0 < ?n" using "1.prems"(2) by simp
    ultimately obtain bs s1 where r: "sock_read ?n s = (Inr bs, s1)" and ne: "bs \<noteq> []"
      and split: "rx_bytes (rx s) = bs @ rx_bytes (rx s1)" and cl: "rx_clean (rx s1)"
      using sock_read_split [of s ?n] "1.prems"(1) by blast
    have more: "\<not> l \<le> length (acc @ bs)" using "1.prems"(2) split by simp
    with r ne have "read_payload_loop l acc s = read_payload_loop l (acc @ bs) s1"
      by (simp add: read_payload_loop.simps [of l acc s])
    moreover have "\<exists>s'. read_payload_loop l (acc @ bs) s1 = ((acc @ bs) @ rx_bytes (rx s1), s')
        \<and> rx s' = []"
      using "1.IH" [OF r [symmetric] refl] ne more cl "1.prems"(2) split by simp
    ultimately show ?thesis by (simp add: split)
  qed
qed

section \<open>The frame channel\<close>

text \<open>
  Sending a list of payloads with a frame writer, and receiving \<open>n\<close> of them with a frame reader.
\<close>

fun send_all :: "(bytes \<Rightarrow> 'w \<Rightarrow> (io_error + unit) \<times> 'w) \<Rightarrow> bytes list \<Rightarrow> 'w \<Rightarrow> (io_error + unit) \<times> 'w" where
  "send_all wr [] w = (Inr (), w)"
| "send_all wr (d # ds) w = st_bind (wr d w) (\<lambda>_ w'. send_all wr ds w') id"

fun receive_n :: "('r \<Rightarrow> (error + bytes) \<times> 'r) \<Rightarrow> nat \<Rightarrow> 'r \<Rightarrow> (error + bytes list) \<times> 'r" where
  "receive_n rd 0 r = (Inr [], r)"
| "receive_n rd (Suc n) r =
     st_bind (rd r) (\<lambda>d r'. st_bind (receive_n rd n r') (\<lambda>ds r''. (Inr (d # ds), r'')) id) id"

locale framed_channel =
  fixes write_payload :: "bytes \<Rightarrow> 'w \<Rightarrow> (io_error + unit) \<times> 'w"
    and read_payload :: "'r \<Rightarrow> (error + bytes) \<times> 'r"
    and wire :: "bytes \<Rightarrow> bytes"
    and out :: "'w \<Rightarrow> bytes"
    and inp :: "'r \<Rightarrow> bytes"
    and clean :: "'r \<Rightarrow> bool"
  assumes write_ok:
      "write_payload d w = (Inr u, w') \<Longrightarrow> length d \<le> 65535 \<and> out w' = out w @ wire d"
    and read_ok:
      "clean r \<Longrightarrow> inp r = wire d @ rest \<Longrightarrow> length d \<le> 65535 \<Longrightarrow>
         \<exists>r'. read_payload r = (Inr d, r') \<and> clean r' \<and> inp r' = rest"
begin

lemma send_all_out:
  "send_all write_payload ds w = (Inr u, w') \<Longrightarrow>
     list_all (\<lambda>d. length d \<le> 65535) ds \<and> out w' = out w @ concat (map wire ds)"
  by (induction ds arbitrary: w) (auto simp: result_simps dest!: write_ok)

lemma receive_n_inp:
  assumes "clean r" "inp r = concat (map wire ds) @ rest" "list_all (\<lambda>d. length d \<le> 65535) ds"
  shows "\<exists>r'. receive_n read_payload (length ds) r = (Inr ds, r') \<and> clean r' \<and> inp r' = rest"
  using assms
proof (induction ds arbitrary: r)
  case (Cons d ds)
  then obtain r1 where r1: "read_payload r = (Inr d, r1)" "clean r1"
      "inp r1 = concat (map wire ds) @ rest"
    using read_ok [of r d "concat (map wire ds) @ rest"] by auto
  from Cons.IH [OF r1(2,3)] Cons.prems(3)
  obtain r2 where "receive_n read_payload (length ds) r1 = (Inr ds, r2)" "clean r2" "inp r2 = rest"
    by auto
  with r1 show ?case by simp
qed simp

lemma channel_roundtrip:
  assumes "send_all write_payload ds w = (Inr u, w')" "out w = []" "clean r" "inp r = out w' @ rest"
  shows "\<exists>r'. receive_n read_payload (length ds) r = (Inr ds, r') \<and> inp r' = rest"
  using send_all_out [OF assms(1)] receive_n_inp [OF assms(3), of ds rest] assms(2,4) by auto

end

interpretation u16: framed_channel write_u16_payload read_u16_payload frame sent
  "\<lambda>s. rx_bytes (rx s)" "\<lambda>s. rx_clean (rx s)"
  by unfold_locales (auto dest: write_u16_payload_Inr intro: read_u16_payload_frame)

text \<open>
  A pair of connected sockets: what one side sends is what the other side has to read, cut into
  any chunks.
\<close>

definition connected :: "sock \<Rightarrow> sock \<Rightarrow> bool" where
  "connected a b \<longleftrightarrow> rx_clean (rx b) \<and> rx_bytes (rx b) = sent a"

section \<open>Properties\<close>

text \<open>
  C7. Whatever the chunking of the stream: when every \<open>write_u16_payload\<close> of a list of
  payloads succeeded on a fresh socket, the peer's \<open>read_u16_payload\<close> returns exactly these payloads, in this
  order, and leaves nothing of them in the stream.
\<close>

theorem u16_payloads_roundtrip:
  assumes "send_all write_u16_payload ds a = (Inr (), a')"
    and "sent a = []"
    and "connected a' b"
  shows "\<exists>b'. receive_n read_u16_payload (length ds) b = (Inr ds, b') \<and> rx_bytes (rx b') = []"
  using u16.channel_roundtrip [of ds a "()" a' b "[]"] assms by (auto simp: connected_def)

theorem u16_payloads_roundtrip_witness:
  "\<exists>b'. receive_n read_u16_payload (length [[7, 8], [], [9 :: u8]])
      \<lparr>rx = [RData [2], RData [0, 7], RData [8, 0, 0, 1], RData [0], RData [9]], wx = [], sent = []\<rparr>
    = (Inr [[7, 8], [], [9]], b') \<and> rx_bytes (rx b') = []"
proof (rule u16_payloads_roundtrip)
  show "send_all write_u16_payload [[7, 8], [], [9]] \<lparr>rx = [], wx = [WAccept 1], sent = []\<rparr>
      = (Inr (), \<lparr>rx = [], wx = [], sent = [2, 0, 7, 8, 0, 0, 1, 0, 9]\<rparr>)"
    by (simp add: write_u16_payload_def sock_write_all_def sock_flush_def numeral_2_eq_2)
  show "connected \<lparr>rx = [], wx = [], sent = [2, 0, 7, 8, 0, 0, 1, 0, 9]\<rparr>
      \<lparr>rx = [RData [2], RData [0, 7], RData [8, 0, 0, 1], RData [0], RData [9]], wx = [], sent = []\<rparr>"
    by (simp add: connected_def)
qed simp

text \<open>
  \<open>write_u16_payload\<close> on every branch: a payload above 65535 bytes is refused as
  \<open>InvalidInput\<close> with nothing written; otherwise success means that exactly the frame of the
  payload was appended to the stream, and after an I/O error a prefix of the frame was.
\<close>

theorem write_u16_payload_spec:
  assumes "write_u16_payload data s = (r, s')"
  shows "if length data > 65535 then r = Inl (io_error_of InvalidInput) \<and> s' = s
         else (case r of
                 Inr _ \<Rightarrow> sent s' = sent s @ frame data
               | Inl _ \<Rightarrow> \<exists>out rest. frame data = out @ rest \<and> sent s' = sent s @ out)"
proof (cases "length data > 65535")
  case True
  with assms show ?thesis by (simp add: write_u16_payload_oversize)
next
  case False
  show ?thesis
  proof (cases r)
    case (Inr u)
    with False assms show ?thesis by (auto dest: write_u16_payload_Inr)
  next
    case (Inl e)
    with False assms consider
        "sock_write_all (le_bytes 2 (length data)) s = (Inl e, s')"
      | s1 where "sock_write_all (le_bytes 2 (length data)) s = (Inr (), s1)"
          "sock_write_all data s1 = (Inl e, s')"
      by (auto simp: write_u16_payload_def result_simps sock_flush_def)
    then have "\<exists>out rest. frame data = out @ rest \<and> sent s' = sent s @ out"
    proof cases
      case 1
      then obtain out rest where "le_bytes 2 (length data) = out @ rest" "sent s' = sent s @ out"
        using sock_write_all_sent by blast
      then show ?thesis by (intro exI [of _ out] exI [of _ "rest @ data"]) (simp add: frame_def)
    next
      case 2
      then obtain out rest where "data = out @ rest" "sent s' = sent s1 @ out"
        using sock_write_all_sent by blast
      with 2 show ?thesis
        by (intro exI [of _ "le_bytes 2 (length data) @ out"] exI [of _ rest])
           (auto simp: frame_def dest: sock_write_all_Inr)
    qed
    with Inl False show ?thesis by simp
  qed
qed

theorem write_u16_payload_spec_witness:
  "\<exists>out rest. frame [5, 6] = out @ rest
     \<and> sent \<lparr>rx = [], wx = [], sent = [2, 0, 5]\<rparr> = sent \<lparr>rx = [],
         wx = [WAccept 2, WAccept 1, WErr (io_error_of BrokenPipe)], sent = []\<rparr> @ out"
proof -
  have "write_u16_payload [5, 6]
          \<lparr>rx = [], wx = [WAccept 2, WAccept 1, WErr (io_error_of BrokenPipe)], sent = []\<rparr>
      = (Inl (io_error_of BrokenPipe), \<lparr>rx = [], wx = [], sent = [2, 0, 5]\<rparr>)"
    by (simp add: write_u16_payload_def sock_write_all_def numeral_2_eq_2)
  from write_u16_payload_spec [OF this] show ?thesis by simp
qed

text \<open>
  C34. A stream that ends inside a payload: \<open>read_u16_payload\<close> reports success with the
  shorter payload, although fewer bytes than announced arrived; only a payload of which nothing
  arrived is an error.
\<close>

theorem read_u16_payload_truncated:
  assumes "rx_clean (rx s)" and "rx_bytes (rx s) = le_bytes 2 n @ body"
    and "length body < n" and "n \<le> 65535"
  shows "fst (read_u16_payload s) =
           (if body = [] then Inl (IoError ''Zero length'' (io_error_of UnexpectedEof)) else Inr body)"
proof -
  have "2 \<le> length (rx_bytes (rx s))" by (simp add: assms(2))
  then obtain es where es: "read_exact_events 2 (rx s) = (Inr (take 2 (rx_bytes (rx s))), es)"
    and cl: "rx_clean es" and by_es: "rx_bytes es = drop 2 (rx_bytes (rx s))"
    using read_exact_clean [OF assms(1)] by blast
  have re: "sock_read_exact 2 s = (Inr (le_bytes 2 n), s\<lparr>rx := es\<rparr>)"
    using es assms(2) by (simp add: sock_read_exact_def)
  have l: "of_le_bytes (le_bytes 2 n) = n"
    using assms(4) by (intro of_le_bytes_le_bytes) simp
  obtain s' where "read_payload_loop n [] (s\<lparr>rx := es\<rparr>) = (body, s')"
    using read_payload_loop_short [of "s\<lparr>rx := es\<rparr>" "[]" n] cl by_es assms(2,3) by auto
  with re l assms(3) show ?thesis by (simp add: read_u16_payload_def)
qed

theorem read_u16_payload_truncated_witness:
  "fst (read_u16_payload \<lparr>rx = [RData [4, 0], RData [1, 2]], wx = [], sent = []\<rparr>) = Inr [1, 2]"
  using read_u16_payload_truncated
    [of "\<lparr>rx = [RData [4, 0], RData [1, 2]], wx = [], sent = []\<rparr>" 4 "[1, 2]"]
  by (simp add: numeral_2_eq_2)

end
