(* ===== verification/Remote_State.thy ===== *)
theory Remote_State
  imports Kms_Run State_Files Utils Concrete_Env
begin

text \<open>
  State kept outside an enclave: \<open>providers/nitro/nitro-enclave/src/nitro/state.rs\<close> and
  \<open>providers/sgx/sgx-app/src/sgx_app/state.rs\<close> send every accepted state as a frame to the host, where
  \<open>providers/nitro/nitro-helper/src/state.rs\<close> and \<open>providers/sgx/sgx-runner/src/state.rs\<close> write it to a file.  The two
  sides are the locales \<open>framed_persistence\<close> and \<open>state_host\<close>, together \<open>remote_state\<close>, which is interpreted for both
  providers: the host ends up with the last state the enclave persisted.  What the code does not
  ensure is stated too: a failing host is not noticed by the enclave, and a host loop never leaves
  a closed connection.
\<close>

section \<open>The enclave's side\<close>

text \<open>
  The only field of both \<open>StateHolder\<close>s is the connection; \<open>sh_json\<close> is \<open>serde_json\<close>, \<open>sh_display\<close> the text of an
  \<open>Error\<close>.
\<close>

record state_holder =
  state_conn :: sock
  sh_json :: state_json
  sh_display :: "error \<Rightarrow> string"

definition VSOCK_HOST_CID :: u32 where
  "VSOCK_HOST_CID = 3"

definition nitro_holder_new ::
    "state_json \<Rightarrow> (error \<Rightarrow> string) \<Rightarrow> (u32 \<Rightarrow> u32 \<Rightarrow> io_error + sock) \<Rightarrow> u32 \<Rightarrow> io_error + state_holder" where
  "nitro_holder_new js disp connect vsock_port =
     res_bind (connect VSOCK_HOST_CID vsock_port)
       (\<lambda>s. Inr \<lparr>state_conn = s, sh_json = js, sh_display = disp\<rparr>)"

definition nitro_load_state :: "state_holder \<Rightarrow> (sync_failure + State) \<times> state_holder" where
  "nitro_load_state self =
     (case read_u16_payload (state_conn self) of
        (Inl e, s) \<Rightarrow> (Inl (StateErr (SyncOtherError (sh_display self e))), self\<lparr>state_conn := s\<rparr>)
      | (Inr json_raw, s) \<Rightarrow>
          (case from_json (sh_json self) json_raw of
             Inl e \<Rightarrow> (Inl (StateErr (SyncEncDecError ''vsock'' e)), self\<lparr>state_conn := s\<rparr>)
           | Inr cs \<Rightarrow> (Inr (State_from cs), self\<lparr>state_conn := s\<rparr>)))"

definition nitro_persist_state ::
    "state_holder \<Rightarrow> consensus_state \<Rightarrow> (sync_failure + unit) \<times> state_holder" where
  "nitro_persist_state self new_state =
     (case to_json (sh_json self) new_state of
        Inl e \<Rightarrow> (Inl (StateErr (SyncEncDecError ''vsock'' e)), self)
      | Inr json_raw \<Rightarrow>
          (case write_u16_payload json_raw (state_conn self) of
             (Inl e, s) \<Rightarrow> (Inl (StateErr (SyncError ''vsock'' e)), self\<lparr>state_conn := s\<rparr>)
           | (Inr _, s) \<Rightarrow> (Inr (), self\<lparr>state_conn := s\<rparr>)))"

definition nitro_ops :: "state_holder persist_state_sync" where
  "nitro_ops = \<lparr>load_state = nitro_load_state, persist_state = nitro_persist_state\<rparr>"

definition sgx_holder_new ::
    "state_json \<Rightarrow> (error \<Rightarrow> string) \<Rightarrow> (string \<Rightarrow> io_error + sock) \<Rightarrow> io_error + state_holder" where
  "sgx_holder_new js disp connect =
     res_bind (connect ''state'') (\<lambda>s. Inr \<lparr>state_conn = s, sh_json = js, sh_display = disp\<rparr>)"

definition sgx_load_state :: "state_holder \<Rightarrow> (sync_failure + State) \<times> state_holder" where
  "sgx_load_state self =
     (case read_u16_payload (state_conn self) of
        (Inl e, s) \<Rightarrow> (Inl (StateErr (SyncOtherError (sh_display self e))), self\<lparr>state_conn := s\<rparr>)
      | (Inr json_raw, s) \<Rightarrow>
          (case from_json (sh_json self) json_raw of
             Inl e \<Rightarrow> (Inl (StateErr (SyncEncDecError ''error parsing state'' e)), self\<lparr>state_conn := s\<rparr>)
           | Inr cs \<Rightarrow> (Inr (State_from cs), self\<lparr>state_conn := s\<rparr>)))"

definition sgx_persist_state ::
    "state_holder \<Rightarrow> consensus_state \<Rightarrow> (sync_failure + unit) \<times> state_holder" where
  "sgx_persist_state self new_state =
     (case to_json (sh_json self) new_state of
        Inl e \<Rightarrow> (Inl (StateErr (SyncEncDecError ''error serializing state'' e)), self)
      | Inr json_raw \<Rightarrow>
          (case write_u16_payload json_raw (state_conn self) of
             (Inl e, s) \<Rightarrow>
               (Inl (StateErr (SyncError ''error state writing to socket'' e)), self\<lparr>state_conn := s\<rparr>)
           | (Inr _, s) \<Rightarrow> (Inr (), self\<lparr>state_conn := s\<rparr>)))"

definition sgx_ops :: "state_holder persist_state_sync" where
  "sgx_ops = \<lparr>load_state = sgx_load_state, persist_state = sgx_persist_state\<rparr>"

section \<open>The host's side\<close>

subsection \<open>The state file\<close>

record host_env =
  he_tempfile :: tempfile_lib
  he_json :: state_json

definition nitro_host_persist ::
    "host_env \<Rightarrow> path \<Rightarrow> consensus_state \<Rightarrow> fs \<Rightarrow> (sync_failure + unit) \<times> fs" where
  "nitro_host_persist env p new_state f =
     (case to_json (he_json env) new_state of
        Inl e \<Rightarrow> (Inl (StateErr (SyncEncDecError p e)), f)
      | Inr json \<Rightarrow>
          (case path_parent p of
             None \<Rightarrow> (Inl (SyncPanicked ''state file cannot be root directory''), f)
           | Some dir \<Rightarrow>
               st_map_err (\<lambda>e. StateErr (SyncError p e)) (replace_file (he_tempfile env) dir p json f)))"

definition nitro_write_initial_state ::
    "host_env \<Rightarrow> path \<Rightarrow> fs \<Rightarrow> (sync_failure + consensus_state) \<times> fs" where
  "nitro_write_initial_state env p f =
     st_bind (nitro_host_persist env p initial_consensus_state f)
       (\<lambda>_ f'. (Inr initial_consensus_state, f')) id"

definition sgx_host_persist ::
    "host_env \<Rightarrow> path \<Rightarrow> consensus_state \<Rightarrow> fs \<Rightarrow> (sync_failure + unit) \<times> fs" where
  "sgx_host_persist env p new_state f =
     (case to_json (he_json env) new_state of
        Inl e \<Rightarrow> (Inl (StateErr (SyncEncDecError p e)), f)
      | Inr json \<Rightarrow>
          (case path_parent p of
             None \<Rightarrow> (Inl (SyncPanicked ''state file cannot be root directory''), f)
           | Some dir \<Rightarrow>
               st_map_err (\<lambda>e. StateErr (SyncError p e)) (replace_file (he_tempfile env) dir p json f)))"

definition sgx_write_initial_state ::
    "host_env \<Rightarrow> path \<Rightarrow> fs \<Rightarrow> (sync_failure + consensus_state) \<times> fs" where
  "sgx_write_initial_state env p f =
     st_bind (sgx_host_persist env p initial_consensus_state f)
       (\<lambda>_ f'. (Inr initial_consensus_state, f')) id"

subsection \<open>The nitro syncer\<close>

record nitro_state_syncer =
  nss_path :: path
  nss_state :: consensus_state

text \<open>\<open>bind\<close> is \<open>VsockListener::bind\<close>; the listener itself is the list of its connections in \<open>nitro_launch_syncer\<close>.\<close>

definition nitro_syncer_new ::
    "host_env \<Rightarrow> (u32 \<Rightarrow> u32 \<Rightarrow> io_error + unit) \<Rightarrow> path \<Rightarrow> u32 \<Rightarrow> fs
      \<Rightarrow> (sync_failure + nitro_state_syncer) \<times> fs" where
  "nitro_syncer_new env bind p vsock_port f =
     st_bind
       (case fs_read_to_string p f of
          (Inr state_json, f') \<Rightarrow>
            (map_err (\<lambda>e. StateErr (SyncEncDecError p e)) (from_json (he_json env) state_json), f')
        | (Inl e, f') \<Rightarrow>
            if io_kind e = NotFound then nitro_write_initial_state env p f'
            else (Inl (StateErr (SyncError p e)), f'))
       (\<lambda>state f'. (res_bind (map_err (\<lambda>e. StateErr (SyncError ''vsock'' e)) (bind VSOCK_HOST_CID vsock_port))
          (\<lambda>_. Inr \<lparr>nss_path = p, nss_state = state\<rparr>), f')) id"

definition nitro_sync_to_stream ::
    "host_env \<Rightarrow> nitro_state_syncer \<Rightarrow> sock \<Rightarrow> (state_error + unit) \<times> sock" where
  "nitro_sync_to_stream env self stream =
     (case to_json (he_json env) (nss_state self) of
        Inl e \<Rightarrow> (Inl (SyncEncDecError ''vsock'' e), stream)
      | Inr json_raw \<Rightarrow> st_map_err (SyncError ''vsock'') (write_u16_payload json_raw stream))"

definition nitro_sync_from_stream :: "host_env \<Rightarrow> sock \<Rightarrow> (error + consensus_state) \<times> sock" where
  "nitro_sync_from_stream env stream =
     st_bind (read_u16_payload stream)
       (\<lambda>json_raw s. (map_err (io_error_wrap ''parse error'') (from_json (he_json env) json_raw), s)) id"

text \<open>
  \<open>TryRecvError\<close> and the answers of \<open>stop_recv.try_recv()\<close>, in order; after the last one the channel stays
  empty.
\<close>

datatype try_recv = RecvOk | RecvDisconnected | RecvEmpty

record nitro_sync_thread =
  nst_syncer :: nitro_state_syncer
  nst_fs :: fs
  nst_stream :: sock
  nst_stop :: "try_recv list"

definition stop_try_recv :: "try_recv list \<Rightarrow> try_recv \<times> try_recv list" where
  "stop_try_recv st = (case st of [] \<Rightarrow> (RecvEmpty, []) | x # r \<Rightarrow> (x, r))"

text \<open>How one round of the inner \<open>loop\<close> ends.\<close>

datatype loop_control = Continue | Return | ThreadPanic string

definition nitro_sync_round ::
    "host_env \<Rightarrow> nitro_sync_thread \<Rightarrow> loop_control \<times> nitro_sync_thread" where
  "nitro_sync_round env t =
     (case nitro_sync_from_stream env (nst_stream t) of
        (Inl e, s) \<Rightarrow> (Continue, t\<lparr>nst_stream := s\<rparr>)
      | (Inr cs, s) \<Rightarrow>
          (let self = (nst_syncer t)\<lparr>nss_state := cs\<rparr> in
           case nitro_host_persist env (nss_path self) cs (nst_fs t) of
             (Inl (SyncPanicked m), f) \<Rightarrow>
               (ThreadPanic m, t\<lparr>nst_syncer := self, nst_fs := f, nst_stream := s\<rparr>)
           | (_, f) \<Rightarrow>
               (case stop_try_recv (nst_stop t) of
                  (x, st) \<Rightarrow>
                    (if x = RecvEmpty then Continue else Return,
                     t\<lparr>nst_syncer := self, nst_fs := f, nst_stream := s, nst_stop := st\<rparr>))))"

partial_function (option) nitro_sync_loop ::
    "host_env \<Rightarrow> nitro_sync_thread \<Rightarrow> (loop_control \<times> nitro_sync_thread) option" where
  "nitro_sync_loop env t =
     (case nitro_sync_round env t of
        (Continue, t') \<Rightarrow> nitro_sync_loop env t'
      | (c, t') \<Rightarrow> Some (c, t'))"

text \<open>
  \<open>for conn in incoming()\<close>: \<open>Some Continue\<close> when all the connections given have been served and the thread
  waits for the next one.
\<close>

fun nitro_launch_syncer ::
    "host_env \<Rightarrow> (io_error + sock) list \<Rightarrow> nitro_state_syncer \<Rightarrow> fs \<Rightarrow> try_recv list
      \<Rightarrow> (loop_control \<times> nitro_state_syncer \<times> fs) option" where
  "nitro_launch_syncer env [] self f st = Some (Continue, self, f)"
| "nitro_launch_syncer env (Inl e # conns) self f st = nitro_launch_syncer env conns self f st"
| "nitro_launch_syncer env (Inr stream # conns) self f st =
     (case nitro_sync_to_stream env self stream of
        (Inl e, _) \<Rightarrow> nitro_launch_syncer env conns self f st
      | (Inr _, s) \<Rightarrow>
          map_option (\<lambda>(c, t). (c, nst_syncer t, nst_fs t))
            (nitro_sync_loop env \<lparr>nst_syncer = self, nst_fs = f, nst_stream = s, nst_stop = st\<rparr>))"

subsection \<open>The SGX syncer\<close>

record sgx_state_syncer =
  sss_path :: path
  sss_stream :: sock
  sss_display :: "error \<Rightarrow> string"

definition sgx_syncer_new ::
    "host_env \<Rightarrow> (error \<Rightarrow> string) \<Rightarrow> path \<Rightarrow> sock \<Rightarrow> fs
      \<Rightarrow> (sync_failure + sgx_state_syncer \<times> consensus_state) \<times> fs" where
  "sgx_syncer_new env disp p stream_to_enclave f =
     st_bind
       (case fs_read_to_string p f of
          (Inr state_json, f') \<Rightarrow>
            (map_err (\<lambda>e. StateErr (SyncEncDecError ''error parsing'' e))
               (from_json (he_json env) state_json), f')
        | (Inl e, f') \<Rightarrow>
            if io_kind e = NotFound then sgx_write_initial_state env p f'
            else (Inl (StateErr (SyncError p e)), f'))
       (\<lambda>state f'. (Inr (\<lparr>sss_path = p, sss_stream = stream_to_enclave, sss_display = disp\<rparr>, state), f')) id"

definition sgx_sync_from_stream ::
    "host_env \<Rightarrow> sgx_state_syncer \<Rightarrow> (state_error + consensus_state) \<times> sgx_state_syncer" where
  "sgx_sync_from_stream env self =
     (case read_u16_payload (sss_stream self) of
        (Inl e, s) \<Rightarrow> (Inl (SyncOtherError (sss_display self e)), self\<lparr>sss_stream := s\<rparr>)
      | (Inr json_raw, s) \<Rightarrow>
          (map_err (SyncEncDecError ''failed to deserialize state'') (from_json (he_json env) json_raw),
           self\<lparr>sss_stream := s\<rparr>))"

definition sgx_sync_round ::
    "host_env \<Rightarrow> sgx_state_syncer \<times> fs \<Rightarrow> loop_control \<times> sgx_state_syncer \<times> fs" where
  "sgx_sync_round env t =
     (case sgx_sync_from_stream env (fst t) of
        (Inl e, self) \<Rightarrow> (Continue, self, snd t)
      | (Inr cs, self) \<Rightarrow>
          (case sgx_host_persist env (sss_path self) cs (snd t) of
             (Inl (SyncPanicked m), f) \<Rightarrow> (ThreadPanic m, self, f)
           | (_, f) \<Rightarrow> (Continue, self, f)))"

partial_function (option) sgx_launch_syncer ::
    "host_env \<Rightarrow> sgx_state_syncer \<times> fs \<Rightarrow> (loop_control \<times> sgx_state_syncer \<times> fs) option" where
  "sgx_launch_syncer env t =
     (case sgx_sync_round env t of
        (Continue, t') \<Rightarrow> sgx_launch_syncer env t'
      | (c, t') \<Rightarrow> Some (c, t'))"

section \<open>The link between enclave and host\<close>

text \<open>The frame of a state, when it can be serialised and fits.\<close>

definition state_frame :: "state_json \<Rightarrow> consensus_state \<Rightarrow> bytes option" where
  "state_frame js cs =
     (case to_json js cs of
        Inl _ \<Rightarrow> None
      | Inr b \<Rightarrow> if length b \<le> 65535 then Some (frame b) else None)"

definition state_frames :: "state_json \<Rightarrow> consensus_state list \<Rightarrow> bytes" where
  "state_frames js css = concat (map (\<lambda>cs. the (state_frame js cs)) css)"

text \<open>The sending side: a successful \<open>persist_state\<close> put exactly the state's frame on the wire.\<close>

locale framed_persistence =
  fixes ops :: "'s persist_state_sync"
    and conn :: "'s \<Rightarrow> sock"
    and json :: "'s \<Rightarrow> state_json"
  assumes persist_frame:
    "persist_state ops s cs = (Inr u, s') \<Longrightarrow>
       state_frame (json s) cs \<noteq> None \<and> json s' = json s
       \<and> sent (conn s') = sent (conn s) @ the (state_frame (json s) cs)"
begin

lemma persist_all_frames:
  "persist_all ops css s = (Inr u, s') \<Longrightarrow>
     list_all (\<lambda>cs. state_frame (json s) cs \<noteq> None) css \<and> json s' = json s
     \<and> sent (conn s') = sent (conn s) @ state_frames (json s) css"
proof (induction css arbitrary: s)
  case (Cons cs css)
  from Cons.prems obtain v s1 where p: "persist_state ops s cs = (Inr v, s1)"
    and r: "persist_all ops css s1 = (Inr u, s')"
    by (auto simp: result_simps)
  from Cons.IH [OF r] persist_frame [OF p] show ?case by (simp add: state_frames_def)
qed (simp add: state_frames_def)

end

text \<open>The receiving side: one round of the loop stores the state whose frame comes next.\<close>

locale state_host =
  fixes step_round :: "'h \<Rightarrow> 'h option"
    and incoming :: "'h \<Rightarrow> bytes"
    and ready :: "'h \<Rightarrow> bool"
    and holds :: "'h \<Rightarrow> consensus_state \<Rightarrow> bool"
    and host_json :: "'h \<Rightarrow> state_json"
  assumes step_stores:
    "ready h \<Longrightarrow> state_frame (host_json h) cs = Some b \<Longrightarrow> incoming h = b @ rest \<Longrightarrow>
       \<exists>h'. step_round h = Some h' \<and> ready h' \<and> incoming h' = rest \<and> holds h' cs
            \<and> host_json h' = host_json h"
begin

lemma rounds_store:
  assumes "ready h" "list_all (\<lambda>cs. state_frame (host_json h) cs \<noteq> None) css"
    and "incoming h = state_frames (host_json h) css @ rest"
  shows "\<exists>h'. repeat_step step_round (length css) h = Some h' \<and> ready h' \<and> incoming h' = rest
           \<and> host_json h' = host_json h \<and> (css \<noteq> [] \<longrightarrow> holds h' (last css))"
  using assms
proof (induction css arbitrary: h)
  case (Cons cs css)
  then obtain b where b: "state_frame (host_json h) cs = Some b" by auto
  have "incoming h = b @ state_frames (host_json h) css @ rest"
    using Cons.prems(3) b by (simp add: state_frames_def)
  from step_stores [OF Cons.prems(1) b this] obtain h1 where h1: "step_round h = Some h1" "ready h1"
    "incoming h1 = state_frames (host_json h) css @ rest" "holds h1 cs" "host_json h1 = host_json h"
    by blast
  from Cons.IH [of h1] h1 Cons.prems(2) obtain h2 where
    "repeat_step step_round (length css) h1 = Some h2" "ready h2" "incoming h2 = rest"
    "host_json h2 = host_json h" "css \<noteq> [] \<longrightarrow> holds h2 (last css)"
    by auto
  with h1 show ?case by (cases css) auto
qed (simp add: state_frames_def)

end

locale remote_state =
  framed_persistence ops conn json + state_host step_round incoming ready holds host_json
  for ops :: "'s persist_state_sync" and conn :: "'s \<Rightarrow> sock" and json :: "'s \<Rightarrow> state_json"
    and step_round :: "'h \<Rightarrow> 'h option" and incoming ready holds
    and host_json :: "'h \<Rightarrow> state_json"
begin

lemma host_follows:
  assumes "persist_all ops css s = (Inr u, s')" "sent (conn s) = []" "css \<noteq> []"
    and "ready h" "incoming h = sent (conn s')" "host_json h = json s"
  shows "\<exists>h'. repeat_step step_round (length css) h = Some h' \<and> ready h' \<and> incoming h' = []
           \<and> holds h' (last css)"
  using persist_all_frames [OF assms(1)] rounds_store [OF assms(4), of css "[]"] assms by auto

end

subsection \<open>The two enclaves send frames\<close>

lemma nitro_persist_Inr:
  "nitro_persist_state s cs = (Inr u, s') \<Longrightarrow>
     state_frame (sh_json s) cs \<noteq> None \<and> sh_json s' = sh_json s
     \<and> sent (state_conn s') = sent (state_conn s) @ the (state_frame (sh_json s) cs)"
  by (auto simp: nitro_persist_state_def state_frame_def split: sum.splits prod.splits
           dest: write_u16_payload_Inr)

lemma sgx_persist_Inr:
  "sgx_persist_state s cs = (Inr u, s') \<Longrightarrow>
     state_frame (sh_json s) cs \<noteq> None \<and> sh_json s' = sh_json s
     \<and> sent (state_conn s') = sent (state_conn s) @ the (state_frame (sh_json s) cs)"
  by (auto simp: sgx_persist_state_def state_frame_def split: sum.splits prod.splits
           dest: write_u16_payload_Inr)

subsection \<open>The two hosts store frames\<close>

text \<open>A host whose disk works.\<close>

definition disk_ready :: "host_env \<Rightarrow> path \<Rightarrow> fs \<Rightarrow> bool" where
  "disk_ready env p f \<longleftrightarrow>
     tempfile_ok (he_tempfile env) \<and> replaceable (he_tempfile env) p \<and> json_ok (he_json env) \<and> faults f = []"

lemma sgx_host_persist_nitro: "sgx_host_persist = nitro_host_persist"
  by (intro ext) (simp only: sgx_host_persist_def nitro_host_persist_def)

lemma nitro_host_persist_ready:
  assumes "disk_ready env p f" "to_json (he_json env) cs = Inr b"
  shows "\<exists>f'. nitro_host_persist env p cs f = (Inr (), f') \<and> disk_ready env p f'
           \<and> state_written (he_json env) p f' cs"
proof -
  from assms(1) obtain dir f' where dir: "path_parent p = Some dir"
    and r: "replace_file (he_tempfile env) dir p b f = (Inr (), f')"
    unfolding disk_ready_def replaceable_def by blast
  from assms(1) have "tempfile_ok (he_tempfile env)" by (simp add: disk_ready_def)
  from replace_file_Inr [OF this r] assms dir r show ?thesis
    by (auto simp: nitro_host_persist_def disk_ready_def state_written_def)
qed

definition nitro_step :: "host_env \<times> nitro_sync_thread \<Rightarrow> (host_env \<times> nitro_sync_thread) option" where
  "nitro_step h =
     (case nitro_sync_round (fst h) (snd h) of (Continue, t) \<Rightarrow> Some (fst h, t) | _ \<Rightarrow> None)"

definition nitro_ready :: "host_env \<times> nitro_sync_thread \<Rightarrow> bool" where
  "nitro_ready h \<longleftrightarrow> disk_ready (fst h) (nss_path (nst_syncer (snd h))) (nst_fs (snd h))
     \<and> rx_clean (rx (nst_stream (snd h))) \<and> nst_stop (snd h) = []"

definition nitro_holds :: "host_env \<times> nitro_sync_thread \<Rightarrow> consensus_state \<Rightarrow> bool" where
  "nitro_holds h cs \<longleftrightarrow> nss_state (nst_syncer (snd h)) = cs
     \<and> state_written (he_json (fst h)) (nss_path (nst_syncer (snd h))) (nst_fs (snd h)) cs"

lemma nitro_step_stores:
  assumes "nitro_ready h" "state_frame (he_json (fst h)) cs = Some b"
    and "rx_bytes (rx (nst_stream (snd h))) = b @ rest"
  shows "\<exists>h'. nitro_step h = Some h' \<and> nitro_ready h' \<and> rx_bytes (rx (nst_stream (snd h'))) = rest
           \<and> nitro_holds h' cs \<and> he_json (fst h') = he_json (fst h)"
proof -
  obtain env t where h: "h = (env, t)" by (cases h)
  from assms(2) h obtain j where j: "to_json (he_json env) cs = Inr j" "length j \<le> 65535" "b = frame j"
    by (auto simp: state_frame_def split: sum.splits if_splits)
  from assms(1) h have ready: "disk_ready env (nss_path (nst_syncer t)) (nst_fs t)"
    "rx_clean (rx (nst_stream t))" "nst_stop t = []" by (simp_all add: nitro_ready_def)
  have rb: "rx_bytes (rx (nst_stream t)) = frame j @ rest" using assms(3) h j(3) by simp
  from read_u16_payload_frame [OF ready(2) rb j(2)] obtain s where
    s: "read_u16_payload (nst_stream t) = (Inr j, s)" "rx_clean (rx s)" "rx_bytes (rx s) = rest"
    by blast
  from nitro_host_persist_ready [OF ready(1) j(1)] obtain f where
    f: "nitro_host_persist env (nss_path (nst_syncer t)) cs (nst_fs t) = (Inr (), f)"
    "disk_ready env (nss_path (nst_syncer t)) f" "state_written (he_json env) (nss_path (nst_syncer t)) f cs"
    by blast
  have js: "from_json (he_json env) j = Inr cs"
    using ready(1) j(1) by (auto simp: disk_ready_def json_ok_def)
  show ?thesis
    using h s f js ready(3)
    by (simp add: nitro_step_def nitro_sync_round_def nitro_sync_from_stream_def stop_try_recv_def
        nitro_ready_def nitro_holds_def Let_def)
qed

definition sgx_step ::
    "host_env \<times> sgx_state_syncer \<times> fs \<Rightarrow> (host_env \<times> sgx_state_syncer \<times> fs) option" where
  "sgx_step h = (case sgx_sync_round (fst h) (snd h) of (Continue, t) \<Rightarrow> Some (fst h, t) | _ \<Rightarrow> None)"

definition sgx_ready :: "host_env \<times> sgx_state_syncer \<times> fs \<Rightarrow> bool" where
  "sgx_ready h \<longleftrightarrow> (case h of (env, self, f) \<Rightarrow>
     disk_ready env (sss_path self) f \<and> rx_clean (rx (sss_stream self)))"

definition sgx_holds :: "host_env \<times> sgx_state_syncer \<times> fs \<Rightarrow> consensus_state \<Rightarrow> bool" where
  "sgx_holds h cs \<longleftrightarrow> (case h of (env, self, f) \<Rightarrow> state_written (he_json env) (sss_path self) f cs)"

lemma sgx_step_stores:
  assumes "sgx_ready h" "state_frame (he_json (fst h)) cs = Some b"
    and "rx_bytes (rx (sss_stream (fst (snd h)))) = b @ rest"
  shows "\<exists>h'. sgx_step h = Some h' \<and> sgx_ready h' \<and> rx_bytes (rx (sss_stream (fst (snd h')))) = rest
           \<and> sgx_holds h' cs \<and> he_json (fst h') = he_json (fst h)"
proof -
  obtain env self fs0 where h: "h = (env, self, fs0)" by (cases h)
  from assms(2) h obtain j where j: "to_json (he_json env) cs = Inr j" "length j \<le> 65535" "b = frame j"
    by (auto simp: state_frame_def split: sum.splits if_splits)
  from assms(1) h have ready: "disk_ready env (sss_path self) fs0" "rx_clean (rx (sss_stream self))"
    by (simp_all add: sgx_ready_def)
  have rb: "rx_bytes (rx (sss_stream self)) = frame j @ rest" using assms(3) h j(3) by simp
  from read_u16_payload_frame [OF ready(2) rb j(2)] obtain s where
    s: "read_u16_payload (sss_stream self) = (Inr j, s)" "rx_clean (rx s)" "rx_bytes (rx s) = rest"
    by blast
  from nitro_host_persist_ready [OF ready(1) j(1)] obtain f where
    f: "nitro_host_persist env (sss_path self) cs fs0 = (Inr (), f)"
    "disk_ready env (sss_path self) f" "state_written (he_json env) (sss_path self) f cs"
    by blast
  have js: "from_json (he_json env) j = Inr cs"
    using ready(1) j(1) by (auto simp: disk_ready_def json_ok_def)
  show ?thesis
    using h s f js
    by (simp add: sgx_step_def sgx_sync_round_def sgx_sync_from_stream_def sgx_host_persist_nitro
        sgx_ready_def sgx_holds_def)
qed

interpretation nitro_link: remote_state nitro_ops state_conn sh_json nitro_step
  "\<lambda>h. rx_bytes (rx (nst_stream (snd h)))" nitro_ready nitro_holds "\<lambda>h. he_json (fst h)"
  using nitro_step_stores by unfold_locales (auto simp: nitro_ops_def dest: nitro_persist_Inr)

interpretation sgx_link: remote_state sgx_ops state_conn sh_json sgx_step
  "\<lambda>h. rx_bytes (rx (sss_stream (fst (snd h))))" sgx_ready sgx_holds "\<lambda>h. he_json (fst h)"
  using sgx_step_stores by unfold_locales (auto simp: sgx_ops_def dest: sgx_persist_Inr)

subsection \<open>Restarts\<close>

lemma repeat_step_kept:
  assumes "repeat_step stp n h = Some h'" "\<And>h h'. stp h = Some h' \<Longrightarrow> g h' = g h"
  shows "g h' = g h"
  using assms(1)
proof (induction n arbitrary: h)
  case (Suc n)
  then obtain h1 where "stp h = Some h1" "repeat_step stp n h1 = Some h'"
    by (auto simp: Option.bind_eq_Some_conv)
  with Suc.IH assms(2) show ?case by metis
qed simp

lemma nitro_step_kept:
  "nitro_step h = Some h' \<Longrightarrow>
     (fst h', nss_path (nst_syncer (snd h'))) = (fst h, nss_path (nst_syncer (snd h)))"
  by (auto simp: nitro_step_def nitro_sync_round_def Let_def
           split: prod.splits sum.splits loop_control.splits sync_failure.splits if_splits)

lemma nitro_steps_kept:
  assumes "repeat_step nitro_step n h = Some h'"
  shows "fst h' = fst h \<and> nss_path (nst_syncer (snd h')) = nss_path (nst_syncer (snd h))"
proof -
  have "(\<lambda>h. (fst h, nss_path (nst_syncer (snd h)))) h' = (\<lambda>h. (fst h, nss_path (nst_syncer (snd h)))) h"
    by (rule repeat_step_kept [OF assms]) (use nitro_step_kept in blast)
  then show ?thesis by simp
qed

lemma nitro_syncer_new_loads:
  assumes "disk_ready env p f" "state_written (he_json env) p f cs" "bind VSOCK_HOST_CID port = Inr ()"
  shows "\<exists>f'. nitro_syncer_new env bind p port f = (Inr \<lparr>nss_path = p, nss_state = cs\<rparr>, f')"
proof -
  from assms(2) obtain b where b: "to_json (he_json env) cs = Inr b" "files f p = Some b"
    by (auto simp: state_written_def)
  with assms(1) have "utf8_valid b" "from_json (he_json env) b = Inr cs"
    by (auto simp: disk_ready_def json_ok_def)
  with assms b show ?thesis
    by (simp add: nitro_syncer_new_def fs_read_to_string_def fs_read_def next_fault_def disk_ready_def)
qed

lemma sgx_syncer_new_loads:
  assumes "disk_ready env p f" "state_written (he_json env) p f cs"
  shows "\<exists>self f'. sgx_syncer_new env disp p stream f = (Inr (self, cs), f')"
proof -
  from assms(2) obtain b where b: "to_json (he_json env) cs = Inr b" "files f p = Some b"
    by (auto simp: state_written_def)
  with assms(1) have "utf8_valid b" "from_json (he_json env) b = Inr cs"
    by (auto simp: disk_ready_def json_ok_def)
  with assms b show ?thesis
    by (simp add: sgx_syncer_new_def fs_read_to_string_def fs_read_def next_fault_def disk_ready_def)
qed

lemma nitro_initial_sync:
  assumes "json_ok (he_json env)" "state_frame (he_json env) (nss_state self) \<noteq> None"
    and "wx stream = []" "sent stream = []"
    and "nitro_sync_to_stream env self stream = (r, s)" "connected s (state_conn g)" "sh_json g = he_json env"
  shows "\<exists>g'. nitro_load_state g = (Inr (State_from (nss_state self)), g')"
proof -
  from assms(2) obtain b where b: "to_json (he_json env) (nss_state self) = Inr b" "length b \<le> 65535"
    by (auto simp: state_frame_def split: sum.splits if_splits)
  with assms(3-5) have "sent s = frame b"
    by (auto simp: nitro_sync_to_stream_def write_u16_payload_ideal)
  with assms(6) b(2) obtain s' where "read_u16_payload (state_conn g) = (Inr b, s')"
    using read_u16_payload_frame [of "state_conn g" b "[]"] by (auto simp: connected_def)
  moreover have "from_json (he_json env) b = Inr (nss_state self)"
    using assms(1) b by (auto simp: json_ok_def)
  ultimately show ?thesis using assms(7) by (simp add: nitro_load_state_def)
qed

text \<open>What a syncer's file holds is what the next enclave gets from a syncer started anew on it.\<close>

lemma nitro_stored_resumes:
  assumes "nitro_ready (env, t)" "nitro_holds (env, t) cs" "state_frame (he_json env) cs \<noteq> None"
    and "bind VSOCK_HOST_CID port = Inr ()" "wx stream = []" "sent stream = []"
  shows "\<exists>self f s. nitro_syncer_new env bind (nss_path (nst_syncer t)) port (nst_fs t) = (Inr self, f)
    \<and> nitro_sync_to_stream env self stream = (Inr (), s)
    \<and> (\<forall>g. connected s (state_conn g) \<and> sh_json g = he_json env \<longrightarrow>
         (\<exists>g'. nitro_load_state g = (Inr (State_from cs), g')))"
proof -
  let ?p = "nss_path (nst_syncer t)" and ?self = "\<lparr>nss_path = nss_path (nst_syncer t), nss_state = cs\<rparr>"
  have ready: "disk_ready env ?p (nst_fs t)" "state_written (he_json env) ?p (nst_fs t) cs"
    using assms(1,2) by (simp_all add: nitro_ready_def nitro_holds_def)
  obtain f where f: "nitro_syncer_new env bind ?p port (nst_fs t) = (Inr ?self, f)"
    using nitro_syncer_new_loads [of env ?p "nst_fs t" cs bind port] ready assms(4) by blast
  from assms(3) obtain s where s: "nitro_sync_to_stream env ?self stream = (Inr (), s)"
    using assms(5) by (auto simp: nitro_sync_to_stream_def state_frame_def write_u16_payload_ideal
                            split: sum.splits if_splits)
  have "json_ok (he_json env)" using ready(1) by (simp add: disk_ready_def)
  with nitro_initial_sync [OF _ _ assms(5,6) s] assms(3)
  have "\<exists>g'. nitro_load_state g = (Inr (State_from cs), g')" if "connected s (state_conn g)" "sh_json g = he_json env" for g
    using that by simp
  with f s show ?thesis by blast
qed

subsection \<open>Loops that do not end\<close>

lemma nitro_sync_round_stuck:
  assumes "rx (nst_stream t) = [] \<or> (nst_stop t = [] \<and> path_parent (nss_path (nst_syncer t)) \<noteq> None)"
  shows "\<exists>t'. nitro_sync_round env t = (Continue, t')
           \<and> (rx (nst_stream t') = [] \<or> (nst_stop t' = [] \<and> path_parent (nss_path (nst_syncer t')) \<noteq> None))"
proof (cases "rx (nst_stream t) = []")
  case True
  then show ?thesis
    by (simp add: nitro_sync_round_def nitro_sync_from_stream_def read_u16_payload_def sock_read_exact_def)
next
  case False
  with assms have st: "nst_stop t = []" and p: "path_parent (nss_path (nst_syncer t)) \<noteq> None" by auto
  have np: "nitro_host_persist env (nss_path (nst_syncer t)) cs f \<noteq> (Inl (SyncPanicked m), f')" for cs f m f'
    using p by (auto simp: nitro_host_persist_def result_simps split: sum.splits)
  show ?thesis
    using st p np
    by (auto simp: nitro_sync_round_def stop_try_recv_def Let_def
             split: prod.splits sum.splits sync_failure.splits)
qed

lemma nitro_sync_loop_stuck:
  assumes "rx (nst_stream t) = [] \<or> (nst_stop t = [] \<and> path_parent (nss_path (nst_syncer t)) \<noteq> None)"
  shows "nitro_sync_loop env t = None"
proof -
  let ?P = "\<lambda>t. rx (nst_stream t) = [] \<or> (nst_stop t = [] \<and> path_parent (nss_path (nst_syncer t)) \<noteq> None)"
  have "\<not> ?P t" if "nitro_sync_loop env t = Some r" for r
  proof (rule nitro_sync_loop.raw_induct [where P = "\<lambda>env t r. \<not> ?P t", OF _ that])
    fix loop env t r
    assume IH: "\<And>env t r. loop env t = Some r \<Longrightarrow> \<not> ?P t"
      and eq: "(case nitro_sync_round env t of (Continue, t') \<Rightarrow> loop env t'
                | (c, t') \<Rightarrow> Some (c, t')) = Some r"
    show "\<not> ?P t"
    proof
      assume "?P t"
      then obtain t' where "nitro_sync_round env t = (Continue, t')" "?P t'"
        using nitro_sync_round_stuck by blast
      with IH [of env t' r] eq show False by simp
    qed
  qed
  with assms show ?thesis by (cases "nitro_sync_loop env t") auto
qed

section \<open>Properties\<close>

text \<open>Concrete surroundings for the applications.\<close>

definition demo_env :: host_env where
  "demo_env = \<lparr>he_tempfile = demo_tempfile, he_json = demo_json\<rparr>"

definition demo_vote_state :: consensus_state where
  "demo_vote_state = \<lparr>cs_height = 5, cs_round = 0, cs_step = 1, cs_block_id = Some [7]\<rparr>"

definition demo_bytes :: bytes where
  "demo_bytes = concat (map nib (demo_raw demo_vote_state))"

definition demo_syncer :: nitro_state_syncer where
  "demo_syncer = \<lparr>nss_path = ''state/s.json'', nss_state = initial_consensus_state\<rparr>"

definition demo_thread :: "io_error option list \<Rightarrow> nitro_sync_thread" where
  "demo_thread flts = \<lparr>nst_syncer = demo_syncer, nst_fs = \<lparr>files = (\<lambda>_. None), faults = flts\<rparr>,
     nst_stream = \<lparr>rx = [RData (frame demo_bytes)], wx = [], sent = []\<rparr>, nst_stop = []\<rparr>"

lemma length_nibs: "length (concat (map nib bs)) = 2 * length bs"
  by (induction bs) (simp_all add: nib_def)

lemma demo_bytes_facts:
  "to_json demo_json demo_vote_state = Inr demo_bytes" "from_json demo_json demo_bytes = Inr demo_vote_state"
  "length demo_bytes = 30" "frame demo_bytes \<noteq> []"
proof -
  show "to_json demo_json demo_vote_state = Inr demo_bytes" by (simp add: demo_json_def demo_bytes_def)
  show "from_json demo_json demo_bytes = Inr demo_vote_state" by (simp only: demo_bytes_def demo_json_from)
  show "length demo_bytes = 30"
    by (simp only: demo_bytes_def length_nibs) (simp add: demo_raw_def demo_vote_state_def)
  show "frame demo_bytes \<noteq> []" by (simp add: frame_def numeral_2_eq_2)
qed

lemma demo_env_json [simp]: "he_json demo_env = demo_json" by (simp add: demo_env_def)

lemma demo_disk_ready: "disk_ready demo_env ''state/s.json'' \<lparr>files = fl, faults = []\<rparr>"
  by (simp add: disk_ready_def demo_env_def demo_tempfile_ok demo_replaceable demo_json_ok path_parent_def)

text \<open>
  C35. The host's syncer thread in Nitro, once it has sent the state on a connection: as long as no stop signal comes, or
  as soon as the enclave has closed the connection (whatever stop signals are waiting), it never returns from the
  inner loop, so it neither serves another connection nor stops.
\<close>

theorem nitro_syncer_never_leaves_connection:
  assumes "nitro_sync_to_stream env self stream = (Inr (), s)"
    and "rx stream = [] \<or> (st = [] \<and> path_parent (nss_path self) \<noteq> None)"
  shows "nitro_launch_syncer env (Inr stream # conns) self f st = None"
proof -
  have "rx s = rx stream"
    using assms(1)
    by (auto simp: nitro_sync_to_stream_def result_simps split: sum.splits dest: write_u16_payload_Inr)
  then have "nitro_sync_loop env \<lparr>nst_syncer = self, nst_fs = f, nst_stream = s, nst_stop = st\<rparr> = None"
    using assms(2) by (intro nitro_sync_loop_stuck) auto
  with assms(1) show ?thesis by simp
qed

theorem nitro_syncer_never_leaves_connection_witness:
  "nitro_launch_syncer demo_env [Inr \<lparr>rx = [], wx = [], sent = []\<rparr>]
     \<lparr>nss_path = ''state/s.json'', nss_state = demo_vote_state\<rparr> \<lparr>files = (\<lambda>_. None), faults = []\<rparr> [RecvOk] = None"
  by (rule nitro_syncer_never_leaves_connection [of _ _ _ "\<lparr>rx = [], wx = [], sent = frame demo_bytes\<rparr>"])
     (simp_all add: nitro_sync_to_stream_def demo_env_def demo_bytes_facts write_u16_payload_ideal)

text \<open>
  C36. When the host cannot replace the state file for a state it received, the syncer goes on: nothing is sent back to the
  enclave, for which that state is persisted, while the file still holds the previous one, so that a restart loads
  a state older than one already signed.
\<close>

theorem nitro_host_failure_is_silent:
  assumes "nitro_sync_from_stream env (nst_stream t) = (Inr cs, s)"
    and "to_json (he_json env) cs = Inr b" and "path_parent (nss_path (nst_syncer t)) = Some dir"
    and "replace_file (he_tempfile env) dir (nss_path (nst_syncer t)) b (nst_fs t) = (Inl e, f)"
    and "reliable (he_tempfile env) (he_json env) (nss_path (nst_syncer t)) (nst_fs t)"
    and "nst_stop t = []"
  shows "\<exists>t'. nitro_sync_round env t = (Continue, t') \<and> sent (nst_stream t') = sent (nst_stream t)
    \<and> nss_state (nst_syncer t') = cs
    \<and> state_in_file (he_json env) (nss_path (nst_syncer t')) (nst_fs t')
        = state_in_file (he_json env) (nss_path (nst_syncer t)) (nst_fs t)"
proof -
  have "sent s = sent (nst_stream t)"
    using assms(1)
    by (auto simp: nitro_sync_from_stream_def result_simps map_err_eq_Inr dest: read_u16_payload_sent)
  with assms replace_file_reliable_Inl [OF assms(5,4)] show ?thesis
    by (simp add: nitro_sync_round_def nitro_host_persist_def stop_try_recv_def Let_def)
qed

text \<open>A disk on which no temporary file can be created.\<close>

definition full_tempfile :: tempfile_lib where
  "full_tempfile = demo_tempfile\<lparr>tf_new_in := (\<lambda>dir f. (Inl (io_error_of Other), f))\<rparr>"

theorem nitro_host_failure_is_silent_witness:
  "\<exists>t'. nitro_sync_round \<lparr>he_tempfile = full_tempfile, he_json = demo_json\<rparr> (demo_thread []) = (Continue, t')
     \<and> nss_state (nst_syncer t') = demo_vote_state
     \<and> state_in_file demo_json ''state/s.json'' (nst_fs t') = None"
proof -
  let ?env = "\<lparr>he_tempfile = full_tempfile, he_json = demo_json\<rparr>"
  obtain s where rd: "read_u16_payload (nst_stream (demo_thread [])) = (Inr demo_bytes, s)"
    using read_u16_payload_frame [of "nst_stream (demo_thread [])" demo_bytes "[]"]
    by (auto simp: demo_thread_def demo_bytes_facts)
  then have "nitro_sync_from_stream ?env (nst_stream (demo_thread [])) = (Inr demo_vote_state, s)"
    by (simp add: nitro_sync_from_stream_def demo_bytes_facts)
  moreover have "reliable full_tempfile demo_json ''state/s.json'' \<lparr>files = (\<lambda>_. None), faults = []\<rparr>"
    by (simp add: reliable_def tempfile_ok_def full_tempfile_def demo_tempfile_def same_named_def
        demo_json_ok no_spurious_not_found_def)
  ultimately have "\<exists>t'. nitro_sync_round ?env (demo_thread []) = (Continue, t')
      \<and> sent (nst_stream t') = sent (nst_stream (demo_thread [])) \<and> nss_state (nst_syncer t') = demo_vote_state
      \<and> state_in_file (he_json ?env) (nss_path (nst_syncer t')) (nst_fs t')
        = state_in_file (he_json ?env) (nss_path (nst_syncer (demo_thread []))) (nst_fs (demo_thread []))"
    by (intro nitro_host_failure_is_silent [of _ _ _ s demo_bytes "''state''" "io_error_of Other"
          "\<lparr>files = (\<lambda>_. None), faults = []\<rparr>"])
       (simp_all add: demo_bytes_facts path_parent_def demo_thread_def demo_syncer_def replace_file_def
         full_tempfile_def)
  then obtain t' where t': "nitro_sync_round ?env (demo_thread []) = (Continue, t')"
    "nss_state (nst_syncer t') = demo_vote_state"
    "state_in_file demo_json (nss_path (nst_syncer t')) (nst_fs t') = None"
    by (auto simp: demo_thread_def demo_syncer_def state_in_file_def)
  moreover have "nss_path (nst_syncer t') = ''state/s.json''"
    using t'(1) nitro_step_kept [of "(?env, demo_thread [])" "(?env, t')"]
    by (simp add: nitro_step_def demo_thread_def demo_syncer_def)
  ultimately show ?thesis by auto
qed

end
