(* ===== verification/Log_Layer.thy ===== *)
theory Log_Layer
  imports Std_IO
begin

text \<open>
  \<open>providers/nitro/nitro-helper/src/tracing_layer.rs\<close>: how the enclave writes a log event into a buffer of key-value fields, and how the
  host reads it back; and what \<open>providers/nitro/nitro-helper/src/enclave_log_server.rs\<close> does with one buffer.  Slices are checked, so that an index out of range
  would show as a panic.  The lemmas show that a buffer of well-formed fields is read back field by
  field, and that the only panic of the reader is the one for a \<open>PRIORITY\<close> value whose length is not 1.
\<close>

section \<open>Writing\<close>

datatype level = ERROR | WARN | INFO | DEBUG | TRACE

text \<open>\<open>Metadata\<close> of an event or a span.\<close>

record metadata =
  md_level :: level
  md_target :: bytes
  md_file :: "bytes option"
  md_line :: "nat option"

record log_layer =
  layer_cid :: u32
  layer_local_port :: u32
  field_prefix :: "bytes option"

definition layer_new :: "u32 \<Rightarrow> u32 \<Rightarrow> log_layer" where
  "layer_new cid local_port = \<lparr>layer_cid = cid, layer_local_port = local_port, field_prefix = None\<rparr>"

definition with_field_prefix :: "bytes option \<Rightarrow> log_layer \<Rightarrow> log_layer" where
  "with_field_prefix x self = self\<lparr>field_prefix := x\<rparr>"

definition put_value :: "bytes \<Rightarrow> bytes \<Rightarrow> bytes" where
  "put_value buf val = buf @ le_bytes 8 (length val) @ val @ [10]"

definition put_field :: "bytes \<Rightarrow> bytes \<Rightarrow> bytes \<Rightarrow> bytes" where
  "put_field buf name val = put_value (buf @ name @ [10]) val"

definition is_ascii_alphanumeric :: "u8 \<Rightarrow> bool" where
  "is_ascii_alphanumeric c \<longleftrightarrow>
     in_range 48 57 c \<or> in_range 65 90 c \<or> in_range 97 122 c"

definition to_ascii_uppercase :: "u8 \<Rightarrow> u8" where
  "to_ascii_uppercase c = (if in_range 97 122 c then c - 32 else c)"

definition sanitize_name :: "bytes \<Rightarrow> bytes" where
  "sanitize_name name =
     map to_ascii_uppercase
       (filter (\<lambda>c. c = 95 \<or> is_ascii_alphanumeric c)
         (dropWhile (\<lambda>c. c = 95) (map (\<lambda>c. if c = 46 then 95 else c) name)))"

text \<open>The value is already the text of its \<open>Debug\<close> form; the length tag is filled in afterwards.\<close>

definition put_debug :: "bytes \<Rightarrow> bytes \<Rightarrow> bytes \<Rightarrow> bytes" where
  "put_debug buf name val =
     (let buf1 = buf @ sanitize_name name @ [10] @ replicate 8 0;
          start = length buf1;
          buf2 = buf1 @ val;
          stop = length buf2
      in take (start - 8) buf2 @ le_bytes 8 (stop - start) @ drop start buf2 @ [10])"

definition get_raw_level :: "level \<Rightarrow> bytes" where
  "get_raw_level l = (case l of ERROR \<Rightarrow> [51] | WARN \<Rightarrow> [52] | INFO \<Rightarrow> [53] | DEBUG \<Rightarrow> [54] | TRACE \<Rightarrow> [55])"

definition put_metadata :: "bytes \<Rightarrow> metadata \<Rightarrow> nat option \<Rightarrow> bytes" where
  "put_metadata buf meta span =
     (let pre = (case span of None \<Rightarrow> [] | Some n \<Rightarrow> as_bytes ''S'' @ dec_bytes n @ as_bytes ''_'');
          buf1 = (if span = None then put_field buf (as_bytes ''PRIORITY'') (get_raw_level (md_level meta)) else buf);
          buf2 = put_field (buf1 @ pre) (as_bytes ''TARGET'') (md_target meta);
          buf3 = (case md_file meta of
                    None \<Rightarrow> buf2 | Some f \<Rightarrow> put_field (buf2 @ pre) (as_bytes ''CODE_FILE'') f)
      in case md_line meta of
           None \<Rightarrow> buf3
         | Some l \<Rightarrow> put_field (buf3 @ pre) (as_bytes ''CODE_LINE'') (dec_bytes l))"

text \<open>\<open>EventVisitor::record_debug\<close> and \<open>SpanVisitor::record_debug\<close> for a field name and the text of its value.\<close>

definition event_record :: "bytes option \<Rightarrow> bytes \<Rightarrow> bytes \<times> bytes \<Rightarrow> bytes" where
  "event_record prefix buf field =
     (let buf1 = (case prefix of
                    Some p \<Rightarrow> if fst field \<noteq> as_bytes ''message'' then buf @ p @ [95] else buf
                  | None \<Rightarrow> buf)
      in put_debug buf1 (fst field) (snd field))"

definition span_record :: "bytes option \<Rightarrow> nat \<Rightarrow> bytes \<Rightarrow> bytes \<times> bytes \<Rightarrow> bytes" where
  "span_record prefix depth buf field =
     (let buf1 = buf @ as_bytes ''S'' @ dec_bytes depth;
          buf2 = (case prefix of Some p \<Rightarrow> buf1 @ p | None \<Rightarrow> buf1)
      in put_debug (buf2 @ [95]) (fst field) (snd field))"

text \<open>\<open>on_new_span\<close>: the stored buffer of a span; \<open>on_record\<close> extends it; \<open>on_event\<close>: the buffer sent for an event inside the given spans, root first.\<close>

definition on_new_span :: "log_layer \<Rightarrow> nat \<Rightarrow> bytes \<Rightarrow> metadata \<Rightarrow> (bytes \<times> bytes) list \<Rightarrow> bytes" where
  "on_new_span self depth name meta attrs =
     foldl (span_record (field_prefix self) depth)
       (put_metadata (put_value (as_bytes ''S'' @ dec_bytes depth @ as_bytes ''_NAME'' @ [10]) name) meta (Some depth))
       attrs"

definition on_record :: "log_layer \<Rightarrow> nat \<Rightarrow> (bytes \<times> bytes) list \<Rightarrow> bytes \<Rightarrow> bytes" where
  "on_record self depth vals buf = foldl (span_record (field_prefix self) depth) buf vals"

definition on_event :: "log_layer \<Rightarrow> bytes list \<Rightarrow> metadata \<Rightarrow> (bytes \<times> bytes) list \<Rightarrow> bytes" where
  "on_event self spans meta flds =
     foldl (event_record (field_prefix self)) (put_metadata (concat spans) meta None) flds"

section \<open>Reading\<close>

definition get_log_level :: "bytes \<Rightarrow> io_error + level" where
  "get_log_level raw_level =
     (if raw_level = [51] then Inr ERROR else if raw_level = [52] then Inr WARN
      else if raw_level = [53] then Inr INFO else if raw_level = [54] then Inr DEBUG
      else if raw_level = [55] then Inr TRACE else Inl (io_error_of InvalidData))"

record log_entry =
  log_level :: level
  log_target :: bytes
  log_code_file :: bytes
  log_code_line :: nat
  log_message :: bytes
  log_debug :: "bytes \<Rightarrow> bytes option"

definition log_default :: log_entry where
  "log_default = \<lparr>log_level = TRACE, log_target = [], log_code_file = [], log_code_line = 0,
     log_message = [], log_debug = (\<lambda>_. None)\<rparr>"

text \<open>\<open>order\<close> is the order in which the hash map yields its keys.\<close>

definition log_format :: "bytes list \<Rightarrow> log_entry \<Rightarrow> bytes" where
  "log_format order self =
     foldl (\<lambda>s k. case log_debug self k of
              Some v \<Rightarrow> s @ as_bytes '', '' @ k @ as_bytes ''='' @ v | None \<Rightarrow> s)
       (as_bytes ''['' @ log_target self @ as_bytes ''] '' @ log_code_file self @ as_bytes '':''
          @ dec_bytes (log_code_line self) @ as_bytes '' '' @ log_message self) order"

text \<open>
  \<open>lower\<close> is \<open>str::to_lowercase\<close>.  \<open>copy_from_slice\<close> into the one-byte buffer panics for any other length.
\<close>

definition log_update :: "(bytes \<Rightarrow> bytes) \<Rightarrow> bytes \<Rightarrow> bytes \<Rightarrow> log_entry \<Rightarrow> panic + log_entry" where
  "log_update lower key_raw value_raw self =
     (if \<not> utf8_valid key_raw then Inr self
      else if key_raw = as_bytes ''PRIORITY'' then
        (if length value_raw \<noteq> 1 then Inl (Panic ''copy_from_slice'')
         else case get_log_level value_raw of Inr l \<Rightarrow> Inr (self\<lparr>log_level := l\<rparr>) | Inl _ \<Rightarrow> Inr self)
      else if \<not> utf8_valid value_raw then Inr self
      else if key_raw = as_bytes ''MESSAGE'' then Inr (self\<lparr>log_message := value_raw\<rparr>)
      else if key_raw = as_bytes ''TARGET'' then Inr (self\<lparr>log_target := value_raw\<rparr>)
      else if key_raw = as_bytes ''CODE_FILE'' then Inr (self\<lparr>log_code_file := value_raw\<rparr>)
      else if key_raw = as_bytes ''CODE_LINE'' then
        Inr (self\<lparr>log_code_line := (case parse_u32 value_raw of Some n \<Rightarrow> n | None \<Rightarrow> 0)\<rparr>)
      else Inr (self\<lparr>log_debug := (log_debug self)(lower key_raw \<mapsto> value_raw)\<rparr>))"

text \<open>\<open>&raw[a..b]\<close>, and \<open>iter().position(|x| x == &FLAG)\<close>.\<close>

definition slice :: "bytes \<Rightarrow> nat \<Rightarrow> nat \<Rightarrow> panic + bytes" where
  "slice raw a b =
     (if a \<le> b \<and> b \<le> length raw then Inr (take (b - a) (drop a raw)) else Inl (Panic ''slice index''))"

definition flag_position :: "bytes \<Rightarrow> nat option" where
  "flag_position bs =
     (if 10 \<in> set bs then Some (length (takeWhile (\<lambda>x. x \<noteq> 10) bs)) else None)"

definition usize_max :: nat where
  "usize_max = 2 ^ 64 - 1"

text \<open>One round of the loop: done, a panic, or the start of the next field and the log so far.\<close>

datatype raw_round = RoundDone | RoundPanic panic | RoundNext nat log_entry

definition from_raw_round :: "(bytes \<Rightarrow> bytes) \<Rightarrow> bytes \<Rightarrow> nat \<Rightarrow> log_entry \<Rightarrow> raw_round" where
  "from_raw_round lower raw flag_index_next log =
     (let len = length raw in
      if flag_index_next \<ge> len then RoundDone
      else case slice raw flag_index_next len of
        Inl p \<Rightarrow> RoundPanic p
      | Inr rest \<Rightarrow>
        (case flag_position rest of
           None \<Rightarrow> RoundDone
         | Some i \<Rightarrow>
           if i \<ge> len - 1 then RoundDone
           else let index_key_end = flag_index_next + i;
                    index_value_len_begin = index_key_end + 1;
                    index_value_len_end = index_value_len_begin + 8
           in case slice raw flag_index_next index_key_end of
                Inl p \<Rightarrow> RoundPanic p
              | Inr key_raw \<Rightarrow>
                if len \<le> index_value_len_end then RoundDone
                else case slice raw index_value_len_begin index_value_len_end of
                  Inl p \<Rightarrow> RoundPanic p
                | Inr value_len_raw \<Rightarrow>
                  let value_len = of_le_bytes value_len_raw;
                      index_value_end = index_value_len_end + value_len
                  in if value_len > usize_max then RoundDone
                     else if index_value_end > usize_max then RoundDone
                     else if index_value_end > len then RoundDone
                     else case slice raw index_value_len_end index_value_end of
                       Inl p \<Rightarrow> RoundPanic p
                     | Inr value_raw \<Rightarrow>
                       (case log_update lower key_raw value_raw log of
                          Inl p \<Rightarrow> RoundPanic p
                        | Inr log' \<Rightarrow> RoundNext (index_value_end + 1) log')))"

lemma from_raw_round_advances:
  "from_raw_round lower raw n log = RoundNext n' log' \<Longrightarrow> n < n' \<and> n < length raw"
  by (auto simp: from_raw_round_def Let_def split: if_splits sum.splits option.splits)

function from_raw_loop :: "(bytes \<Rightarrow> bytes) \<Rightarrow> bytes \<Rightarrow> nat \<Rightarrow> log_entry \<Rightarrow> panic + log_entry" where
  "from_raw_loop lower raw n log =
     (case from_raw_round lower raw n log of
        RoundDone \<Rightarrow> Inr log
      | RoundPanic p \<Rightarrow> Inl p
      | RoundNext n' log' \<Rightarrow> from_raw_loop lower raw n' log')"
  by pat_completeness auto
termination
  by (relation "measure (\<lambda>(lower, raw, n, log). length raw - n)")
     (auto dest!: from_raw_round_advances)

declare from_raw_loop.simps [simp del]

definition log_from_raw :: "(bytes \<Rightarrow> bytes) \<Rightarrow> bytes \<Rightarrow> panic + log_entry" where
  "log_from_raw lower raw = from_raw_loop lower raw 0 log_default"

text \<open>\<open>process_log\<close> of the log server: the level and the text of the line it logs.\<close>

definition process_log :: "(bytes \<Rightarrow> bytes) \<Rightarrow> bytes list \<Rightarrow> bytes \<Rightarrow> panic + level \<times> bytes" where
  "process_log lower order raw_log =
     res_bind (log_from_raw lower raw_log) (\<lambda>log. Inr (log_level log, log_format order log))"

section \<open>Fields\<close>

definition encode_field :: "bytes \<times> bytes \<Rightarrow> bytes" where
  "encode_field kv = fst kv @ [10] @ le_bytes 8 (length (snd kv)) @ snd kv @ [10]"

abbreviation encode_fields :: "(bytes \<times> bytes) list \<Rightarrow> bytes" where
  "encode_fields fs \<equiv> concat (map encode_field fs)"

text \<open>What the reader is specified to do: one update per field, in order.\<close>

fun apply_fields :: "(bytes \<Rightarrow> bytes) \<Rightarrow> (bytes \<times> bytes) list \<Rightarrow> log_entry \<Rightarrow> panic + log_entry" where
  "apply_fields lower [] log = Inr log"
| "apply_fields lower ((k, v) # fs) log = res_bind (log_update lower k v log) (apply_fields lower fs)"

definition meta_fields :: "metadata \<Rightarrow> (bytes \<times> bytes) list" where
  "meta_fields meta =
     [(as_bytes ''PRIORITY'', get_raw_level (md_level meta)), (as_bytes ''TARGET'', md_target meta)]
     @ (case md_file meta of None \<Rightarrow> [] | Some f \<Rightarrow> [(as_bytes ''CODE_FILE'', f)])
     @ (case md_line meta of None \<Rightarrow> [] | Some l \<Rightarrow> [(as_bytes ''CODE_LINE'', dec_bytes l)])"

lemma put_field_encode: "put_field buf k v = buf @ encode_field (k, v)"
  by (simp add: put_field_def put_value_def encode_field_def)

lemma put_debug_encode: "put_debug buf name v = buf @ encode_field (sanitize_name name, v)"
  by (simp add: put_debug_def encode_field_def Let_def)

lemma put_metadata_event: "put_metadata buf meta None = buf @ encode_fields (meta_fields meta)"
  by (simp add: put_metadata_def put_field_encode meta_fields_def Let_def split: option.splits)

lemma event_records_encode:
  "foldl (event_record None) buf flds = buf @ encode_fields (map (\<lambda>(n, v). (sanitize_name n, v)) flds)"
  by (induction flds arbitrary: buf) (auto simp: event_record_def put_debug_encode)

lemma to_ascii_uppercase_flag: "c \<noteq> 10 \<Longrightarrow> to_ascii_uppercase c \<noteq> 10"
proof
  assume "c \<noteq> 10" "to_ascii_uppercase c = 10"
  then have r: "in_range 97 122 c" "c - 32 = 10" by (auto simp: to_ascii_uppercase_def split: if_splits)
  from r(2) have "c = 42" by (simp add: diff_eq_eq)
  with r(1) show False by (simp add: in_range_def)
qed

lemma sanitize_name_no_flag: "10 \<notin> set (sanitize_name name)"
proof -
  have "c \<noteq> 10" if "c = 95 \<or> is_ascii_alphanumeric c" for c :: u8
    using that by (auto simp: is_ascii_alphanumeric_def in_range_def)
  then show ?thesis using to_ascii_uppercase_flag by (fastforce simp: sanitize_name_def)
qed

lemma meta_fields_no_flag: "list_all (\<lambda>(k, v). 10 \<notin> set k) (meta_fields meta)"
  by (simp add: meta_fields_def as_bytes_def split: option.splits)

section \<open>Reading fields back\<close>

lemma slice_middle: "slice (a @ b @ c) (length a) (length a + length b) = Inr b"
  by (simp add: slice_def)

lemma takeWhile_flag: "10 \<notin> set k \<Longrightarrow> takeWhile (\<lambda>x. x \<noteq> 10) (k @ (10 :: u8) # r) = k"
  by (induction k) auto

lemma flag_position_key:
  assumes "10 \<notin> set k"
  shows "flag_position (k @ 10 # r) = Some (length k)"
  unfolding flag_position_def takeWhile_flag [OF assms] by simp

lemma flag_position_bound: "flag_position bs = Some i \<Longrightarrow> i < length bs"
proof -
  have "10 \<in> set bs \<Longrightarrow> length (takeWhile (\<lambda>x. x \<noteq> 10) bs) < length bs" by (induction bs) auto
  then show "flag_position bs = Some i \<Longrightarrow> i < length bs"
    by (auto simp: flag_position_def split: if_splits)
qed

text \<open>A field whose value is complete is read, also without the newline after it, unless nothing at all follows its length.\<close>

lemma from_raw_round_value:
  assumes "10 \<notin> set k" and raw: "raw = pre @ k @ 10 # le_bytes 8 (length v) @ v @ post"
    and "length raw \<le> usize_max" "v @ post \<noteq> []"
  shows "from_raw_round lower raw (length pre) log
    = (case log_update lower k v log of
         Inl p \<Rightarrow> RoundPanic p | Inr log' \<Rightarrow> RoundNext (length pre + length k + 10 + length v) log')"
proof -
  let ?l = "le_bytes 8 (length v)"
  have rest: "slice raw (length pre) (length raw) = Inr (k @ 10 # ?l @ v @ post)"
    using slice_middle [of pre "k @ 10 # ?l @ v @ post" "[]"] by (simp add: raw)
  have key: "slice raw (length pre) (length pre + length k) = Inr k"
    using slice_middle [of pre k "10 # ?l @ v @ post"] by (simp add: raw)
  have vl: "slice raw (length pre + length k + 1) (length pre + length k + 1 + 8) = Inr ?l"
    using slice_middle [of "pre @ k @ [10]" ?l "v @ post"] by (simp add: raw)
  have val: "slice raw (length pre + length k + 1 + 8) (length pre + length k + 1 + 8 + length v) = Inr v"
    using slice_middle [of "pre @ k @ 10 # ?l" v post] by (simp add: raw ac_simps)
  have len: "length raw = length pre + length k + 9 + length (v @ post)" by (simp add: raw)
  have "0 < length (v @ post)" using assms(4) by blast
  moreover have "length v < 256 ^ 8" using assms(3) len by (simp add: usize_max_def)
  then have vlen: "of_le_bytes ?l = length v" by (rule of_le_bytes_le_bytes)
  moreover have "length v \<le> usize_max" "length pre + length k + 1 + 8 + length v \<le> usize_max"
    using assms(3) len by auto
  ultimately show ?thesis
    unfolding from_raw_round_def Let_def rest sum.case flag_position_key [OF assms(1)] option.case key vl vlen val
    using len by (simp del: append_is_Nil_conv split: sum.split)
qed

lemma from_raw_round_field:
  assumes "10 \<notin> set k" and "length (pre @ encode_field (k, v) @ post) \<le> usize_max"
  shows "from_raw_round lower (pre @ encode_field (k, v) @ post) (length pre) log
    = (case log_update lower k v log of
         Inl p \<Rightarrow> RoundPanic p | Inr log' \<Rightarrow> RoundNext (length (pre @ encode_field (k, v))) log')"
proof -
  have n: "length (pre @ encode_field (k, v)) = length pre + length k + 10 + length v" by (simp add: encode_field_def)
  show ?thesis
    unfolding n by (rule from_raw_round_value [OF assms(1), where post = "10 # post", OF _ assms(2)]) (simp_all add: encode_field_def)
qed

lemma from_raw_loop_update:
  assumes "from_raw_round lower raw n log = (case log_update lower k v log of Inl p \<Rightarrow> RoundPanic p | Inr log' \<Rightarrow> RoundNext n' log')"
    and "\<And>log'. from_raw_loop lower raw n' log' = apply_fields lower fs log'"
  shows "from_raw_loop lower raw n log = apply_fields lower ((k, v) # fs) log"
  using assms by (cases "log_update lower k v log") (simp_all add: from_raw_loop.simps [of lower raw n])

lemma from_raw_loop_fields:
  assumes "list_all (\<lambda>(k, v). 10 \<notin> set k) fs" and "length (pre @ encode_fields fs) \<le> usize_max"
  shows "from_raw_loop lower (pre @ encode_fields fs) (length pre) log = apply_fields lower fs log"
  using assms
proof (induction fs arbitrary: pre log)
  case Nil
  then show ?case by (simp add: from_raw_loop.simps [of lower pre] from_raw_round_def)
next
  case (Cons f fs)
  obtain k v where f: "f = (k, v)" by (cases f)
  have raw: "pre @ encode_fields (f # fs) = pre @ encode_field (k, v) @ encode_fields fs" by (simp add: f)
  have k: "10 \<notin> set k" using Cons.prems(1) f by simp
  have r: "from_raw_round lower (pre @ encode_fields (f # fs)) (length pre) log
    = (case log_update lower k v log of
         Inl p \<Rightarrow> RoundPanic p | Inr log' \<Rightarrow> RoundNext (length (pre @ encode_field (k, v))) log')"
    using from_raw_round_field [OF k, of pre v "encode_fields fs"] Cons.prems(2) unfolding raw by blast
  have ih: "from_raw_loop lower (pre @ encode_fields (f # fs)) (length (pre @ encode_field (k, v))) log'
      = apply_fields lower fs log'" for log'
    using Cons.IH [of "pre @ encode_field (k, v)" log'] Cons.prems by (simp add: f)
  show ?case using from_raw_loop_update [OF r ih] by (simp add: f)
qed

lemma from_raw_round_panic:
  assumes "from_raw_round lower raw n log = RoundPanic p"
  shows "p = Panic ''copy_from_slice''"
proof -
  have up: "log_update lower k v l = Inl q \<Longrightarrow> q = Panic ''copy_from_slice''" for k v l q
    by (auto simp: log_update_def split: if_splits sum.splits)
  show ?thesis
    using assms
    by (auto simp: from_raw_round_def Let_def slice_def dest!: flag_position_bound up
             split: if_splits sum.splits option.splits)
qed

section \<open>Properties\<close>

text \<open>
  What the host reads from the buffer the enclave sends for an event is exactly one update per field, in order: the fields of
  the enclosing spans, then priority, target, file and line of the event, then its own fields under
  their sanitised names.
\<close>

theorem log_events_are_read_back:
  assumes "field_prefix self = None"
    and "list_all (\<lambda>(k, v). 10 \<notin> set k) sfs"
    and "length (on_event self [encode_fields sfs] meta flds) \<le> usize_max"
  shows "log_from_raw lower (on_event self [encode_fields sfs] meta flds)
    = apply_fields lower (sfs @ meta_fields meta @ map (\<lambda>(n, v). (sanitize_name n, v)) flds) log_default"
proof -
  let ?fs = "sfs @ meta_fields meta @ map (\<lambda>(n, v). (sanitize_name n, v)) flds"
  have e: "on_event self [encode_fields sfs] meta flds = encode_fields ?fs"
    by (simp add: on_event_def assms(1) put_metadata_event event_records_encode)
  have "list_all (\<lambda>(k, v). 10 \<notin> set k) (map (\<lambda>(n, v). (sanitize_name n, v)) flds)"
    by (induction flds) (auto simp: sanitize_name_no_flag)
  then have "list_all (\<lambda>(k, v). 10 \<notin> set k) ?fs"
    using assms(2) meta_fields_no_flag by simp
  from from_raw_loop_fields [OF this, of "[]"] assms(3) show ?thesis
    unfolding log_from_raw_def e by simp
qed

definition demo_meta :: metadata where
  "demo_meta = \<lparr>md_level = WARN, md_target = [65], md_file = Some [66], md_line = Some 42\<rparr>"

theorem log_events_are_read_back_witness:
  "log_from_raw (\<lambda>k. k) (on_event (layer_new 3 6050) [encode_fields []] demo_meta [(as_bytes ''message'', [72, 105])])
   = Inr \<lparr>log_level = WARN, log_target = [65], log_code_file = [66], log_code_line = 42,
       log_message = [72, 105], log_debug = (\<lambda>_. None)\<rparr>"
proof -
  have d: "dec_bytes 42 = [52, 50]"
    by (simp add: dec_bytes_def dec_digits.simps)
  have p: "parse_u32 [52, 50] = Some 42"
    using parse_u32_dec_bytes [of 42] by (simp add: d)
  have "length (on_event (layer_new 3 6050) [encode_fields []] demo_meta [(as_bytes ''message'', [72, 105])]) \<le> usize_max"
    by (simp add: on_event_def layer_new_def put_metadata_event event_record_def put_debug_encode encode_field_def
        meta_fields_def demo_meta_def as_bytes_def get_raw_level_def d sanitize_name_def
        to_ascii_uppercase_def is_ascii_alphanumeric_def in_range_def usize_max_def)
  from log_events_are_read_back [OF _ _ this] show ?thesis
    by (simp add: layer_new_def meta_fields_def demo_meta_def get_raw_level_def d p as_bytes_def sanitize_name_def
        to_ascii_uppercase_def is_ascii_alphanumeric_def in_range_def log_update_def log_default_def get_log_level_def)
qed

text \<open>
  C30. Whatever bytes arrive, reading a log buffer terminates and never indexes out of range; the only panic is the
  one for a \<open>PRIORITY\<close> field whose value is not one byte long.
\<close>

theorem log_reader_stays_in_bounds:
  "case log_from_raw lower raw of Inr log \<Rightarrow> True | Inl p \<Rightarrow> p = Panic ''copy_from_slice''"
proof -
  have "p = Panic ''copy_from_slice''" if "from_raw_loop lower raw n log = Inl p" for n log p
    using that
  proof (induction lower raw n log rule: from_raw_loop.induct)
    case (1 lower raw n log)
    then show ?case
      by (auto simp: from_raw_loop.simps [of lower raw n log] dest: from_raw_round_panic
               split: raw_round.splits)
  qed
  then show ?thesis by (auto simp: log_from_raw_def split: sum.splits)
qed

text \<open>
  C28. An event with a field of its own named \<open>priority\<close>, whose text is not exactly one byte, makes the host's log reader panic.
\<close>

theorem priority_field_crashes_log_server:
  assumes "length v \<noteq> 1"
    and "length (on_event (layer_new cid port) [] meta [(as_bytes ''priority'', v)]) \<le> usize_max"
  shows "process_log lower order (on_event (layer_new cid port) [] meta [(as_bytes ''priority'', v)])
    = Inl (Panic ''copy_from_slice'')"
proof -
  let ?fs = "meta_fields meta @ [(as_bytes ''PRIORITY'', v)]"
  have n: "sanitize_name (as_bytes ''priority'') = as_bytes ''PRIORITY''"
    by (simp add: sanitize_name_def as_bytes_def to_ascii_uppercase_def is_ascii_alphanumeric_def in_range_def)
  have e: "on_event (layer_new cid port) [] meta [(as_bytes ''priority'', v)] = encode_fields ?fs"
    by (simp add: on_event_def layer_new_def put_metadata_event event_record_def put_debug_encode n)
  have app: "apply_fields lower (xs @ ys) log = res_bind (apply_fields lower xs log) (apply_fields lower ys)" for xs ys log
  proof (induction lower xs log rule: apply_fields.induct)
    case (2 lower k v fs log)
    then show ?case by (cases "log_update lower k v log") auto
  qed simp
  have m: "\<exists>l. apply_fields lower (meta_fields meta) log = Inr l" for log
    by (auto simp: meta_fields_def log_update_def get_raw_level_def get_log_level_def as_bytes_def
             split: option.splits level.splits)
  have "list_all (\<lambda>(k, v). 10 \<notin> set k) ?fs"
    using meta_fields_no_flag by (simp add: as_bytes_def)
  from from_raw_loop_fields [OF this, of "[]" lower log_default] assms(2)
  have "log_from_raw lower (encode_fields ?fs) = apply_fields lower ?fs log_default"
    unfolding log_from_raw_def e by simp
  also obtain l where "apply_fields lower (meta_fields meta) log_default = Inr l" using m by blast
  then have "apply_fields lower ?fs log_default = Inl (Panic ''copy_from_slice'')"
    using assms(1) by (simp add: app log_update_def) (simp add: as_bytes_def)
  finally show ?thesis by (simp only: process_log_def e res_bind_simps)
qed

theorem priority_field_crashes_log_server_witness:
  "process_log (\<lambda>k. k) [] (on_event (layer_new 3 6050) [] demo_meta [(as_bytes ''priority'', [49, 48])])
    = Inl (Panic ''copy_from_slice'')"
proof (rule priority_field_crashes_log_server)
  show "length (on_event (layer_new 3 6050) [] demo_meta [(as_bytes ''priority'', [49, 48])]) \<le> usize_max"
    by (simp add: on_event_def layer_new_def put_metadata_event event_record_def put_debug_encode encode_field_def
        meta_fields_def demo_meta_def as_bytes_def get_raw_level_def dec_bytes_def dec_digits.simps sanitize_name_def
        to_ascii_uppercase_def is_ascii_alphanumeric_def in_range_def usize_max_def)
qed simp

end
