(* ===== verification/Nitro_Enclave.thy ===== *)
theory Nitro_Enclave
  imports Enclave_Base Remote_State Log_Layer
begin

text \<open>
  The Nitro enclave program: \<open>providers/nitro/nitro-enclave/src/nitro.rs\<close> and \<open>main.rs\<close>, the messages it exchanges with its host
  (\<open>providers/nitro/nitro-helper/src/shared.rs\<close>), and the host's side of key generation (\<open>providers/nitro/nitro-helper/src/key_utils.rs\<close>).  AWS KMS, the attestation device, the JSON coding
  and the key types are fields of \<open>nitro_lib\<close>.
\<close>

section \<open>Messages\<close>

record aws_credentials =
  aws_key_id :: string
  aws_secret_key :: string
  aws_session_token :: string

record nitro_config =
  nc_chain_id :: chain_id
  nc_max_height :: "height option"
  nc_sealed_consensus_key :: bytes
  nc_sealed_id_key :: "bytes option"
  nc_peer_id :: "node_id option"
  nc_enclave_state_port :: u32
  nc_enclave_tendermint_conn :: u32
  nc_credentials :: aws_credentials
  nc_aws_region :: string

record nitro_keygen_config =
  nkc_credentials :: aws_credentials
  nkc_kms_key_id :: string
  nkc_aws_region :: string

datatype nitro_request = Keygen nitro_keygen_config | Start nitro_config

record nitro_keygen_response =
  nkr_encrypted_secret :: bytes
  nkr_public_key :: bytes
  nkr_attestation_doc :: bytes

type_synonym nitro_response = "string + nitro_keygen_response"

record nitro_lib =
  nl_request_to_json :: "nitro_request \<Rightarrow> serde_error + bytes"
  nl_request_from_json :: "bytes \<Rightarrow> serde_error + nitro_request"
  nl_response_to_json :: "nitro_response \<Rightarrow> serde_error + bytes"
  nl_response_from_json :: "bytes \<Rightarrow> serde_error + nitro_response"
  kms_decrypt :: "bytes \<Rightarrow> bytes \<Rightarrow> bytes \<Rightarrow> bytes \<Rightarrow> bytes \<Rightarrow> string + bytes"
  kms_encrypt :: "bytes \<Rightarrow> bytes \<Rightarrow> bytes \<Rightarrow> bytes \<Rightarrow> bytes \<Rightarrow> bytes \<Rightarrow> string + bytes"
  nl_key_try_from :: "bytes \<Rightarrow> signing_key option"
  nl_key_bytes :: "signing_key \<Rightarrow> bytes"
  nl_key_verification :: "signing_key \<Rightarrow> bytes"
  nl_vk_try_from :: "bytes \<Rightarrow> string + bytes"
  nl_base64 :: "bytes \<Rightarrow> bytes"
  nl_utf8_error :: "bytes \<Rightarrow> string"
  nl_attestation :: "bytes \<Rightarrow> bytes option"
  nl_state_error_display :: "state_error \<Rightarrow> string"
  nl_io_error_debug :: "io_error \<Rightarrow> string"
  nl_io_error_display :: "io_error \<Rightarrow> string"
  nl_state_json :: state_json
  nl_error_display :: "error \<Rightarrow> string"

section \<open>Connecting to the validator\<close>

definition nitro_get_secret_connection ::
    "'x net \<Rightarrow> nat \<Rightarrow> u32 \<Rightarrow> signing_key \<Rightarrow> node_id option \<Rightarrow> io_error + 'x boxed" where
  "nitro_get_secret_connection net n vsock_port identity_key peer_id =
     res_bind (vsock_connect net n VSOCK_HOST_CID vsock_port) (\<lambda>socket.
     res_bind (map_err (\<lambda>_. io_error_of Other) (secret_new net n socket identity_key)) (\<lambda>connection.
       let actual_peer_id = secret_peer_id net connection in
       case peer_id of
         Some expected_peer_id \<Rightarrow>
           if expected_peer_id \<noteq> actual_peer_id then Inl (io_error_of Other) else Inr (BoxSecret connection)
       | None \<Rightarrow> Inr (BoxSecret connection)))"

definition nitro_connect_attempt ::
    "'x net \<Rightarrow> nitro_config \<Rightarrow> signing_key option \<Rightarrow> nat \<Rightarrow> io_error + 'x boxed" where
  "nitro_connect_attempt net cfg id_keypair n =
     (case id_keypair of
        Some ikp \<Rightarrow> nitro_get_secret_connection net n (nc_enclave_tendermint_conn cfg) ikp (nc_peer_id cfg)
      | None \<Rightarrow>
          (case vsock_connect net n VSOCK_HOST_CID (nc_enclave_tendermint_conn cfg) of
             Inr sck \<Rightarrow> Inr (BoxPlain (plain_new sck))
           | Inl _ \<Rightarrow> Inl (io_error_of Other)))"

definition nitro_get_connection ::
    "'x net \<Rightarrow> nitro_config \<Rightarrow> signing_key option \<Rightarrow> nat \<Rightarrow> ('x boxed \<times> nat) option" where
  "nitro_get_connection net cfg id_keypair n = retry_connect (nitro_connect_attempt net cfg id_keypair) n"

section \<open>The entry point\<close>

definition nitro_decrypt_key :: "nitro_lib \<Rightarrow> nitro_config \<Rightarrow> bytes \<Rightarrow> error + signing_key" where
  "nitro_decrypt_key lib cfg ciphertext =
     (case kms_decrypt lib (as_bytes (nc_aws_region cfg)) (as_bytes (aws_key_id (nc_credentials cfg)))
             (as_bytes (aws_secret_key (nc_credentials cfg)))
             (as_bytes (aws_session_token (nc_credentials cfg))) ciphertext of
        Inl _ \<Rightarrow> Inl AccessError
      | Inr key_bytes \<Rightarrow>
          (case nl_key_try_from lib key_bytes of None \<Rightarrow> Inl InvalidKeyError | Some k \<Rightarrow> Inr k))"

text \<open>The keys, the state holder and the state with which \<open>Start\<close> begins.\<close>

definition nitro_start ::
    "nitro_lib \<Rightarrow> 'x net \<Rightarrow> nitro_config
      \<Rightarrow> error + signing_key \<times> signing_key option \<times> State \<times> state_holder" where
  "nitro_start lib net cfg =
     res_bind (nitro_decrypt_key lib cfg (nc_sealed_consensus_key cfg)) (\<lambda>secret.
     res_bind (case nc_sealed_id_key cfg of
                 Some ciphertext \<Rightarrow> res_bind (nitro_decrypt_key lib cfg ciphertext) (\<lambda>k. Inr (Some k))
               | None \<Rightarrow> Inr None) (\<lambda>id_keypair.
     res_bind (map_err (IoError ''failed get state connection'')
         (nitro_holder_new (nl_state_json lib) (nl_error_display lib) (vsock_connect net 0)
           (nc_enclave_state_port cfg))) (\<lambda>state_holder.
     case nitro_load_state state_holder of
       (Inl (StateErr e), _) \<Rightarrow> Inl (io_error_wrap ''failed to load initial state'' (nl_state_error_display lib e))
     | (Inl (SyncPanicked m), _) \<Rightarrow> Inl PanicError
     | (Inr st, holder) \<Rightarrow> Inr (secret, id_keypair, st, holder))))"

definition nitro_claim :: "bytes \<Rightarrow> bytes \<Rightarrow> bytes" where
  \<open>nitro_claim pubkeyb64 keyidb64 =
     as_bytes ''{"pubkey":"'' @ pubkeyb64 @ as_bytes ''","key_id":"'' @ keyidb64 @ as_bytes ''"}''\<close>

text \<open>\<open>keypair\<close> is the freshly generated key.\<close>

definition nitro_keygen_reply :: "nitro_lib \<Rightarrow> signing_key \<Rightarrow> nitro_keygen_config \<Rightarrow> error + nitro_response" where
  "nitro_keygen_reply lib keypair kc =
     (let public = nl_key_verification lib keypair;
          pubkeyb64 = nl_base64 lib public;
          keyidb64 = nl_base64 lib (as_bytes (nkc_kms_key_id kc))
      in if \<not> utf8_valid pubkeyb64 then Inl (io_error_wrap ''base64 encoding error'' (nl_utf8_error lib pubkeyb64))
         else if \<not> utf8_valid keyidb64 then Inl (io_error_wrap ''base64 encoding error'' (nl_utf8_error lib keyidb64))
         else let user_data = nitro_claim pubkeyb64 keyidb64 in
           (case kms_encrypt lib (as_bytes (nkc_aws_region kc)) (as_bytes (aws_key_id (nkc_credentials kc)))
                   (as_bytes (aws_secret_key (nkc_credentials kc)))
                   (as_bytes (aws_session_token (nkc_credentials kc)))
                   (as_bytes (nkc_kms_key_id kc)) (nl_key_bytes lib keypair) of
              Inr encrypted_secret \<Rightarrow>
                (case nl_attestation lib user_data of
                   Some document \<Rightarrow> Inr (Inr \<lparr>nkr_encrypted_secret = encrypted_secret,
                     nkr_public_key = public, nkr_attestation_doc = document\<rparr>)
                 | None \<Rightarrow> Inr (Inl ''failed to obtain an attestation document''))
            | Inl e \<Rightarrow> Inr (Inl e)))"

definition nitro_keygen :: "nitro_lib \<Rightarrow> signing_key \<Rightarrow> nitro_keygen_config \<Rightarrow> sock \<Rightarrow> (error + unit) \<times> sock" where
  "nitro_keygen lib keypair kc stream =
     (case nitro_keygen_reply lib keypair kc of
        Inl e \<Rightarrow> (Inl e, stream)
      | Inr response \<Rightarrow>
          (case nl_response_to_json lib response of
             Inl e \<Rightarrow> (Inl (SerializationError e), stream)
           | Inr json \<Rightarrow> st_map_err (IoError ''failed to send keypair response'') (write_u16_payload json stream)))"

text \<open>
  \<open>entry\<close> returns, or enters its endless loop with a session and the number of the next connection
  attempt, or (\<open>None\<close>) never gets a first connection.
\<close>

datatype 'x nitro_outcome =
    NReturned "error + unit" sock
  | NServing "('x boxed, state_holder) session" nat

definition nitro_entry ::
    "nitro_lib \<Rightarrow> 'x net \<Rightarrow> signing_key \<Rightarrow> sock \<Rightarrow> 'x nitro_outcome option" where
  "nitro_entry lib net fresh stream =
     (case read_u16_payload stream of
        (Inl e, s) \<Rightarrow> Some (NReturned (Inl e) s)
      | (Inr json_raw, s) \<Rightarrow>
          (case nl_request_from_json lib json_raw of
             Inr (Start cfg) \<Rightarrow>
               (case nitro_start lib net cfg of
                  Inl e \<Rightarrow> Some (NReturned (Inl e) s)
                | Inr (secret, id_keypair, st, holder) \<Rightarrow>
                    map_option (\<lambda>(conn, n).
                        NServing (session_new \<lparr>cfg_chain_id = nc_chain_id cfg,
                                               cfg_max_height = nc_max_height cfg\<rparr>
                                    conn secret st holder) n)
                      (nitro_get_connection net cfg id_keypair 0))
           | Inr (Keygen kc) \<Rightarrow>
               (case nitro_keygen lib fresh kc s of (r, s') \<Rightarrow> Some (NReturned r s'))
           | Inl e \<Rightarrow> Some (NReturned (Inr ()) s)))"

section \<open>Generating a key from the host\<close>

definition nitro_generate_key ::
    "nitro_lib \<Rightarrow> (u32 \<Rightarrow> u32 \<Rightarrow> io_error + sock) \<Rightarrow> u32 \<Rightarrow> u32 \<Rightarrow> path \<Rightarrow> string \<Rightarrow> aws_credentials \<Rightarrow> string
      \<Rightarrow> write_event list \<Rightarrow> fs \<Rightarrow> (string + bytes \<times> bytes) \<times> fs" where
  "nitro_generate_key lib connect cid port p region credentials kms_key_id ws f =
     (let request = Keygen \<lparr>nkc_credentials = credentials, nkc_kms_key_id = kms_key_id, nkc_aws_region = region\<rparr> in
      case connect cid port of
        Inl e \<Rightarrow> (Inl (''failed to connect to the enclave to generate key pair: '' @ nl_io_error_debug lib e), f)
      | Inr sck \<Rightarrow>
        (case nl_request_to_json lib request of
           Inl e \<Rightarrow> (Inl (''failed to serialize the keygen request: '' @ e), f)
         | Inr request_raw \<Rightarrow>
           (case write_u16_payload request_raw sck of
              (Inl e, _) \<Rightarrow> (Inl (''failed to write the config: '' @ nl_io_error_debug lib e), f)
            | (Inr _, sck1) \<Rightarrow>
              (case read_u16_payload sck1 of
                 (Inl e, _) \<Rightarrow> (Inl ''failed to read config'', f)
               | (Inr json_raw, _) \<Rightarrow>
                 (case nl_response_from_json lib json_raw of
                    Inl e \<Rightarrow> (Inl (''failed to get keygen response from enclave: '' @ e), f)
                  | Inr (Inl e) \<Rightarrow> (Inl e, f)
                  | Inr (Inr resp) \<Rightarrow>
                    (case fs_truncate_write p (nkr_encrypted_secret resp) ws f of
                       (Inl e, f') \<Rightarrow> (Inl (''couldn't write `'' @ p @ ''`: '' @ nl_io_error_display lib e), f')
                     | (Inr _, f') \<Rightarrow>
                       (case nl_vk_try_from lib (nkr_public_key resp) of
                          Inl e \<Rightarrow> (Inl (''Invalid pubkey key: '' @ e), f')
                        | Inr vk \<Rightarrow> (Inr (vk, nkr_attestation_doc resp), f'))))))))"

section \<open>The command line of the enclave\<close>

definition ascii_lower :: "u8 \<Rightarrow> u8" where
  "ascii_lower b = (if 65 \<le> unat b \<and> unat b \<le> 90 then b + 32 else b)"

definition port_arg :: "bytes option \<Rightarrow> nat \<Rightarrow> nat" where
  "port_arg a dflt = (case a of None \<Rightarrow> dflt | Some x \<Rightarrow> (case parse_u32 x of None \<Rightarrow> dflt | Some p \<Rightarrow> p))"

fun next_arg :: "bytes list \<Rightarrow> bytes option \<times> bytes list" where
  "next_arg [] = (None, [])"
| "next_arg (a # r) = (Some a, r)"

text \<open>\<open>args\<close> is \<open>std::env::args()\<close>, the program's own name first.\<close>

definition enclave_main_args :: "bytes list \<Rightarrow> nat \<times> nat \<times> level" where
  "enclave_main_args args =
     (let (a1, r1) = next_arg args; (a2, r2) = next_arg r1; (a3, _) = next_arg r2
      in (port_arg a1 5050, port_arg a2 6050,
          case a3 of
            Some x \<Rightarrow> if map ascii_lower x = as_bytes ''--verbose'' \<or> map ascii_lower x = as_bytes ''-v''
                      then INFO else DEBUG
          | None \<Rightarrow> INFO))"

text \<open>
  The loop of \<open>main\<close>: what one turn meets is the outcome of seeding the entropy, the connection, and what \<open>entry\<close> needs then.  The result is the sockets answered so far and how
  the process goes on: it exits or panics, waits for a connection, tries to reach the validator for ever, or serves.
\<close>

record 'x enclave_turn =
  et_seeded :: bool
  et_conn :: "io_error + sock"
  et_net :: "'x net"
  et_fresh :: signing_key

datatype 'x enclave_end =
    EnclaveExit nat
  | EnclavePanic
  | EnclaveWaiting
  | EnclaveConnecting
  | EnclaveServing "('x boxed, state_holder) session" nat

fun nitro_enclave_loop :: "nitro_lib \<Rightarrow> 'x enclave_turn list \<Rightarrow> sock list \<times> 'x enclave_end" where
  "nitro_enclave_loop lib [] = ([], EnclaveWaiting)"
| "nitro_enclave_loop lib (t # ts) =
     (if \<not> et_seeded t then ([], EnclaveExit 1)
      else case et_conn t of
        Inl e \<Rightarrow> nitro_enclave_loop lib ts
      | Inr stream \<Rightarrow>
          (case nitro_entry lib (et_net t) (et_fresh t) stream of
             None \<Rightarrow> ([], EnclaveConnecting)
           | Some (NServing s n) \<Rightarrow> ([], EnclaveServing s n)
           | Some (NReturned r stream') \<Rightarrow>
               (case nitro_enclave_loop lib ts of (answered, e) \<Rightarrow> (stream' # answered, e))))"

text \<open>\<open>main\<close>: the ports it uses, and its loop once the listener is bound.\<close>

definition nitro_enclave_main ::
    "nitro_lib \<Rightarrow> bytes list \<Rightarrow> string + unit \<Rightarrow> (nat \<Rightarrow> io_error + unit) \<Rightarrow> 'x enclave_turn list \<Rightarrow> sock list \<times> 'x enclave_end" where
  "nitro_enclave_main lib args subscriber bind turns =
     (case enclave_main_args args of
        (port, _, _) \<Rightarrow>
          (case subscriber of
             Inl _ \<Rightarrow> ([], EnclavePanic)
           | Inr _ \<Rightarrow> (case bind port of Inl _ \<Rightarrow> ([], EnclavePanic) | Inr _ \<Rightarrow> nitro_enclave_loop lib turns)))"

section \<open>Lemmas\<close>

lemma nitro_load_state_no_panic: "nitro_load_state h \<noteq> (Inl (SyncPanicked m), h')"
  by (auto simp: nitro_load_state_def split: prod.splits sum.splits)

lemma nitro_get_secret_connection_Inr:
  "nitro_get_secret_connection net n port ikp peer = Inr c \<Longrightarrow>
     \<exists>x. c = BoxSecret x \<and> pred_option (\<lambda>p. secret_peer_id net x = p) peer"
  by (cases peer) (auto simp: nitro_get_secret_connection_def result_simps Let_def split: if_splits)

lemma nitro_start_Inr:
  assumes "nitro_start lib net cfg = Inr (secret, idk, st, holder)"
  shows "nitro_decrypt_key lib cfg (nc_sealed_consensus_key cfg) = Inr secret"
proof -
  from assms obtain k i h where k: "nitro_decrypt_key lib cfg (nc_sealed_consensus_key cfg) = Inr k"
    and l: "(case nitro_load_state h of
        (Inl (StateErr e), _) \<Rightarrow> Inl (io_error_wrap ''failed to load initial state'' (nl_state_error_display lib e))
      | (Inl (SyncPanicked m), _) \<Rightarrow> Inl PanicError
      | (Inr st, holder) \<Rightarrow> Inr (k, i, st, holder)) = Inr (secret, idk, st, holder)"
    unfolding nitro_start_def res_bind_eq_Inr by blast
  obtain r h' where "nitro_load_state h = (r, h')" by fastforce
  with l have "k = secret" by (cases r) (auto split: sync_failure.splits)
  with k show ?thesis by simp
qed

text \<open>
  What is relied on: JSON coding is undone by decoding, KMS decrypts what it encrypted under the same
  credentials, and a key converts to bytes and back.
\<close>

definition nitro_lib_ok :: "nitro_lib \<Rightarrow> bool" where
  "nitro_lib_ok lib \<longleftrightarrow>
     (\<forall>r b. nl_response_to_json lib r = Inr b \<longrightarrow> nl_response_from_json lib b = Inr r)
     \<and> (\<forall>r a s t k m c. kms_encrypt lib r a s t k m = Inr c \<longrightarrow> kms_decrypt lib r a s t c = Inr m)
     \<and> (\<forall>k. nl_key_try_from lib (nl_key_bytes lib k) = Some k)
     \<and> (\<forall>b v. nl_vk_try_from lib b = Inr v \<longrightarrow> v = b)"

lemma nitro_keygen_reply_decrypts:
  assumes "nitro_lib_ok lib" "nitro_keygen_reply lib keypair kc = Inr (Inr resp)"
    and "nc_aws_region cfg = nkc_aws_region kc" "nc_credentials cfg = nkc_credentials kc"
  shows "nitro_decrypt_key lib cfg (nkr_encrypted_secret resp) = Inr keypair
    \<and> nkr_public_key resp = nl_key_verification lib keypair"
proof -
  from assms(2) have "kms_encrypt lib (as_bytes (nkc_aws_region kc)) (as_bytes (aws_key_id (nkc_credentials kc)))
      (as_bytes (aws_secret_key (nkc_credentials kc))) (as_bytes (aws_session_token (nkc_credentials kc)))
      (as_bytes (nkc_kms_key_id kc)) (nl_key_bytes lib keypair) = Inr (nkr_encrypted_secret resp)"
    and pk: "nkr_public_key resp = nl_key_verification lib keypair"
    by (auto simp: nitro_keygen_reply_def Let_def split: if_splits sum.splits option.splits)
  with assms(1) have "kms_decrypt lib (as_bytes (nkc_aws_region kc)) (as_bytes (aws_key_id (nkc_credentials kc)))
      (as_bytes (aws_secret_key (nkc_credentials kc))) (as_bytes (aws_session_token (nkc_credentials kc)))
      (nkr_encrypted_secret resp) = Inr (nl_key_bytes lib keypair)"
    unfolding nitro_lib_ok_def by blast
  moreover have "nl_key_try_from lib (nl_key_bytes lib keypair) = Some keypair"
    using assms(1) by (simp add: nitro_lib_ok_def)
  ultimately show ?thesis using assms(3,4) pk by (simp add: nitro_decrypt_key_def)
qed

lemma nitro_keygen_sends:
  assumes "nitro_keygen lib keypair kc es = (Inr u, es')"
  shows "\<exists>response b. nitro_keygen_reply lib keypair kc = Inr response
    \<and> nl_response_to_json lib response = Inr b \<and> length b \<le> 65535 \<and> sent es' = sent es @ frame b"
  using assms
  by (auto simp: nitro_keygen_def result_simps split: sum.splits dest!: write_u16_payload_Inr)

lemma nitro_generate_key_Inr:
  assumes "nitro_generate_key lib connect cid port p region creds kid ws f = (Inr (vk, doc), f')"
    and "connect cid port = Inr hs" "rx_clean (rx hs)" "rx_bytes (rx hs) = frame b" "length b \<le> 65535"
  shows "\<exists>resp. nl_response_from_json lib b = Inr (Inr resp) \<and> files f' p = Some (nkr_encrypted_secret resp)
    \<and> nl_vk_try_from lib (nkr_public_key resp) = Inr vk"
proof -
  from assms(1,2) obtain raw hs1 b' hs2 where w: "write_u16_payload raw hs = (Inr (), hs1)"
    and r: "read_u16_payload hs1 = (Inr b', hs2)"
    and rest: "\<exists>resp. nl_response_from_json lib b' = Inr (Inr resp)
      \<and> fs_truncate_write p (nkr_encrypted_secret resp) ws f = (Inr (), f')
      \<and> nl_vk_try_from lib (nkr_public_key resp) = Inr vk"
    by (auto simp: nitro_generate_key_def Let_def split: sum.splits prod.splits)
  from write_u16_payload_Inr [OF w] assms(3-5) read_u16_payload_frame [of hs1 b "[]"] r
  have "b' = b" by auto
  with rest show ?thesis by (auto dest: fs_truncate_write_Inr)
qed

text \<open>
  How the loop comes to serve: after the turns \<open>pre\<close>, at the turn \<open>t\<close>.
\<close>

definition serving_turn ::
    "nitro_lib \<Rightarrow> ('x boxed, state_holder) session \<Rightarrow> nat \<Rightarrow> sock list \<Rightarrow> 'x enclave_turn list \<Rightarrow> 'x enclave_turn \<Rightarrow> bool" where
  "serving_turn lib s n answered pre t \<longleftrightarrow>
     (\<exists>stream. list_all et_seeded (pre @ [t]) \<and> et_conn t = Inr stream
    \<and> nitro_entry lib (et_net t) (et_fresh t) stream = Some (NServing s n)
    \<and> (\<forall>u\<in>set pre. \<forall>x. et_conn u = Inr x \<longrightarrow> (\<exists>r y. nitro_entry lib (et_net u) (et_fresh u) x = Some (NReturned r y)))
    \<and> length answered = length (filter (\<lambda>u. \<exists>x. et_conn u = Inr x) pre)
    \<and> (\<forall>more. nitro_enclave_loop lib (pre @ t # more) = (answered, EnclaveServing s n)))"

lemma nitro_enclave_loop_serving:
  "nitro_enclave_loop lib turns = (answered, EnclaveServing s n) \<Longrightarrow>
     \<exists>pre t post. turns = pre @ t # post \<and> serving_turn lib s n answered pre t"
proof (induction turns arbitrary: answered)
  case (Cons t ts)
  have seeded: "et_seeded t" using Cons.prems by (auto split: if_splits)
  show ?case
  proof (cases "\<exists>x. et_conn t = Inr x \<and> nitro_entry lib (et_net t) (et_fresh t) x = Some (NServing s n)")
    case True
    with Cons.prems seeded show ?thesis
      by (intro exI [of _ "[]"] exI [of _ t] exI [of _ ts]) (auto simp: serving_turn_def)
  next
    case False
    then obtain a where ts: "nitro_enclave_loop lib ts = (a, EnclaveServing s n)"
      and a: "(\<exists>e. et_conn t = Inl e) \<and> answered = a
        \<or> (\<exists>x r y. et_conn t = Inr x \<and> nitro_entry lib (et_net t) (et_fresh t) x = Some (NReturned r y) \<and> answered = y # a)"
      using Cons.prems seeded by (auto split: sum.splits option.splits nitro_outcome.splits prod.splits)
    from Cons.IH [OF ts] obtain pre u post where pre: "ts = pre @ u # post" "serving_turn lib s n a pre u" by blast
    from a pre(2) seeded have "serving_turn lib s n answered (t # pre) u" by (auto simp: serving_turn_def)
    with pre(1) show ?thesis by (intro exI [of _ "t # pre"]) auto
  qed
qed simp

section \<open>Properties\<close>

text \<open>
  C26. With an identity key, the enclave talks to the validator only over a secret connection, and if a peer is
  configured, only to that peer.
\<close>

theorem nitro_connection_is_expected:
  assumes "nitro_get_connection net cfg (Some ikp) n = Some (c, n')"
  shows "\<exists>x. c = BoxSecret x \<and> pred_option (\<lambda>p. secret_peer_id net x = p) (nc_peer_id cfg)"
proof -
  have "nitro_connect_attempt net cfg (Some ikp) (n' - 1) = Inr c"
    using retry_connect_Some [OF assms [unfolded nitro_get_connection_def]] by blast
  then show ?thesis by (auto simp: nitro_connect_attempt_def dest: nitro_get_secret_connection_Inr)
qed

text \<open>
  C13. Key generation across the vsock: when the enclave answered with its fresh key and the host's \<open>generate_key\<close> succeeded on what it
  received, the file on the host holds a ciphertext from which the enclave's \<open>Start\<close>, with the same region and
  credentials, gets exactly the generated key, and the public key reported to the user belongs to it.
\<close>

theorem nitro_generated_key_starts:
  assumes "nitro_lib_ok lib"
    and "nitro_keygen lib keypair kc es = (Inr (), es')" and "sent es = []"
    and "connect cid port = Inr hs" and "connected es' hs"
    and "nitro_generate_key lib connect cid port p region creds kid ws f = (Inr (vk, doc), f')"
    and "nc_aws_region cfg = nkc_aws_region kc" and "nc_credentials cfg = nkc_credentials kc"
  shows "\<exists>c. files f' p = Some c \<and> nitro_decrypt_key lib cfg c = Inr keypair
           \<and> vk = nl_key_verification lib keypair"
proof -
  from nitro_keygen_sends [OF assms(2)] assms(3) obtain response b where
    rp: "nitro_keygen_reply lib keypair kc = Inr response" "nl_response_to_json lib response = Inr b"
    and b: "length b \<le> 65535" "sent es' = frame b" by auto
  from assms(1) rp(2) have "nl_response_from_json lib b = Inr response"
    unfolding nitro_lib_ok_def by blast
  with nitro_generate_key_Inr [OF assms(6,4) _ _ b(1)] assms(5) b(2) obtain resp where
    resp: "response = Inr resp" "files f' p = Some (nkr_encrypted_secret resp)"
    "nl_vk_try_from lib (nkr_public_key resp) = Inr vk"
    by (auto simp: connected_def)
  moreover have "vk = nkr_public_key resp" using assms(1) resp(3) unfolding nitro_lib_ok_def by blast
  ultimately show ?thesis
    using nitro_keygen_reply_decrypts [OF assms(1) _ assms(7,8)] rp(1) by auto
qed

text \<open>
  The enclave's command line: \<open>env::args()\<close> yields the program's name first, so called as \<open>prog port log_port\<close> the
  program listens on the default port 5050, takes the first argument for the log server's port, and, the second being neither \<open>-v\<close> nor
  \<open>--verbose\<close>, logs at \<open>DEBUG\<close>.
\<close>

theorem enclave_arguments_are_shifted:
  assumes "parse_u32 prog = None" and "port < 2 ^ 32" and "log_port < 2 ^ 32"
  shows "enclave_main_args [prog, dec_bytes port, dec_bytes log_port] = (5050, port, DEBUG)"
proof -
  have "map ascii_lower (dec_bytes log_port) = dec_bytes log_port"
    using dec_bytes_digits [of log_port]
    by (intro map_idI) (auto simp: list_all_iff is_digit_byte_def ascii_lower_def)
  moreover have "hd (dec_bytes log_port) \<noteq> 45"
  proof -
    have "is_digit_byte (hd (dec_bytes log_port))"
      using dec_bytes_digits [of log_port] by (auto simp: list_all_iff)
    then show ?thesis by (auto simp: is_digit_byte_def)
  qed
  moreover have "hd (as_bytes ''--verbose'') = 45" "hd (as_bytes ''-v'') = 45"
    by (simp_all add: as_bytes_def)
  ultimately show ?thesis
    using assms by (auto simp: enclave_main_args_def port_arg_def parse_u32_dec_bytes)
qed

text \<open>
  C24. The enclave's \<open>main\<close> begins to serve at most once: the connection that carried the \<open>Start\<close> request is handled only after the entropy was seeded for it and for every connection before, all earlier connections have been
  answered by \<open>entry\<close> without a session, and whatever connections come later, none of them is looked at.
\<close>

theorem nitro_enclave_serves_once:
  assumes "nitro_enclave_main lib args subscriber bind turns = (answered, EnclaveServing s n)"
  shows "\<exists>pre t post stream. turns = pre @ t # post \<and> list_all et_seeded (pre @ [t]) \<and> et_conn t = Inr stream
    \<and> nitro_entry lib (et_net t) (et_fresh t) stream = Some (NServing s n)
    \<and> (\<forall>u\<in>set pre. \<forall>x. et_conn u = Inr x \<longrightarrow> (\<exists>r y. nitro_entry lib (et_net u) (et_fresh u) x = Some (NReturned r y)))
    \<and> length answered = length (filter (\<lambda>u. \<exists>x. et_conn u = Inr x) pre)
    \<and> (\<forall>more. nitro_enclave_main lib args subscriber bind (pre @ t # more) = (answered, EnclaveServing s n))"
proof -
  from assms have l: "nitro_enclave_loop lib turns = (answered, EnclaveServing s n)"
    and m: "nitro_enclave_main lib args subscriber bind ts = nitro_enclave_loop lib ts" for ts :: "'a enclave_turn list"
    by (auto simp: nitro_enclave_main_def split: prod.splits sum.splits)
  from nitro_enclave_loop_serving [OF l] show ?thesis unfolding serving_turn_def m by blast
qed

subsection \<open>Applications\<close>

definition demo_nitro :: nitro_lib where
  "demo_nitro =
     \<lparr>nl_request_to_json = (\<lambda>_. Inr [1]), nl_request_from_json = (\<lambda>b. Inr (Start
        \<lparr>nc_chain_id = ''chain-1'', nc_max_height = None, nc_sealed_consensus_key = [42],
         nc_sealed_id_key = None, nc_peer_id = None, nc_enclave_state_port = 7,
         nc_enclave_tendermint_conn = 8,
         nc_credentials = \<lparr>aws_key_id = [], aws_secret_key = [], aws_session_token = []\<rparr>, nc_aws_region = []\<rparr>)),
      nl_response_to_json = (\<lambda>r. case r of Inl _ \<Rightarrow> Inl [] | Inr x \<Rightarrow>
        if nkr_encrypted_secret x = [42] \<and> nkr_public_key x = [42] \<and> nkr_attestation_doc x = [3] then Inr [5] else Inl []),
      nl_response_from_json = (\<lambda>b. Inr (Inr \<lparr>nkr_encrypted_secret = [42], nkr_public_key = [42],
        nkr_attestation_doc = [3]\<rparr>)),
      kms_decrypt = (\<lambda>_ _ _ _ c. Inr c), kms_encrypt = (\<lambda>_ _ _ _ _ m. Inr m),
      nl_key_try_from = Some, nl_key_bytes = (\<lambda>k. k), nl_key_verification = (\<lambda>k. k),
      nl_vk_try_from = Inr, nl_base64 = (\<lambda>_. []), nl_utf8_error = (\<lambda>_. []), nl_attestation = (\<lambda>_. Some [3]),
      nl_state_error_display = (\<lambda>_. []), nl_io_error_debug = (\<lambda>_. []), nl_io_error_display = (\<lambda>_. []),
      nl_state_json = demo_json, nl_error_display = (\<lambda>_. [])\<rparr>"

definition demo_sock :: "bytes \<Rightarrow> sock" where
  "demo_sock b = \<lparr>rx = [RData (frame b)], wx = [], sent = []\<rparr>"

definition demo_net :: "bytes net" where
  "demo_net = \<lparr>tcp_connect = (\<lambda>n _. Inr (demo_sock [])),
     vsock_connect = (\<lambda>n _ p. if p = 7 then Inr (demo_sock demo_bytes) else
        if n = 0 then Inl (io_error_of TimedOut) else Inr (demo_sock [])),
     secret_new = (\<lambda>_ _ _. Inr [9]), secret_peer_id = (\<lambda>x. x),
     secret_ops = \<lparr>conn_read = (\<lambda>n x. (Inr [], x)), conn_write_all = (\<lambda>b x. (Inr (), x))\<rparr>\<rparr>"

lemma demo_nitro_ok: "nitro_lib_ok demo_nitro"
  by (auto simp: nitro_lib_ok_def demo_nitro_def split: sum.splits if_splits)

lemma demo_sock_read: "length b \<le> 65535 \<Longrightarrow> b \<noteq> [] \<Longrightarrow> \<exists>s. read_u16_payload (demo_sock b) = (Inr b, s)"
  using read_u16_payload_frame [of "demo_sock b" b "[]"]
  by (auto simp: demo_sock_def frame_def)

lemma demo_get_connection:
  "cfg_port \<noteq> 7 \<Longrightarrow> nc_enclave_tendermint_conn cfg = cfg_port \<Longrightarrow>
     nitro_get_connection demo_net cfg None 0 = Some (BoxPlain (plain_new (demo_sock [])), 2)"
  unfolding nitro_get_connection_def
  by (rule retry_connect_first [where k = 1, simplified, THEN trans])
     (auto simp: nitro_connect_attempt_def demo_net_def)

lemma demo_entry_serves:
  "\<exists>s n. nitro_entry demo_nitro demo_net [1] (demo_sock [1]) = Some (NServing s n)"
proof -
  obtain r where r: "read_u16_payload (demo_sock [1]) = (Inr [1], r)"
    using demo_sock_read [of "[1]"] by auto
  obtain h where h: "read_u16_payload (demo_sock demo_bytes) = (Inr demo_bytes, h)"
    using demo_sock_read [of demo_bytes] demo_bytes_facts(3) by fastforce
  have "nl_request_from_json demo_nitro [1] = Inr (Start
        \<lparr>nc_chain_id = ''chain-1'', nc_max_height = None, nc_sealed_consensus_key = [42],
         nc_sealed_id_key = None, nc_peer_id = None, nc_enclave_state_port = 7,
         nc_enclave_tendermint_conn = 8,
         nc_credentials = \<lparr>aws_key_id = [], aws_secret_key = [], aws_session_token = []\<rparr>, nc_aws_region = []\<rparr>)"
    (is "_ = Inr (Start ?cfg)") by (simp add: demo_nitro_def)
  moreover have "\<exists>holder. nitro_start demo_nitro demo_net ?cfg = Inr ([42], None, State_from demo_vote_state, holder)"
    using h demo_bytes_facts(2)
    by (simp add: nitro_start_def nitro_decrypt_key_def nitro_holder_new_def nitro_load_state_def demo_nitro_def demo_net_def)
  ultimately show ?thesis using r demo_get_connection [of 8 ?cfg] by (auto simp: nitro_entry_def)
qed

theorem nitro_enclave_serves_once_witness:
  "\<exists>s n. \<forall>more. nitro_enclave_main demo_nitro [] (Inr ()) (\<lambda>_. Inr ())
     (\<lparr>et_seeded = True, et_conn = Inr (demo_sock [1]), et_net = demo_net, et_fresh = [1]\<rparr> # more) = ([], EnclaveServing s n)"
proof -
  let ?t = "\<lparr>et_seeded = True, et_conn = Inr (demo_sock [1]), et_net = demo_net, et_fresh = [1]\<rparr>"
  obtain s n where e: "nitro_entry demo_nitro demo_net [1] (demo_sock [1]) = Some (NServing s n)"
    using demo_entry_serves by blast
  then have "nitro_enclave_main demo_nitro [] (Inr ()) (\<lambda>_. Inr ()) [?t] = ([], EnclaveServing s n)"
    by (simp add: nitro_enclave_main_def enclave_main_args_def)
  from nitro_enclave_serves_once [OF this] show ?thesis by (auto simp: Cons_eq_append_conv)
qed

theorem nitro_connection_is_expected_witness:
  "\<exists>c n'. nitro_get_connection demo_net
       \<lparr>nc_chain_id = [], nc_max_height = None, nc_sealed_consensus_key = [], nc_sealed_id_key = Some [],
        nc_peer_id = Some [9], nc_enclave_state_port = 7, nc_enclave_tendermint_conn = 8,
        nc_credentials = \<lparr>aws_key_id = [], aws_secret_key = [], aws_session_token = []\<rparr>, nc_aws_region = []\<rparr>
       (Some [1]) 0 = Some (c, n') \<and> c = BoxSecret [9]"
    (is "\<exists>c n'. nitro_get_connection demo_net ?cfg _ _ = _ \<and> _")
proof -
  have "retry_connect (nitro_connect_attempt demo_net ?cfg (Some [1])) 0 = Some (BoxSecret [9], Suc (0 + 1))"
    by (rule retry_connect_first)
       (auto simp: nitro_connect_attempt_def nitro_get_secret_connection_def demo_net_def)
  then have g: "nitro_get_connection demo_net ?cfg (Some [1]) 0 = Some (BoxSecret [9], 2)"
    by (simp add: nitro_get_connection_def)
  from nitro_connection_is_expected [OF g] g show ?thesis by auto
qed

definition demo_keygen :: nitro_keygen_config where
  "demo_keygen = \<lparr>nkc_credentials = \<lparr>aws_key_id = [], aws_secret_key = [], aws_session_token = []\<rparr>,
     nkc_kms_key_id = [], nkc_aws_region = []\<rparr>"

theorem nitro_generated_key_starts_witness:
  "\<exists>f' c. nitro_generate_key demo_nitro (\<lambda>_ _. Inr (demo_sock [5])) 1 2 ''key'' [] (nkc_credentials demo_keygen) [] []
       \<lparr>files = (\<lambda>_. None), faults = []\<rparr> = (Inr ([42], [3]), f')
     \<and> files f' ''key'' = Some c"
proof -
  let ?es = "\<lparr>rx = [], wx = [], sent = []\<rparr>"
  let ?es' = "\<lparr>rx = [], wx = [], sent = frame [5]\<rparr>"
  have k: "nitro_keygen demo_nitro [42] demo_keygen ?es = (Inr (), ?es')"
    by (simp add: nitro_keygen_def nitro_keygen_reply_def demo_nitro_def write_u16_payload_ideal)
  have w: "write_u16_payload [1] (demo_sock [5]) = (Inr (), (demo_sock [5])\<lparr>sent := frame [1]\<rparr>)"
    by (simp add: write_u16_payload_ideal demo_sock_def)
  obtain h where r: "read_u16_payload ((demo_sock [5])\<lparr>sent := frame [1]\<rparr>) = (Inr [5], h)"
    using read_u16_payload_frame [of "(demo_sock [5])\<lparr>sent := frame [1]\<rparr>" "[5]" "[]"]
    by (auto simp: demo_sock_def frame_def)
  obtain f' where g: "nitro_generate_key demo_nitro (\<lambda>_ _. Inr (demo_sock [5])) 1 2 ''key'' []
      (nkc_credentials demo_keygen) [] [] \<lparr>files = (\<lambda>_. None), faults = []\<rparr> = (Inr ([42], [3]), f')"
    using w r by (simp add: nitro_generate_key_def demo_nitro_def fs_truncate_write_def next_fault_def)
  let ?cfg = "\<lparr>nc_chain_id = [], nc_max_height = None, nc_sealed_consensus_key = [], nc_sealed_id_key = None,
    nc_peer_id = None, nc_enclave_state_port = 7, nc_enclave_tendermint_conn = 8,
    nc_credentials = nkc_credentials demo_keygen, nc_aws_region = []\<rparr>"
  have "connected ?es' (demo_sock [5])" by (simp add: connected_def demo_sock_def frame_def)
  from nitro_generated_key_starts [OF demo_nitro_ok k _ _ this g, of ?cfg] g
  show ?thesis by (auto simp: demo_keygen_def)
qed

theorem enclave_arguments_are_shifted_witness:
  "enclave_main_args [as_bytes ''/init'', dec_bytes 5051, dec_bytes 6051] = (5050, 5051, DEBUG)"
proof (rule enclave_arguments_are_shifted)
  show "parse_u32 (as_bytes ''/init'') = None"
    by (simp add: parse_u32_def as_bytes_def is_digit_byte_def)
qed simp_all

end
