(* ===== verification/Keywrap.thy ===== *)
theory Keywrap
  imports Prelude
begin

unbundle bit_operations_syntax

text \<open>
  \<open>providers/sgx/sgx-app/src/sgx_app/cloud/keywrap.rs\<close>: unwrapping a 32-byte key by RFC 3394 with the alternate
  initial value of RFC 5649, and the wrapping written for its tests.  AES-256 is an argument.  The two
  nested loops are shown to undo each other, so that \<open>aes256_unwrap_key_with_pad\<close> accepts exactly the wrapped
  keys.
\<close>

section \<open>The code\<close>

text \<open>
  The block cipher under a key; \<open>copy_at r b bs\<close> is \<open>r[b..][..bs.len()].copy_from_slice(bs)\<close>.
\<close>

record aes256 =
  encrypt_block :: "bytes \<Rightarrow> bytes \<Rightarrow> bytes"
  decrypt_block :: "bytes \<Rightarrow> bytes \<Rightarrow> bytes"

definition copy_at :: "bytes \<Rightarrow> nat \<Rightarrow> bytes \<Rightarrow> bytes" where
  "copy_at r b bs = take b r @ bs @ drop (b + length bs) r"

text \<open>The body of the inner loop of \<open>aes256_unwrap_key_and_iv\<close>.\<close>

definition unwrap_block :: "aes256 \<Rightarrow> bytes \<Rightarrow> nat \<Rightarrow> nat \<Rightarrow> nat \<Rightarrow> u64 \<times> bytes \<Rightarrow> u64 \<times> bytes" where
  "unwrap_block aes kek n j i ar =
     (case ar of (a, r) \<Rightarrow>
        let t = (word_of_nat (n * j + i) :: u64);
            b_i = i * 8;
            ciphertext = u64_to_be_bytes (a XOR t) @ take 8 (drop b_i r);
            block = decrypt_block aes kek ciphertext
        in (u64_from_be_bytes (take 8 block), copy_at r b_i (drop 8 block)))"

definition aes256_unwrap_key_and_iv :: "aes256 \<Rightarrow> bytes \<Rightarrow> bytes \<Rightarrow> bytes \<times> bytes" where
  "aes256_unwrap_key_and_iv aes kek input =
     (let n = length input div 8 - 1;
          r = replicate 8 0 @ drop 8 input;
          a = u64_from_be_bytes (take 8 input)
      in case foldl (\<lambda>ar j. foldl (\<lambda>ar i. unwrap_block aes kek n j i ar) ar (rev [1..<n + 1])) (a, r) (rev [0..<6]) of
           (a, r) \<Rightarrow> (drop 8 r, u64_to_be_bytes a))"

datatype UnwrapError = IncorrectLength | AuthFailed

definition IV_5649 :: bytes where
  "IV_5649 = [0xa6, 0x59, 0x59, 0xa6, 0, 0, 0, 32]"

definition aes256_unwrap_key_with_pad :: "aes256 \<Rightarrow> bytes \<Rightarrow> bytes \<Rightarrow> UnwrapError + bytes" where
  "aes256_unwrap_key_with_pad aes kek wrapped =
     (if length kek \<noteq> 32 \<or> length wrapped \<noteq> 40 then Inl IncorrectLength
      else case aes256_unwrap_key_and_iv aes kek wrapped of
             (key, key_iv) \<Rightarrow> if IV_5649 \<noteq> key_iv then Inl AuthFailed else Inr key)"

text \<open>The wrapping of the test module; \<open>t\<close> counts the blocks.\<close>

definition wrap_block :: "aes256 \<Rightarrow> bytes \<Rightarrow> nat \<Rightarrow> u64 \<times> bytes \<Rightarrow> u64 \<times> bytes" where
  "wrap_block aes kek i tr =
     (case tr of (t, r) \<Rightarrow>
        let t = t + 1;
            b_i = i * 8;
            ciphertext = take 8 r @ take 8 (drop b_i r);
            block = encrypt_block aes kek ciphertext;
            a = u64_from_be_bytes (take 8 block) XOR t
        in (t, copy_at (copy_at r 0 (u64_to_be_bytes a)) b_i (drop 8 block)))"

definition aes256_wrap_key_and_iv :: "aes256 \<Rightarrow> bytes \<Rightarrow> bytes \<Rightarrow> u64 \<Rightarrow> bytes" where
  "aes256_wrap_key_and_iv aes kek input iv =
     (let n = length input div 8 - 1;
          r = u64_to_be_bytes iv @ input
      in snd (foldl (\<lambda>tr _. foldl (\<lambda>tr i. wrap_block aes kek i tr) tr [1..<n + 2]) (0, r) [0..<6]))"

definition aes256_wrap_key_with_pad :: "aes256 \<Rightarrow> bytes \<Rightarrow> bytes \<Rightarrow> bytes" where
  "aes256_wrap_key_with_pad aes kek plaintext =
     aes256_wrap_key_and_iv aes kek plaintext (u64_from_be_bytes [0xa6, 0x59, 0x59, 0xa6, 0, 0, 0, 32])"

text \<open>What AES is relied on for: decryption and encryption of a 16-byte block undo each other.\<close>

definition aes_ok :: "aes256 \<Rightarrow> bool" where
  "aes_ok aes \<longleftrightarrow>
     (\<forall>k x. length k = 32 \<longrightarrow> length x = 16 \<longrightarrow>
        length (encrypt_block aes k x) = 16 \<and> length (decrypt_block aes k x) = 16
        \<and> decrypt_block aes k (encrypt_block aes k x) = x
        \<and> encrypt_block aes k (decrypt_block aes k x) = x)"

section \<open>Loops that undo each other\<close>

lemma foldl_undo:
  assumes "\<And>s x. ok s \<Longrightarrow> x \<in> set xs \<Longrightarrow> ok (f s x) \<and> g (f s x) x = s" "ok s"
  shows "foldl g (foldl f s xs) (rev xs) = s \<and> ok (foldl f s xs)"
  using assms
proof (induction xs arbitrary: s rule: rev_induct)
  case (snoc x xs)
  then have "ok (foldl f s xs)" by simp
  with snoc show ?case by simp
qed simp

lemma foldl_nested: "foldl (\<lambda>s j. foldl (\<lambda>s i. f j i s) s ys) s xs
    = foldl (\<lambda>s (j, i). f j i s) s (concat (map (\<lambda>j. map (Pair j) ys) xs))"
proof (induction xs arbitrary: s)
  case (Cons x xs)
  have "foldl (\<lambda>s (j, i). f j i s) s (map (Pair x) ys) = foldl (\<lambda>s i. f x i s) s ys"
    by (induction ys arbitrary: s) auto
  with Cons show ?case by simp
qed simp

text \<open>
  The two steps on the pair of the integrity register and the four blocks, for step number \<open>t\<close> and
  block \<open>i\<close>.
\<close>

definition wrap_step :: "aes256 \<Rightarrow> bytes \<Rightarrow> u64 \<times> bytes \<Rightarrow> nat \<times> nat \<Rightarrow> u64 \<times> bytes" where
  "wrap_step aes kek s x =
     (case (s, x) of ((a, R), (t, i)) \<Rightarrow>
        let block = encrypt_block aes kek (u64_to_be_bytes a @ take 8 (drop (i * 8) R))
        in (u64_from_be_bytes (take 8 block) XOR word_of_nat t, copy_at R (i * 8) (drop 8 block)))"

definition unwrap_step :: "aes256 \<Rightarrow> bytes \<Rightarrow> u64 \<times> bytes \<Rightarrow> nat \<times> nat \<Rightarrow> u64 \<times> bytes" where
  "unwrap_step aes kek s x =
     (case (s, x) of ((a, R), (t, i)) \<Rightarrow>
        let block = decrypt_block aes kek (u64_to_be_bytes (a XOR word_of_nat t) @ take 8 (drop (i * 8) R))
        in (u64_from_be_bytes (take 8 block), copy_at R (i * 8) (drop 8 block)))"

lemma copy_at_simps:
  assumes "b + length bs \<le> length r"
  shows "length (copy_at r b bs) = length r" "take (length bs) (drop b (copy_at r b bs)) = bs"
    "length cs = length bs \<Longrightarrow> copy_at (copy_at r b bs) b cs = copy_at r b cs"
    "copy_at r b (take (length bs) (drop b r)) = r"
proof -
  show "copy_at r b (take (length bs) (drop b r)) = r"
    using assms by (simp add: copy_at_def) (metis add.commute append_take_drop_id drop_drop)
qed (use assms in \<open>auto simp: copy_at_def\<close>)

lemma aes_ok_D:
  assumes "aes_ok aes" "length kek = 32" "length x = 16"
  shows "length (encrypt_block aes kek x) = 16" "length (decrypt_block aes kek x) = 16"
    "decrypt_block aes kek (encrypt_block aes kek x) = x" "encrypt_block aes kek (decrypt_block aes kek x) = x"
  using assms by (auto simp: aes_ok_def)

lemma xor_twice: "(a XOR t) XOR t = (a :: u64)"
  by (simp add: xor.assoc)

definition four_blocks :: "u64 \<times> bytes \<Rightarrow> bool" where
  "four_blocks s \<longleftrightarrow> length (snd s) = 32"

lemma copy_at_8:
  assumes "length R = 32" "i < (4 :: nat)" "length bs = 8"
  shows "length (copy_at R (i * 8) bs) = 32" "take 8 (drop (i * 8) (copy_at R (i * 8) bs)) = bs"
    "length cs = 8 \<Longrightarrow> copy_at (copy_at R (i * 8) bs) (i * 8) cs = copy_at R (i * 8) cs"
    "copy_at R (i * 8) (take 8 (drop (i * 8) R)) = R" "length (take 8 (drop (i * 8) R)) = 8"
proof -
  have le: "i * 8 + length bs \<le> length R" using assms by simp
  show "length (copy_at R (i * 8) bs) = 32" "take 8 (drop (i * 8) (copy_at R (i * 8) bs)) = bs"
    "copy_at R (i * 8) (take 8 (drop (i * 8) R)) = R"
    using copy_at_simps(1,2,4) [OF le] assms by simp_all
  show "length cs = 8 \<Longrightarrow> copy_at (copy_at R (i * 8) bs) (i * 8) cs = copy_at R (i * 8) cs"
    using copy_at_simps(3) [OF le, of cs] assms by simp
  show "length (take 8 (drop (i * 8) R)) = 8" using assms by simp
qed

lemma unwrap_wrap_step:
  assumes "aes_ok aes" "length kek = 32" "four_blocks s" "snd x < 4"
  shows "four_blocks (wrap_step aes kek s x) \<and> unwrap_step aes kek (wrap_step aes kek s x) x = s"
proof -
  obtain a R t i where s: "s = (a, R)" and x: "x = (t, i)" by (cases s, cases x)
  from assms(3,4) s x have R: "length R = 32" and i: "i < 4" by (simp_all add: four_blocks_def)
  define p where "p = u64_to_be_bytes a @ take 8 (drop (i * 8) R)"
  have p: "length p = 16" using copy_at_8(5) [OF R i, of "replicate 8 0"] by (simp add: p_def)
  define b where "b = encrypt_block aes kek p"
  note c = aes_ok_D [OF assms(1,2) p, folded b_def]
  have b8: "length (drop 8 b) = 8" "length (take 8 b) = 8" using c by simp_all
  note k = copy_at_8 [OF R i b8(1)]
  have w: "wrap_step aes kek s x = (u64_from_be_bytes (take 8 b) XOR word_of_nat t, copy_at R (i * 8) (drop 8 b))"
    by (simp add: wrap_step_def s x b_def p_def Let_def)
  have e: "u64_to_be_bytes (u64_from_be_bytes (take 8 b)) @ drop 8 b = b"
    using u64_to_from_be_bytes [OF b8(2)] by simp
  show ?thesis
    unfolding w using k c(3)
    by (simp add: four_blocks_def unwrap_step_def x s xor_twice e Let_def) (simp add: p_def)
qed

lemma wrap_unwrap_step:
  assumes "aes_ok aes" "length kek = 32" "four_blocks s" "snd x < 4"
  shows "four_blocks (unwrap_step aes kek s x) \<and> wrap_step aes kek (unwrap_step aes kek s x) x = s"
proof -
  obtain a R t i where s: "s = (a, R)" and x: "x = (t, i)" by (cases s, cases x)
  from assms(3,4) s x have R: "length R = 32" and i: "i < 4" by (simp_all add: four_blocks_def)
  define p where "p = u64_to_be_bytes (a XOR word_of_nat t) @ take 8 (drop (i * 8) R)"
  have p: "length p = 16" using copy_at_8(5) [OF R i, of "replicate 8 0"] by (simp add: p_def)
  define b where "b = decrypt_block aes kek p"
  note c = aes_ok_D [OF assms(1,2) p, folded b_def]
  have b8: "length (drop 8 b) = 8" "length (take 8 b) = 8" using c by simp_all
  note k = copy_at_8 [OF R i b8(1)]
  have w: "unwrap_step aes kek s x = (u64_from_be_bytes (take 8 b), copy_at R (i * 8) (drop 8 b))"
    by (simp add: unwrap_step_def s x b_def p_def Let_def)
  have e: "u64_to_be_bytes (u64_from_be_bytes (take 8 b)) @ drop 8 b = b"
    using u64_to_from_be_bytes [OF b8(2)] by simp
  show ?thesis
    unfolding w using k c(4)
    by (simp add: four_blocks_def wrap_step_def x s e Let_def) (simp add: p_def xor_twice)
qed

section \<open>The loops of the code as sequences of steps\<close>

lemma prefix_block:
  assumes "length z = 8"
  shows "take 8 (drop (Suc i * 8) (z @ R)) = take 8 (drop (i * 8) R)"
    "copy_at (z @ R) (Suc i * 8) bs = z @ copy_at R (i * 8) bs"
  using assms by (simp_all add: copy_at_def)

lemma unwrap_block_step:
  assumes "length z = 8"
  shows "unwrap_block aes kek n j (Suc i) (a, z @ R)
    = (let s = unwrap_step aes kek (a, R) (n * j + Suc i, i) in (fst s, z @ snd s))"
  using prefix_block [OF assms]
  by (simp add: unwrap_block_def unwrap_step_def Let_def del: mult_Suc)

lemma wrap_block_step:
  "wrap_block aes kek (Suc i) (word_of_nat t, u64_to_be_bytes a @ R)
    = (let s = wrap_step aes kek (a, R) (Suc t, i) in (word_of_nat (Suc t), u64_to_be_bytes (fst s) @ snd s))"
proof -
  have c: "copy_at (u64_to_be_bytes a @ R) 0 (u64_to_be_bytes a') = u64_to_be_bytes a' @ R" for a'
    by (simp add: copy_at_def)
  have "word_of_nat t + 1 = (word_of_nat (Suc t) :: u64)" by simp
  then show ?thesis
    using prefix_block [of "u64_to_be_bytes _"]
    by (simp add: wrap_block_def wrap_step_def Let_def c del: mult_Suc of_nat_Suc)
qed

definition steps :: "(nat \<times> nat) list" where
  "steps = concat (map (\<lambda>j. map (\<lambda>i. (4 * j + i, i - 1)) [1..<5]) [0..<6])"

lemma steps_numbered: "steps = zip [1..<25] (concat (replicate 6 [0, 1, 2, 3]))"
  by (simp add: steps_def upt_rec numeral_eq_Suc)

lemma steps_blocks: "x \<in> set steps \<Longrightarrow> snd x < 4"
  by (auto simp: steps_def)

lemma unwrap_loop:
  assumes "length z = 8"
  shows "foldl (\<lambda>ar (j, i). unwrap_block aes kek n j (Suc i) ar) (a, z @ R) xs
    = (let s = foldl (unwrap_step aes kek) (a, R) (map (\<lambda>(j, i). (n * j + Suc i, i)) xs) in (fst s, z @ snd s))"
proof (induction xs arbitrary: a R)
  case (Cons x xs)
  obtain j i where x: "x = (j, i)" by (cases x)
  obtain a' R' where "unwrap_step aes kek (a, R) (n * j + Suc i, i) = (a', R')" by fastforce
  with Cons.IH [of a' R'] x show ?case
    by (simp add: unwrap_block_step [OF assms] del: add_Suc_right)
qed (simp add: Let_def)

lemma wrap_loop:
  "foldl (\<lambda>tr i. wrap_block aes kek (Suc i) tr) (word_of_nat t, u64_to_be_bytes a @ R) xs
    = (let s = foldl (wrap_step aes kek) (a, R) (zip [Suc t..<Suc t + length xs] xs)
       in (word_of_nat (t + length xs), u64_to_be_bytes (fst s) @ snd s))"
proof (induction xs arbitrary: t a R)
  case (Cons i xs)
  obtain a' R' where w: "wrap_step aes kek (a, R) (Suc t, i) = (a', R')" by fastforce
  have "[Suc t..<Suc t + length (i # xs)] = Suc t # [Suc (Suc t)..<Suc (Suc t) + length xs]"
    by (simp add: upt_rec)
  then show ?case
    using Cons.IH [of "Suc t" a' R'] w by (simp add: wrap_block_step del: upt_Suc of_nat_Suc)
qed (simp add: Let_def)

lemma unwrap_key_and_iv_steps:
  assumes "length input = 40"
  shows "aes256_unwrap_key_and_iv aes kek input
    = (let s = foldl (unwrap_step aes kek) (u64_from_be_bytes (take 8 input), drop 8 input) (rev steps)
       in (snd s, u64_to_be_bytes (fst s)))"
proof -
  let ?js = "concat (map (\<lambda>j. map (Pair j) (rev [0..<4])) (rev [0..<6]))"
  have "rev [1..<4 + 1] = map Suc (rev [0..<4])" by (simp add: upt_rec numeral_eq_Suc)
  then have "foldl (\<lambda>ar i. unwrap_block aes kek 4 j i ar) ar (rev [1..<4 + 1])
      = foldl (\<lambda>ar i. unwrap_block aes kek 4 j (Suc i) ar) ar (rev [0..<4])" for j ar
    by (simp only: foldl_map)
  then have "foldl (\<lambda>ar j. foldl (\<lambda>ar i. unwrap_block aes kek 4 j i ar) ar (rev [1..<4 + 1])) ar (rev [0..<6])
      = foldl (\<lambda>ar (j, i). unwrap_block aes kek 4 j (Suc i) ar) ar ?js" for ar
    by (simp only: foldl_nested)
  moreover have "map (\<lambda>(j, i). (4 * j + Suc i, i)) ?js = rev steps"
    by (simp add: steps_def upt_rec numeral_eq_Suc)
  moreover have "length input div 8 - 1 = 4" using assms by simp
  ultimately show ?thesis
    using unwrap_loop [of "replicate 8 0" aes kek 4 "u64_from_be_bytes (take 8 input)" "drop 8 input" ?js]
    by (simp only: aes256_unwrap_key_and_iv_def Let_def) simp
qed

lemma wrap_key_and_iv_steps:
  assumes "length input = 32"
  shows "aes256_wrap_key_and_iv aes kek input iv
    = (let s = foldl (wrap_step aes kek) (iv, input) steps in u64_to_be_bytes (fst s) @ snd s)"
proof -
  have "[1..<3 + 2] = map Suc [0..<4]" by (simp add: upt_rec numeral_eq_Suc)
  then have "foldl (\<lambda>tr i. wrap_block aes kek i tr) tr [1..<3 + 2]
      = foldl (\<lambda>tr i. wrap_block aes kek (Suc i) tr) tr [0..<4]" for tr
    by (simp only: foldl_map)
  moreover define ks where "ks = concat (replicate 6 [0, 1, 2, 3 :: nat])"
  moreover have "[0..<4] = [0, 1, 2, 3 :: nat]" "[0..<6] = [0, 1, 2, 3, 4, 5 :: nat]"
    by (simp_all add: upt_rec)
  ultimately have l: "foldl (\<lambda>tr _. foldl (\<lambda>tr i. wrap_block aes kek i tr) tr [1..<3 + 2]) tr [0..<6]
      = foldl (\<lambda>tr i. wrap_block aes kek (Suc i) tr) tr ks" for tr
    by (simp add: numeral_eq_Suc)
  have len: "length ks = 24" by (simp add: ks_def numeral_eq_Suc)
  then have z: "zip [Suc 0..<Suc 0 + length ks] ks = steps" by (simp add: steps_numbered ks_def)
  have n: "length input div 8 - 1 = 3" using assms by simp
  have "foldl (\<lambda>tr i. wrap_block aes kek (Suc i) tr) (0, u64_to_be_bytes iv @ input) ks
      = (let s = foldl (wrap_step aes kek) (iv, input) steps
         in (word_of_nat (length ks), u64_to_be_bytes (fst s) @ snd s))"
    using wrap_loop [of aes kek 0 iv input ks] unfolding z by simp
  then show ?thesis
    unfolding aes256_wrap_key_and_iv_def Let_def n l by simp
qed

lemma IV_word: "u64_to_be_bytes (u64_from_be_bytes IV_5649) = IV_5649"
  by (rule u64_to_from_be_bytes) (simp add: IV_5649_def)

lemma length_wrap:
  assumes "aes_ok aes" "length kek = 32" "length key = 32"
  shows "length (aes256_wrap_key_with_pad aes kek key) = 40"
proof -
  have "four_blocks (foldl (wrap_step aes kek) (iv, key) steps)" for iv
    using foldl_undo [of four_blocks steps "wrap_step aes kek" "unwrap_step aes kek" "(iv, key)"]
      unwrap_wrap_step [OF assms(1,2)] steps_blocks assms(3)
    by (simp add: four_blocks_def)
  then show ?thesis
    by (simp add: aes256_wrap_key_with_pad_def wrap_key_and_iv_steps [OF assms(3)] four_blocks_def Let_def)
qed

lemma unwrap_wrapped:
  assumes "aes_ok aes" "length kek = 32" "length key = 32"
  shows "aes256_unwrap_key_with_pad aes kek (aes256_wrap_key_with_pad aes kek key) = Inr key"
proof -
  let ?iv = "u64_from_be_bytes IV_5649"
  let ?s = "foldl (wrap_step aes kek) (?iv, key) steps"
  let ?w = "aes256_wrap_key_with_pad aes kek key"
  have u: "foldl (unwrap_step aes kek) ?s (rev steps) = (?iv, key)"
    using foldl_undo [of four_blocks steps "wrap_step aes kek" "unwrap_step aes kek" "(?iv, key)"]
      unwrap_wrap_step [OF assms(1,2)] steps_blocks assms(3)
    by (simp add: four_blocks_def)
  have w: "?w = u64_to_be_bytes (fst ?s) @ snd ?s"
    by (simp add: aes256_wrap_key_with_pad_def IV_5649_def wrap_key_and_iv_steps [OF assms(3)] Let_def)
  then have "(u64_from_be_bytes (take 8 ?w), drop 8 ?w) = ?s" by simp
  then show ?thesis
    using u length_wrap [OF assms] assms(2) IV_word
    by (simp add: aes256_unwrap_key_with_pad_def unwrap_key_and_iv_steps Let_def)
qed

lemma unwrap_Inr:
  assumes "aes_ok aes" "aes256_unwrap_key_with_pad aes kek wrapped = Inr key"
  shows "length key = 32 \<and> wrapped = aes256_wrap_key_with_pad aes kek key"
proof -
  from assms(2) have len: "length kek = 32" "length wrapped = 40"
    by (auto simp: aes256_unwrap_key_with_pad_def split: if_splits)
  let ?b = "(u64_from_be_bytes (take 8 wrapped), drop 8 wrapped)"
  let ?s = "foldl (unwrap_step aes kek) ?b (rev steps)"
  have u: "foldl (wrap_step aes kek) ?s steps = ?b \<and> four_blocks ?s"
    using foldl_undo [of four_blocks "rev steps" "unwrap_step aes kek" "wrap_step aes kek" ?b]
      wrap_unwrap_step [OF assms(1) len(1)] steps_blocks len(2)
    by (simp add: four_blocks_def)
  from assms(2) len have "IV_5649 = u64_to_be_bytes (fst ?s)" "key = snd ?s"
    by (auto simp: aes256_unwrap_key_with_pad_def unwrap_key_and_iv_steps Let_def split: if_splits)
  then have s: "?s = (u64_from_be_bytes IV_5649, key)"
    by (metis prod.collapse u64_from_to_be_bytes)
  with u have k: "length key = 32" by (simp add: four_blocks_def)
  have "aes256_wrap_key_with_pad aes kek key = u64_to_be_bytes (fst ?b) @ snd ?b"
    using u s by (simp add: aes256_wrap_key_with_pad_def IV_5649_def wrap_key_and_iv_steps [OF k] Let_def)
  with k len show ?thesis by (simp add: u64_to_from_be_bytes)
qed

section \<open>Properties\<close>

text \<open>
  Unwrapping undoes the wrapping of RFC 3394/5649 for every key-encryption key and every key of 32 bytes, given that AES
  decryption and encryption undo each other.
\<close>

theorem keywrap_roundtrip:
  assumes "aes_ok aes" and "length kek = 32" and "length key = 32"
  shows "aes256_unwrap_key_with_pad aes kek (aes256_wrap_key_with_pad aes kek key) = Inr key"
  using assms by (rule unwrap_wrapped)

text \<open>A concrete block cipher, for the applications.\<close>

definition demo_aes :: aes256 where
  "demo_aes = \<lparr>encrypt_block = (\<lambda>k x. rev x), decrypt_block = (\<lambda>k x. rev x)\<rparr>"

lemma demo_aes_ok: "aes_ok demo_aes"
  by (simp add: aes_ok_def demo_aes_def)

theorem keywrap_roundtrip_witness:
  "aes256_unwrap_key_with_pad demo_aes (replicate 32 1)
     (aes256_wrap_key_with_pad demo_aes (replicate 32 1) (replicate 32 7)) = Inr (replicate 32 7)"
  by (rule keywrap_roundtrip) (simp_all add: demo_aes_ok)

text \<open>
  C10. \<open>aes256_unwrap_key_with_pad\<close> on every branch: a key is returned only for the wrapping of that very key under the same
  key-encryption key; \<open>IncorrectLength\<close> exactly when an argument has the wrong length; \<open>AuthFailed\<close> only when the
  input is the wrapping of no key.
\<close>

theorem unwrap_accepts_only_wrapped_keys:
  assumes "aes_ok aes"
  shows "case aes256_unwrap_key_with_pad aes kek wrapped of
      Inr key \<Rightarrow> length key = 32 \<and> wrapped = aes256_wrap_key_with_pad aes kek key
    | Inl IncorrectLength \<Rightarrow> length kek \<noteq> 32 \<or> length wrapped \<noteq> 40
    | Inl AuthFailed \<Rightarrow> length kek = 32 \<and> length wrapped = 40
        \<and> (\<nexists>key. length key = 32 \<and> wrapped = aes256_wrap_key_with_pad aes kek key)"
proof (cases "aes256_unwrap_key_with_pad aes kek wrapped")
  case (Inr key)
  with unwrap_Inr [OF assms] show ?thesis by simp
next
  case (Inl e)
  show ?thesis
  proof (cases e)
    case IncorrectLength
    with Inl show ?thesis by (auto simp: aes256_unwrap_key_with_pad_def split: prod.splits if_splits)
  next
    case AuthFailed
    with Inl have "length kek = 32 \<and> length wrapped = 40"
      by (auto simp: aes256_unwrap_key_with_pad_def split: if_splits)
    with Inl AuthFailed unwrap_wrapped [OF assms] show ?thesis by fastforce
  qed
qed

theorem unwrap_accepts_only_wrapped_keys_witness:
  "case aes256_unwrap_key_with_pad demo_aes [1] [] of
      Inr key \<Rightarrow> False | Inl IncorrectLength \<Rightarrow> True | Inl AuthFailed \<Rightarrow> False"
  using unwrap_accepts_only_wrapped_keys [OF demo_aes_ok, of "[1]" "[]"]
  by (simp add: aes256_unwrap_key_with_pad_def)

end
