(* ===== verification/Sgx_Seal.thy ===== *)
theory Sgx_Seal
  imports Tm_Types Keywrap
begin

text \<open>
  \<open>providers/sgx/sgx-runner/src/shared.rs\<close>, \<open>providers/sgx/sgx-app/src/sgx_app/keypair_seal.rs\<close> and \<open>providers/sgx/sgx-app/src/sgx_app/cloud.rs\<close>: sealing a
  validator key to the processor, and its backup under a key from a cloud provider.  The processor's
  \<open>EGETKEY\<close>, AES-GCM-SIV, RSA, SHA-256, base64 and the key types of \<open>ed25519-consensus\<close> are fields of \<open>sgx_lib\<close>; \<open>aead_ok\<close>, \<open>keys_ok\<close> and
  \<open>base64_ok\<close> state what the code relies on.  The lemmas show that unsealing undoes sealing and yields only
  the key named in the request, and that recovery undoes backup.
\<close>

section \<open>Data shared with the runner\<close>

type_synonym aes_gcm_siv_nonce = bytes

record key_request_wrap =
  krw_keyname :: u16
  krw_keypolicy :: u16
  krw_isvsvn :: u16
  krw_cpusvn :: bytes
  krw_attributemask :: "u64 \<times> u64"
  krw_keyid :: bytes
  krw_miscmask :: u32

text \<open>\<open>Keyrequest\<close> of \<open>sgx_isa\<close>; \<open>kr_reserved\<close> stands for the fields that only \<open>Default\<close> sets.\<close>

datatype keypolicy = Keypolicy (policy_bits: u16)

record keyrequest =
  kr_keyname :: u16
  kr_keypolicy :: keypolicy
  kr_isvsvn :: u16
  kr_cpusvn :: bytes
  kr_attributemask :: "u64 \<times> u64"
  kr_keyid :: bytes
  kr_miscmask :: u32
  kr_reserved :: bytes

record sealed_key_data =
  seal_key_request :: key_request_wrap
  seal_nonce :: aes_gcm_siv_nonce
  sealed_secret :: bytes

record cloud_backup_key_data =
  cbd_nonce :: aes_gcm_siv_nonce
  cbd_sealed_secret :: bytes
  cbd_public_key :: verification_key

record cloud_backup_seal =
  encrypted_symmetric_key :: bytes
  wrapped_cloud_sealing_key :: bytes

record cloud_backup_key =
  sealed_rsa_key :: sealed_key_data
  backup_key :: cloud_backup_seal

record rsa_public_key =
  rsa_n :: bytes
  rsa_e :: bytes

type_synonym rsa_private_key = bytes

record report =
  rep_isvsvn :: u16
  rep_cpusvn :: bytes
  rep_reportdata :: bytes

type_synonym targetinfo = bytes

datatype ErrorCode = InvalidAttribute | InvalidKeyname | InvalidSignature | MacCompareFail
  | OtherErrorCode nat

section \<open>What comes from other crates\<close>

type_synonym aead = "bytes \<Rightarrow> bytes \<Rightarrow> bytes \<Rightarrow> bytes \<Rightarrow> bytes option"

record sgx_lib =
  egetkey :: "keyrequest \<Rightarrow> ErrorCode + bytes"
  report_for_self :: report
  report_for_target :: "targetinfo \<Rightarrow> bytes \<Rightarrow> report"
  targetinfo_from :: "report \<Rightarrow> targetinfo"
  keyrequest_default :: keyrequest
  keyname_seal :: u16
  keypolicy_mrsigner :: keypolicy
  keypolicy_from_bits :: "u16 \<Rightarrow> keypolicy option"
  aes128_gcm_siv_encrypt :: aead
  aes128_gcm_siv_decrypt :: aead
  aes256_gcm_siv_encrypt :: aead
  aes256_gcm_siv_decrypt :: aead
  aes_block :: aes256
  key_new :: "bytes \<Rightarrow> signing_key"
  key_try_from :: "bytes \<Rightarrow> signing_key option"
  key_bytes :: "signing_key \<Rightarrow> bytes"
  key_verification :: "signing_key \<Rightarrow> bytes"
  vk_try_from :: "bytes \<Rightarrow> bytes option"
  rsa_generate :: "nat \<Rightarrow> bytes \<Rightarrow> rsa_private_key option"
  rsa_public :: "rsa_private_key \<Rightarrow> rsa_public_key"
  rsa_to_pkcs1 :: "rsa_private_key \<Rightarrow> bytes option"
  rsa_from_pkcs1 :: "bytes \<Rightarrow> rsa_private_key option"
  rsa_oaep_decrypt :: "rsa_private_key \<Rightarrow> bytes \<Rightarrow> bytes option"
  sha256 :: "bytes \<Rightarrow> bytes"
  b64_encode :: "bytes \<Rightarrow> string"
  b64_decode :: "string \<Rightarrow> string + bytes"
  b64_url_encode :: "bytes \<Rightarrow> string"

text \<open>
  The random number generator is the list of what it will deliver, one entry per call.
\<close>

type_synonym rng = "bytes list"

definition fill_bytes :: "nat \<Rightarrow> rng \<Rightarrow> bytes \<times> rng" where
  "fill_bytes n rng =
     (case rng of [] \<Rightarrow> (replicate n 0, []) | x # r \<Rightarrow> (take n (x @ replicate n 0), r))"

text \<open>Decryption returns a message exactly for its encryption (both are deterministic).\<close>

definition aead_ok :: "aead \<Rightarrow> aead \<Rightarrow> bool" where
  "aead_ok enc dec \<longleftrightarrow>
     (\<forall>k n m a c. dec k n c a = Some m \<longleftrightarrow> enc k n m a = Some c)"

text \<open>
  A signing key and its verification key convert to bytes and back, and the bits of the policy
  \<open>MRSIGNER\<close> are known to \<open>from_bits\<close>.
\<close>

definition keys_ok :: "sgx_lib \<Rightarrow> bool" where
  "keys_ok lib \<longleftrightarrow>
     (\<forall>sk. key_try_from lib (key_bytes lib sk) = Some sk)
     \<and> (\<forall>sk. vk_try_from lib (key_verification lib sk) = Some (key_verification lib sk))
     \<and> (\<forall>b vk. vk_try_from lib b = Some vk \<longrightarrow> vk = b)
     \<and> keypolicy_from_bits lib (policy_bits (keypolicy_mrsigner lib)) = Some (keypolicy_mrsigner lib)"

definition base64_ok :: "sgx_lib \<Rightarrow> bool" where
  "base64_ok lib \<longleftrightarrow> (\<forall>b. b64_decode lib (b64_encode lib b) = Inr b)"

section \<open>The code of the shared module\<close>

definition key_request_try_into :: "sgx_lib \<Rightarrow> key_request_wrap \<Rightarrow> unit + keyrequest" where
  "key_request_try_into lib self =
     (case keypolicy_from_bits lib (krw_keypolicy self) of
        None \<Rightarrow> Inl ()
      | Some kp \<Rightarrow> Inr ((keyrequest_default lib)\<lparr>kr_keyname := krw_keyname self, kr_keypolicy := kp,
          kr_isvsvn := krw_isvsvn self, kr_cpusvn := krw_cpusvn self,
          kr_attributemask := krw_attributemask self, kr_keyid := krw_keyid self,
          kr_miscmask := krw_miscmask self\<rparr>))"

definition key_request_wrap_from :: "keyrequest \<Rightarrow> key_request_wrap" where
  "key_request_wrap_from kr =
     \<lparr>krw_keyname = kr_keyname kr, krw_keypolicy = policy_bits (kr_keypolicy kr),
      krw_isvsvn = kr_isvsvn kr, krw_cpusvn = kr_cpusvn kr,
      krw_attributemask = kr_attributemask kr, krw_keyid = kr_keyid kr,
      krw_miscmask = kr_miscmask kr\<rparr>"

definition cloud_backup_seal_new :: "bytes \<Rightarrow> cloud_backup_seal option" where
  "cloud_backup_seal_new payload =
     (if length payload \<noteq> 296 then None
      else Some \<lparr>encrypted_symmetric_key = take 256 payload,
                 wrapped_cloud_sealing_key = drop 256 payload\<rparr>)"

definition cloud_backup_seal_to_string :: "sgx_lib \<Rightarrow> cloud_backup_seal \<Rightarrow> string" where
  "cloud_backup_seal_to_string lib self =
     b64_encode lib (encrypted_symmetric_key self @ wrapped_cloud_sealing_key self)"

definition cloud_backup_seal_from_str :: "sgx_lib \<Rightarrow> string \<Rightarrow> string + cloud_backup_seal" where
  "cloud_backup_seal_from_str lib s =
     res_bind (b64_decode lib s)
       (\<lambda>b. case cloud_backup_seal_new b of Some c \<Rightarrow> Inr c | None \<Rightarrow> Inl ''InvalidLength'')"

text \<open>
  \<open>Serialize\<close> and \<open>Deserialize\<close> go through that text.  A value of serde's data model is a string or something else, with the description that
  \<open>invalid_type\<close> puts into the error.
\<close>

datatype serde_value = SerdeStr string | SerdeOther string

definition cloud_backup_seal_serialize :: "sgx_lib \<Rightarrow> cloud_backup_seal \<Rightarrow> serde_value" where
  "cloud_backup_seal_serialize lib self = SerdeStr (cloud_backup_seal_to_string lib self)"

definition cloud_backup_seal_deserialize :: "sgx_lib \<Rightarrow> serde_value \<Rightarrow> string + cloud_backup_seal" where
  "cloud_backup_seal_deserialize lib v =
     (case v of
        SerdeStr value \<Rightarrow> cloud_backup_seal_from_str lib value
      | SerdeOther unexpected \<Rightarrow> Inl (''invalid type: '' @ unexpected @ '', expected CloudBackupSeal''))"

definition get_claim :: "sgx_lib \<Rightarrow> rsa_public_key \<Rightarrow> string" where
  \<open>get_claim lib wrap_pub_key =
     ''{"kid":"wrapping-key","kty":"RSA","e":"'' @ b64_url_encode lib (rsa_e wrap_pub_key)
       @ ''","n":"'' @ b64_url_encode lib (rsa_n wrap_pub_key) @ ''"}''\<close>

section \<open>Sealing\<close>

definition seal_payload ::
    "sgx_lib \<Rightarrow> rng \<Rightarrow> bytes \<Rightarrow> bytes \<Rightarrow> bytes \<Rightarrow> (ErrorCode + sealed_key_data) \<times> rng" where
  "seal_payload lib csprng msg aad keyid =
     (let (nonce, csprng') = fill_bytes 12 csprng;
          rep = report_for_self lib;
          key_request = (keyrequest_default lib)\<lparr>kr_keyname := keyname_seal lib,
            kr_keypolicy := keypolicy_mrsigner lib, kr_isvsvn := rep_isvsvn rep,
            kr_cpusvn := rep_cpusvn rep, kr_keyid := keyid\<rparr>
      in (case egetkey lib key_request of
            Inl e \<Rightarrow> Inl e
          | Inr key \<Rightarrow>
              (case aes128_gcm_siv_encrypt lib key nonce msg aad of
                 Some ct \<Rightarrow> Inr \<lparr>seal_key_request = key_request_wrap_from key_request,
                   seal_nonce = nonce, sealed_secret = ct\<rparr>
               | None \<Rightarrow> Inl MacCompareFail), csprng'))"

definition seal :: "sgx_lib \<Rightarrow> rng \<Rightarrow> signing_key \<Rightarrow> (ErrorCode + sealed_key_data) \<times> rng" where
  "seal lib csprng keypair =
     (let pubkey = key_verification lib keypair
      in seal_payload lib csprng (key_bytes lib keypair) pubkey pubkey)"

definition seal_secret :: "sgx_lib \<Rightarrow> rng \<Rightarrow> bytes \<Rightarrow> bytes \<Rightarrow> (ErrorCode + sealed_key_data) \<times> rng" where
  "seal_secret lib csprng secret keyid = seal_payload lib csprng secret keyid keyid"

definition unseal_secret :: "sgx_lib \<Rightarrow> sealed_key_data \<Rightarrow> ErrorCode + bytes" where
  "unseal_secret lib sealed_data =
     (if krw_keyname (seal_key_request sealed_data) \<noteq> keyname_seal lib then Inl InvalidKeyname
      else res_bind (map_err (\<lambda>_. InvalidAttribute) (key_request_try_into lib (seal_key_request sealed_data)))
        (\<lambda>key_request. res_bind (egetkey lib key_request)
          (\<lambda>key. case aes128_gcm_siv_decrypt lib key (seal_nonce sealed_data) (sealed_secret sealed_data)
                       (krw_keyid (seal_key_request sealed_data)) of
                   Some secret_key \<Rightarrow> Inr secret_key
                 | None \<Rightarrow> Inl MacCompareFail)))"

definition unseal :: "sgx_lib \<Rightarrow> sealed_key_data \<Rightarrow> ErrorCode + signing_key" where
  "unseal lib sealed_data =
     (case vk_try_from lib (krw_keyid (seal_key_request sealed_data)) of
        None \<Rightarrow> Inl InvalidSignature
      | Some public \<Rightarrow>
          res_bind (unseal_secret lib sealed_data)
            (\<lambda>secret_key. case key_try_from lib secret_key of
               None \<Rightarrow> Inl InvalidSignature
             | Some secret \<Rightarrow>
                 if key_verification lib secret \<noteq> public then Inl InvalidSignature else Inr secret))"

section \<open>Cloud backups\<close>

datatype CloudError = SecretGenerationError | SealingError ErrorCode | CloudUnwrapError UnwrapError
  | DecryptionError | EncryptionError

definition generate_keypair ::
    "sgx_lib \<Rightarrow> rng \<Rightarrow> targetinfo \<Rightarrow> (CloudError + rsa_public_key \<times> sealed_key_data \<times> report) \<times> rng" where
  "generate_keypair lib csprng ti =
     (let (seed, csprng) = fill_bytes 32 csprng in
      case rsa_generate lib 2048 seed of
        None \<Rightarrow> (Inl SecretGenerationError, csprng)
      | Some priv_key \<Rightarrow>
          (let pub_key = rsa_public lib priv_key;
               result = sha256 lib (as_bytes (get_claim lib pub_key));
               report_data = copy_at (replicate 64 0) 0 result;
               rep = report_for_target lib ti report_data
           in case rsa_to_pkcs1 lib priv_key of
                None \<Rightarrow> (Inl SecretGenerationError, csprng)
              | Some secret \<Rightarrow>
                  (case seal_secret lib csprng secret result of
                     (Inr sealed, csprng') \<Rightarrow> (Inr (pub_key, sealed, rep), csprng')
                   | (Inl e, csprng') \<Rightarrow> (Inl (SealingError e), csprng'))))"

definition decrypt_wrapped_key ::
    "sgx_lib \<Rightarrow> rsa_private_key \<Rightarrow> cloud_backup_seal \<Rightarrow> CloudError + bytes" where
  "decrypt_wrapped_key lib priv_key backup_data_seal =
     (case rsa_oaep_decrypt lib priv_key (encrypted_symmetric_key backup_data_seal) of
        None \<Rightarrow> Inl DecryptionError
      | Some wrapping_key \<Rightarrow>
          map_err CloudUnwrapError
            (aes256_unwrap_key_with_pad (aes_block lib) wrapping_key
               (wrapped_cloud_sealing_key backup_data_seal)))"

text \<open>The steps that \<open>cloud_backup\<close> and \<open>reseal_recover_cloud\<close> share, from the sealed RSA key to the backup key.\<close>

definition backup_key_of :: "sgx_lib \<Rightarrow> cloud_backup_key \<Rightarrow> CloudError + bytes" where
  "backup_key_of lib backup =
     res_bind (map_err SealingError (unseal_secret lib (sealed_rsa_key backup)))
       (\<lambda>priv_key_raw. case rsa_from_pkcs1 lib priv_key_raw of
          None \<Rightarrow> Inl SecretGenerationError
        | Some priv_key \<Rightarrow> decrypt_wrapped_key lib priv_key (backup_key backup))"

definition cloud_backup ::
    "sgx_lib \<Rightarrow> rng \<Rightarrow> cloud_backup_key \<Rightarrow> signing_key \<Rightarrow> (CloudError + cloud_backup_key_data) \<times> rng" where
  "cloud_backup lib csprng backup keypair =
     (case backup_key_of lib backup of
        Inl e \<Rightarrow> (Inl e, csprng)
      | Inr gk \<Rightarrow>
          (let (nonce, csprng') = fill_bytes 12 csprng;
               pubkey = key_verification lib keypair
           in (case aes256_gcm_siv_encrypt lib gk nonce (key_bytes lib keypair) pubkey of
                 Some ct \<Rightarrow> Inr \<lparr>cbd_nonce = nonce, cbd_sealed_secret = ct,
                   cbd_public_key = key_verification lib keypair\<rparr>
               | None \<Rightarrow> Inl EncryptionError, csprng')))"

definition seal_recover_cloud_backup ::
    "sgx_lib \<Rightarrow> rng \<Rightarrow> bytes \<Rightarrow> cloud_backup_key_data \<Rightarrow> (ErrorCode + sealed_key_data) \<times> rng" where
  "seal_recover_cloud_backup lib csprng seal_key backup_data =
     (case aes256_gcm_siv_decrypt lib seal_key (cbd_nonce backup_data) (cbd_sealed_secret backup_data)
             (cbd_public_key backup_data) of
        Some secret_key \<Rightarrow>
          (case key_try_from lib secret_key of
             None \<Rightarrow> (Inl InvalidSignature, csprng)
           | Some secret \<Rightarrow> seal lib csprng secret)
      | None \<Rightarrow> (Inl MacCompareFail, csprng))"

definition reseal_recover_cloud ::
    "sgx_lib \<Rightarrow> rng \<Rightarrow> cloud_backup_key \<Rightarrow> cloud_backup_key_data \<Rightarrow> (CloudError + sealed_key_data) \<times> rng" where
  "reseal_recover_cloud lib csprng backup cb =
     (case backup_key_of lib backup of
        Inl e \<Rightarrow> (Inl e, csprng)
      | Inr bk \<Rightarrow> st_map_err SealingError (seal_recover_cloud_backup lib csprng bk cb))"

section \<open>What sealing keeps\<close>

lemma key_request_roundtrip:
  assumes "keypolicy_from_bits lib (policy_bits (kr_keypolicy kr)) = Some (kr_keypolicy kr)"
    and "kr_reserved kr = kr_reserved (keyrequest_default lib)"
  shows "key_request_try_into lib (key_request_wrap_from kr) = Inr kr"
  using assms by (simp add: key_request_try_into_def key_request_wrap_from_def)

lemma seal_payload_unseal_secret:
  assumes "keys_ok lib" "aead_ok (aes128_gcm_siv_encrypt lib) (aes128_gcm_siv_decrypt lib)"
    and "seal_payload lib rng msg keyid keyid = (Inr sd, rng')"
  shows "unseal_secret lib sd = Inr msg \<and> krw_keyid (seal_key_request sd) = keyid"
proof -
  let ?kr = "(keyrequest_default lib)\<lparr>kr_keyname := keyname_seal lib,
     kr_keypolicy := keypolicy_mrsigner lib, kr_isvsvn := rep_isvsvn (report_for_self lib),
     kr_cpusvn := rep_cpusvn (report_for_self lib), kr_keyid := keyid\<rparr>"
  obtain nonce where "fst (fill_bytes 12 rng) = nonce" by blast
  with assms(3) obtain key ct where k: "egetkey lib ?kr = Inr key"
    and ct: "aes128_gcm_siv_encrypt lib key nonce msg keyid = Some ct"
    and sd: "sd = \<lparr>seal_key_request = key_request_wrap_from ?kr, seal_nonce = nonce, sealed_secret = ct\<rparr>"
    by (auto simp: seal_payload_def Let_def split: prod.splits sum.splits option.splits)
  have "aes128_gcm_siv_decrypt lib key nonce ct keyid = Some msg"
    using assms(2) ct unfolding aead_ok_def by blast
  moreover have "key_request_try_into lib (key_request_wrap_from ?kr) = Inr ?kr"
    using assms(1) by (intro key_request_roundtrip) (simp_all add: keys_ok_def)
  ultimately show ?thesis
    using k by (simp add: sd unseal_secret_def) (simp add: key_request_wrap_from_def)
qed

lemma seal_unseal:
  assumes "keys_ok lib" "aead_ok (aes128_gcm_siv_encrypt lib) (aes128_gcm_siv_decrypt lib)"
    and "seal lib rng keypair = (Inr sd, rng')"
  shows "unseal lib sd = Inr keypair"
  using seal_payload_unseal_secret [OF assms(1,2)] assms(1,3)
  by (auto simp: seal_def Let_def unseal_def keys_ok_def)

lemma cloud_backup_reseal:
  assumes "keys_ok lib" and "aead_ok (aes256_gcm_siv_encrypt lib) (aes256_gcm_siv_decrypt lib)"
    and "cloud_backup lib rng backup keypair = (Inr data, rng')"
  shows "reseal_recover_cloud lib rng2 backup data = st_map_err SealingError (seal lib rng2 keypair)"
proof -
  from assms(3) obtain gk nonce ct where gk: "backup_key_of lib backup = Inr gk"
    and ct: "aes256_gcm_siv_encrypt lib gk nonce (key_bytes lib keypair) (key_verification lib keypair) = Some ct"
    and data: "data = \<lparr>cbd_nonce = nonce, cbd_sealed_secret = ct, cbd_public_key = key_verification lib keypair\<rparr>"
    by (auto simp: cloud_backup_def Let_def split: sum.splits prod.splits option.splits)
  have "aes256_gcm_siv_decrypt lib gk nonce ct (key_verification lib keypair) = Some (key_bytes lib keypair)"
    using assms(2) ct unfolding aead_ok_def by blast
  moreover have "key_try_from lib (key_bytes lib keypair) = Some keypair"
    using assms(1) by (simp add: keys_ok_def)
  ultimately show ?thesis
    using gk by (simp add: reseal_recover_cloud_def seal_recover_cloud_backup_def data)
qed

section \<open>Properties\<close>

text \<open>Concrete crates, for the applications.\<close>

definition demo_enc :: aead where
  "demo_enc k n m a = Some (a @ m)"

definition demo_dec :: aead where
  "demo_dec k n c a = (if take (length a) c = a then Some (drop (length a) c) else None)"

lemma demo_aead_ok: "aead_ok demo_enc demo_dec"
  by (auto simp: aead_ok_def demo_enc_def demo_dec_def) (metis append_take_drop_id)

definition demo_sgx :: sgx_lib where
  "demo_sgx =
     \<lparr>egetkey = (\<lambda>kr. Inr (kr_keyid kr)),
      report_for_self = \<lparr>rep_isvsvn = 1, rep_cpusvn = [2], rep_reportdata = []\<rparr>,
      report_for_target = (\<lambda>t d. \<lparr>rep_isvsvn = 1, rep_cpusvn = [2], rep_reportdata = d\<rparr>),
      targetinfo_from = (\<lambda>_. []),
      keyrequest_default = \<lparr>kr_keyname = 0, kr_keypolicy = Keypolicy 0, kr_isvsvn = 0, kr_cpusvn = [],
        kr_attributemask = (0, 0), kr_keyid = [], kr_miscmask = 0, kr_reserved = []\<rparr>,
      keyname_seal = 4, keypolicy_mrsigner = Keypolicy 2,
      keypolicy_from_bits = (\<lambda>b. Some (Keypolicy b)),
      aes128_gcm_siv_encrypt = demo_enc, aes128_gcm_siv_decrypt = demo_dec,
      aes256_gcm_siv_encrypt = demo_enc, aes256_gcm_siv_decrypt = demo_dec,
      aes_block = demo_aes,
      key_new = (\<lambda>b. b), key_try_from = Some, key_bytes = (\<lambda>b. b), key_verification = (\<lambda>b. b),
      vk_try_from = Some,
      rsa_generate = (\<lambda>_ b. Some b), rsa_public = (\<lambda>b. \<lparr>rsa_n = b, rsa_e = [1, 0, 1]\<rparr>),
      rsa_to_pkcs1 = Some, rsa_from_pkcs1 = Some, rsa_oaep_decrypt = (\<lambda>k c. Some (take 32 c)),
      sha256 = (\<lambda>_. replicate 32 9), b64_encode = text_of, b64_decode = (\<lambda>s. Inr (as_bytes s)),
      b64_url_encode = text_of\<rparr>"

lemma demo_sgx_ok:
  "keys_ok demo_sgx" "aead_ok (aes128_gcm_siv_encrypt demo_sgx) (aes128_gcm_siv_decrypt demo_sgx)"
  "aead_ok (aes256_gcm_siv_encrypt demo_sgx) (aes256_gcm_siv_decrypt demo_sgx)"
  using demo_aead_ok by (simp_all add: keys_ok_def demo_sgx_def)

definition demo_seal :: "bytes \<Rightarrow> bytes \<Rightarrow> sealed_key_data" where
  "demo_seal secret keyid =
     \<lparr>seal_key_request = \<lparr>krw_keyname = 4, krw_keypolicy = 2, krw_isvsvn = 1, krw_cpusvn = [2],
        krw_attributemask = (0, 0), krw_keyid = keyid, krw_miscmask = 0\<rparr>,
      seal_nonce = replicate 12 0, sealed_secret = keyid @ secret\<rparr>"

lemma demo_seal_payload: "seal_payload demo_sgx [] secret keyid keyid = (Inr (demo_seal secret keyid), [])"
  by (simp add: seal_payload_def fill_bytes_def demo_sgx_def demo_enc_def demo_seal_def key_request_wrap_from_def)

text \<open>
  C25. \<open>unseal\<close> returns a key only if the sealing request asks for the sealing key, the ciphertext is the
  encryption of that key's bytes bound to the request's key identifier, and the identifier is the public key of what is
  returned.
\<close>

theorem unseal_yields_only_named_key:
  assumes "keys_ok lib" and "aead_ok (aes128_gcm_siv_encrypt lib) (aes128_gcm_siv_decrypt lib)"
    and "unseal lib sd = Inr sk"
  shows "key_verification lib sk = krw_keyid (seal_key_request sd)
    \<and> krw_keyname (seal_key_request sd) = keyname_seal lib
    \<and> (\<exists>kr key b. key_request_try_into lib (seal_key_request sd) = Inr kr \<and> egetkey lib kr = Inr key
         \<and> key_try_from lib b = Some sk
         \<and> aes128_gcm_siv_encrypt lib key (seal_nonce sd) b (krw_keyid (seal_key_request sd))
             = Some (sealed_secret sd))"
proof -
  from assms(3) obtain pub b where pub: "vk_try_from lib (krw_keyid (seal_key_request sd)) = Some pub"
    and b: "unseal_secret lib sd = Inr b" "key_try_from lib b = Some sk" "key_verification lib sk = pub"
    by (auto simp: unseal_def result_simps split: option.splits if_splits)
  have "pub = krw_keyid (seal_key_request sd)" using assms(1) pub unfolding keys_ok_def by blast
  moreover from b(1) obtain kr key where "krw_keyname (seal_key_request sd) = keyname_seal lib"
    "key_request_try_into lib (seal_key_request sd) = Inr kr" "egetkey lib kr = Inr key"
    "aes128_gcm_siv_decrypt lib key (seal_nonce sd) (sealed_secret sd) (krw_keyid (seal_key_request sd)) = Some b"
    by (auto simp: unseal_secret_def result_simps split: if_splits option.splits)
  ultimately show ?thesis using b(2,3) assms(2) unfolding aead_ok_def by blast
qed

theorem unseal_yields_only_named_key_witness:
  "unseal demo_sgx (demo_seal [7] [7]) = Inr [7]
   \<and> key_verification demo_sgx [7] = krw_keyid (seal_key_request (demo_seal [7] [7]))"
proof -
  have u: "unseal demo_sgx (demo_seal [7] [7]) = Inr [7]"
    by (simp add: unseal_def unseal_secret_def key_request_try_into_def demo_sgx_def demo_seal_def demo_dec_def)
  from unseal_yields_only_named_key [OF demo_sgx_ok(1,2) u] u show ?thesis by blast
qed

text \<open>
  A backup that \<open>cloud_backup\<close> made is recovered by \<open>reseal_recover_cloud\<close> with the same backup package: the result is the result of sealing the very
  same key, on whatever processor and with whatever random numbers, and what was sealed unseals to that key.
\<close>

theorem cloud_backup_recovers:
  assumes "keys_ok lib" and "aead_ok (aes128_gcm_siv_encrypt lib) (aes128_gcm_siv_decrypt lib)"
    and "aead_ok (aes256_gcm_siv_encrypt lib) (aes256_gcm_siv_decrypt lib)"
    and "cloud_backup lib rng backup keypair = (Inr data, rng')"
  shows "reseal_recover_cloud lib rng2 backup data = st_map_err SealingError (seal lib rng2 keypair)
    \<and> (\<forall>sd rng3. reseal_recover_cloud lib rng2 backup data = (Inr sd, rng3) \<longrightarrow> unseal lib sd = Inr keypair)"
  using cloud_backup_reseal [OF assms(1,3,4)] seal_unseal [OF assms(1,2)] by (auto simp: result_simps)

definition demo_backup :: cloud_backup_key where
  "demo_backup = \<lparr>sealed_rsa_key = demo_seal [5] [6],
     backup_key = \<lparr>encrypted_symmetric_key = replicate 256 1,
       wrapped_cloud_sealing_key = aes256_wrap_key_with_pad demo_aes (replicate 32 1) (replicate 32 8)\<rparr>\<rparr>"

lemma demo_backup_key: "backup_key_of demo_sgx demo_backup = Inr (replicate 32 8)"
proof -
  have u: "aes256_unwrap_key_with_pad demo_aes (replicate 32 1)
      (aes256_wrap_key_with_pad demo_aes (replicate 32 1) (replicate 32 8)) = Inr (replicate 32 8)"
    by (rule unwrap_wrapped) (simp_all add: demo_aes_ok)
  have "take 32 (replicate 256 1) = (replicate 32 1 :: bytes)" by (simp add: take_replicate)
  with u show ?thesis
    by (simp add: backup_key_of_def unseal_secret_def key_request_try_into_def demo_sgx_def demo_seal_def
        demo_backup_def demo_dec_def decrypt_wrapped_key_def)
qed

theorem cloud_backup_recovers_witness:
  "reseal_recover_cloud demo_sgx [] demo_backup
     \<lparr>cbd_nonce = replicate 12 0, cbd_sealed_secret = [7, 7], cbd_public_key = [7]\<rparr>
   = (Inr (demo_seal [7] [7]), [])"
proof -
  have "cloud_backup demo_sgx [] demo_backup [7]
      = (Inr \<lparr>cbd_nonce = replicate 12 0, cbd_sealed_secret = [7, 7], cbd_public_key = [7]\<rparr>, [])"
    by (simp add: cloud_backup_def demo_backup_key fill_bytes_def)
       (simp add: demo_sgx_def demo_enc_def)
  from cloud_backup_recovers [OF demo_sgx_ok this, of "[]"] show ?thesis
    using demo_seal_payload [of "[7]" "[7]"] by (simp add: seal_def Let_def) (simp add: demo_sgx_def)
qed

text \<open>A serialised backup package of the lengths that the arrays have is deserialised to itself.\<close>

lemma cloud_seal_serde_roundtrip:
  assumes "base64_ok lib" "length (encrypted_symmetric_key c) = 256" "length (wrapped_cloud_sealing_key c) = 40"
  shows "cloud_backup_seal_deserialize lib (cloud_backup_seal_serialize lib c) = Inr c"
  using assms
  by (simp add: cloud_backup_seal_deserialize_def cloud_backup_seal_serialize_def cloud_backup_seal_from_str_def
      cloud_backup_seal_to_string_def base64_ok_def cloud_backup_seal_new_def)

text \<open>
  The text form of a \<open>CloudBackupSeal\<close> parses back to it, and text parses only if it decodes to exactly 296 bytes, which are
  then split into the 256 and 40 bytes of the two fields.
\<close>

theorem cloud_seal_text_roundtrip:
  assumes "base64_ok lib"
  shows "(length (encrypted_symmetric_key c) = 256 \<and> length (wrapped_cloud_sealing_key c) = 40 \<longrightarrow>
           cloud_backup_seal_from_str lib (cloud_backup_seal_to_string lib c) = Inr c)
    \<and> (cloud_backup_seal_from_str lib s = Inr c' \<longrightarrow>
         (\<exists>b. b64_decode lib s = Inr b \<and> length b = 296
            \<and> b = encrypted_symmetric_key c' @ wrapped_cloud_sealing_key c'
            \<and> length (encrypted_symmetric_key c') = 256 \<and> length (wrapped_cloud_sealing_key c') = 40))"
  using assms
  by (auto simp: cloud_backup_seal_from_str_def cloud_backup_seal_to_string_def base64_ok_def
      cloud_backup_seal_new_def result_simps split: option.splits if_splits)

theorem cloud_seal_text_roundtrip_witness:
  "cloud_backup_seal_from_str demo_sgx (cloud_backup_seal_to_string demo_sgx
      \<lparr>encrypted_symmetric_key = replicate 256 1, wrapped_cloud_sealing_key = replicate 40 2\<rparr>)
   = Inr \<lparr>encrypted_symmetric_key = replicate 256 1, wrapped_cloud_sealing_key = replicate 40 2\<rparr>"
proof -
  have "base64_ok demo_sgx" by (simp add: base64_ok_def demo_sgx_def as_bytes_text_of)
  from cloud_seal_text_roundtrip [OF this, of "\<lparr>encrypted_symmetric_key = replicate 256 1,
      wrapped_cloud_sealing_key = replicate 40 2\<rparr>" "[]" "\<lparr>encrypted_symmetric_key = [], wrapped_cloud_sealing_key = []\<rparr>"]
  show ?thesis by simp
qed

end
