(* ===== verification/Sgx_App.thy ===== *)
theory Sgx_App
  imports Enclave_Base Remote_State Sgx_Seal
begin

text \<open>
  The SGX enclave program: \<open>providers/sgx/sgx-app/src/sgx_app.rs\<close> and \<open>main.rs\<close>, with the requests and responses of
  \<open>providers/sgx/sgx-runner/src/shared.rs\<close>.  The JSON coding of the messages is an argument.
\<close>

section \<open>Messages\<close>

record remote_connection_config =
  rcc_peer_id :: "node_id option"
  rcc_host :: string
  rcc_port :: u16
  rcc_sealed_key :: sealed_key_data

datatype sgx_init_request =
    GenWrapKey "targetinfo option"
  | KeyGen "cloud_backup_key option"
  | CloudRecover cloud_backup_key cloud_backup_key_data
  | SgxStart sealed_key_data validator_config "remote_connection_config option" consensus_state

datatype sgx_init_response =
    WrapKey sealed_key_data rsa_public_key report
  | GenOrRecover sealed_key_data "cloud_backup_key_data option"

definition get_gen_response ::
    "sgx_init_response \<Rightarrow> (sealed_key_data \<times> cloud_backup_key_data option) option" where
  "get_gen_response self =
     (case self of
        GenOrRecover sealed_key_data cloud_backup_key_data \<Rightarrow> Some (sealed_key_data, cloud_backup_key_data)
      | WrapKey _ _ _ \<Rightarrow> None)"

record sgx_app_lib =
  sal_sgx :: sgx_lib
  sal_response_to_json :: "sgx_init_response \<Rightarrow> serde_error + bytes"
  sal_request_from_json :: "bytes \<Rightarrow> serde_error + sgx_init_request"
  sal_state_json :: state_json
  sal_error_display :: "error \<Rightarrow> string"

section \<open>Connecting to the validator\<close>

definition sgx_get_secret_connection ::
    "sgx_lib \<Rightarrow> 'x net \<Rightarrow> nat \<Rightarrow> remote_connection_config \<Rightarrow> io_error + 'x boxed" where
  "sgx_get_secret_connection lib net n cfg =
     res_bind (tcp_connect net n (rcc_host cfg @ '':'' @ show_nat (unat (rcc_port cfg)))) (\<lambda>sck.
     case unseal lib (rcc_sealed_key cfg) of
       Inr identity_key \<Rightarrow>
         res_bind (map_err (\<lambda>_. io_error_of Other) (secret_new net n sck identity_key)) (\<lambda>connection.
           let actual_peer_id = secret_peer_id net connection in
           case rcc_peer_id cfg of
             Some expected_peer_id \<Rightarrow>
               if expected_peer_id \<noteq> actual_peer_id then Inl (io_error_of Other) else Inr (BoxSecret connection)
           | None \<Rightarrow> Inr (BoxSecret connection))
     | Inl _ \<Rightarrow> Inl (io_error_of Other))"

definition sgx_connect_attempt ::
    "sgx_lib \<Rightarrow> 'x net \<Rightarrow> remote_connection_config option \<Rightarrow> nat \<Rightarrow> io_error + 'x boxed" where
  "sgx_connect_attempt lib net secret_connection n =
     (case secret_connection of
        Some cfg \<Rightarrow> sgx_get_secret_connection lib net n cfg
      | None \<Rightarrow> res_bind (tcp_connect net n ''tendermint'') (\<lambda>sck. Inr (BoxPlain (plain_new sck))))"

definition sgx_get_connection ::
    "sgx_lib \<Rightarrow> 'x net \<Rightarrow> remote_connection_config option \<Rightarrow> nat \<Rightarrow> ('x boxed \<times> nat) option" where
  "sgx_get_connection lib net secret_connection n =
     retry_connect (sgx_connect_attempt lib net secret_connection) n"

section \<open>The entry point\<close>

text \<open>\<open>match serde_json::to_vec(&response) { Ok(v) => write_u16_payload(..)?, Err(e) => error!(..) }\<close>\<close>

definition send_response :: "sgx_app_lib \<Rightarrow> sgx_init_response \<Rightarrow> sock \<Rightarrow> (io_error + unit) \<times> sock" where
  "send_response lib response host_response =
     (case sal_response_to_json lib response of
        Inr v \<Rightarrow> write_u16_payload v host_response
      | Inl e \<Rightarrow> (Inr (), host_response))"

datatype 'x sgx_outcome =
    SReturned "io_error + unit" sock
  | SServing "('x boxed, state_holder) session" nat

definition sgx_gen_wrap_key ::
    "sgx_app_lib \<Rightarrow> rng \<Rightarrow> targetinfo option \<Rightarrow> sock \<Rightarrow> (io_error + unit) \<times> sock" where
  "sgx_gen_wrap_key lib csprng ti host_response =
     (let ti' = (case ti of Some t \<Rightarrow> t | None \<Rightarrow> targetinfo_from (sal_sgx lib) (report_for_self (sal_sgx lib)))
      in case generate_keypair (sal_sgx lib) csprng ti' of
           (Inr (wrap_pub_key, wrap_key_sealed, pub_key_report), _) \<Rightarrow>
             send_response lib (WrapKey wrap_key_sealed wrap_pub_key pub_key_report) host_response
         | (Inl _, _) \<Rightarrow> (Inr (), host_response))"

text \<open>The key comes from 32 random bytes; a failed backup is dropped by \<open>.ok()\<close>.\<close>

definition sgx_key_gen ::
    "sgx_app_lib \<Rightarrow> rng \<Rightarrow> cloud_backup_key option \<Rightarrow> sock \<Rightarrow> (io_error + unit) \<times> sock" where
  "sgx_key_gen lib csprng cb host_response =
     (let (seed, csprng1) = fill_bytes 32 csprng;
          kp = key_new (sal_sgx lib) seed;
          (data, csprng2) =
            (case cb of
               None \<Rightarrow> (None, csprng1)
             | Some key \<Rightarrow>
                 (case cloud_backup (sal_sgx lib) csprng1 key kp of
                    (Inr d, r) \<Rightarrow> (Some d, r) | (Inl _, r) \<Rightarrow> (None, r)))
      in case seal (sal_sgx lib) csprng2 kp of
           (Inr sealed, _) \<Rightarrow> send_response lib (GenOrRecover sealed data) host_response
         | (Inl _, _) \<Rightarrow> (Inr (), host_response))"

definition sgx_cloud_recover ::
    "sgx_app_lib \<Rightarrow> rng \<Rightarrow> cloud_backup_key \<Rightarrow> cloud_backup_key_data \<Rightarrow> sock \<Rightarrow> (io_error + unit) \<times> sock" where
  "sgx_cloud_recover lib csprng cb key_data host_response =
     (case reseal_recover_cloud (sal_sgx lib) csprng cb key_data of
        (Inr sealed, _) \<Rightarrow> send_response lib (GenOrRecover sealed None) host_response
      | (Inl _, _) \<Rightarrow> (Inr (), host_response))"

definition sgx_entry ::
    "sgx_app_lib \<Rightarrow> 'x net \<Rightarrow> rng \<Rightarrow> sock \<Rightarrow> sgx_init_request \<Rightarrow> 'x sgx_outcome option" where
  "sgx_entry lib net csprng host_response request =
     (case request of
        GenWrapKey ti \<Rightarrow>
          (case sgx_gen_wrap_key lib csprng ti host_response of (r, s) \<Rightarrow> Some (SReturned r s))
      | KeyGen cb \<Rightarrow>
          (case sgx_key_gen lib csprng cb host_response of (r, s) \<Rightarrow> Some (SReturned r s))
      | CloudRecover cb key_data \<Rightarrow>
          (case sgx_cloud_recover lib csprng cb key_data host_response of (r, s) \<Rightarrow> Some (SReturned r s))
      | SgxStart sealed_key cfg secret_connection initial_state \<Rightarrow>
          (case sgx_holder_new (sal_state_json lib) (sal_error_display lib) (tcp_connect net 0) of
             Inl e \<Rightarrow> Some (SReturned (Inl e) host_response)
           | Inr holder \<Rightarrow>
               (case unseal (sal_sgx lib) sealed_key of
                  Inr keypair \<Rightarrow>
                    map_option (\<lambda>(conn, n). SServing (session_new cfg conn keypair (State_from initial_state) holder) n)
                      (sgx_get_connection (sal_sgx lib) net secret_connection 0)
                | Inl _ \<Rightarrow> Some (SReturned (Inl (io_error_of Other)) host_response))))"

section \<open>The main function\<close>

text \<open>
  \<open>None\<close> for an enclave command that is missing; \<open>True\<close> for verbose logging.
\<close>

definition sgx_main_args :: "bytes list \<Rightarrow> bytes option \<times> bool" where
  "sgx_main_args args =
     (let args1 = (if length args > 2 then tl args else args)
      in case args1 of
           [] \<Rightarrow> (None, False)
         | [c] \<Rightarrow> (Some c, False)
         | c # v # _ \<Rightarrow> (Some c, v = as_bytes ''verbose''))"

definition sgx_main ::
    "sgx_app_lib \<Rightarrow> 'x net \<Rightarrow> rng \<Rightarrow> bytes list \<Rightarrow> 'x sgx_outcome option" where
  "sgx_main lib net csprng args =
     (let none = \<lparr>rx = [], wx = [], sent = []\<rparr> in
      case fst (sgx_main_args args) of
        None \<Rightarrow> Some (SReturned (Inl (io_error_of Other)) none)
      | Some command \<Rightarrow>
          (case sal_request_from_json lib command of
             Inl _ \<Rightarrow> Some (SReturned (Inl (io_error_of Other)) none)
           | Inr request \<Rightarrow>
               (case tcp_connect net 0 ''init'' of
                  Inl e \<Rightarrow> Some (SReturned (Inl e) none)
                | Inr init_conn \<Rightarrow> sgx_entry lib net csprng init_conn request)))"

section \<open>Lemmas\<close>

lemma sgx_get_secret_connection_Inr:
  "sgx_get_secret_connection lib net n cfg = Inr c \<Longrightarrow>
     \<exists>x. c = BoxSecret x \<and> pred_option (\<lambda>p. secret_peer_id net x = p) (rcc_peer_id cfg)"
  by (cases "rcc_peer_id cfg"; cases "unseal lib (rcc_sealed_key cfg)")
     (auto simp: sgx_get_secret_connection_def result_simps Let_def split: if_splits)

lemma send_response_Inr:
  assumes "send_response lib r s = (Inr u, s')" "sal_response_to_json lib r = Inr b"
  shows "sent s' = sent s @ frame b \<and> length b \<le> 65535"
  using assms by (auto simp: send_response_def dest: write_u16_payload_Inr)

section \<open>Properties\<close>

text \<open>
  C27. With a remote configuration the SGX enclave talks to the validator only over a secret connection, and if a peer
  is configured, only to that peer.
\<close>

theorem sgx_connection_is_expected:
  assumes "sgx_get_connection lib net (Some cfg) n = Some (c, n')"
  shows "\<exists>x. c = BoxSecret x \<and> pred_option (\<lambda>p. secret_peer_id net x = p) (rcc_peer_id cfg)"
proof -
  have "sgx_connect_attempt lib net (Some cfg) (n' - 1) = Inr c"
    using retry_connect_Some [OF assms [unfolded sgx_get_connection_def]] by blast
  then show ?thesis by (auto simp: sgx_connect_attempt_def dest: sgx_get_secret_connection_Inr)
qed

definition demo_sgx_net :: "bytes net" where
  "demo_sgx_net = \<lparr>tcp_connect = (\<lambda>n a. Inr \<lparr>rx = [], wx = [], sent = []\<rparr>),
     vsock_connect = (\<lambda>n _ p. Inl (io_error_of Other)),
     secret_new = (\<lambda>n _ _. if n = 0 then Inl [] else Inr [9]), secret_peer_id = (\<lambda>x. x),
     secret_ops = \<lparr>conn_read = (\<lambda>n x. (Inr [], x)), conn_write_all = (\<lambda>b x. (Inr (), x))\<rparr>\<rparr>"

theorem sgx_connection_is_expected_witness:
  "\<exists>c n'. sgx_get_connection demo_sgx demo_sgx_net
       (Some \<lparr>rcc_peer_id = Some [9], rcc_host = ''validator'', rcc_port = 26659, rcc_sealed_key = demo_seal [7] [7]\<rparr>) 0
     = Some (c, n') \<and> c = BoxSecret [9]"
    (is "\<exists>c n'. sgx_get_connection _ _ (Some ?cfg) _ = _ \<and> _")
proof -
  have u: "unseal demo_sgx (demo_seal [7] [7]) = Inr [7]"
    by (simp add: unseal_def unseal_secret_def key_request_try_into_def demo_sgx_def demo_seal_def demo_dec_def)
  have "retry_connect (sgx_connect_attempt demo_sgx demo_sgx_net (Some ?cfg)) 0 = Some (BoxSecret [9], Suc (0 + 1))"
    by (rule retry_connect_first)
       (auto simp: sgx_connect_attempt_def sgx_get_secret_connection_def demo_sgx_net_def u)
  then have g: "sgx_get_connection demo_sgx demo_sgx_net (Some ?cfg) 0 = Some (BoxSecret [9], 2)"
    by (simp add: sgx_get_connection_def)
  from sgx_connection_is_expected [OF g] g show ?thesis by auto
qed

definition demo_app :: sgx_app_lib where
  "demo_app = \<lparr>sal_sgx = demo_sgx, sal_response_to_json = (\<lambda>r. Inr [5]),
     sal_request_from_json = (\<lambda>b. Inr (KeyGen None)), sal_state_json = demo_json, sal_error_display = (\<lambda>_. [])\<rparr>"

text \<open>
  Key generation with a backup request whose backup fails, for whatever reason: the enclave still answers with
  the sealed key and no backup data, the same answer as when no backup was asked for, and reports no error.
\<close>

theorem failed_cloud_backup_is_dropped:
  assumes "fill_bytes 32 csprng = (seed, csprng1)"
    and "cloud_backup (sal_sgx lib) csprng1 key (key_new (sal_sgx lib) seed) = (Inl e, csprng2)"
    and "seal (sal_sgx lib) csprng2 (key_new (sal_sgx lib) seed) = (Inr sealed, csprng3)"
  shows "sgx_key_gen lib csprng (Some key) host = send_response lib (GenOrRecover sealed None) host"
  using assms by (simp add: sgx_key_gen_def)

theorem failed_cloud_backup_is_dropped_witness:
  "sgx_key_gen demo_app [] (Some \<lparr>sealed_rsa_key = (demo_seal [5] [6])\<lparr>sealed_secret := []\<rparr>,
       backup_key = \<lparr>encrypted_symmetric_key = [], wrapped_cloud_sealing_key = []\<rparr>\<rparr>) \<lparr>rx = [], wx = [], sent = []\<rparr>
   = send_response demo_app (GenOrRecover (demo_seal (replicate 32 0) (replicate 32 0)) None) \<lparr>rx = [], wx = [], sent = []\<rparr>"
proof (rule failed_cloud_backup_is_dropped [where e = "SealingError MacCompareFail" and seed = "replicate 32 0"
      and ?csprng1.0 = "[]" and ?csprng2.0 = "[]" and ?csprng3.0 = "[]"])
  show "fill_bytes 32 [] = (replicate 32 0, [])" by (simp add: fill_bytes_def)
  show "cloud_backup (sal_sgx demo_app) [] \<lparr>sealed_rsa_key = (demo_seal [5] [6])\<lparr>sealed_secret := []\<rparr>,
       backup_key = \<lparr>encrypted_symmetric_key = [], wrapped_cloud_sealing_key = []\<rparr>\<rparr>
     (key_new (sal_sgx demo_app) (replicate 32 0)) = (Inl (SealingError MacCompareFail), [])"
    by (simp add: demo_app_def cloud_backup_def backup_key_of_def unseal_secret_def key_request_try_into_def
        demo_sgx_def demo_seal_def demo_dec_def)
  show "seal (sal_sgx demo_app) [] (key_new (sal_sgx demo_app) (replicate 32 0))
      = (Inr (demo_seal (replicate 32 0) (replicate 32 0)), [])"
    using demo_seal_payload [of "replicate 32 0" "replicate 32 0"]
    by (simp add: seal_def demo_app_def Let_def) (simp add: demo_sgx_def)
qed

end
