(* ===== verification/Session_Live.thy ===== *)
theory Session_Live
  imports Enclave_Base
begin

text \<open>
  What a validator can rely on: requests that follow one another are all signed.  \<open>Session\<close> shows that nothing is signed without its
  checks (\<open>src/session.rs\<close>); here the checks are also sufficient, for one request on any connection and for a whole sequence on a plain one.  The
  last section is about requests that do not arrive one per read.
\<close>

section \<open>One request\<close>

text \<open>The response with the signature, where the bytes to sign can be computed.\<close>

definition signature_response :: "tm_lib \<Rightarrow> signing_key \<Rightarrow> Request \<Rightarrow> Response option" where
  "signature_response lib key request =
     (case request of
        SignVote req \<Rightarrow>
          (case vote_signable_vec lib req of Inr b \<Rightarrow> Some (vote_response req (sign lib key b)) | Inl _ \<Rightarrow> None)
      | SignProposal req \<Rightarrow>
          (case proposal_signable_vec lib req of Inr b \<Rightarrow> Some (proposal_response req (sign lib key b)) | Inl _ \<Rightarrow> None)
      | _ \<Rightarrow> None)"

text \<open>A request that the session is configured to serve: its chain, and a height within the limit.\<close>

definition in_scope :: "validator_config \<Rightarrow> Request \<Rightarrow> consensus_state \<Rightarrow> bool" where
  "in_scope cfg request cs \<longleftrightarrow>
     request_state request = Some cs \<and> request_chain_id request = Some (cfg_chain_id cfg)
     \<and> valid_height (cs_height cs) \<and> pred_option (\<lambda>m. valid_height m \<and> cs_height cs \<le> m) (cfg_max_height cfg)"

lemma in_scope_checks:
  assumes "in_scope (config self) request cs"
  shows "check_max_height self (cs_height cs) = Inr ()"
  using assms
  by (auto simp: in_scope_def check_max_height_def sint_valid_height word_le_def not_less split: option.splits)

lemma check_update_accepts:
  assumes "may_follow (consensus_state st) cs" "persist_state po sy cs = (Inr (), sy')"
  shows "check_update_consensus_state pre po cs st sy = (Inr (), \<lparr>consensus_state = cs\<rparr>, sy')"
proof -
  have "check_consensus_state pre st cs = Inr ()" using assms(1) by (simp add: check_consensus_state_Inr)
  with assms(2) show ?thesis by (simp add: check_update_consensus_state_def)
qed

lemma respond_signs:
  assumes "in_scope (config self) request cs" "may_follow (consensus_state (state self)) cs"
    and "persist_state po (state_syncer self) cs = (Inr (), sy)"
    and "signature_response lib (signing_key self) request = Some resp"
  shows "respond lib po request self = (Inr resp, self\<lparr>state := \<lparr>consensus_state = cs\<rparr>, state_syncer := sy\<rparr>)
    \<and> signed_state resp = Some cs"
proof -
  note max = in_scope_checks [OF assms(1)] and upd = check_update_accepts [OF assms(2,3)]
  show ?thesis
  proof (cases request)
    case (SignProposal req)
    with assms(1) have "cs = consensus_state (State_from_proposal req)" "spr_chain_id req = cfg_chain_id (config self)"
      by (auto simp: in_scope_def)
    moreover from this max have "check_max_height self (prop_height (spr_proposal req)) = Inr ()"
      by (simp add: State_from_proposal_def)
    ultimately show ?thesis
      using SignProposal assms(4) upd by (auto simp: handler_defs signature_response_def split: sum.splits)
  next
    case (SignVote req)
    with assms(1) have "cs = consensus_state (State_from_vote req)" "svr_chain_id req = cfg_chain_id (config self)"
      by (auto simp: in_scope_def)
    moreover from this max have "check_max_height self (vote_height (svr_vote req)) = Inr ()"
      by (simp add: State_from_vote_def)
    ultimately show ?thesis
      using SignVote assms(4) upd by (auto simp: handler_defs signature_response_def split: sum.splits)
  qed (use assms(4) in \<open>simp_all add: signature_response_def\<close>)
qed

lemma handle_request_signs:
  assumes "Request_read lib co (connection self) = (Inr request, conn)"
    and "in_scope (config self) request cs" "may_follow (consensus_state (state self)) cs"
    and "persist_state po (state_syncer self) cs = (Inr (), sy)"
    and "signature_response lib (signing_key self) request = Some resp"
    and "Response_encode lib resp = Inr b" "conn_write_all co b conn = (Inr (), conn')"
  shows "handle_request lib co po self
      = (Inr True, self\<lparr>connection := conn', state := \<lparr>consensus_state = cs\<rparr>, state_syncer := sy\<rparr>)
    \<and> signs lib co po self = [cs]"
  using respond_signs [of "self\<lparr>connection := conn\<rparr>" request cs po sy lib resp] assms
  by (simp add: handle_request_def signs_def)

section \<open>A sequence of requests\<close>

text \<open>
  The validator's script: messages that decode to requests, the states they ask for, and the encoded responses.
\<close>

type_synonym script = "(bytes \<times> Request \<times> consensus_state \<times> bytes) list"

definition script_ok :: "tm_lib \<Rightarrow> validator_config \<Rightarrow> signing_key \<Rightarrow> script \<Rightarrow> bool" where
  "script_ok lib cfg key script \<longleftrightarrow>
     list_all (\<lambda>(msg, request, cs, out).
       decode_request lib msg = Inr request \<and> in_scope cfg request cs
       \<and> (\<exists>resp. signature_response lib key request = Some resp \<and> Response_encode lib resp = Inr out)) script"

abbreviation script_states :: "script \<Rightarrow> consensus_state list" where
  "script_states script \<equiv> map (\<lambda>(msg, request, cs, out). cs) script"

abbreviation script_output :: "script \<Rightarrow> bytes" where
  "script_output script \<equiv> concat (map (\<lambda>(msg, request, cs, out). out) script)"

text \<open>
  A connection on which the peer sends each message after it got the response to the one before: every read delivers the next
  message and every response is taken.  The result is the connection after the last response.
\<close>

fun exchange :: "tm_lib \<Rightarrow> 'c connection_ops \<Rightarrow> script \<Rightarrow> 'c \<Rightarrow> 'c option" where
  "exchange lib co [] c = Some c"
| "exchange lib co ((msg, request, cs, out) # script) c =
     (case read_msg lib co c of
        (Inl _, _) \<Rightarrow> None
      | (Inr m, c1) \<Rightarrow>
          if m \<noteq> msg then None
          else (case conn_write_all co out c1 of
                  (Inl _, _) \<Rightarrow> None
                | (Inr _, c2) \<Rightarrow> exchange lib co script c2))"

lemma exchange_plain:
  assumes "rx (socket c) = map (\<lambda>x. RData (fst x)) script" "wx (socket c) = []"
    and "list_all (\<lambda>x. length (fst x) \<le> data_max_size lib) script"
  shows "exchange lib plain_ops script c
    = Some \<lparr>socket = \<lparr>rx = [], wx = [], sent = sent (socket c) @ script_output script\<rparr>\<rparr>"
  using assms
proof (induction script arbitrary: c)
  case Nil
  then show ?case by (cases c; cases "socket c") simp
next
  case (Cons x script)
  obtain msg request cs out where x: "x = (msg, request, cs, out)" by (cases x)
  let ?c = "\<lparr>socket = \<lparr>rx = map (\<lambda>x. RData (fst x)) script, wx = [], sent = sent (socket c) @ out\<rparr>\<rparr>"
  have "exchange lib plain_ops (x # script) c = exchange lib plain_ops script ?c"
    using Cons.prems x
    by (cases c; cases "socket c") (simp add: read_msg_def plain_ops_def plain_read_def plain_write_all_def sock_read_def)
  with Cons.IH [of ?c] Cons.prems(3) x show ?case by simp
qed

lemma exchange_boxed:
  "exchange lib (boxed_ops net) script (BoxPlain p) = map_option BoxPlain (exchange lib plain_ops script p)"
  "exchange lib (boxed_ops net) script (BoxSecret x) = map_option BoxSecret (exchange lib (secret_ops net) script x)"
  by (induction script arbitrary: p x)
     (auto simp: read_msg_def boxed_ops_def plain_ops_def st_map_err_def split: prod.splits sum.splits)

text \<open>The contract of a persistence that does not fail: while it is \<open>ready\<close>, every \<open>storable\<close> state is persisted.\<close>

locale available_persistence =
  fixes ops :: "'s persist_state_sync"
    and ready :: "'s \<Rightarrow> bool"
    and storable :: "'s \<Rightarrow> consensus_state \<Rightarrow> bool"
  assumes persist_ready: "ready s \<Longrightarrow> storable s cs \<Longrightarrow>
    \<exists>s'. persist_state ops s cs = (Inr (), s') \<and> ready s' \<and> storable s' = storable s"
begin

lemma request_signs:
  assumes "exchange lib co ((msg, request, cs, out) # script) (connection self) = Some c"
    and "script_ok lib (config self) (signing_key self) [(msg, request, cs, out)]"
    and "may_follow (consensus_state (state self)) cs" "ready (state_syncer self)" "storable (state_syncer self) cs"
  shows "\<exists>c1 sy. handle_request lib co ops self
        = (Inr True, self\<lparr>connection := c1, state := \<lparr>consensus_state = cs\<rparr>, state_syncer := sy\<rparr>)
    \<and> signs lib co ops self = [cs] \<and> exchange lib co script c1 = Some c
    \<and> persist_state ops (state_syncer self) cs = (Inr (), sy) \<and> ready sy \<and> storable sy = storable (state_syncer self)"
proof -
  from assms(1) obtain c0 c1 where io: "read_msg lib co (connection self) = (Inr msg, c0)"
    "conn_write_all co out c0 = (Inr (), c1)" "exchange lib co script c1 = Some c"
    by (auto split: prod.splits sum.splits if_splits)
  from assms(2) obtain resp where ok: "decode_request lib msg = Inr request" "in_scope (config self) request cs"
    "signature_response lib (signing_key self) request = Some resp" "Response_encode lib resp = Inr out"
    by (auto simp: script_ok_def)
  have rd: "Request_read lib co (connection self) = (Inr request, c0)" using io(1) ok(1) by (simp add: Request_read_def)
  from persist_ready [OF assms(4,5)] obtain sy where sy: "persist_state ops (state_syncer self) cs = (Inr (), sy)"
    "ready sy" "storable sy = storable (state_syncer self)" by blast
  from handle_request_signs [OF rd ok(2) assms(3) sy(1) ok(3,4) io(2)] io(3) sy show ?thesis by blast
qed

lemma script_is_signed:
  assumes "exchange lib co script (connection self) = Some c"
    and "script_ok lib (config self) (signing_key self) script"
    and "follows (consensus_state (state self)) (script_states script)"
    and "ready (state_syncer self)" and "list_all (storable (state_syncer self)) (script_states script)"
  shows "\<exists>self'. session_run lib co ops self (script_states script) self'
    \<and> request_loop lib co ops self = request_loop lib co ops self'
    \<and> connection self' = c \<and> config self' = config self \<and> signing_key self' = signing_key self
    \<and> consensus_state (state self') = last (consensus_state (state self) # script_states script)
    \<and> persist_all ops (script_states script) (state_syncer self) = (Inr (), state_syncer self') \<and> ready (state_syncer self')
    \<and> storable (state_syncer self') = storable (state_syncer self)
    \<and> (\<forall>get_conn n k. session_trace lib co ops get_conn (length script + k) (self, n)
          = script_states script @ session_trace lib co ops get_conn k (self', n))"
  using assms
proof (induction script arbitrary: self)
  case Nil
  then show ?case by (intro exI [of _ self]) (simp add: session_run.run_start)
next
  case (Cons x script)
  obtain msg request cs out where x: "x = (msg, request, cs, out)" by (cases x)
  from request_signs [of lib co msg request cs out script self c] Cons.prems x
  obtain c1 sy where h: "handle_request lib co ops self
        = (Inr True, self\<lparr>connection := c1, state := \<lparr>consensus_state = cs\<rparr>, state_syncer := sy\<rparr>)"
    and signs: "signs lib co ops self = [cs]" and c1: "exchange lib co script c1 = Some c"
    and sy: "persist_state ops (state_syncer self) cs = (Inr (), sy)" "ready sy" "storable sy = storable (state_syncer self)"
    by (auto simp: script_ok_def)
  define self1 where "self1 = self\<lparr>connection := c1, state := \<lparr>consensus_state = cs\<rparr>, state_syncer := sy\<rparr>"
  from Cons.IH [of self1] Cons.prems x c1 sy(2,3)
  obtain self' where run: "session_run lib co ops self1 (script_states script) self'"
    and rest: "request_loop lib co ops self1 = request_loop lib co ops self'" "connection self' = c"
      "config self' = config self" "signing_key self' = signing_key self"
      "consensus_state (state self') = last (cs # script_states script)"
      "persist_all ops (script_states script) sy = (Inr (), state_syncer self')" "ready (state_syncer self')"
      "storable (state_syncer self') = storable (state_syncer self)"
      "\<And>get_conn n k. session_trace lib co ops get_conn (length script + k) (self1, n)
         = script_states script @ session_trace lib co ops get_conn k (self', n)"
    by (auto simp: self1_def script_ok_def)
  have "request_loop lib co ops self = request_loop lib co ops self1"
    using h by (simp add: request_loop.simps [of lib co ops self] self1_def)
  moreover have "session_run lib co ops self (script_states (x # script)) self'"
    using session_run.run_request [OF h [folded self1_def] run] signs x by simp
  moreover have "persist_all ops (script_states (x # script)) (state_syncer self) = (Inr (), state_syncer self')"
    using sy(1) rest(6) x by simp
  moreover have "session_request lib co ops get_conn (self, n) = Some (self1, n)" for get_conn n
    using h by (simp add: session_request_def self1_def)
  ultimately show ?case using rest x signs by (intro exI [of _ self']) simp
qed

lemma script_then_end:
  assumes "exchange lib co script (connection self) = Some c" "Request_read lib co c = (Inl e, c')"
    and "script_ok lib (config self) (signing_key self) script"
    and "follows (consensus_state (state self)) (script_states script)"
    and "ready (state_syncer self)" and "list_all (storable (state_syncer self)) (script_states script)"
    and "get_conn n = Some (conn, n')"
  shows "\<exists>self'. session_round lib co ops get_conn (self, n) = Some (Inr (self', n')) \<and> connection self' = conn
    \<and> session_run lib co ops self (script_states script) self' \<and> config self' = config self \<and> signing_key self' = signing_key self
    \<and> consensus_state (state self') = last (consensus_state (state self) # script_states script)
    \<and> persist_all ops (script_states script) (state_syncer self) = (Inr (), state_syncer self') \<and> ready (state_syncer self')
    \<and> storable (state_syncer self') = storable (state_syncer self)
    \<and> (\<forall>k. session_trace lib co ops get_conn (length script + Suc k) (self, n)
          = script_states script @ session_trace lib co ops get_conn k (self', n'))"
proof -
  from script_is_signed [OF assms(1,3-6)] obtain s where
    run: "session_run lib co ops self (script_states script) s"
    and loop: "request_loop lib co ops self = request_loop lib co ops s"
    and s: "connection s = c" "config s = config self" "signing_key s = signing_key self"
      "consensus_state (state s) = last (consensus_state (state self) # script_states script)"
    and all: "persist_all ops (script_states script) (state_syncer self) = (Inr (), state_syncer s)" "ready (state_syncer s)"
    and st: "storable (state_syncer s) = storable (state_syncer self)"
    and tr: "\<And>get_conn n k. session_trace lib co ops get_conn (length script + k) (self, n)
      = script_states script @ session_trace lib co ops get_conn k (s, n)"
    by blast
  define s1 where "s1 = reset_connection conn (s\<lparr>connection := c'\<rparr>)"
  have h: "handle_request lib co ops s = (Inl (Fail e), s\<lparr>connection := c'\<rparr>)" and sg: "signs lib co ops s = []"
    using assms(2) s(1) by (simp_all add: handle_request_def signs_def)
  then have rq: "session_request lib co ops get_conn (s, n) = Some (s1, n')"
    using assms(7) by (simp add: session_request_def s1_def)
  have "session_run lib co ops (s\<lparr>connection := c'\<rparr>) [] s1"
    unfolding s1_def by (rule session_run.run_reconnect [OF session_run.run_start])
  with sg have "session_run lib co ops s [] s1" using session_run.run_request [OF h] by fastforce
  with session_run_trans [OF run] have "session_run lib co ops self (script_states script) s1" by fastforce
  moreover have "session_round lib co ops get_conn (self, n) = Some (Inr (s1, n'))"
    using h loop assms(7) by (simp add: session_round_def s1_def request_loop.simps [of lib co ops s])
  moreover have "session_trace lib co ops get_conn (length script + Suc k) (self, n)
      = script_states script @ session_trace lib co ops get_conn k (s1, n')" for k
    using rq sg by (simp only: tr) simp
  ultimately show ?thesis using s all st by (intro exI [of _ s1]) (simp add: s1_def reset_connection_def)
qed

end

text \<open>
  The validator over several connections: on each one a script, then an end that shows as a failing read, and then the next connection.
\<close>

fun conversation ::
    "tm_lib \<Rightarrow> 'c connection_ops \<Rightarrow> (nat \<Rightarrow> ('c \<times> nat) option) \<Rightarrow> script list \<Rightarrow> 'c \<Rightarrow> nat \<Rightarrow> bool" where
  "conversation lib co get_conn [] c n \<longleftrightarrow> True"
| "conversation lib co get_conn (script # scripts) c n \<longleftrightarrow>
     (case exchange lib co script c of
        None \<Rightarrow> False
      | Some c1 \<Rightarrow>
          (case Request_read lib co c1 of
             (Inr _, _) \<Rightarrow> False
           | (Inl _, _) \<Rightarrow>
               (case get_conn n of
                  None \<Rightarrow> False
                | Some (c2, n') \<Rightarrow> conversation lib co get_conn scripts c2 n')))"

lemma persist_all_append:
  "persist_all ops a s = (Inr (), s1) \<Longrightarrow> persist_all ops (a @ b) s = persist_all ops b s1"
  by (induction a arbitrary: s) (auto simp: result_simps)

context available_persistence
begin

lemma conversation_is_signed:
  assumes "conversation lib co get_conn scripts (connection self) n"
    and "script_ok lib (config self) (signing_key self) (concat scripts)"
    and "follows (consensus_state (state self)) (script_states (concat scripts))"
    and "ready (state_syncer self)" and "list_all (storable (state_syncer self)) (script_states (concat scripts))"
  shows "\<exists>self' n'. session_rounds lib co ops get_conn (length scripts) (self, n) = Some (Inr (self', n'))
    \<and> session_run lib co ops self (script_states (concat scripts)) self'
    \<and> consensus_state (state self') = last (consensus_state (state self) # script_states (concat scripts))
    \<and> persist_all ops (script_states (concat scripts)) (state_syncer self) = (Inr (), state_syncer self')
    \<and> session_trace lib co ops get_conn (length (concat scripts) + length scripts) (self, n) = script_states (concat scripts)"
  using assms
proof (induction scripts arbitrary: self n)
  case Nil
  then show ?case by (auto intro: session_run.run_start)
next
  case (Cons script scripts)
  from Cons.prems(1) obtain c1 e c' conn n1 where "exchange lib co script (connection self) = Some c1"
    "Request_read lib co c1 = (Inl e, c')" "get_conn n = Some (conn, n1)"
    and rest: "conversation lib co get_conn scripts conn n1"
    by (auto split: option.splits prod.splits sum.splits)
  with script_then_end [of lib co script self c1 e c' get_conn n conn n1] Cons.prems(2-5)
  obtain s1 where s1: "session_round lib co ops get_conn (self, n) = Some (Inr (s1, n1))" "connection s1 = conn"
    "session_run lib co ops self (script_states script) s1" "config s1 = config self" "signing_key s1 = signing_key self"
    "consensus_state (state s1) = last (consensus_state (state self) # script_states script)"
    "persist_all ops (script_states script) (state_syncer self) = (Inr (), state_syncer s1)" "ready (state_syncer s1)"
    "storable (state_syncer s1) = storable (state_syncer self)"
    and tr: "\<And>k. session_trace lib co ops get_conn (length script + Suc k) (self, n)
      = script_states script @ session_trace lib co ops get_conn k (s1, n1)"
    by (auto simp: script_ok_def follows_append)
  from Cons.IH [of s1 n1] rest s1 Cons.prems(2,3,5)
  obtain s2 n2 where s2: "session_rounds lib co ops get_conn (length scripts) (s1, n1) = Some (Inr (s2, n2))"
    "session_run lib co ops s1 (script_states (concat scripts)) s2"
    "consensus_state (state s2) = last (consensus_state (state s1) # script_states (concat scripts))"
    "persist_all ops (script_states (concat scripts)) (state_syncer s1) = (Inr (), state_syncer s2)"
    and tr2: "session_trace lib co ops get_conn (length (concat scripts) + length scripts) (s1, n1) = script_states (concat scripts)"
    by (auto simp: script_ok_def follows_append)
  have "session_run lib co ops self (script_states (concat (script # scripts))) s2"
    using session_run_trans [OF s1(3) s2(2)] by simp
  moreover have "persist_all ops (script_states (concat (script # scripts))) (state_syncer self) = (Inr (), state_syncer s2)"
    using persist_all_append [OF s1(7)] s2(4) by simp
  moreover have "consensus_state (state s2) = last (consensus_state (state self) # script_states (concat (script # scripts)))"
    using s2(3) s1(6) by (cases "concat scripts") auto
  moreover have "session_trace lib co ops get_conn (length (concat (script # scripts)) + length (script # scripts)) (self, n)
      = script_states (concat (script # scripts))"
    using tr [of "length (concat scripts) + length scripts"] tr2 by (simp add: ac_simps)
  ultimately show ?case using s1(1) s2(1) by (intro exI [of _ s2] exI [of _ n2]) simp
qed

end

section \<open>Properties\<close>

text \<open>
  The checks of the session are sufficient: if the validator sends one message after the other whose requests name
  the configured chain, stay within the height limit and follow the last signed state and each other, the connection delivers them and takes the responses, and the persistence is available, then every one of
  them is signed, in order; exactly the encoded responses with the signatures are written, the persistence was given exactly the signed states, and the request loop gets through all of them.
\<close>

theorem following_requests_are_signed:
  assumes "available_persistence po ready storable"
    and "exchange lib co script (connection self) = Some c"
    and "script_ok lib (config self) (signing_key self) script"
    and "follows (consensus_state (state self)) (script_states script)"
    and "ready (state_syncer self)" and "list_all (storable (state_syncer self)) (script_states script)"
  shows "\<exists>self'. session_run lib co po self (script_states script) self'
    \<and> request_loop lib co po self = request_loop lib co po self' \<and> connection self' = c
    \<and> consensus_state (state self') = last (consensus_state (state self) # script_states script)
    \<and> persist_all po (script_states script) (state_syncer self) = (Inr (), state_syncer self')"
  using available_persistence.script_is_signed [OF assms] by blast

abbreviation demo_cs :: "height \<Rightarrow> u8 \<Rightarrow> consensus_state" where
  "demo_cs h b \<equiv> \<lparr>cs_height = h, cs_round = 0, cs_step = 1, cs_block_id = Some [b]\<rparr>"

theorem following_requests_are_signed_witness:
  "\<exists>self'. session_run demo_lib plain_ops demo_sync (demo_sess (Some 9) [RData [1, 5, 7], RData [1, 6, 8]]) [demo_cs 5 7, demo_cs 6 8] self'
     \<and> consensus_state (state self') = demo_cs 6 8 \<and> sent (socket (connection self')) = [0, 0]"
proof -
  let ?s = "demo_sess (Some 9) [RData [1, 5, 7], RData [1, 6, 8]]"
  let ?script = "[([1, 5, 7], SignVote (demo_vote_request 5 7), demo_cs 5 7, [0]), ([1, 6, 8], SignVote (demo_vote_request 6 8), demo_cs 6 8, [0 :: u8])]"
  have cfg: "config ?s = \<lparr>cfg_chain_id = ''chain-1'', cfg_max_height = Some 9\<rparr>" "signing_key ?s = [42]"
    "consensus_state (state ?s) = initial_consensus_state"
    "connection ?s = \<lparr>socket = \<lparr>rx = [RData [1, 5, 7], RData [1, 6, 8]], wx = [], sent = []\<rparr>\<rparr>"
    by (simp_all add: demo_sess_def session_new_def plain_new_def State_from_def)
  have ok: "script_ok demo_lib (config ?s) (signing_key ?s) ?script"
    unfolding cfg
    by (simp add: script_ok_def in_scope_def signature_response_def Response_encode_def demo_lib_def decode_request_def
        demo_vote_request_def State_from_vote_def valid_height_def)
  have fl: "follows (consensus_state (state ?s)) (script_states ?script)"
    unfolding cfg
    by (simp add: may_follow_def conflicting_def initial_consensus_state_def position_le_iff)
  have po: "available_persistence demo_sync (\<lambda>_. True) (\<lambda>_ _. True)"
    by unfold_locales (simp add: demo_sync_def)
  have ex: "exchange demo_lib plain_ops ?script (connection ?s) = Some \<lparr>socket = \<lparr>rx = [], wx = [], sent = [0, 0]\<rparr>\<rparr>"
    unfolding cfg(4) by (subst exchange_plain) (simp_all add: demo_lib_def)
  from following_requests_are_signed [OF po ex ok fl] show ?thesis by (force simp: cfg)
qed

section \<open>Requests that are not one read each\<close>

text \<open>
  \<open>read_msg\<close> reads once.  On a plain connection a request that arrives in two pieces, of which the first does not decode, is not put together: the
  session fails with a protocol error, the rest stays in the stream, and nothing is signed.
\<close>

theorem split_request_fails:
  assumes "rx (socket (connection self)) = RData a # RData b # es" "length a \<le> data_max_size lib"
    and "decode_length_delimited lib a = Inl e"
  shows "\<exists>self'. request_loop lib plain_ops po self = Some (Inl (Fail (ProtocolError ''malformed message packet'' e)), self')
    \<and> rx (socket (connection self')) = RData b # es \<and> state self' = state self \<and> state_syncer self' = state_syncer self
    \<and> sent (socket (connection self')) = sent (socket (connection self))"
proof -
  have "handle_request lib plain_ops po self = (Inl (Fail (ProtocolError ''malformed message packet'' e)),
      self\<lparr>connection := (connection self)\<lparr>socket := (socket (connection self))\<lparr>rx := RData b # es\<rparr>\<rparr>\<rparr>)"
    using assms by (simp add: handle_request_def Request_read_def read_msg_def plain_ops_def plain_read_def sock_read_def
        decode_request_def)
  then show ?thesis by (simp add: request_loop.simps [of lib plain_ops po self])
qed

text \<open>
  Two requests in one read: the decoder takes the first length-delimited message and leaves the rest, which \<open>read_msg\<close> has taken from the stream, so the second request is lost.
\<close>

theorem second_request_in_read_is_lost:
  assumes "rx (socket (connection self)) = RData (m1 @ m2) # es" and "wx (socket (connection self)) = []"
    and "length (m1 @ m2) \<le> data_max_size lib" and "decode_length_delimited lib (m1 @ m2) = decode_length_delimited lib m1"
    and "script_ok lib (config self) (signing_key self) [(m1, request, cs, out)]"
    and "may_follow (consensus_state (state self)) cs" "persist_state po (state_syncer self) cs = (Inr (), sy)"
  shows "\<exists>self'. handle_request lib plain_ops po self = (Inr True, self') \<and> signs lib plain_ops po self = [cs]
    \<and> rx (socket (connection self')) = es \<and> sent (socket (connection self')) = sent (socket (connection self)) @ out"
proof -
  from assms(5) obtain resp where ok: "decode_request lib m1 = Inr request" "in_scope (config self) request cs"
    "signature_response lib (signing_key self) request = Some resp" "Response_encode lib resp = Inr out"
    by (auto simp: script_ok_def)
  let ?s = "socket (connection self)"
  let ?c = "\<lparr>socket = ?s\<lparr>rx := es\<rparr>\<rparr>" and ?c' = "\<lparr>socket = \<lparr>rx = es, wx = [], sent = sent ?s @ out\<rparr>\<rparr>"
  have "Request_read lib plain_ops (connection self) = (Inr request, ?c)"
    using assms(1,3,4) ok(1)
    by (cases "connection self") (simp add: Request_read_def read_msg_def plain_ops_def plain_read_def sock_read_def decode_request_def)
  moreover have "conn_write_all plain_ops out ?c = (Inr (), ?c')"
    using assms(2) by (cases ?s) (simp add: plain_ops_def plain_write_all_def)
  ultimately show ?thesis using handle_request_signs [OF _ ok(2) assms(6,7) ok(3,4)] by fastforce
qed

end
