(* ===== verification/Enclave_Serve.thy ===== *)
theory Enclave_Serve
  imports Nitro_Enclave Sgx_App Session_Live
begin

text \<open>
  The two enclave programs serving a validator, together with the host that keeps their state.  The state holders of
  \<open>providers/nitro/nitro-enclave/src/nitro/state.rs\<close> and \<open>providers/sgx/sgx-app/src/sgx_app/state.rs\<close> are an \<open>available_persistence\<close> while their socket takes what is written; with the link to the host (\<open>remote_state\<close>) this
  gives the locale \<open>remote_service\<close>: what the validator rightly asks for over any number of connections is signed, and the host's file ends up with the last state signed.
\<close>

section \<open>The state holders are available\<close>

definition sh_open :: "state_holder \<Rightarrow> bool" where
  "sh_open h \<longleftrightarrow> wx (state_conn h) = []"

definition sh_storable :: "state_holder \<Rightarrow> consensus_state \<Rightarrow> bool" where
  "sh_storable h cs \<longleftrightarrow> state_frame (sh_json h) cs \<noteq> None"

lemma nitro_persist_open:
  "sh_open h \<Longrightarrow> sh_storable h cs \<Longrightarrow>
     \<exists>h'. nitro_persist_state h cs = (Inr (), h') \<and> sh_open h' \<and> sh_storable h' = sh_storable h"
  by (auto simp: sh_open_def sh_storable_def [abs_def] state_frame_def nitro_persist_state_def write_u16_payload_ideal
           split: sum.splits if_splits)

lemma sgx_persist_open:
  "sh_open h \<Longrightarrow> sh_storable h cs \<Longrightarrow>
     \<exists>h'. sgx_persist_state h cs = (Inr (), h') \<and> sh_open h' \<and> sh_storable h' = sh_storable h"
  by (auto simp: sh_open_def sh_storable_def [abs_def] state_frame_def sgx_persist_state_def write_u16_payload_ideal
           split: sum.splits if_splits)

interpretation nitro_up: available_persistence nitro_ops sh_open sh_storable
  by unfold_locales (simp add: nitro_ops_def nitro_persist_open)

interpretation sgx_up: available_persistence sgx_ops sh_open sh_storable
  by unfold_locales (simp add: sgx_ops_def sgx_persist_open)

section \<open>An enclave and its host\<close>

locale remote_service =
  remote_state ops conn json step_round incoming ready holds host_json + up: available_persistence ops is_open storable
  for ops :: "'s persist_state_sync" and conn :: "'s \<Rightarrow> sock" and json :: "'s \<Rightarrow> state_json"
    and step_round :: "'h \<Rightarrow> 'h option" and incoming ready holds
    and host_json :: "'h \<Rightarrow> state_json" and is_open storable
begin

lemma served_is_stored:
  assumes "conversation lib co get_conn scripts (connection self) n" "concat scripts \<noteq> []"
    and "script_ok lib (config self) (signing_key self) (concat scripts)"
    and "follows (consensus_state (state self)) (script_states (concat scripts))"
    and "is_open (state_syncer self)" and "list_all (storable (state_syncer self)) (script_states (concat scripts))"
    and "sent (conn (state_syncer self)) = []"
  shows "\<exists>self' n'. session_rounds lib co ops get_conn (length scripts) (self, n) = Some (Inr (self', n'))
    \<and> session_run lib co ops self (script_states (concat scripts)) self'
    \<and> persist_all ops (script_states (concat scripts)) (state_syncer self) = (Inr (), state_syncer self')
    \<and> (\<forall>h. ready h \<and> incoming h = sent (conn (state_syncer self')) \<and> host_json h = json (state_syncer self) \<longrightarrow>
         (\<exists>h'. repeat_step step_round (length (concat scripts)) h = Some h' \<and> ready h' \<and> incoming h' = []
            \<and> holds h' (last (script_states (concat scripts)))))"
proof -
  let ?css = "script_states (concat scripts)"
  from up.conversation_is_signed [OF assms(1,3-6)] obtain self' n' where
    r: "session_rounds lib co ops get_conn (length scripts) (self, n) = Some (Inr (self', n'))"
      "session_run lib co ops self ?css self'" "persist_all ops ?css (state_syncer self) = (Inr (), state_syncer self')"
    by blast
  have "\<exists>h'. repeat_step step_round (length ?css) h = Some h' \<and> ready h' \<and> incoming h' = [] \<and> holds h' (last ?css)"
    if "ready h" "incoming h = sent (conn (state_syncer self'))" "host_json h = json (state_syncer self)" for h
    using host_follows [OF r(3) assms(7) _ that] assms(2) by simp
  with r show ?thesis by (intro exI [of _ self'] exI [of _ n']) simp
qed

end

interpretation nitro_service: remote_service nitro_ops state_conn sh_json nitro_step
  "\<lambda>h. rx_bytes (rx (nst_stream (snd h)))" nitro_ready nitro_holds "\<lambda>h. he_json (fst h)" sh_open sh_storable ..

interpretation sgx_service: remote_service sgx_ops state_conn sh_json sgx_step
  "\<lambda>h. rx_bytes (rx (sss_stream (fst (snd h))))" sgx_ready sgx_holds "\<lambda>h. he_json (fst h)" sh_open sh_storable ..

text \<open>Whatever a later enclave signs from the last state on does not conflict with what was signed before.\<close>

lemma resumed_run_no_double_sign:
  assumes "follows l css" "css \<noteq> []" "consensus_state (state s) = last css" "session_run lib co po s log s'"
  shows "pairwise (\<lambda>a b. \<not> double_sign a b) (set (css @ log))"
proof -
  from session_run_follows [OF assms(4)] obtain full where full: "follows (last css) full" "subseq log full"
    using assms(3) by auto
  then have "follows l (css @ full)" using assms(1,2) by (simp add: follows_append)
  from follows_no_double_sign [OF this] subseq_set [OF full(2)] show ?thesis by (auto simp: pairwise_def)
qed

lemma nitro_start_holder:
  assumes "nitro_start lib net cfg = Inr (secret, idk, st, holder)"
  obtains sck where "vsock_connect net 0 VSOCK_HOST_CID (nc_enclave_state_port cfg) = Inr sck"
    "nitro_load_state \<lparr>state_conn = sck, sh_json = nl_state_json lib, sh_display = nl_error_display lib\<rparr> = (Inr st, holder)"
proof -
  from assms obtain k i h where new: "nitro_holder_new (nl_state_json lib) (nl_error_display lib) (vsock_connect net 0)
      (nc_enclave_state_port cfg) = Inr h"
    and l: "(case nitro_load_state h of
        (Inl (StateErr e), _) \<Rightarrow> Inl (io_error_wrap ''failed to load initial state'' (nl_state_error_display lib e))
      | (Inl (SyncPanicked m), _) \<Rightarrow> Inl PanicError
      | (Inr st, holder) \<Rightarrow> Inr (k, i, st, holder)) = Inr (secret, idk, st, holder)"
    unfolding nitro_start_def res_bind_eq_Inr map_err_eq_Inr by blast
  obtain r h' where r: "nitro_load_state h = (r, h')" by fastforce
  with l have "r = Inr st" "h' = holder" by (cases r; auto split: sync_failure.splits)+
  with r new that show thesis by (auto simp: nitro_holder_new_def res_bind_eq_Inr)
qed

lemma nitro_load_state_kept:
  "nitro_load_state h = (r, h') \<Longrightarrow> sh_json h' = sh_json h \<and> wx (state_conn h') = wx (state_conn h)
     \<and> sent (state_conn h') = sent (state_conn h)"
  by (auto simp: nitro_load_state_def split: prod.splits sum.splits dest!: read_u16_payload_sent)

lemma nitro_entry_holder:
  assumes "nitro_entry lib net fresh stream = Some (NServing s n)"
    and "\<forall>port sck. vsock_connect net 0 VSOCK_HOST_CID port = Inr sck \<longrightarrow> wx sck = [] \<and> sent sck = []"
  shows "sh_json (state_syncer s) = nl_state_json lib \<and> sh_open (state_syncer s) \<and> sent (state_conn (state_syncer s)) = []"
proof -
  from assms(1) obtain cfg secret idk st holder where start: "nitro_start lib net cfg = Inr (secret, idk, st, holder)"
    and s: "state_syncer s = holder"
    by (auto simp: nitro_entry_def session_new_def split: prod.splits sum.splits nitro_request.splits option.splits)
  obtain sck where sck: "vsock_connect net 0 VSOCK_HOST_CID (nc_enclave_state_port cfg) = Inr sck"
    and l: "nitro_load_state \<lparr>state_conn = sck, sh_json = nl_state_json lib, sh_display = nl_error_display lib\<rparr> = (Inr st, holder)"
    using nitro_start_holder [OF start] .
  from nitro_load_state_kept [OF l] assms(2) sck s show ?thesis by (simp add: sh_open_def)
qed

lemma sgx_entry_holder:
  assumes "sgx_entry lib net csprng hr request = Some (SServing s n)"
    and "\<forall>sck. tcp_connect net 0 ''state'' = Inr sck \<longrightarrow> wx sck = [] \<and> sent sck = []"
  shows "sh_json (state_syncer s) = sal_state_json lib \<and> sh_open (state_syncer s) \<and> sent (state_conn (state_syncer s)) = []"
proof -
  from assms(1) obtain sck where "tcp_connect net 0 ''state'' = Inr sck"
    and "state_syncer s = \<lparr>state_conn = sck, sh_json = sal_state_json lib, sh_display = sal_error_display lib\<rparr>"
    by (auto simp: sgx_entry_def session_new_def sgx_holder_new_def res_bind_eq_Inr
             split: sgx_init_request.splits prod.splits sum.splits option.splits)
  with assms(2) show ?thesis by (simp add: sh_open_def)
qed

section \<open>Properties\<close>

text \<open>
  C5. Nitro, end to end.  The enclave serves, its state connection takes what is written, and the validator asks, over one connection after the other, for signatures in the configured chain and height limit, each state following the one before.  Then
  the enclave's endless loop gets through all the connections and signs every request in order.  On the host, after one round of the syncer's loop per request (whatever chunks the stream arrives in, on a working disk), a syncer that is started anew on the file
  sends the next enclave a state that its \<open>load_state\<close> returns: that of the last request.  Whatever a session starting there signs does not conflict with any earlier signature.
\<close>

theorem nitro_serves_and_resumes:
  assumes "nitro_entry lib net fresh stream = Some (NServing s n)"
    and "\<forall>port sck. vsock_connect net 0 VSOCK_HOST_CID port = Inr sck \<longrightarrow> wx sck = [] \<and> sent sck = []"
    and "conversation tm (boxed_ops net) get_conn scripts (connection s) n" and "concat scripts \<noteq> []"
    and "script_ok tm (config s) (signing_key s) (concat scripts)"
    and "follows (consensus_state (state s)) (script_states (concat scripts))"
    and "list_all (\<lambda>cs. state_frame (nl_state_json lib) cs \<noteq> None) (script_states (concat scripts))"
    and "bind VSOCK_HOST_CID port = Inr ()" and "wx stream' = []" and "sent stream' = []"
  shows "\<exists>s' n'. session_rounds tm (boxed_ops net) nitro_ops get_conn (length scripts) (s, n) = Some (Inr (s', n'))
    \<and> session_run tm (boxed_ops net) nitro_ops s (script_states (concat scripts)) s'
    \<and> (\<forall>env t. nitro_ready (env, t) \<and> he_json env = nl_state_json lib
           \<and> rx_bytes (rx (nst_stream t)) = sent (state_conn (state_syncer s')) \<longrightarrow>
         (\<exists>t' self f sk. repeat_step nitro_step (length (concat scripts)) (env, t) = Some (env, t')
            \<and> nitro_syncer_new env bind (nss_path (nst_syncer t)) port (nst_fs t') = (Inr self, f)
            \<and> nitro_sync_to_stream env self stream' = (Inr (), sk)
            \<and> (\<forall>g. connected sk (state_conn g) \<and> sh_json g = nl_state_json lib \<longrightarrow>
                 (\<exists>g'. nitro_load_state g = (Inr (State_from (last (script_states (concat scripts)))), g')))))
    \<and> (\<forall>s2 log s3. consensus_state (state s2) = last (script_states (concat scripts))
           \<and> session_run tm (boxed_ops net) nitro_ops s2 log s3 \<longrightarrow>
         pairwise (\<lambda>a b. \<not> double_sign a b) (set (script_states (concat scripts) @ log)))"
proof -
  let ?css = "script_states (concat scripts)"
  have h: "sh_json (state_syncer s) = nl_state_json lib" "sh_open (state_syncer s)" "sent (state_conn (state_syncer s)) = []"
    using nitro_entry_holder [OF assms(1,2)] by blast+
  then have "list_all (sh_storable (state_syncer s)) ?css" using assms(7) by (simp add: sh_storable_def [abs_def])
  from nitro_service.served_is_stored [OF assms(3-6) h(2) this h(3)] obtain s' n' where
    r: "session_rounds tm (boxed_ops net) nitro_ops get_conn (length scripts) (s, n) = Some (Inr (s', n'))"
      "session_run tm (boxed_ops net) nitro_ops s ?css s'"
    and host: "\<And>h. nitro_ready h \<Longrightarrow> rx_bytes (rx (nst_stream (snd h))) = sent (state_conn (state_syncer s')) \<Longrightarrow>
      he_json (fst h) = sh_json (state_syncer s) \<Longrightarrow>
      \<exists>h'. repeat_step nitro_step (length (concat scripts)) h = Some h' \<and> nitro_ready h' \<and> nitro_holds h' (last ?css)"
    by blast
  have ne: "?css \<noteq> []" using assms(4) by simp
  then have frm: "state_frame (nl_state_json lib) (last ?css) \<noteq> None" using assms(7) unfolding list_all_iff by (blast intro: last_in_set)
  have "\<exists>t' self f sk. repeat_step nitro_step (length (concat scripts)) (env, t) = Some (env, t')
      \<and> nitro_syncer_new env bind (nss_path (nst_syncer t)) port (nst_fs t') = (Inr self, f)
      \<and> nitro_sync_to_stream env self stream' = (Inr (), sk)
      \<and> (\<forall>g. connected sk (state_conn g) \<and> sh_json g = nl_state_json lib \<longrightarrow>
           (\<exists>g'. nitro_load_state g = (Inr (State_from (last ?css)), g')))"
    if t: "nitro_ready (env, t)" "he_json env = nl_state_json lib" "rx_bytes (rx (nst_stream t)) = sent (state_conn (state_syncer s'))"
    for env t
  proof -
    from host [of "(env, t)"] t h(1) obtain h2 where
      h2: "repeat_step nitro_step (length (concat scripts)) (env, t) = Some h2" "nitro_ready h2" "nitro_holds h2 (last ?css)" by auto
    from nitro_steps_kept [OF h2(1)] obtain t' where t': "h2 = (env, t')" "nss_path (nst_syncer t') = nss_path (nst_syncer t)"
      by (cases h2) auto
    from nitro_stored_resumes [of env t' "last ?css" bind port stream'] h2 t' t(2) frm assms(8-10) show ?thesis by auto
  qed
  moreover have "pairwise (\<lambda>a b. \<not> double_sign a b) (set (?css @ log))"
    if "consensus_state (state s2) = last ?css" "session_run tm (boxed_ops net) nitro_ops s2 log s3" for s2 log s3
    using resumed_run_no_double_sign [OF assms(6) ne that] .
  ultimately show ?thesis using r by (intro exI [of _ s'] exI [of _ n'] conjI allI impI) blast+
qed

text \<open>
  C6. SGX, end to end: likewise, with the runner that writes the state file.  After one round of its loop per request, a syncer started anew on the file returns the state of the last request, which is the
  one the next start request carries.
\<close>

theorem sgx_serves_and_resumes:
  assumes "sgx_entry lib net csprng hr request = Some (SServing s n)"
    and "\<forall>sck. tcp_connect net 0 ''state'' = Inr sck \<longrightarrow> wx sck = [] \<and> sent sck = []"
    and "conversation tm (boxed_ops net) get_conn scripts (connection s) n" and "concat scripts \<noteq> []"
    and "script_ok tm (config s) (signing_key s) (concat scripts)"
    and "follows (consensus_state (state s)) (script_states (concat scripts))"
    and "list_all (\<lambda>cs. state_frame (sal_state_json lib) cs \<noteq> None) (script_states (concat scripts))"
  shows "\<exists>s' n'. session_rounds tm (boxed_ops net) sgx_ops get_conn (length scripts) (s, n) = Some (Inr (s', n'))
    \<and> session_run tm (boxed_ops net) sgx_ops s (script_states (concat scripts)) s'
    \<and> (\<forall>env self f. sgx_ready (env, self, f) \<and> he_json env = sal_state_json lib
           \<and> rx_bytes (rx (sss_stream self)) = sent (state_conn (state_syncer s')) \<longrightarrow>
         (\<exists>env' self' f'. repeat_step sgx_step (length (concat scripts)) (env, self, f) = Some (env', self', f')
            \<and> (\<forall>disp stream. \<exists>self2 f2. sgx_syncer_new env' disp (sss_path self') stream f'
                 = (Inr (self2, last (script_states (concat scripts))), f2))))
    \<and> (\<forall>s2 log s3. consensus_state (state s2) = last (script_states (concat scripts))
           \<and> session_run tm (boxed_ops net) sgx_ops s2 log s3 \<longrightarrow>
         pairwise (\<lambda>a b. \<not> double_sign a b) (set (script_states (concat scripts) @ log)))"
proof -
  let ?css = "script_states (concat scripts)"
  have h: "sh_json (state_syncer s) = sal_state_json lib" "sh_open (state_syncer s)" "sent (state_conn (state_syncer s)) = []"
    using sgx_entry_holder [OF assms(1,2)] by blast+
  then have "list_all (sh_storable (state_syncer s)) ?css" using assms(7) by (simp add: sh_storable_def [abs_def])
  from sgx_service.served_is_stored [OF assms(3-6) h(2) this h(3)] obtain s' n' where
    r: "session_rounds tm (boxed_ops net) sgx_ops get_conn (length scripts) (s, n) = Some (Inr (s', n'))"
      "session_run tm (boxed_ops net) sgx_ops s ?css s'"
    and host: "\<And>h. sgx_ready h \<Longrightarrow> rx_bytes (rx (sss_stream (fst (snd h)))) = sent (state_conn (state_syncer s')) \<Longrightarrow>
      he_json (fst h) = sh_json (state_syncer s) \<Longrightarrow>
      \<exists>h'. repeat_step sgx_step (length (concat scripts)) h = Some h' \<and> sgx_ready h' \<and> sgx_holds h' (last ?css)"
    by blast
  have ne: "?css \<noteq> []" using assms(4) by simp
  have "\<exists>env' self' f'. repeat_step sgx_step (length (concat scripts)) (env, self, f) = Some (env', self', f')
      \<and> (\<forall>disp stream. \<exists>self2 f2. sgx_syncer_new env' disp (sss_path self') stream f' = (Inr (self2, last ?css), f2))"
    if "sgx_ready (env, self, f)" "he_json env = sal_state_json lib" "rx_bytes (rx (sss_stream self)) = sent (state_conn (state_syncer s'))"
    for env self f
  proof -
    from host [of "(env, self, f)"] that h(1) obtain env' self' f' where
      "repeat_step sgx_step (length (concat scripts)) (env, self, f) = Some (env', self', f')"
      "sgx_ready (env', self', f')" "sgx_holds (env', self', f') (last ?css)" by auto
    moreover from this(2,3) have "disk_ready env' (sss_path self') f'" "state_written (he_json env') (sss_path self') f' (last ?css)"
      by (simp_all add: sgx_ready_def sgx_holds_def)
    ultimately show ?thesis using sgx_syncer_new_loads by blast
  qed
  moreover have "pairwise (\<lambda>a b. \<not> double_sign a b) (set (?css @ log))"
    if "consensus_state (state s2) = last ?css" "session_run tm (boxed_ops net) sgx_ops s2 log s3" for s2 log s3
    using resumed_run_no_double_sign [OF assms(6) ne that] .
  ultimately show ?thesis using r by (intro exI [of _ s'] exI [of _ n'] conjI allI impI) blast+
qed

text \<open>
  C14. When the Nitro enclave's \<open>entry\<close> begins to serve, the session has the consensus key that KMS decrypted from the \<open>Start\<close> request and the request's chain and height limit.  The list of all the states that its endless
  loop signs in its first \<open>k\<close> requests, for every \<open>k\<close> and whatever the validator sends, however connections are made and whether or not persisting works, has positions that do not decrease, from the state the host sent at the start on, and no two of these states conflict.  These requests are
  what the rounds of the loop consist of.
\<close>

theorem nitro_serving_never_double_signs:
  assumes "nitro_entry lib net fresh stream = Some (NServing s n)"
  shows "(\<exists>cfg b. nl_request_from_json lib b = Inr (Start cfg)
           \<and> nitro_decrypt_key lib cfg (nc_sealed_consensus_key cfg) = Inr (signing_key s)
           \<and> config s = \<lparr>cfg_chain_id = nc_chain_id cfg, cfg_max_height = nc_max_height cfg\<rparr>)
    \<and> (\<forall>k. sorted (map position (consensus_state (state s) # session_trace tm (boxed_ops net) nitro_ops get_conn k (s, n)))
         \<and> pairwise (\<lambda>a b. \<not> double_sign a b)
             (set (consensus_state (state s) # session_trace tm (boxed_ops net) nitro_ops get_conn k (s, n))))
    \<and> (\<forall>j sn'. session_rounds tm (boxed_ops net) nitro_ops get_conn j (s, n) = Some (Inr sn') \<longrightarrow>
         (\<exists>k. repeat_step (session_request tm (boxed_ops net) nitro_ops get_conn) k (s, n) = Some sn'))"
proof -
  from assms obtain cfg b idk st holder where "nl_request_from_json lib b = Inr (Start cfg)"
    and start: "nitro_start lib net cfg = Inr (signing_key s, idk, st, holder)"
    and "config s = \<lparr>cfg_chain_id = nc_chain_id cfg, cfg_max_height = nc_max_height cfg\<rparr>"
    by (auto simp: nitro_entry_def session_new_def
             split: prod.splits sum.splits nitro_request.splits option.splits)
  moreover from start have "nitro_decrypt_key lib cfg (nc_sealed_consensus_key cfg) = Inr (signing_key s)"
    by (rule nitro_start_Inr)
  ultimately show ?thesis
    using session_trace_no_double_sign session_rounds_requests by (intro conjI allI impI) blast+
qed

text \<open>
  C15. When the SGX enclave begins to serve, its key is the one unsealed from the \<open>Start\<close> request, whose public key is the request's key identifier, and its first state is the request's initial state.  The list of all the states that its endless loop signs in its
  first \<open>k\<close> requests, for every \<open>k\<close> and as for Nitro whatever happens in them, has positions that do not decrease from that state on, and no two of these states conflict.  These requests are what the rounds of the loop consist of.
\<close>

theorem sgx_serving_uses_sealed_key:
  assumes "keys_ok (sal_sgx lib)"
    and "sgx_entry lib net csprng hr request = Some (SServing s n)"
  shows "(\<exists>sealed_key cfg sc st. request = SgxStart sealed_key cfg sc st \<and> config s = cfg
           \<and> unseal (sal_sgx lib) sealed_key = Inr (signing_key s)
           \<and> key_verification (sal_sgx lib) (signing_key s) = krw_keyid (seal_key_request sealed_key)
           \<and> consensus_state (state s) = st)
    \<and> (\<forall>k. sorted (map position (consensus_state (state s) # session_trace tm (boxed_ops net) sgx_ops get_conn k (s, n)))
         \<and> pairwise (\<lambda>a b. \<not> double_sign a b)
             (set (consensus_state (state s) # session_trace tm (boxed_ops net) sgx_ops get_conn k (s, n))))
    \<and> (\<forall>j sn'. session_rounds tm (boxed_ops net) sgx_ops get_conn j (s, n) = Some (Inr sn') \<longrightarrow>
         (\<exists>k. repeat_step (session_request tm (boxed_ops net) sgx_ops get_conn) k (s, n) = Some sn'))"
proof -
  from assms(2) obtain sealed_key cfg sc st holder conn where
    "request = SgxStart sealed_key cfg sc st" and u: "unseal (sal_sgx lib) sealed_key = Inr (signing_key s)"
    and "s = session_new cfg conn (signing_key s) (State_from st) holder"
    by (auto simp: sgx_entry_def session_new_def
             split: sgx_init_request.splits prod.splits sum.splits option.splits)
  moreover from u assms(1) have "key_verification (sal_sgx lib) (signing_key s) = krw_keyid (seal_key_request sealed_key)"
    by (auto simp: unseal_def result_simps keys_ok_def split: option.splits if_splits)
  moreover from calculation have "config s = cfg" "consensus_state (state s) = st"
    by (metis session_new_def session.select_convs(1), metis session_new_def session.select_convs(4) State_from_def State.select_convs(1))
  ultimately show ?thesis
    using session_trace_no_double_sign session_rounds_requests by (intro conjI allI impI) blast+
qed

text \<open>Surroundings for the applications: a validator that asks for one vote on each of its first two connections.\<close>

definition demo_peer :: "nat \<Rightarrow> sock" where
  "demo_peer n = \<lparr>rx = (if n = 0 then [RData [1, 6, 7]] else if n = 1 then [RData [1, 7, 8]] else []), wx = [], sent = []\<rparr>"

definition demo_serve_net :: "bytes net" where
  "demo_serve_net = demo_net\<lparr>
     vsock_connect := (\<lambda>n _ p. if p = 7 then Inr (demo_sock demo_bytes) else Inr (demo_peer n)),
     tcp_connect := (\<lambda>n a. if a = ''state'' then Inr \<lparr>rx = [], wx = [], sent = []\<rparr> else Inr (demo_peer n))\<rparr>"

definition demo_get_conn :: "nat \<Rightarrow> (bytes boxed \<times> nat) option" where
  "demo_get_conn n = Some (BoxPlain (plain_new (demo_peer n)), Suc n)"

definition demo_scripts :: "script list" where
  "demo_scripts = [[([1, 6, 7], SignVote (demo_vote_request 6 7), demo_cs 6 7, [0])],
     [([1, 7, 8], SignVote (demo_vote_request 7 8), demo_cs 7 8, [0])]]"

lemma demo_scripts_facts:
  "concat demo_scripts \<noteq> []" "length demo_scripts = 2" "length (concat demo_scripts) = 2" "script_states (concat demo_scripts) = [demo_cs 6 7, demo_cs 7 8]"
  "follows demo_vote_state (script_states (concat demo_scripts))"
  "script_ok demo_lib \<lparr>cfg_chain_id = ''chain-1'', cfg_max_height = None\<rparr> key (concat demo_scripts)"
  by (simp_all add: demo_scripts_def demo_vote_state_def may_follow_def conflicting_def position_le_iff)
     (simp add: script_ok_def in_scope_def signature_response_def Response_encode_def demo_lib_def decode_request_def
        demo_vote_request_def State_from_vote_def valid_height_def)

lemma demo_conversation:
  "conversation demo_lib (boxed_ops demo_serve_net) demo_get_conn demo_scripts (BoxPlain (plain_new (demo_peer 0))) 1"
  by (simp add: demo_scripts_def demo_get_conn_def demo_peer_def plain_new_def boxed_ops_def read_msg_def Request_read_def
      plain_read_def plain_write_all_def sock_read_def demo_lib_def decode_request_def)

lemma demo_frames: "list_all (\<lambda>cs. state_frame demo_json cs \<noteq> None) (script_states (concat demo_scripts))"
  by (simp add: demo_scripts_facts state_frame_def demo_json_def length_nibs demo_raw_def) (simp add: nib_def)

lemma demo_nitro_serves:
  "\<exists>s. nitro_entry demo_nitro demo_serve_net [1] (demo_sock [1]) = Some (NServing s 1)
    \<and> connection s = BoxPlain (plain_new (demo_peer 0)) \<and> config s = \<lparr>cfg_chain_id = ''chain-1'', cfg_max_height = None\<rparr>
    \<and> consensus_state (state s) = demo_vote_state"
proof -
  obtain r where r: "read_u16_payload (demo_sock [1]) = (Inr [1], r)" using demo_sock_read [of "[1]"] by auto
  obtain h where h: "read_u16_payload (demo_sock demo_bytes) = (Inr demo_bytes, h)"
    using demo_sock_read [of demo_bytes] demo_bytes_facts(3) by fastforce
  have "retry_connect (nitro_connect_attempt demo_serve_net cfg None) 0 = Some (BoxPlain (plain_new (demo_peer 0)), 1)"
    if "nc_enclave_tendermint_conn cfg = 8" for cfg
    using that by (simp add: retry_connect.simps nitro_connect_attempt_def demo_serve_net_def)
  with r h demo_bytes_facts(2) show ?thesis
    by (simp add: nitro_entry_def nitro_start_def nitro_decrypt_key_def nitro_holder_new_def nitro_load_state_def
        nitro_get_connection_def demo_nitro_def demo_serve_net_def session_new_def State_from_def)
qed

text \<open>A stream that delivers the given bytes.\<close>

definition demo_stream :: "bytes \<Rightarrow> sock" where
  "demo_stream b = \<lparr>rx = (if b = [] then [] else [RData b]), wx = [], sent = []\<rparr>"

lemma demo_stream_rx: "rx_clean (rx (demo_stream b))" "rx_bytes (rx (demo_stream b)) = b"
  by (simp_all add: demo_stream_def)

theorem nitro_serves_and_resumes_witness:
  "\<exists>s s' n' t'. nitro_entry demo_nitro demo_serve_net [1] (demo_sock [1]) = Some (NServing s 1)
    \<and> session_rounds demo_lib (boxed_ops demo_serve_net) nitro_ops demo_get_conn 2 (s, 1) = Some (Inr (s', n'))
    \<and> session_run demo_lib (boxed_ops demo_serve_net) nitro_ops s [demo_cs 6 7, demo_cs 7 8] s'
    \<and> repeat_step nitro_step 2 (demo_env, (demo_thread [])\<lparr>nst_stream := demo_stream (sent (state_conn (state_syncer s')))\<rparr>)
        = Some (demo_env, t')"
proof -
  obtain s where e: "nitro_entry demo_nitro demo_serve_net [1] (demo_sock [1]) = Some (NServing s 1)"
    and s: "connection s = BoxPlain (plain_new (demo_peer 0))" "config s = \<lparr>cfg_chain_id = ''chain-1'', cfg_max_height = None\<rparr>"
      "consensus_state (state s) = demo_vote_state"
    using demo_nitro_serves by blast
  have js: "nl_state_json demo_nitro = demo_json" by (simp add: demo_nitro_def)
  have io: "\<forall>port sck. vsock_connect demo_serve_net 0 VSOCK_HOST_CID port = Inr sck \<longrightarrow> wx sck = [] \<and> sent sck = []"
    by (auto simp: demo_serve_net_def demo_sock_def demo_peer_def split: if_splits)
  have pre: "conversation demo_lib (boxed_ops demo_serve_net) demo_get_conn demo_scripts (connection s) 1"
    "script_ok demo_lib (config s) (signing_key s) (concat demo_scripts)"
    "follows (consensus_state (state s)) (script_states (concat demo_scripts))"
    "list_all (\<lambda>cs. state_frame (nl_state_json demo_nitro) cs \<noteq> None) (script_states (concat demo_scripts))"
    unfolding s js by (rule demo_conversation demo_scripts_facts demo_frames)+
  have io0: "Inr () = Inr ()" "wx (demo_stream []) = []" "sent (demo_stream []) = []" by (simp_all add: demo_stream_def)
  from nitro_serves_and_resumes [OF e io pre(1) demo_scripts_facts(1) pre(2-4),
      where bind = "\<lambda>_ _. Inr ()" and port = 5000 and stream' = "demo_stream []", unfolded demo_scripts_facts js]
  obtain s' n' where r: "session_rounds demo_lib (boxed_ops demo_serve_net) nitro_ops demo_get_conn 2 (s, 1) = Some (Inr (s', n'))"
    "session_run demo_lib (boxed_ops demo_serve_net) nitro_ops s [demo_cs 6 7, demo_cs 7 8] s'"
    and host: "\<forall>env t. nitro_ready (env, t) \<and> he_json env = demo_json
        \<and> rx_bytes (rx (nst_stream t)) = sent (state_conn (state_syncer s')) \<longrightarrow>
        (\<exists>t'. repeat_step nitro_step 2 (env, t) = Some (env, t'))"
    using io0 by blast
  have up: "nitro_ready (demo_env, (demo_thread [])\<lparr>nst_stream := demo_stream b\<rparr>)" for b
    by (simp add: nitro_ready_def demo_thread_def demo_syncer_def demo_disk_ready demo_stream_rx)
  from host up [of "sent (state_conn (state_syncer s'))"]
  have "\<exists>t'. repeat_step nitro_step 2 (demo_env, (demo_thread [])\<lparr>nst_stream := demo_stream (sent (state_conn (state_syncer s')))\<rparr>)
      = Some (demo_env, t')"
    by (simp add: demo_stream_rx)
  with e r show ?thesis by blast
qed

lemma demo_sgx_serves:
  "\<exists>s. sgx_entry demo_app demo_serve_net [] (demo_stream [])
        (SgxStart (demo_seal [7] [7]) \<lparr>cfg_chain_id = ''chain-1'', cfg_max_height = None\<rparr> None demo_vote_state) = Some (SServing s 1)
    \<and> connection s = BoxPlain (plain_new (demo_peer 0)) \<and> config s = \<lparr>cfg_chain_id = ''chain-1'', cfg_max_height = None\<rparr>
    \<and> consensus_state (state s) = demo_vote_state"
proof -
  have "unseal demo_sgx (demo_seal [7] [7]) = Inr [7]"
    by (simp add: unseal_def unseal_secret_def key_request_try_into_def demo_sgx_def demo_seal_def demo_dec_def)
  moreover have "sgx_get_connection demo_sgx demo_serve_net None 0 = Some (BoxPlain (plain_new (demo_peer 0)), 1)"
    by (simp add: sgx_get_connection_def retry_connect.simps sgx_connect_attempt_def demo_serve_net_def)
  ultimately show ?thesis
    by (simp add: sgx_entry_def demo_app_def sgx_holder_new_def session_new_def State_from_def)
       (simp add: demo_serve_net_def session_new_def State_from_def)
qed

theorem sgx_serves_and_resumes_witness:
  "\<exists>s s' n' h'. session_rounds demo_lib (boxed_ops demo_serve_net) sgx_ops demo_get_conn 2 (s, 1) = Some (Inr (s', n'))
    \<and> session_run demo_lib (boxed_ops demo_serve_net) sgx_ops s [demo_cs 6 7, demo_cs 7 8] s'
    \<and> repeat_step sgx_step 2 (demo_env, \<lparr>sss_path = ''state/s.json'', sss_stream = demo_stream (sent (state_conn (state_syncer s'))),
           sss_display = (\<lambda>_. [])\<rparr>, \<lparr>files = (\<lambda>_. None), faults = []\<rparr>) = Some h'"
proof -
  obtain s where e: "sgx_entry demo_app demo_serve_net [] (demo_stream [])
        (SgxStart (demo_seal [7] [7]) \<lparr>cfg_chain_id = ''chain-1'', cfg_max_height = None\<rparr> None demo_vote_state) = Some (SServing s 1)"
    and s: "connection s = BoxPlain (plain_new (demo_peer 0))" "config s = \<lparr>cfg_chain_id = ''chain-1'', cfg_max_height = None\<rparr>"
      "consensus_state (state s) = demo_vote_state"
    using demo_sgx_serves by blast
  have js: "sal_state_json demo_app = demo_json" by (simp add: demo_app_def)
  have io: "\<forall>sck. tcp_connect demo_serve_net 0 ''state'' = Inr sck \<longrightarrow> wx sck = [] \<and> sent sck = []"
    by (auto simp: demo_serve_net_def)
  have pre: "conversation demo_lib (boxed_ops demo_serve_net) demo_get_conn demo_scripts (connection s) 1"
    "script_ok demo_lib (config s) (signing_key s) (concat demo_scripts)"
    "follows (consensus_state (state s)) (script_states (concat demo_scripts))"
    "list_all (\<lambda>cs. state_frame (sal_state_json demo_app) cs \<noteq> None) (script_states (concat demo_scripts))"
    unfolding s js by (rule demo_conversation demo_scripts_facts demo_frames)+
  from sgx_serves_and_resumes [OF e io pre(1) demo_scripts_facts(1) pre(2-4), unfolded demo_scripts_facts js]
  obtain s' n' where r: "session_rounds demo_lib (boxed_ops demo_serve_net) sgx_ops demo_get_conn 2 (s, 1) = Some (Inr (s', n'))"
    "session_run demo_lib (boxed_ops demo_serve_net) sgx_ops s [demo_cs 6 7, demo_cs 7 8] s'"
    and host: "\<forall>env self f. sgx_ready (env, self, f) \<and> he_json env = demo_json
        \<and> rx_bytes (rx (sss_stream self)) = sent (state_conn (state_syncer s')) \<longrightarrow>
        (\<exists>env' self' f'. repeat_step sgx_step 2 (env, self, f) = Some (env', self', f'))"
    by (elim exE conjE) (rule that, assumption, assumption, blast)
  have up: "sgx_ready (demo_env, \<lparr>sss_path = ''state/s.json'', sss_stream = demo_stream b, sss_display = (\<lambda>_. [])\<rparr>,
      \<lparr>files = (\<lambda>_. None), faults = []\<rparr>)" for b
    by (simp add: sgx_ready_def demo_disk_ready demo_stream_rx)
  from host [rule_format, of demo_env "\<lparr>sss_path = ''state/s.json'', sss_stream = demo_stream (sent (state_conn (state_syncer s'))),
      sss_display = (\<lambda>_. [])\<rparr>"] up [of "sent (state_conn (state_syncer s'))"] r
  show ?thesis by (simp add: demo_stream_rx) blast
qed

text \<open>On these surroundings both enclaves sign the two votes in their first four requests: two that are answered, and two that find the end of a connection.\<close>

lemma demo_trace:
  assumes "available_persistence ops sh_open sh_storable"
    and s: "connection s = BoxPlain (plain_new (demo_peer 0))" "config s = \<lparr>cfg_chain_id = ''chain-1'', cfg_max_height = None\<rparr>"
      "consensus_state (state s) = demo_vote_state"
    and h: "sh_json (state_syncer s) = demo_json" "sh_open (state_syncer s)"
  shows "session_trace demo_lib (boxed_ops demo_serve_net) ops demo_get_conn 4 (s, 1) = [demo_cs 6 7, demo_cs 7 8]"
proof -
  have pre: "conversation demo_lib (boxed_ops demo_serve_net) demo_get_conn demo_scripts (connection s) 1"
    "script_ok demo_lib (config s) (signing_key s) (concat demo_scripts)"
    "follows (consensus_state (state s)) (script_states (concat demo_scripts))"
    unfolding s by (rule demo_conversation demo_scripts_facts)+
  have "list_all (sh_storable (state_syncer s)) (script_states (concat demo_scripts))"
    using demo_frames h(1) by (simp add: sh_storable_def [abs_def])
  from available_persistence.conversation_is_signed [OF assms(1) pre h(2) this] show ?thesis
    unfolding demo_scripts_facts by auto
qed

theorem nitro_serving_never_double_signs_witness:
  "\<exists>s. nitro_entry demo_nitro demo_serve_net [1] (demo_sock [1]) = Some (NServing s 1)
     \<and> signing_key s = [42] \<and> cfg_chain_id (config s) = ''chain-1''
     \<and> session_trace demo_lib (boxed_ops demo_serve_net) nitro_ops demo_get_conn 4 (s, 1) = [demo_cs 6 7, demo_cs 7 8]
     \<and> sorted (map position [demo_vote_state, demo_cs 6 7, demo_cs 7 8])
     \<and> pairwise (\<lambda>a b. \<not> double_sign a b) {demo_vote_state, demo_cs 6 7, demo_cs 7 8}"
proof -
  obtain s where e: "nitro_entry demo_nitro demo_serve_net [1] (demo_sock [1]) = Some (NServing s 1)"
    and s: "connection s = BoxPlain (plain_new (demo_peer 0))" "config s = \<lparr>cfg_chain_id = ''chain-1'', cfg_max_height = None\<rparr>"
      "consensus_state (state s) = demo_vote_state"
    using demo_nitro_serves by blast
  have "\<forall>port sck. vsock_connect demo_serve_net 0 VSOCK_HOST_CID port = Inr sck \<longrightarrow> wx sck = [] \<and> sent sck = []"
    by (auto simp: demo_serve_net_def demo_sock_def demo_peer_def split: if_splits)
  from nitro_entry_holder [OF e this] have tr: "session_trace demo_lib (boxed_ops demo_serve_net) nitro_ops demo_get_conn 4 (s, 1)
      = [demo_cs 6 7, demo_cs 7 8]"
    by (intro demo_trace [OF nitro_up.available_persistence_axioms s]) (simp_all add: demo_nitro_def)
  note safe = nitro_serving_never_double_signs [OF e, of demo_lib demo_get_conn]
  from conjunct1 [OF safe] have "signing_key s = [42]" by (auto simp: demo_nitro_def nitro_decrypt_key_def)
  with spec [OF conjunct1 [OF conjunct2 [OF safe]], of 4] e s tr show ?thesis by auto
qed

theorem sgx_serving_uses_sealed_key_witness:
  "\<exists>s. sgx_entry demo_app demo_serve_net [] (demo_stream [])
        (SgxStart (demo_seal [7] [7]) \<lparr>cfg_chain_id = ''chain-1'', cfg_max_height = None\<rparr> None demo_vote_state) = Some (SServing s 1)
     \<and> signing_key s = [7] \<and> consensus_state (state s) = demo_vote_state
     \<and> session_trace demo_lib (boxed_ops demo_serve_net) sgx_ops demo_get_conn 4 (s, 1) = [demo_cs 6 7, demo_cs 7 8]
     \<and> sorted (map position [demo_vote_state, demo_cs 6 7, demo_cs 7 8])
     \<and> pairwise (\<lambda>a b. \<not> double_sign a b) {demo_vote_state, demo_cs 6 7, demo_cs 7 8}"
proof -
  obtain s where e: "sgx_entry demo_app demo_serve_net [] (demo_stream [])
        (SgxStart (demo_seal [7] [7]) \<lparr>cfg_chain_id = ''chain-1'', cfg_max_height = None\<rparr> None demo_vote_state) = Some (SServing s 1)"
    and s: "connection s = BoxPlain (plain_new (demo_peer 0))" "config s = \<lparr>cfg_chain_id = ''chain-1'', cfg_max_height = None\<rparr>"
      "consensus_state (state s) = demo_vote_state"
    using demo_sgx_serves by blast
  have "\<forall>sck. tcp_connect demo_serve_net 0 ''state'' = Inr sck \<longrightarrow> wx sck = [] \<and> sent sck = []" by (auto simp: demo_serve_net_def)
  from sgx_entry_holder [OF e this] have tr: "session_trace demo_lib (boxed_ops demo_serve_net) sgx_ops demo_get_conn 4 (s, 1)
      = [demo_cs 6 7, demo_cs 7 8]"
    by (intro demo_trace [OF sgx_up.available_persistence_axioms s]) (simp_all add: demo_app_def)
  have "keys_ok (sal_sgx demo_app)" using demo_sgx_ok(1) by (simp add: demo_app_def)
  note safe = sgx_serving_uses_sealed_key [OF this e, of demo_lib demo_get_conn]
  have "unseal demo_sgx (demo_seal [7] [7]) = Inr [7]"
    by (simp add: unseal_def unseal_secret_def key_request_try_into_def demo_sgx_def demo_seal_def demo_dec_def)
  with conjunct1 [OF safe] have "signing_key s = [7]" by (auto simp: demo_app_def)
  with spec [OF conjunct1 [OF conjunct2 [OF safe]], of 4] e s tr show ?thesis by auto
qed

end
