(* ===== verification/Softsign_State.thy ===== *)
theory Softsign_State
  imports Kms_Run State_Files
begin

text \<open>
  \<open>providers/softsign/src/state.rs\<close>: the state kept in a local file, replaced atomically.  The state
  holder is shown to be a durable persistence, which gives the main property of the software
  signer: over any number of requests, reconnections, restarts and failures it never signs two
  conflicting states.
\<close>

section \<open>The code\<close>

text \<open>The holder's only field is the path; the disk and the crates it uses are its surroundings.\<close>

record softsign_state_holder =
  ss_state_file_path :: path
  ss_fs :: fs
  ss_tempfile :: tempfile_lib
  ss_json :: state_json

definition softsign_new :: "tempfile_lib \<Rightarrow> state_json \<Rightarrow> fs \<Rightarrow> path \<Rightarrow> softsign_state_holder" where
  "softsign_new tf js f p =
     \<lparr>ss_state_file_path = p, ss_fs = f, ss_tempfile = tf, ss_json = js\<rparr>"

definition softsign_persist_state ::
    "softsign_state_holder \<Rightarrow> consensus_state \<Rightarrow> (sync_failure + unit) \<times> softsign_state_holder" where
  "softsign_persist_state self new_state =
     (case to_json (ss_json self) new_state of
        Inl e \<Rightarrow> (Inl (StateErr (SyncEncDecError (ss_state_file_path self) e)), self)
      | Inr json \<Rightarrow>
          (case path_parent (ss_state_file_path self) of
             None \<Rightarrow> (Inl (SyncPanicked ''state file cannot be root directory''), self)
           | Some dir \<Rightarrow>
               (case replace_file (ss_tempfile self) dir (ss_state_file_path self) json (ss_fs self) of
                  (Inl e, f) \<Rightarrow>
                    (Inl (StateErr (SyncError (ss_state_file_path self) e)), self\<lparr>ss_fs := f\<rparr>)
                | (Inr _, f) \<Rightarrow> (Inr (), self\<lparr>ss_fs := f\<rparr>))))"

definition softsign_write_initial_state ::
    "softsign_state_holder \<Rightarrow> (sync_failure + State) \<times> softsign_state_holder" where
  "softsign_write_initial_state self =
     st_bind (softsign_persist_state self initial_consensus_state)
       (\<lambda>_ self'. (Inr (State_from initial_consensus_state), self')) id"

definition softsign_load_state ::
    "softsign_state_holder \<Rightarrow> (sync_failure + State) \<times> softsign_state_holder" where
  "softsign_load_state self =
     (case fs_read_to_string (ss_state_file_path self) (ss_fs self) of
        (Inr state_json, f) \<Rightarrow>
          (case from_json (ss_json self) state_json of
             Inl e \<Rightarrow> (Inl (StateErr (SyncEncDecError (ss_state_file_path self) e)), self\<lparr>ss_fs := f\<rparr>)
           | Inr cs \<Rightarrow> (Inr (State_from cs), self\<lparr>ss_fs := f\<rparr>))
      | (Inl e, f) \<Rightarrow>
          if io_kind e = NotFound then softsign_write_initial_state (self\<lparr>ss_fs := f\<rparr>)
          else (Inl (StateErr (SyncError (ss_state_file_path self) e)), self\<lparr>ss_fs := f\<rparr>))"

definition softsign_ops :: "softsign_state_holder persist_state_sync" where
  "softsign_ops = \<lparr>load_state = softsign_load_state, persist_state = softsign_persist_state\<rparr>"

section \<open>The holder is a durable persistence\<close>

definition ss_stored :: "softsign_state_holder \<Rightarrow> consensus_state option" where
  "ss_stored h = state_in_file (ss_json h) (ss_state_file_path h) (ss_fs h)"

definition ss_reliable :: "softsign_state_holder \<Rightarrow> bool" where
  "ss_reliable h = reliable (ss_tempfile h) (ss_json h) (ss_state_file_path h) (ss_fs h)"

lemma softsign_persist_Inr:
  assumes "ss_reliable h" "softsign_persist_state h cs = (Inr u, h')"
  shows "ss_stored h' = Some cs \<and> ss_reliable h'"
proof -
  from assms(2) obtain json dir f where "to_json (ss_json h) cs = Inr json"
    and "replace_file (ss_tempfile h) dir (ss_state_file_path h) json (ss_fs h) = (Inr (), f)"
    and "h' = h\<lparr>ss_fs := f\<rparr>"
    by (auto simp: softsign_persist_state_def split: sum.splits option.splits prod.splits)
  with assms(1) show ?thesis
    using replace_file_reliable_Inr by (simp add: ss_reliable_def ss_stored_def)
qed

lemma softsign_persist_Inl:
  assumes "ss_reliable h" "softsign_persist_state h cs = (Inl e, h')"
  shows "ss_stored h' = ss_stored h \<and> ss_reliable h'"
proof (cases "h' = h")
  case False
  with assms(2) obtain json dir f e' where
    "replace_file (ss_tempfile h) dir (ss_state_file_path h) json (ss_fs h) = (Inl e', f)"
    and "h' = h\<lparr>ss_fs := f\<rparr>"
    by (auto simp: softsign_persist_state_def split: sum.splits option.splits prod.splits)
  with assms(1) show ?thesis
    using replace_file_reliable_Inl by (simp add: ss_reliable_def ss_stored_def)
qed (use assms in simp)

lemma softsign_read_reliable:
  assumes "ss_reliable h" "fs_read_to_string (ss_state_file_path h) (ss_fs h) = (r, f)"
  shows "ss_reliable (h\<lparr>ss_fs := f\<rparr>) \<and> ss_stored (h\<lparr>ss_fs := f\<rparr>) = ss_stored h"
  using assms same_named_reliable [OF fs_read_to_string_same_named [OF assms(2)]]
  by (simp add: ss_reliable_def ss_stored_def)

lemma softsign_load_Inr:
  assumes "ss_reliable h" "softsign_load_state h = (Inr st, h')"
  shows "ss_stored h' = Some (consensus_state st) \<and> ss_reliable h'
         \<and> (ss_stored h = None \<or> ss_stored h = Some (consensus_state st))"
proof (cases "fs_read_to_string (ss_state_file_path h) (ss_fs h)")
  case (Pair r f)
  note rd = softsign_read_reliable [OF assms(1) Pair]
  show ?thesis
  proof (cases r)
    case (Inr c)
    then have "files (ss_fs h) (ss_state_file_path h) = Some c" using Pair fs_read_to_string_Inr by blast
    moreover from assms(2) Pair Inr obtain cs where "from_json (ss_json h) c = Inr cs"
      "st = State_from cs" "h' = h\<lparr>ss_fs := f\<rparr>"
      by (auto simp: softsign_load_state_def split: sum.splits)
    ultimately show ?thesis
      using rd by (simp add: ss_stored_def [of h] state_in_file_def State_from_def)
  next
    case (Inl e)
    with assms(2) Pair have nf: "io_kind e = NotFound"
      by (auto simp: softsign_load_state_def split: if_splits)
    with Inl Pair assms(1) have "files (ss_fs h) (ss_state_file_path h) = None"
      by (auto simp: ss_reliable_def reliable_def no_spurious_not_found_def
               intro: fs_read_to_string_NotFound)
    then have "ss_stored h = None" by (simp add: ss_stored_def state_in_file_def)
    moreover from assms(2) Pair Inl nf have "st = State_from initial_consensus_state"
      and "softsign_persist_state (h\<lparr>ss_fs := f\<rparr>) initial_consensus_state = (Inr (), h')"
      by (auto simp: softsign_load_state_def softsign_write_initial_state_def result_simps)
    ultimately show ?thesis
      using softsign_persist_Inr [of "h\<lparr>ss_fs := f\<rparr>"] rd by (simp add: State_from_def)
  qed
qed

lemma softsign_load_Inl:
  assumes "ss_reliable h" "softsign_load_state h = (Inl e, h')"
  shows "ss_stored h' = ss_stored h \<and> ss_reliable h'"
proof (cases "fs_read_to_string (ss_state_file_path h) (ss_fs h)")
  case (Pair r f)
  note rd = softsign_read_reliable [OF assms(1) Pair]
  with assms(2) Pair softsign_persist_Inl [of "h\<lparr>ss_fs := f\<rparr>"] show ?thesis
    by (auto simp: softsign_load_state_def softsign_write_initial_state_def result_simps
             split: sum.splits if_splits)
qed

lemma softsign_load_state_kept:
  "softsign_load_state h = (r, h') \<Longrightarrow>
     ss_state_file_path h' = ss_state_file_path h \<and> ss_tempfile h' = ss_tempfile h"
  by (auto simp: softsign_load_state_def softsign_write_initial_state_def softsign_persist_state_def st_bind_def
           split: prod.splits sum.splits if_splits option.splits)

interpretation softsign: durable_persistence softsign_ops ss_stored ss_reliable
  by unfold_locales
     (auto simp: softsign_ops_def dest: softsign_persist_Inr softsign_persist_Inl softsign_load_Inr
       softsign_load_Inl)

text \<open>A run from a session whose state was just loaded.\<close>

lemma softsign_run_never_double_signs:
  assumes "ss_reliable (state_syncer s0)"
    and "ss_stored (state_syncer s0) = Some (consensus_state (state s0))"
    and "kms_run lib co softsign_ops s0 log s"
  shows "sorted (map position log) \<and> pairwise (\<lambda>a b. \<not> double_sign a b) (set log)
         \<and> (\<exists>cs. ss_stored (state_syncer s) = Some cs \<and> (\<forall>a\<in>set log. position a \<le> position cs))"
proof -
  have "softsign.synced s0" using assms(1,2) by (simp add: softsign.synced_def)
  with softsign.run_never_double_signs [OF assms(3)] softsign.run_invariant [OF assms(3)]
  show ?thesis by (auto simp: softsign.synced_def)
qed

end
