(* ===== verification/Softsign_App.thy ===== *)
theory Softsign_App
  imports Softsign_State Enclave_Base Utils Concrete_Env
begin

text \<open>
  The software signer around its state file: \<open>providers/softsign/src/config.rs\<close>, \<open>providers/softsign/src/key_utils.rs\<close> and \<open>providers/softsign/src/main.rs\<close>.  TOML, base64 and the key types are
  fields of \<open>softsign_lib\<close>.  An \<open>expect\<close> that fails is a panic with its text.
\<close>

section \<open>Configuration\<close>

record softsign_opt =
  so_address :: address
  so_chain_id :: chain_id
  so_max_height :: "height option"
  so_consensus_key_path :: path
  so_id_key_path :: "path option"
  so_state_file_path :: path
  so_timeout :: "u16 option"
  so_retry :: bool

definition softsign_opt_default :: softsign_opt where
  "softsign_opt_default =
     \<lparr>so_address = Unix ''/tmp/validator.socket'', so_chain_id = ''testchain-1'', so_max_height = None,
      so_consensus_key_path = ''secrets/secret.key'', so_id_key_path = Some ''secrets/id.key'',
      so_state_file_path = ''state/priv_validator_state.json'', so_timeout = None, so_retry = True\<rparr>"

text \<open>The crates, and what happens to the writes to a file (\<open>sl_writes\<close>).\<close>

record softsign_lib =
  toml_to_string :: "softsign_opt \<Rightarrow> string + bytes"
  toml_from_str :: "bytes \<Rightarrow> string + softsign_opt"
  sl_base64_encode :: "bytes \<Rightarrow> bytes"
  sl_base64_decode :: "bytes \<Rightarrow> string + bytes"
  sl_key_try_from :: "bytes \<Rightarrow> signing_key option"
  sl_key_bytes :: "signing_key \<Rightarrow> bytes"
  sl_key_verification :: "signing_key \<Rightarrow> bytes"
  sl_io_display :: "io_error \<Rightarrow> string"
  sl_writes :: "path \<Rightarrow> write_event list"

section \<open>Key files\<close>

text \<open>
  \<open>str::trim_end\<close> on the reversed UTF-8 bytes: removes the characters with the Unicode property \<open>White_Space\<close>.
\<close>

fun trim_rev :: "bytes \<Rightarrow> bytes" where
  "trim_rev (a # r) =
     (if in_range 9 13 a \<or> a = 32 then trim_rev r
      else case r of
        b # r1 \<Rightarrow>
          if b = 0xC2 \<and> (a = 0x85 \<or> a = 0xA0) then trim_rev r1
          else (case r1 of
                  c # r2 \<Rightarrow>
                    if c = 0xE1 \<and> b = 0x9A \<and> a = 0x80
                       \<or> c = 0xE2 \<and> b = 0x80 \<and> (in_range 0x80 0x8A a \<or> a = 0xA8 \<or> a = 0xA9 \<or> a = 0xAF)
                       \<or> c = 0xE2 \<and> b = 0x81 \<and> a = 0x9F
                       \<or> c = 0xE3 \<and> b = 0x80 \<and> a = 0x80
                    then trim_rev r2 else a # r
                | [] \<Rightarrow> a # r)
      | [] \<Rightarrow> a # r)"
| "trim_rev [] = []"

definition trim_end :: "bytes \<Rightarrow> bytes" where
  "trim_end s = rev (trim_rev (rev s))"

definition load_base64_secret :: "softsign_lib \<Rightarrow> path \<Rightarrow> fs \<Rightarrow> (error + bytes) \<times> fs" where
  "load_base64_secret lib p f =
     (case fs_read_to_string p f of
        (Inl e, f') \<Rightarrow> (Inl (IoError (''couldn't read key from '' @ p @ '': '' @ sl_io_display lib e) e), f')
      | (Inr base64_data, f') \<Rightarrow>
          (case sl_base64_decode lib (trim_end base64_data) of
             Inl e \<Rightarrow> (Inl (io_error_wrap (''can't decode key from `'' @ p @ ''`: '' @ e) e), f')
           | Inr data \<Rightarrow> (Inr data, f')))"

definition load_base64_ed25519_key :: "softsign_lib \<Rightarrow> path \<Rightarrow> fs \<Rightarrow> (error + signing_key) \<times> fs" where
  "load_base64_ed25519_key lib p f =
     st_bind (load_base64_secret lib p f)
       (\<lambda>key_bytes f'. (case sl_key_try_from lib key_bytes of
            None \<Rightarrow> Inl InvalidKeyError | Some secret \<Rightarrow> Inr secret, f')) id"

definition write_base64_secret ::
    "softsign_lib \<Rightarrow> path \<Rightarrow> bytes \<Rightarrow> write_event list \<Rightarrow> fs \<Rightarrow> (error + unit) \<times> fs" where
  "write_base64_secret lib p data ws f =
     st_map_err (\<lambda>e. IoError (''couldn't write `'' @ p @ ''`: '' @ sl_io_display lib e) e)
       (fs_truncate_write p (sl_base64_encode lib data) ws f)"

text \<open>\<open>secret_key\<close> is the fresh key from the random number generator.\<close>

definition generate_key_file ::
    "softsign_lib \<Rightarrow> signing_key \<Rightarrow> path \<Rightarrow> write_event list \<Rightarrow> fs \<Rightarrow> (error + unit) \<times> fs" where
  "generate_key_file lib secret_key p ws f = write_base64_secret lib p (sl_key_bytes lib secret_key) ws f"

section \<open>Commands\<close>

text \<open>\<open>fs::create_dir_all(path.parent().expect(..)).expect(..)\<close>: directories are not modelled, only that the call may fail.\<close>

definition create_parent :: "path \<Rightarrow> fs \<Rightarrow> (panic + unit) \<times> fs" where
  "create_parent p f =
     (case path_parent p of
        None \<Rightarrow> (Inl (Panic ''not root dir''), f)
      | Some d \<Rightarrow>
          (case next_fault f of
             (Some e, f') \<Rightarrow> (Inl (Panic ''create dirs for key storage''), f')
           | (None, f') \<Rightarrow> (Inr (), f')))"

definition softsign_init ::
    "softsign_lib \<Rightarrow> signing_key \<Rightarrow> signing_key \<Rightarrow> path option \<Rightarrow> fs \<Rightarrow> (panic + unit) \<times> fs" where
  "softsign_init lib key1 key2 config_path f =
     (let cp = (case config_path of Some p \<Rightarrow> p | None \<Rightarrow> ''tmkms.toml'');
          cfg = softsign_opt_default
      in case toml_to_string lib cfg of
           Inl _ \<Rightarrow> (Inl (Panic ''config in toml''), f)
         | Inr t \<Rightarrow>
             st_bind (st_map_err (\<lambda>_. Panic ''written config'') (fs_truncate_write cp t (sl_writes lib cp) f)) (\<lambda>_ f1.
             st_bind (create_parent (so_consensus_key_path cfg) f1) (\<lambda>_ f2.
             st_bind (st_map_err (\<lambda>_. Panic ''keygen failed'')
                       (generate_key_file lib key1 (so_consensus_key_path cfg) (sl_writes lib (so_consensus_key_path cfg)) f2)) (\<lambda>_ f3.
             st_bind (case so_id_key_path cfg of
                        Some id_path \<Rightarrow>
                          st_bind (create_parent id_path f3) (\<lambda>_ f4.
                            st_map_err (\<lambda>_. Panic ''keygen failed'') (generate_key_file lib key2 id_path (sl_writes lib id_path) f4)) id
                      | None \<Rightarrow> (Inr (), f3)) (\<lambda>_ f5.
             create_parent (so_state_file_path cfg) f5) id) id) id) id)"

text \<open>\<open>loop { msocket = connect().ok(); if msocket.is_some() || !config.retry { break } }\<close>\<close>

partial_function (option) connect_retry ::
    "bool \<Rightarrow> (nat \<Rightarrow> io_error + sock) \<Rightarrow> nat \<Rightarrow> (sock option \<times> nat) option" where
  "connect_retry retry attempt n =
     (case attempt n of
        Inr s \<Rightarrow> Some (Some s, Suc n)
      | Inl e \<Rightarrow> if \<not> retry then Some (None, Suc n) else connect_retry retry attempt (Suc n))"

text \<open>
  \<open>set_read_timeout\<close> and \<open>set_write_timeout\<close> on a connected socket: a timeout of zero is refused.  The timeout that is set only shows as an error of a
  later read or write.
\<close>

definition set_timeout :: "u16 \<Rightarrow> io_error + unit" where
  "set_timeout secs = (if secs = 0 then Inl (io_error_of InvalidInput) else Inr ())"

definition DEFAULT_TIMEOUT :: u16 where
  "DEFAULT_TIMEOUT = 10"

text \<open>The connection to the validator, with the disk after the files read for it.\<close>

definition softsign_connect ::
    "softsign_lib \<Rightarrow> 'x net \<Rightarrow> (nat \<Rightarrow> path \<Rightarrow> io_error + sock) \<Rightarrow> softsign_opt \<Rightarrow> fs
      \<Rightarrow> ((panic + 'x boxed) \<times> fs) option" where
  "softsign_connect lib net unix_connect cfg f =
     (case so_address cfg of
        Tcp peer_id host port \<Rightarrow>
          (case so_id_key_path cfg of
             None \<Rightarrow> Some (Inl (Panic (''config error: no `secret_key` for validator: '' @ host @ '':''
                        @ show_nat (unat port))), f)
           | Some p \<Rightarrow>
               (case load_base64_ed25519_key lib p f of
                  (Inl _, f') \<Rightarrow> Some (Inl (Panic ''id keypair''), f')
                | (Inr identity_key, f') \<Rightarrow>
                    (case connect_retry (so_retry cfg) (\<lambda>n. tcp_connect net n (host @ '':'' @ show_nat (unat port))) 0 of
                       None \<Rightarrow> None
                     | Some (None, _) \<Rightarrow> Some (Inl (Panic ''tcp connection''), f')
                     | Some (Some sck, n) \<Rightarrow>
                         (case set_timeout (case so_timeout cfg of Some t \<Rightarrow> t | None \<Rightarrow> DEFAULT_TIMEOUT) of
                            Inl _ \<Rightarrow> Some (Inl (Panic ''read timeout set''), f')
                          | Inr _ \<Rightarrow>
                         (case secret_new net n sck identity_key of
                            Inl _ \<Rightarrow> Some (Inl (Panic ''secret connection''), f')
                          | Inr conn \<Rightarrow>
                              (case peer_id of
                                 Some expected \<Rightarrow>
                                   if expected \<noteq> secret_peer_id net conn
                                   then Some (Inl (Panic ''validator peer ID mismatch!''), f')
                                   else Some (Inr (BoxSecret conn), f')
                               | None \<Rightarrow> Some (Inr (BoxSecret conn), f')))))))
      | Unix p \<Rightarrow>
          (case connect_retry (so_retry cfg) (\<lambda>n. unix_connect n p) 0 of
             None \<Rightarrow> None
           | Some (None, _) \<Rightarrow> Some (Inl (Panic ''unix socket open''), f)
           | Some (Some sck, n) \<Rightarrow> Some (Inr (BoxPlain (plain_new sck)), f)))"

text \<open>How a command ends before it serves, with the disk it leaves: an exit code or a panic.\<close>

datatype 'x softsign_outcome =
    SsExit nat fs | SsPanic string fs
  | SsServe "('x boxed, softsign_state_holder) session"

text \<open>\<open>start\<close> up to the session.\<close>

definition softsign_start ::
    "softsign_lib \<Rightarrow> tempfile_lib \<Rightarrow> state_json \<Rightarrow> 'x net \<Rightarrow> (nat \<Rightarrow> path \<Rightarrow> io_error + sock) \<Rightarrow> path option \<Rightarrow> fs
      \<Rightarrow> 'x softsign_outcome option" where
  "softsign_start lib tf js net unix_connect config_path f =
     (let cp = (case config_path of Some p \<Rightarrow> p | None \<Rightarrow> ''tmkms.toml'') in
      if files f cp = None then Some (SsExit 1 f)
      else case fs_read_to_string cp f of
        (Inl _, f1) \<Rightarrow> Some (SsPanic ''toml config file read'' f1)
      | (Inr toml_string, f1) \<Rightarrow>
        (case toml_from_str lib toml_string of
           Inl _ \<Rightarrow> Some (SsPanic ''configuration'' f1)
         | Inr cfg \<Rightarrow>
           (case softsign_load_state (softsign_new tf js f1 (so_state_file_path cfg)) of
              (Inl _, holder) \<Rightarrow> Some (SsPanic ''state loaded'' (ss_fs holder))
            | (Inr st, holder) \<Rightarrow>
              (case load_base64_ed25519_key lib (so_consensus_key_path cfg) (ss_fs holder) of
                 (Inl _, f2) \<Rightarrow> Some (SsPanic ''secret keypair'' f2)
               | (Inr keypair, f2) \<Rightarrow>
                 (case softsign_connect lib net unix_connect cfg f2 of
                    None \<Rightarrow> None
                  | Some (Inl (Panic m), f3) \<Rightarrow> Some (SsPanic m f3)
                  | Some (Inr conn, f3) \<Rightarrow>
                      Some (SsServe (session_new \<lparr>cfg_chain_id = so_chain_id cfg, cfg_max_height = so_max_height cfg\<rparr>
                        conn keypair st (holder\<lparr>ss_fs := f3\<rparr>))))))))"

text \<open>
  What a process prints, how it ends (an exit code, a panic, or by returning from \<open>main\<close>) and the disk it leaves.
\<close>

type_synonym process_end = "string list \<times> (nat + panic + unit) \<times> fs"

text \<open>\<open>session.request_loop().expect("request loop")\<close>\<close>

definition softsign_run ::
    "softsign_lib \<Rightarrow> tm_lib \<Rightarrow> tempfile_lib \<Rightarrow> state_json \<Rightarrow> 'x net \<Rightarrow> (nat \<Rightarrow> path \<Rightarrow> io_error + sock) \<Rightarrow> path option
      \<Rightarrow> fs \<Rightarrow> process_end option" where
  "softsign_run lib tm tf js net unix_connect config_path f =
     (case softsign_start lib tf js net unix_connect config_path f of
        None \<Rightarrow> None
      | Some (SsExit n f') \<Rightarrow> Some ([''missing tmkms.toml file''], Inl n, f')
      | Some (SsPanic m f') \<Rightarrow> Some ([], Inr (Inl (Panic m)), f')
      | Some (SsServe s) \<Rightarrow>
          (case request_loop tm (boxed_ops net) softsign_ops s of
             None \<Rightarrow> None
           | Some (Inl (Panicked m), s') \<Rightarrow> Some ([], Inr (Inl (Panic m)), ss_fs (state_syncer s'))
           | Some (Inl (Fail e), s') \<Rightarrow> Some ([], Inr (Inl (Panic ''request loop'')), ss_fs (state_syncer s'))
           | Some (Inr _, s') \<Rightarrow> Some ([], Inr (Inr ()), ss_fs (state_syncer s'))))"

definition softsign_pubkey ::
    "softsign_lib \<Rightarrow> display_lib \<Rightarrow> path option \<Rightarrow> pubkey_display option \<Rightarrow> string option \<Rightarrow> fs \<Rightarrow> process_end" where
  "softsign_pubkey lib disp config_path ptype bech32_prefix f =
     (let cp = (case config_path of Some p \<Rightarrow> p | None \<Rightarrow> ''tmkms.toml'') in
      if files f cp = None then ([''missing tmkms.toml file''], Inl 1, f)
      else case fs_read_to_string cp f of
        (Inl _, f1) \<Rightarrow> ([], Inr (Inl (Panic ''toml config file read'')), f1)
      | (Inr toml_string, f1) \<Rightarrow>
        (case toml_from_str lib toml_string of
           Inl _ \<Rightarrow> ([], Inr (Inl (Panic ''configuration'')), f1)
         | Inr cfg \<Rightarrow>
           (case load_base64_ed25519_key lib (so_consensus_key_path cfg) f1 of
              (Inl _, f2) \<Rightarrow> ([], Inr (Inl (Panic ''secret keypair'')), f2)
            | (Inr keypair, f2) \<Rightarrow>
                (case print_pubkey disp bech32_prefix ptype (sl_key_verification lib keypair) of
                   (out, r) \<Rightarrow> (out, Inr r, f2)))))"

section \<open>Lemmas\<close>

lemma same_named_refl: "same_named tf f f"
  by (simp add: same_named_def)

lemma load_key_same_named:
  "load_base64_ed25519_key lib p f = (r, f') \<Longrightarrow> same_named tf f f'"
proof -
  assume a: "load_base64_ed25519_key lib p f = (r, f')"
  obtain x g where x: "fs_read_to_string p f = (x, g)" by fastforce
  with a have "f' = g"
    by (auto simp: load_base64_ed25519_key_def load_base64_secret_def st_bind_def
             split: sum.splits prod.splits)
  with fs_read_to_string_same_named [OF x] show "same_named tf f f'" by simp
qed

lemma softsign_connect_same_named:
  "softsign_connect lib net uc cfg f = Some (Inr c, f') \<Longrightarrow> same_named tf f f'"
  by (auto simp: softsign_connect_def same_named_refl dest: load_key_same_named
           split: address.splits option.splits prod.splits sum.splits if_splits)

lemma same_named_holder:
  assumes "same_named (ss_tempfile h) (ss_fs h) f" "ss_reliable h"
  shows "ss_reliable (h\<lparr>ss_fs := f\<rparr>) \<and> ss_stored (h\<lparr>ss_fs := f\<rparr>) = ss_stored h"
  using same_named_reliable [OF assms(1)] assms(2) by (simp add: ss_reliable_def ss_stored_def)

text \<open>The session that \<open>start\<close> serves holds the state of its file.\<close>

lemma softsign_start_synced:
  assumes start: "softsign_start lib tf js net uc config_path f = Some (SsServe s)"
    and rel: "\<And>p. p = ss_state_file_path (state_syncer s) \<Longrightarrow> reliable tf js p f"
  shows "ss_reliable (state_syncer s) \<and> ss_stored (state_syncer s) = Some (consensus_state (state s))"
proof -
  from start obtain cp t f1 cfg st holder keypair f2 conn f3 where
    1: "fs_read_to_string cp f = (Inr t, f1)"
    and 2: "softsign_load_state (softsign_new tf js f1 (so_state_file_path cfg)) = (Inr st, holder)"
    and 3: "load_base64_ed25519_key lib (so_consensus_key_path cfg) (ss_fs holder) = (Inr keypair, f2)"
    and 4: "softsign_connect lib net uc cfg f2 = Some (Inr conn, f3)"
    and s: "s = session_new \<lparr>cfg_chain_id = so_chain_id cfg, cfg_max_height = so_max_height cfg\<rparr>
              conn keypair st (holder\<lparr>ss_fs := f3\<rparr>)"
    unfolding softsign_start_def Let_def
    by (auto split: if_splits prod.splits sum.splits option.splits panic.splits)
  let ?h0 = "softsign_new tf js f1 (so_state_file_path cfg)"
  have path: "ss_state_file_path holder = so_state_file_path cfg" "ss_tempfile holder = tf"
    using softsign_load_state_kept [OF 2] by (simp_all add: softsign_new_def)
  have "reliable tf js (so_state_file_path cfg) f" using rel path s by (simp add: session_new_def)
  with same_named_reliable [OF fs_read_to_string_same_named [OF 1]]
  have "ss_reliable ?h0" by (simp add: ss_reliable_def softsign_new_def)
  from softsign_load_Inr [OF this 2]
  have h: "ss_reliable holder" "ss_stored holder = Some (consensus_state st)" by auto
  have "same_named tf (ss_fs holder) f3"
    using load_key_same_named [OF 3, of tf] softsign_connect_same_named [OF 4, of tf] same_named_trans
    by blast
  with same_named_holder [of holder f3] path(2) h show ?thesis by (simp add: s session_new_def)
qed

lemma trim_end_visible:
  assumes "s \<noteq> []" "in_range 33 126 (last s)"
  shows "trim_end s = s"
proof -
  obtain a r where r: "rev s = a # r" using assms(1) by (cases "rev s") auto
  then have "a = last s" using assms(1) by (metis hd_rev list.sel(1))
  then have a: "33 \<le> unat a" "unat a \<le> 126" using assms(2) by (simp_all add: in_range_def)
  have ne: "\<not> in_range 9 13 a" "\<not> in_range 128 138 a" using a by (auto simp: in_range_def)
  have "a \<noteq> 32" "a \<noteq> 0x85" "a \<noteq> 0xA0" "a \<noteq> 0x80" "a \<noteq> 0xA8" "a \<noteq> 0xA9" "a \<noteq> 0xAF" "a \<noteq> 0x9F"
    using a by auto
  with ne have "trim_rev (a # r) = a # r"
    by (auto split: list.splits)
  then show ?thesis using r by (simp add: trim_end_def)
qed

text \<open>
  What is relied on of base64: decoding undoes encoding, and the encoding of a non-empty text is
  visible ASCII.
\<close>

definition base64_file_ok :: "softsign_lib \<Rightarrow> bool" where
  "base64_file_ok lib \<longleftrightarrow>
     (\<forall>b. sl_base64_decode lib (sl_base64_encode lib b) = Inr b)
     \<and> (\<forall>b. list_all (in_range 33 126) (sl_base64_encode lib b))
     \<and> (\<forall>k. sl_key_try_from lib (sl_key_bytes lib k) = Some k)"

lemma load_written_key:
  assumes "base64_file_ok lib" "files f p = Some (sl_base64_encode lib (sl_key_bytes lib k))" "faults f = []"
  shows "load_base64_ed25519_key lib p f = (Inr k, f)"
proof -
  let ?e = "sl_base64_encode lib (sl_key_bytes lib k)"
  have vis: "list_all (in_range 33 126) ?e" using assms(1) by (simp add: base64_file_ok_def)
  then have "utf8_valid ?e" by (intro utf8_valid_ascii) (auto simp: list_all_iff in_range_def)
  moreover have "trim_end ?e = ?e"
  proof (cases "?e = []")
    case False
    with vis show ?thesis by (intro trim_end_visible) (auto simp: list_all_iff)
  qed (simp add: trim_end_def)
  ultimately show ?thesis
    using assms
    by (simp add: load_base64_ed25519_key_def load_base64_secret_def fs_read_to_string_def fs_read_def
        next_fault_def base64_file_ok_def)
qed

section \<open>Properties\<close>

text \<open>
  C1. The software signer from its command line: whenever \<open>start\<close> gets as far as serving (whatever the configuration, the keys and the state file
  contain), then over any sequence of requests, reconnections, restarts on the state file and failing
  operations the positions of the states it signs never decrease, no two of them have the same height, round and step with
  different blocks, and the file always holds a state that is not behind any of them.
\<close>

theorem softsign_start_never_double_signs:
  assumes "softsign_start lib tf js net uc config_path f = Some (SsServe s)"
    and "reliable tf js (ss_state_file_path (state_syncer s)) f"
    and "kms_run tm co softsign_ops s log s'"
  shows "sorted (map position log) \<and> pairwise (\<lambda>a b. \<not> double_sign a b) (set log)
         \<and> (\<exists>cs. ss_stored (state_syncer s') = Some cs \<and> (\<forall>a\<in>set log. position a \<le> position cs))"
  using softsign_start_synced [OF assms(1)] softsign_run_never_double_signs [OF _ _ assms(3)] assms(2)
  by blast

text \<open>Concrete surroundings: a configuration with the default paths, a key, and a validator that asks for one vote.\<close>

definition demo_softsign :: softsign_lib where
  "demo_softsign = \<lparr>toml_to_string = (\<lambda>_. Inr []),
     toml_from_str = (\<lambda>_. Inr (softsign_opt_default\<lparr>so_chain_id := ''chain-1''\<rparr>)),
     sl_base64_encode = (\<lambda>b. concat (map nib b)), sl_base64_decode = (\<lambda>b. Inr (unnib b)),
     sl_key_try_from = Some, sl_key_bytes = (\<lambda>k. k), sl_key_verification = (\<lambda>k. k), sl_io_display = (\<lambda>_. []), sl_writes = (\<lambda>_. [])\<rparr>"

definition demo_disk :: fs where
  "demo_disk = \<lparr>files = [''tmkms.toml'' \<mapsto> [], ''secrets/secret.key'' \<mapsto> []], faults = []\<rparr>"

definition demo_unix :: "nat \<Rightarrow> path \<Rightarrow> io_error + sock" where
  "demo_unix n p = Inr \<lparr>rx = [RData [1, 5, 7]], wx = [], sent = []\<rparr>"

definition no_net :: "unit net" where
  "no_net = \<lparr>tcp_connect = (\<lambda>_ _. Inl (io_error_of Other)), vsock_connect = (\<lambda>_ _ _. Inl (io_error_of Other)),
     secret_new = (\<lambda>_ _ _. Inl []), secret_peer_id = (\<lambda>_. []),
     secret_ops = \<lparr>conn_read = (\<lambda>n x. (Inr [], x)), conn_write_all = (\<lambda>b x. (Inr (), x))\<rparr>\<rparr>"

definition demo_started :: "(unit boxed, softsign_state_holder) session" where
  "demo_started = session_new \<lparr>cfg_chain_id = ''chain-1'', cfg_max_height = None\<rparr>
     (BoxPlain (plain_new \<lparr>rx = [RData [1, 5, 7]], wx = [], sent = []\<rparr>)) [] (State_from initial_consensus_state)
     \<lparr>ss_state_file_path = ''state/priv_validator_state.json'',
      ss_fs = \<lparr>files = (files demo_disk)(''state/priv_validator_state.json'' \<mapsto>
         concat (map nib (demo_raw initial_consensus_state))), faults = []\<rparr>,
      ss_tempfile = demo_tempfile, ss_json = demo_json\<rparr>"

lemma demo_softsign_start:
  "softsign_start demo_softsign demo_tempfile demo_json no_net demo_unix None demo_disk = Some (SsServe demo_started)"
proof -
  let ?p = "''state/priv_validator_state.json''"
  let ?f = "\<lparr>files = (files demo_disk)(?p \<mapsto> concat (map nib (demo_raw initial_consensus_state))), faults = []\<rparr>"
  have par: "path_parent ?p = Some ''state''" by (rule path_parent_file)
  have toml: "fs_read_to_string ''tmkms.toml'' demo_disk = (Inr [], demo_disk)"
    by (simp add: fs_read_to_string_def fs_read_def next_fault_def demo_disk_def)
  have load: "softsign_load_state (softsign_new demo_tempfile demo_json demo_disk ?p)
      = (Inr (State_from initial_consensus_state), softsign_new demo_tempfile demo_json ?f ?p)"
    using par by (simp add: softsign_load_state_def softsign_new_def fs_read_to_string_def fs_read_def next_fault_def
        softsign_write_initial_state_def softsign_persist_state_def replace_file_def demo_tempfile_def demo_json_def
        demo_disk_def)
  have key: "load_base64_ed25519_key demo_softsign ''secrets/secret.key'' ?f = (Inr [], ?f)"
    by (simp add: load_base64_ed25519_key_def load_base64_secret_def fs_read_to_string_def fs_read_def
        next_fault_def demo_disk_def trim_end_def demo_softsign_def)
  show ?thesis
    using toml load key
    by (simp add: softsign_start_def demo_softsign_def softsign_opt_default_def)
       (simp add: demo_disk_def softsign_new_def softsign_connect_def connect_retry.simps demo_unix_def demo_started_def)
qed

lemma demo_started_signs:
  "signs demo_lib (boxed_ops no_net) softsign_ops demo_started
     = [\<lparr>cs_height = 5, cs_round = 0, cs_step = 1, cs_block_id = Some [7]\<rparr>]"
  using path_parent_file(1)
  by (simp add: signs_def demo_started_def session_new_def Request_read_def read_msg_def boxed_ops_def
      plain_read_def plain_new_def sock_read_def demo_lib_def decode_request_def demo_vote_request_def
      handler_defs check_max_height_def check_update_consensus_state_def check_consensus_state_def
      check_defs State_from_def State_from_vote_def initial_consensus_state_def softsign_ops_def
      softsign_persist_state_def replace_file_def demo_tempfile_def demo_json_def signed_state_def vote_response_def)

theorem softsign_start_never_double_signs_witness:
  "\<exists>s' cs. kms_run demo_lib (boxed_ops no_net) softsign_ops demo_started
      [\<lparr>cs_height = 5, cs_round = 0, cs_step = 1, cs_block_id = Some [7]\<rparr>] s'
    \<and> ss_stored (state_syncer s') = Some cs \<and> Hrs 5 0 1 \<le> position cs"
proof -
  obtain r s' where "handle_request demo_lib (boxed_ops no_net) softsign_ops demo_started = (r, s')" by fastforce
  then have run: "kms_run demo_lib (boxed_ops no_net) softsign_ops demo_started
      [\<lparr>cs_height = 5, cs_round = 0, cs_step = 1, cs_block_id = Some [7]\<rparr>] s'"
    using kms_run.request [OF kms_run.start] demo_started_signs by fastforce
  have "reliable demo_tempfile demo_json (ss_state_file_path (state_syncer demo_started)) demo_disk"
    by (simp add: reliable_def demo_tempfile_ok demo_json_ok no_spurious_not_found_def demo_disk_def)
       (simp add: demo_tempfile_def)
  from softsign_start_never_double_signs [OF demo_softsign_start this run]
  have "\<exists>cs. ss_stored (state_syncer s') = Some cs \<and> Hrs 5 0 1 \<le> position cs" by (auto simp: position_def)
  with run show ?thesis by blast
qed

text \<open>
  C21. The states of the software signer stay well formed: if the state it starts from is, and heights of decoded requests fit
  an \<open>i64\<close>, then over any sequence of requests, reconnections and restarts every state it signs, its current state and
  the state in its file have the step of a proposal, a prevote or a precommit and a height that fits an \<open>i64\<close>.
\<close>

theorem softsign_states_are_well_formed:
  assumes "softsign_start lib tf js net uc config_path f = Some (SsServe s)"
    and "reliable tf js (ss_state_file_path (state_syncer s)) f"
    and "kms_run tm co softsign_ops s log s'"
    and "heights_checked tm" and "wf_state (consensus_state (state s))"
  shows "(\<forall>cs \<in> set log. wf_state cs) \<and> wf_state (consensus_state (state s'))
    \<and> ss_stored (state_syncer s') = Some (consensus_state (state s'))"
proof -
  have "softsign.synced s" using softsign_start_synced [OF assms(1)] assms(2) by (simp add: softsign.synced_def)
  with softsign.run_well_formed [OF assms(3) _ assms(4,5)] softsign.run_invariant [OF assms(3)]
  show ?thesis by (simp add: softsign.synced_def)
qed

theorem softsign_states_are_well_formed_witness:
  "\<exists>s'. kms_run demo_lib (boxed_ops no_net) softsign_ops demo_started
      [\<lparr>cs_height = 5, cs_round = 0, cs_step = 1, cs_block_id = Some [7]\<rparr>] s' \<and> wf_state (consensus_state (state s'))"
proof -
  obtain r s' where "handle_request demo_lib (boxed_ops no_net) softsign_ops demo_started = (r, s')" by fastforce
  then have run: "kms_run demo_lib (boxed_ops no_net) softsign_ops demo_started
      [\<lparr>cs_height = 5, cs_round = 0, cs_step = 1, cs_block_id = Some [7]\<rparr>] s'"
    using kms_run.request [OF kms_run.start] demo_started_signs by fastforce
  have rel: "reliable demo_tempfile demo_json (ss_state_file_path (state_syncer demo_started)) demo_disk"
    by (simp add: reliable_def demo_tempfile_ok demo_json_ok no_spurious_not_found_def demo_disk_def)
       (simp add: demo_tempfile_def)
  have byte: "valid_height (ucast (h :: u8))" for h
  proof -
    have "unat h < 2 ^ 63" by (rule less_trans [OF unsigned_less]) simp
    then show ?thesis
      by (simp add: valid_height_def unsigned_ucast_eq) (metis order_le_less_trans take_bit_nat_less_eq_self)
  qed
  have "heights_checked demo_lib"
    by (auto simp: heights_checked_def demo_lib_def demo_vote_request_def demo_proposal_request_def byte split: list.splits)
  moreover have "wf_state (consensus_state (state demo_started))"
    by (simp add: wf_state_def demo_started_def session_new_def State_from_def initial_consensus_state_def valid_height_def)
  ultimately show ?thesis using softsign_states_are_well_formed [OF demo_softsign_start rel run] run by blast
qed

text \<open>
  A key that \<open>generate_key\<close> stored in a file is the key that \<open>load_base64_ed25519_key\<close> reads from that file.
\<close>

theorem softsign_key_file_roundtrip:
  assumes "base64_file_ok lib" and "generate_key_file lib k p ws f = (Inr (), f')" and "faults f' = []"
  shows "load_base64_ed25519_key lib p f' = (Inr k, f')"
proof -
  have "files f' p = Some (sl_base64_encode lib (sl_key_bytes lib k))"
    using assms(2) by (auto simp: generate_key_file_def write_base64_secret_def result_simps dest!: fs_truncate_write_Inr)
  with assms(1,3) show ?thesis by (intro load_written_key)
qed

lemma nib_visible: "list_all (in_range 33 126) (concat (map nib b))"
proof (induction b)
  case (Cons x b)
  have "unat x < 256" using unsigned_less [of x] by simp
  then have "64 + unat x div 16 \<le> 126" "64 + unat x mod 16 \<le> 126" by auto
  with Cons show ?case
    by (simp only: nib_def list.map concat.simps append_Cons append_Nil list.pred_inject in_range_def nib_values)
       simp
qed simp

theorem softsign_key_file_roundtrip_witness:
  "\<exists>f'. generate_key_file demo_softsign [1, 2] ''k'' [] demo_disk = (Inr (), f')
     \<and> load_base64_ed25519_key demo_softsign ''k'' f' = (Inr [1, 2], f')"
proof -
  have "base64_file_ok demo_softsign"
    by (simp add: base64_file_ok_def demo_softsign_def unnib_nib nib_visible)
  moreover obtain f' where g: "generate_key_file demo_softsign [1, 2] ''k'' [] demo_disk = (Inr (), f')" "faults f' = []"
    by (simp add: generate_key_file_def write_base64_secret_def fs_truncate_write_def next_fault_def demo_disk_def)
  ultimately show ?thesis using softsign_key_file_roundtrip [OF _ g] by blast
qed

end
