(* ===== verification/Softsign_Serve.thy ===== *)
theory Softsign_Serve
  imports Softsign_App Session_Live
begin

text \<open>
  The software signer as a whole process: \<open>start\<close> of \<open>providers/softsign/src/main.rs\<close> serves a validator until the connection ends.  On a working disk the
  state file is an \<open>available_persistence\<close>, so everything the validator rightly asks for is signed, and what the process leaves on the disk is the state the next start loads.
\<close>

section \<open>The state file is available\<close>

definition ss_available :: "softsign_state_holder \<Rightarrow> bool" where
  "ss_available h \<longleftrightarrow>
     ss_reliable h \<and> replaceable (ss_tempfile h) (ss_state_file_path h) \<and> faults (ss_fs h) = []"

definition ss_storable :: "softsign_state_holder \<Rightarrow> consensus_state \<Rightarrow> bool" where
  "ss_storable h cs \<longleftrightarrow> (\<exists>b. to_json (ss_json h) cs = Inr b)"

lemma softsign_persist_available:
  assumes "ss_available h" "ss_storable h cs"
  shows "\<exists>h'. softsign_persist_state h cs = (Inr (), h') \<and> ss_available h' \<and> ss_storable h' = ss_storable h"
proof -
  from assms(2) obtain b where b: "to_json (ss_json h) cs = Inr b" by (auto simp: ss_storable_def)
  from assms(1) obtain dir f where dir: "path_parent (ss_state_file_path h) = Some dir"
    and r: "replace_file (ss_tempfile h) dir (ss_state_file_path h) b (ss_fs h) = (Inr (), f)"
    unfolding ss_available_def replaceable_def by blast
  from b dir r have p: "softsign_persist_state h cs = (Inr (), h\<lparr>ss_fs := f\<rparr>)"
    by (simp add: softsign_persist_state_def)
  have "tempfile_ok (ss_tempfile h)" using assms(1) by (simp add: ss_available_def ss_reliable_def reliable_def)
  from replace_file_Inr [OF this r] assms(1) have "faults f = []" by (simp add: ss_available_def)
  with p softsign_persist_Inr [OF _ p] assms(1) show ?thesis by (simp add: ss_available_def ss_storable_def fun_eq_iff)
qed

interpretation softsign_up: available_persistence softsign_ops ss_available ss_storable
  by unfold_locales (simp add: softsign_ops_def softsign_persist_available)

text \<open>A loaded holder is on the disk it was made for, and has no new errors waiting.\<close>

lemma softsign_load_state_faults:
  assumes "tempfile_ok (ss_tempfile h)" "softsign_load_state h = (r, h')"
  shows "ss_json h' = ss_json h \<and> set (faults (ss_fs h')) \<subseteq> set (faults (ss_fs h))"
proof (cases "fs_read_to_string (ss_state_file_path h) (ss_fs h)")
  case (Pair x f)
  have f: "set (faults f) \<subseteq> set (faults (ss_fs h))" using fs_read_to_string_files [OF Pair] by blast
  have rep: "set (faults f') \<subseteq> set (faults f)" if "replace_file (ss_tempfile h) d p b f = (y, f')" for d p b y f'
  proof (cases y)
    case (Inl e)
    with that replace_file_Inl [OF assms(1)] show ?thesis by (auto simp: same_named_def)
  next
    case (Inr u)
    with that replace_file_Inr [OF assms(1)] show ?thesis by auto
  qed
  show ?thesis
    using assms(2) Pair f rep
    by (auto simp: softsign_load_state_def softsign_write_initial_state_def softsign_persist_state_def st_bind_def
             split: prod.splits sum.splits if_splits option.splits dest!: rep)
qed

lemma softsign_start_available:
  assumes "softsign_start lib tf js net uc config_path f = Some (SsServe s)"
    and "reliable tf js (ss_state_file_path (state_syncer s)) f"
    and "replaceable tf (ss_state_file_path (state_syncer s))" and "faults f = []"
  shows "ss_available (state_syncer s) \<and> ss_json (state_syncer s) = js \<and> ss_tempfile (state_syncer s) = tf"
proof -
  from assms(1) obtain cp t f1 cfg st holder keypair f2 conn f3 where
    1: "fs_read_to_string cp f = (Inr t, f1)"
    and 2: "softsign_load_state (softsign_new tf js f1 (so_state_file_path cfg)) = (Inr st, holder)"
    and 3: "load_base64_ed25519_key lib (so_consensus_key_path cfg) (ss_fs holder) = (Inr keypair, f2)"
    and 4: "softsign_connect lib net uc cfg f2 = Some (Inr conn, f3)"
    and s: "state_syncer s = holder\<lparr>ss_fs := f3\<rparr>"
    unfolding softsign_start_def Let_def session_new_def
    by (auto split: if_splits prod.splits sum.splits option.splits panic.splits)
  have tf: "tempfile_ok tf" using assms(2) by (simp add: reliable_def)
  have kept: "ss_tempfile holder = tf" using softsign_load_state_kept [OF 2] by (simp add: softsign_new_def)
  have "ss_json holder = js" "set (faults (ss_fs holder)) \<subseteq> set (faults f1)"
    using softsign_load_state_faults [OF _ 2] tf by (simp_all add: softsign_new_def)
  moreover have "set (faults f3) \<subseteq> set (faults (ss_fs holder))"
    using load_key_same_named [OF 3, of tf] softsign_connect_same_named [OF 4, of tf] by (auto simp: same_named_def)
  moreover have "set (faults f1) \<subseteq> set (faults f)" using fs_read_to_string_files [OF 1] by blast
  ultimately show ?thesis
    using softsign_start_synced [OF assms(1)] assms(2-4) kept s by (simp add: ss_available_def)
qed

lemma softsign_persist_writes:
  assumes "ss_reliable h" "softsign_persist_state h cs = (Inr u, h')"
  shows "ss_state_file_path h' = ss_state_file_path h \<and> ss_json h' = ss_json h \<and> ss_tempfile h' = ss_tempfile h
    \<and> ss_reliable h' \<and> state_written (ss_json h) (ss_state_file_path h) (ss_fs h') cs"
proof -
  from assms(2) obtain json dir f where "to_json (ss_json h) cs = Inr json"
    and r: "replace_file (ss_tempfile h) dir (ss_state_file_path h) json (ss_fs h) = (Inr (), f)"
    and "h' = h\<lparr>ss_fs := f\<rparr>"
    by (auto simp: softsign_persist_state_def split: sum.splits option.splits prod.splits)
  moreover have "files f (ss_state_file_path h) = Some json"
    using assms(1) replace_file_Inr [OF _ r] by (simp add: ss_reliable_def reliable_def)
  ultimately show ?thesis using softsign_persist_Inr [OF assms] by (simp add: state_written_def)
qed

lemma softsign_persist_all_writes:
  assumes "persist_all softsign_ops css h = (Inr u, h')" "ss_reliable h" "css \<noteq> []"
  shows "state_written (ss_json h) (ss_state_file_path h) (ss_fs h') (last css) \<and> ss_reliable h'
    \<and> ss_state_file_path h' = ss_state_file_path h \<and> ss_json h' = ss_json h \<and> ss_tempfile h' = ss_tempfile h"
  using assms
proof (induction css arbitrary: h)
  case (Cons cs css)
  from Cons.prems(1) obtain v h1 where p: "softsign_persist_state h cs = (Inr v, h1)"
    and r: "persist_all softsign_ops css h1 = (Inr u, h')"
    by (auto simp: result_simps softsign_ops_def)
  from softsign_persist_writes [OF Cons.prems(2) p] r Cons.IH [OF r] show ?case by (cases css) auto
qed simp

lemma softsign_load_written:
  assumes "json_ok js" "state_written js p f cs" "faults f = []"
  shows "fst (softsign_load_state (softsign_new tf js f p)) = Inr (State_from cs)"
  using assms
  by (auto simp: softsign_load_state_def softsign_new_def state_written_def fs_read_to_string_def fs_read_def next_fault_def
      json_ok_def)

section \<open>Properties\<close>

text \<open>
  C8. The software signer as a process: \<open>start\<close> serves on a working disk, the validator sends, over a plain or a secret connection, requests for the configured chain, within the height limit,
  each of which follows the state of the file and the ones before, and then the connection ends.  Then all the requests are signed in order and answered; the process ends (with the panic that the failed request
  loop causes); the state file holds the state of the last request; and loading that file returns it, so that the next \<open>start\<close> resumes there.
\<close>

theorem softsign_serves_validator:
  assumes "softsign_start lib tf js net uc config_path f = Some (SsServe s)"
    and "reliable tf js (ss_state_file_path (state_syncer s)) f"
    and "replaceable tf (ss_state_file_path (state_syncer s))" and "faults f = []"
    and "exchange tm (boxed_ops net) script (connection s) = Some c" and "script \<noteq> []"
    and "script_ok tm (config s) (signing_key s) script"
    and "follows (consensus_state (state s)) (script_states script)"
    and "list_all (\<lambda>cs. \<exists>b. to_json js cs = Inr b) (script_states script)"
    and "Request_read tm (boxed_ops net) c = (Inl e, c')"
  shows "\<exists>s' f'. session_run tm (boxed_ops net) softsign_ops s (script_states script) s' \<and> connection s' = c
    \<and> softsign_run lib tm tf js net uc config_path f = Some ([], Inr (Inl (Panic ''request loop'')), f')
    \<and> state_in_file js (ss_state_file_path (state_syncer s)) f' = Some (last (script_states script))
    \<and> fst (softsign_load_state (softsign_new tf js f' (ss_state_file_path (state_syncer s))))
        = Inr (State_from (last (script_states script)))"
proof -
  let ?p = "ss_state_file_path (state_syncer s)" and ?css = "script_states script"
  from softsign_start_available [OF assms(1-4)] have up: "ss_available (state_syncer s)"
    and js: "ss_json (state_syncer s) = js" by simp_all
  then have "list_all (ss_storable (state_syncer s)) ?css" using assms(9) by (simp add: ss_storable_def [abs_def])
  from softsign_up.script_is_signed [OF assms(5,7,8) up this] obtain s' where
    run: "session_run tm (boxed_ops net) softsign_ops s ?css s'" "connection s' = c"
    and loop: "request_loop tm (boxed_ops net) softsign_ops s = request_loop tm (boxed_ops net) softsign_ops s'"
    and all: "persist_all softsign_ops ?css (state_syncer s) = (Inr (), state_syncer s')" "ss_available (state_syncer s')"
    by blast
  let ?f = "ss_fs (state_syncer s')"
  have "request_loop tm (boxed_ops net) softsign_ops s' = Some (Inl (Fail e), s'\<lparr>connection := c'\<rparr>)"
    using assms(10) run(2) by (simp add: request_loop.simps [of tm "boxed_ops net"] handle_request_def)
  then have "softsign_run lib tm tf js net uc config_path f = Some ([], Inr (Inl (Panic ''request loop'')), ?f)"
    using assms(1) loop by (simp add: softsign_run_def)
  moreover have "state_written js ?p ?f (last ?css)" "faults ?f = []"
    using softsign_persist_all_writes [OF all(1)] up all(2) js assms(6) by (simp_all add: ss_available_def)
  moreover have "json_ok js" using assms(2) by (simp add: reliable_def)
  ultimately show ?thesis
    using run softsign_load_written [of js ?p ?f "last ?css" tf]
    by (intro exI [of _ s'] exI [of _ ?f]) (auto simp: state_in_file_def state_written_def json_ok_def)
qed

theorem softsign_serves_validator_witness:
  "\<exists>f'. softsign_run demo_softsign demo_lib demo_tempfile demo_json no_net demo_unix None demo_disk
      = Some ([], Inr (Inl (Panic ''request loop'')), f')
    \<and> state_in_file demo_json ''state/priv_validator_state.json'' f' = Some (demo_cs 5 7)"
proof -
  let ?script = "[([1, 5, 7], SignVote (demo_vote_request 5 7), demo_cs 5 7, [0 :: u8])]"
  let ?c = "BoxPlain \<lparr>socket = \<lparr>rx = [], wx = [], sent = [0]\<rparr>\<rparr> :: unit boxed"
  have s: "connection demo_started = BoxPlain \<lparr>socket = \<lparr>rx = [RData [1, 5, 7]], wx = [], sent = []\<rparr>\<rparr>"
    "config demo_started = \<lparr>cfg_chain_id = ''chain-1'', cfg_max_height = None\<rparr>" "signing_key demo_started = []"
    "consensus_state (state demo_started) = initial_consensus_state"
    "ss_state_file_path (state_syncer demo_started) = ''state/priv_validator_state.json''"
    by (simp_all add: demo_started_def session_new_def plain_new_def State_from_def)
  have disk: "reliable demo_tempfile demo_json (ss_state_file_path (state_syncer demo_started)) demo_disk"
    "replaceable demo_tempfile (ss_state_file_path (state_syncer demo_started))" "faults demo_disk = []"
    using demo_replaceable path_parent_file(1) unfolding s(5)
    by (simp_all add: reliable_def demo_tempfile_ok demo_json_ok no_spurious_not_found_def demo_disk_def)
       (simp_all add: demo_tempfile_def)
  have ex: "exchange demo_lib (boxed_ops no_net) ?script (connection demo_started) = Some ?c"
    unfolding s(1) exchange_boxed by (subst exchange_plain) (simp_all add: demo_lib_def)
  have ok: "script_ok demo_lib (config demo_started) (signing_key demo_started) ?script"
    unfolding s
    by (simp add: script_ok_def in_scope_def signature_response_def Response_encode_def demo_lib_def decode_request_def
        demo_vote_request_def State_from_vote_def valid_height_def)
  have fl: "follows (consensus_state (state demo_started)) (script_states ?script)"
    unfolding s by (simp add: may_follow_def conflicting_def initial_consensus_state_def position_le_iff)
  have js: "list_all (\<lambda>cs. \<exists>b. to_json demo_json cs = Inr b) (script_states ?script)" by (simp add: demo_json_def)
  have rd: "\<exists>e c'. Request_read demo_lib (boxed_ops no_net) ?c = (Inl e, c')"
    by (simp add: Request_read_def read_msg_def boxed_ops_def plain_read_def sock_read_def demo_lib_def decode_request_def)
  then obtain e c' where rd: "Request_read demo_lib (boxed_ops no_net) ?c = (Inl e, c')" by blast
  from softsign_serves_validator [OF demo_softsign_start disk ex _ ok fl js rd] show ?thesis by (auto simp: s)
qed

end
