(* ===== verification/Softsign_Main.thy ===== *)
theory Softsign_Main
  imports Softsign_App
begin

text \<open>
  The command line and the main function of \<open>providers/softsign/src/main.rs\<close>, over the commands of \<open>Softsign_App\<close>, and that \<open>init\<close> leaves a disk on which the
  other two commands work with the key it generated.
\<close>

section \<open>The code\<close>

text \<open>The command line and \<open>main\<close>; the two keys are what the random number generator yields for \<open>init\<close>.\<close>

datatype TmkmsLight =
    SsInit (ss_config_path: "path option")
  | SsStart (ss_config_path: "path option")
  | SsPubkey (ss_config_path: "path option") "pubkey_display option" "string option"

definition softsign_main ::
    "softsign_lib \<Rightarrow> display_lib \<Rightarrow> tm_lib \<Rightarrow> tempfile_lib \<Rightarrow> state_json \<Rightarrow> 'x net \<Rightarrow> (nat \<Rightarrow> path \<Rightarrow> io_error + sock)
      \<Rightarrow> signing_key \<Rightarrow> signing_key \<Rightarrow> TmkmsLight \<Rightarrow> fs \<Rightarrow> process_end option" where
  "softsign_main lib disp tm tf js net unix_connect key1 key2 opt f =
     (case opt of
        SsInit config_path \<Rightarrow>
          (case softsign_init lib key1 key2 config_path f of (r, f') \<Rightarrow> Some ([], Inr r, f'))
      | SsStart config_path \<Rightarrow> softsign_run lib tm tf js net unix_connect config_path f
      | SsPubkey config_path ptype bech32_prefix \<Rightarrow> Some (softsign_pubkey lib disp config_path ptype bech32_prefix f))"

section \<open>Lemmas\<close>

text \<open>With \<open>retry\<close> the loop only ends with a socket.\<close>

lemma connect_retry_True: "connect_retry True attempt n = Some r \<Longrightarrow> \<exists>s. fst r = Some s"
proof -
  have "retry \<longrightarrow> (\<exists>s. fst r = Some s)" if "connect_retry retry attempt n = Some r" for retry r
    by (rule connect_retry.raw_induct [where P = "\<lambda>retry attempt n r. retry \<longrightarrow> (\<exists>s. fst r = Some s)", OF _ that])
       (auto split: sum.splits if_splits)
  then show "connect_retry True attempt n = Some r \<Longrightarrow> \<exists>s. fst r = Some s" by blast
qed

lemma create_parent_Inr: "create_parent p f = (Inr u, f') \<Longrightarrow> files f' = files f"
  by (auto simp: create_parent_def next_fault_def split: option.splits list.splits prod.splits)

lemma generate_key_file_Inr:
  "generate_key_file lib k p ws f = (Inr u, f') \<Longrightarrow> files f' = (files f)(p \<mapsto> sl_base64_encode lib (sl_key_bytes lib k))"
  by (auto simp: generate_key_file_def write_base64_secret_def result_simps dest!: fs_truncate_write_Inr)

lemma softsign_init_files:
  assumes "softsign_init lib key1 key2 config_path f = (Inr (), f')"
  obtains t where "toml_to_string lib softsign_opt_default = Inr t"
    "files f' = (files f)((case config_path of Some p \<Rightarrow> p | None \<Rightarrow> ''tmkms.toml'') \<mapsto> t,
       ''secrets/secret.key'' \<mapsto> sl_base64_encode lib (sl_key_bytes lib key1),
       ''secrets/id.key'' \<mapsto> sl_base64_encode lib (sl_key_bytes lib key2))"
proof -
  let ?cp = "case config_path of Some p \<Rightarrow> p | None \<Rightarrow> ''tmkms.toml''"
  from assms obtain t f1 f2 f3 f4 f5 where t: "toml_to_string lib softsign_opt_default = Inr t"
    and 1: "fs_truncate_write ?cp t (sl_writes lib ?cp) f = (Inr (), f1)" and 2: "create_parent ''secrets/secret.key'' f1 = (Inr (), f2)"
    and 3: "generate_key_file lib key1 ''secrets/secret.key'' (sl_writes lib ''secrets/secret.key'') f2 = (Inr (), f3)"
    and 4: "create_parent ''secrets/id.key'' f3 = (Inr (), f4)"
    and 5: "generate_key_file lib key2 ''secrets/id.key'' (sl_writes lib ''secrets/id.key'') f4 = (Inr (), f5)"
    and 6: "create_parent ''state/priv_validator_state.json'' f5 = (Inr (), f')"
    by (auto simp: softsign_init_def softsign_opt_default_def Let_def result_simps split: sum.splits)
  have "files f1 = (files f)(?cp \<mapsto> t)" using fs_truncate_write_Inr [OF 1] by blast
  with t create_parent_Inr [OF 2] generate_key_file_Inr [OF 3] create_parent_Inr [OF 4] generate_key_file_Inr [OF 5]
    create_parent_Inr [OF 6] show thesis by (intro that) simp_all
qed

lemma softsign_opt_default_simps [simp]:
  "so_consensus_key_path softsign_opt_default = ''secrets/secret.key''"
  "so_state_file_path softsign_opt_default = ''state/priv_validator_state.json''"
  "so_chain_id softsign_opt_default = ''testchain-1''" "so_max_height softsign_opt_default = None"
  by (simp_all add: softsign_opt_default_def)

lemma softsign_connect_default:
  "softsign_connect lib net uc softsign_opt_default f = Some (x, f') \<Longrightarrow> \<exists>sck. x = Inr (BoxPlain (plain_new sck))"
  using connect_retry_True [of "\<lambda>n. uc n ''/tmp/validator.socket''" 0]
  by (auto simp: softsign_connect_def softsign_opt_default_def split: option.splits prod.splits)

text \<open>Reading a disk on which nothing fails.\<close>

lemma read_quiet:
  assumes "faults f = []"
  shows "files f p = Some c \<Longrightarrow> utf8_valid c \<Longrightarrow> fs_read_to_string p f = (Inr c, f)"
    and "files f p = None \<Longrightarrow> fs_read_to_string p f = (Inl (io_error_of NotFound), f)"
  using assms by (simp_all add: fs_read_to_string_def fs_read_def next_fault_def)

text \<open>Loading the state where there is no state file yet: the initial state, and no other file is touched.\<close>

lemma softsign_load_new:
  assumes "tempfile_ok tf" "faults f = []" "files f p = None" "softsign_load_state (softsign_new tf js f p) = (Inr st, holder)"
  shows "st = State_from initial_consensus_state \<and> faults (ss_fs holder) = []
    \<and> (\<forall>q. q \<noteq> p \<longrightarrow> \<not> tf_is_tmp tf q \<longrightarrow> files (ss_fs holder) q = files f q)"
proof -
  have "softsign_persist_state (softsign_new tf js f p) initial_consensus_state = (Inr (), holder)"
    and st: "st = State_from initial_consensus_state"
    using assms(2-4) read_quiet(2) [of f p]
    by (auto simp: softsign_load_state_def softsign_write_initial_state_def softsign_new_def result_simps)
  then obtain dir json g where r: "replace_file tf dir p json f = (Inr (), g)" and h: "ss_fs holder = g"
    by (auto simp: softsign_persist_state_def softsign_new_def split: sum.splits option.splits prod.splits)
  from replace_file_Inr [OF assms(1) r] st assms(2) h show ?thesis by auto
qed

text \<open>On such a disk \<open>init\<close> succeeds.\<close>

lemma softsign_init_quiet:
  assumes "faults f = []" "toml_to_string lib softsign_opt_default = Inr t" "sl_writes lib = (\<lambda>_. [])"
  shows "\<exists>f'. softsign_init lib key1 key2 config_path f = (Inr (), f') \<and> faults f' = []"
proof -
  have parents: "path_parent ''secrets/secret.key'' = Some ''secrets''" "path_parent ''secrets/id.key'' = Some ''secrets''"
    by (simp_all add: path_parent_def)
  have mk: "create_parent p g = (Inr (), g)" if "faults g = []" "path_parent p = Some d" for p d g
    using that by (simp add: create_parent_def next_fault_def)
  have wr: "fs_truncate_write p b [] g = (Inr (), g\<lparr>files := (files g)(p \<mapsto> b)\<rparr>)" if "faults g = []" for p b g
    using that by (simp add: fs_truncate_write_def next_fault_def)
  show ?thesis
    using assms
    by (simp add: softsign_init_def wr mk parents path_parent_file generate_key_file_def write_base64_secret_def Let_def)
       (simp add: softsign_opt_default_def wr mk parents path_parent_file generate_key_file_def write_base64_secret_def)
qed

section \<open>Properties\<close>

text \<open>
  C20. The commands of the software signer together.  After a successful \<open>init\<close> on a disk without a state file, \<open>pubkey\<close> prints the public
  key of the consensus key that was generated; \<open>start\<close> neither misses its configuration nor fails on its keys or while it waits for
  the validator's socket (only creating the state file can fail), and when it serves, it does so over a plain connection with that very
  key, the default chain, no height limit and the initial state.
\<close>

theorem softsign_init_prepares_start:
  assumes toml: "\<And>x b. toml_to_string lib x = Inr b \<Longrightarrow> utf8_valid b \<and> toml_from_str lib b = Inr x"
    and b64: "base64_file_ok lib"
    and tf: "tempfile_ok tf" "\<not> tf_is_tmp tf ''secrets/secret.key''"
    and init: "softsign_main lib disp tm tf js net uc key1 key2 (SsInit config_path) f = Some (out, Inr (Inr ()), f')"
    and quiet: "faults f' = []" and new: "files f ''state/priv_validator_state.json'' = None"
    and cp: "(case config_path of Some p \<Rightarrow> p | None \<Rightarrow> ''tmkms.toml'')
      \<notin> {''secrets/secret.key'', ''secrets/id.key'', ''state/priv_validator_state.json''}"
  shows "softsign_main lib disp tm tf js net uc k1 k2 (SsPubkey config_path ptype bech) f'
      = (case print_pubkey disp bech ptype (sl_key_verification lib key1) of (text, r) \<Rightarrow> Some (text, Inr r, f'))
    \<and> (case softsign_start lib tf js net uc config_path f' of
        None \<Rightarrow> True
      | Some (SsExit n g) \<Rightarrow> False
      | Some (SsPanic m g) \<Rightarrow> m = ''state loaded''
      | Some (SsServe s) \<Rightarrow> signing_key s = key1 \<and> consensus_state (state s) = initial_consensus_state
          \<and> config s = \<lparr>cfg_chain_id = ''testchain-1'', cfg_max_height = None\<rparr>
          \<and> (\<exists>sck. connection s = BoxPlain (plain_new sck)))"
    (is "?pubkey \<and> ?start")
proof -
  let ?cp = "case config_path of Some p \<Rightarrow> p | None \<Rightarrow> ''tmkms.toml''" and ?st = "''state/priv_validator_state.json''"
  from init have "softsign_init lib key1 key2 config_path f = (Inr (), f')"
    by (auto simp: softsign_main_def split: prod.splits)
  from softsign_init_files [OF this] obtain t where t: "toml_to_string lib softsign_opt_default = Inr t"
    and fs: "files f' = (files f)(?cp \<mapsto> t, ''secrets/secret.key'' \<mapsto> sl_base64_encode lib (sl_key_bytes lib key1),
       ''secrets/id.key'' \<mapsto> sl_base64_encode lib (sl_key_bytes lib key2))" .
  have files: "files f' ?cp = Some t" "files f' ''secrets/secret.key'' = Some (sl_base64_encode lib (sl_key_bytes lib key1))"
    "files f' ?st = None"
    using cp new by (auto simp: fs)
  note read = read_quiet(1) [OF quiet files(1) conjunct1 [OF toml [OF t]]]
  note config = files(1) read conjunct2 [OF toml [OF t]]
  have ?pubkey
    using config load_written_key [OF b64 files(2) quiet] by (simp add: softsign_main_def softsign_pubkey_def split: prod.splits)
  moreover have ?start
  proof (cases "softsign_load_state (softsign_new tf js f' ?st)")
    case (Pair r holder)
    show ?thesis
    proof (cases r)
      case (Inl e)
      with config Pair show ?thesis by (simp add: softsign_start_def)
    next
      case (Inr st)
      note new_state = softsign_load_new [OF tf(1) quiet files(3) Pair [unfolded Inr]]
      have "load_base64_ed25519_key lib ''secrets/secret.key'' (ss_fs holder) = (Inr key1, ss_fs holder)"
        using new_state files(2) tf(2) by (intro load_written_key [OF b64]) auto
      with config Pair Inr new_state softsign_connect_default [of lib net uc "ss_fs holder"] show ?thesis
        by (auto simp: softsign_start_def session_new_def State_from_def split: option.splits prod.splits) blast+
    qed
  qed
  ultimately show ?thesis ..
qed

definition demo_toml :: softsign_lib where
  "demo_toml = demo_softsign\<lparr>toml_to_string := (\<lambda>x. if x = softsign_opt_default then Inr [] else Inl []),
     toml_from_str := (\<lambda>_. Inr softsign_opt_default)\<rparr>"

theorem softsign_init_prepares_start_witness:
  "\<exists>f' s. softsign_main demo_toml \<lparr>bech32_encode = (\<lambda>p b. p), base64_encode = (\<lambda>b. b), node_id = (\<lambda>_. Some [])\<rparr> demo_lib
       demo_tempfile demo_json no_net demo_unix [1] [2] (SsInit None) \<lparr>files = Map.empty, faults = []\<rparr> = Some ([], Inr (Inr ()), f')
     \<and> softsign_start demo_toml demo_tempfile demo_json no_net demo_unix None f' = Some (SsServe s) \<and> signing_key s = [1]"
  (is "\<exists>f' s. softsign_main _ ?disp _ _ _ _ _ _ _ _ ?f = _ \<and> _ \<and> _")
proof -
  have toml: "toml_to_string demo_toml x = Inr b \<Longrightarrow> utf8_valid b \<and> toml_from_str demo_toml b = Inr x" for x b
    by (simp add: demo_toml_def split: if_splits)
  have b64: "base64_file_ok demo_toml"
    by (simp add: base64_file_ok_def demo_toml_def demo_softsign_def unnib_nib nib_visible)
  obtain f' where f': "softsign_init demo_toml [1] [2] None ?f = (Inr (), f')" "faults f' = []"
    using softsign_init_quiet [of ?f demo_toml "[]" "[1]" "[2]" None] by (auto simp: demo_toml_def demo_softsign_def)
  then have m: "softsign_main demo_toml ?disp demo_lib demo_tempfile demo_json no_net demo_unix [1] [2] (SsInit None) ?f
      = Some ([], Inr (Inr ()), f')" by (simp add: softsign_main_def)
  have tmp: "\<not> tf_is_tmp demo_tempfile ''secrets/secret.key''" by (simp add: demo_tempfile_def)
  note prepared = conjunct2 [OF softsign_init_prepares_start [OF toml b64 demo_tempfile_ok tmp m f'(2)]]
  let ?st = "''state/priv_validator_state.json''" and ?key = "concat (map nib [1])"
  have files: "files f' ''tmkms.toml'' = Some []" "files f' ?st = None" "files f' ''secrets/secret.key'' = Some ?key"
  proof -
    obtain t where t: "toml_to_string demo_toml softsign_opt_default = Inr t"
      and fs: "files f' = (files ?f)((case None of Some p \<Rightarrow> p | None \<Rightarrow> ''tmkms.toml'') \<mapsto> t,
        ''secrets/secret.key'' \<mapsto> sl_base64_encode demo_toml (sl_key_bytes demo_toml [1]),
        ''secrets/id.key'' \<mapsto> sl_base64_encode demo_toml (sl_key_bytes demo_toml [2]))"
      using softsign_init_files [OF f'(1)] .
    have "t = []" "sl_base64_encode demo_toml (sl_key_bytes demo_toml [1]) = ?key"
      using t by (simp_all add: demo_toml_def demo_softsign_def)
    then show "files f' ''tmkms.toml'' = Some []" "files f' ?st = None" "files f' ''secrets/secret.key'' = Some ?key"
      unfolding fs by simp_all
  qed
  define g where "g = f'\<lparr>files := (files f')(?st \<mapsto> concat (map nib (demo_raw initial_consensus_state)))\<rparr>"
  have load: "softsign_load_state (softsign_new demo_tempfile demo_json f' ?st)
      = (Inr (State_from initial_consensus_state), softsign_new demo_tempfile demo_json g ?st)"
    using read_quiet(2) [OF f'(2) files(2)] path_parent_file(1)
    by (simp add: softsign_load_state_def softsign_new_def softsign_write_initial_state_def softsign_persist_state_def
        demo_json_def replace_file_def demo_tempfile_def g_def)
  have key: "load_base64_ed25519_key demo_toml ''secrets/secret.key'' g = (Inr [1], g)"
    using files(3) f'(2) by (intro load_written_key [OF b64]) (simp_all add: g_def demo_toml_def demo_softsign_def)
  have conn: "softsign_connect demo_toml no_net demo_unix softsign_opt_default g
      = Some (Inr (BoxPlain (plain_new \<lparr>rx = [RData [1, 5, 7]], wx = [], sent = []\<rparr>)), g)"
    by (simp add: softsign_connect_def softsign_opt_default_def connect_retry.simps demo_unix_def)
  have "toml_from_str demo_toml [] = Inr softsign_opt_default" by (simp add: demo_toml_def)
  then obtain s where "softsign_start demo_toml demo_tempfile demo_json no_net demo_unix None f' = Some (SsServe s)"
    using files(1) read_quiet(1) [OF f'(2) files(1)] load key conn by (simp add: softsign_start_def softsign_new_def)
  with prepared m show ?thesis by auto
qed

end
