(* ===== verification/Command_Base.thy ===== *)
theory Command_Base
  imports Utils
begin

text \<open>
  The command line programs of the hosts.  A command is a function of the console: the file system,
  the lines printed so far, and the trace of the threads, processes and messages it has started or sent.  It returns \<open>None\<close> when it never returns
  (it joined a thread that does not end), an error text for \<open>Err\<close>, or panics.  \<open>cbind\<close> is the \<open>?\<close>
  operator.
\<close>

section \<open>Commands\<close>

record 't console =
  cmd_fs :: fs
  cmd_out :: "string list"
  cmd_trace :: "'t list"

datatype cmd_error = CmdErr string | CmdPanic string

type_synonym ('t, 'a) command = "'t console \<Rightarrow> ((cmd_error + 'a) \<times> 't console) option"

definition cret :: "'a \<Rightarrow> ('t, 'a) command" where
  "cret x c = Some (Inr x, c)"

definition cbind :: "('t, 'a) command \<Rightarrow> ('a \<Rightarrow> ('t, 'b) command) \<Rightarrow> ('t, 'b) command" where
  "cbind m k c =
     (case m c of
        None \<Rightarrow> None
      | Some (Inl e, c') \<Rightarrow> Some (Inl e, c')
      | Some (Inr x, c') \<Rightarrow> k x c')"

definition cfail :: "string \<Rightarrow> ('t, 'a) command" where
  "cfail e c = Some (Inl (CmdErr e), c)"

definition cpanic :: "string \<Rightarrow> ('t, 'a) command" where
  "cpanic m c = Some (Inl (CmdPanic m), c)"

text \<open>\<open>let _ = m\<close>: an error is dropped, a panic is not.\<close>

definition cignore :: "('t, 'a) command \<Rightarrow> ('t, unit) command" where
  "cignore m c =
     (case m c of
        None \<Rightarrow> None
      | Some (Inl (CmdPanic e), c') \<Rightarrow> Some (Inl (CmdPanic e), c')
      | Some (_, c') \<Rightarrow> Some (Inr (), c'))"

text \<open>\<open>let _ = receiver.recv()\<close>, which waits when no message ever arrives and every sender lives.\<close>

definition crecv :: "bool \<Rightarrow> ('t, unit) command" where
  "crecv arrives c = (if arrives then Some (Inr (), c) else None)"

text \<open>\<open>m.map_err(|e| msg e)?\<close> for a pure result, an operation on files, and a thread that may not end.\<close>

definition ctry :: "('e \<Rightarrow> string) \<Rightarrow> 'e + 'a \<Rightarrow> ('t, 'a) command" where
  "ctry msg m c = Some (map_err (\<lambda>e. CmdErr (msg e)) m, c)"

definition cfs :: "('e \<Rightarrow> string) \<Rightarrow> (fs \<Rightarrow> ('e + 'a) \<times> fs) \<Rightarrow> ('t, 'a) command" where
  "cfs msg op c =
     (case op (cmd_fs c) of (m, f) \<Rightarrow> Some (map_err (\<lambda>e. CmdErr (msg e)) m, c\<lparr>cmd_fs := f\<rparr>))"

definition cwait :: "('e \<Rightarrow> string) \<Rightarrow> ('e + 'a) option \<Rightarrow> ('t, 'a) command" where
  "cwait msg m c = (case m of None \<Rightarrow> None | Some r \<Rightarrow> Some (map_err (\<lambda>e. CmdErr (msg e)) r, c))"

definition cprintln :: "string \<Rightarrow> ('t, unit) command" where
  "cprintln l c = Some (Inr (), c\<lparr>cmd_out := cmd_out c @ [l]\<rparr>)"

definition cemit :: "'t \<Rightarrow> ('t, unit) command" where
  "cemit t c = Some (Inr (), c\<lparr>cmd_trace := cmd_trace c @ [t]\<rparr>)"

definition cprint_pubkey ::
    "display_lib \<Rightarrow> string option \<Rightarrow> pubkey_display option \<Rightarrow> verification_key \<Rightarrow> ('t, unit) command" where
  "cprint_pubkey disp bech32_prefix ptype key c =
     (case print_pubkey disp bech32_prefix ptype key of
        (out, r) \<Rightarrow>
          Some (map_err (\<lambda>e. case e of Panic m \<Rightarrow> CmdPanic m) r, c\<lparr>cmd_out := cmd_out c @ out\<rparr>))"

text \<open>
  \<open>fs::create_dir_all(p.parent().ok_or_else(..)?).map_err(..)?\<close>: directories are not modelled, only that the call may fail.
\<close>

definition create_dir_for :: "(io_error \<Rightarrow> string) \<Rightarrow> path \<Rightarrow> ('t, unit) command" where
  "create_dir_for msg p =
     (case path_parent p of
        None \<Rightarrow> cfail ''cannot create a dir in a root directory''
      | Some d \<Rightarrow>
          cfs msg (\<lambda>f. case next_fault f of (Some e, f') \<Rightarrow> (Inl e, f') | (None, f') \<Rightarrow> (Inr (), f')))"

definition path_exists :: "path \<Rightarrow> ('t, bool) command" where
  "path_exists p c = Some (Inr (files (cmd_fs c) p \<noteq> None), c)"

section \<open>Inversion of successful commands\<close>

named_theorems command_simps

lemma cbind_Inr [command_simps]:
  "cbind m k c = Some (Inr y, c'') \<longleftrightarrow> (\<exists>x c'. m c = Some (Inr x, c') \<and> k x c' = Some (Inr y, c''))"
  by (auto simp: cbind_def split: option.splits sum.splits)

lemma cret_Inr [command_simps]: "cret x c = Some (Inr y, c') \<longleftrightarrow> x = y \<and> c' = c"
  by (auto simp: cret_def)

lemma cfail_Inr [command_simps]: "cfail e c \<noteq> Some (Inr y, c')"
  by (simp add: cfail_def)

lemma cpanic_Inr [command_simps]: "cpanic m c \<noteq> Some (Inr y, c')"
  by (simp add: cpanic_def)

lemma crecv_Inr [command_simps]: "crecv b c = Some (Inr u, c') \<longleftrightarrow> b \<and> c' = c"
  by (auto simp: crecv_def)

lemma ctry_Inr [command_simps]: "ctry msg m c = Some (Inr y, c') \<longleftrightarrow> m = Inr y \<and> c' = c"
  by (auto simp: ctry_def result_simps)

lemma cfs_Inr [command_simps]:
  "cfs msg op c = Some (Inr y, c') \<longleftrightarrow> (\<exists>f. op (cmd_fs c) = (Inr y, f) \<and> c' = c\<lparr>cmd_fs := f\<rparr>)"
  by (auto simp: cfs_def result_simps split: prod.splits)

lemma cwait_Inr [command_simps]: "cwait msg m c = Some (Inr y, c') \<longleftrightarrow> m = Some (Inr y) \<and> c' = c"
  by (auto simp: cwait_def result_simps split: option.splits)

lemma cprintln_Inr [command_simps]:
  "cprintln l c = Some (Inr u, c') \<longleftrightarrow> c' = c\<lparr>cmd_out := cmd_out c @ [l]\<rparr>"
  by (auto simp: cprintln_def)

lemma cemit_Inr [command_simps]:
  "cemit t c = Some (Inr u, c') \<longleftrightarrow> c' = c\<lparr>cmd_trace := cmd_trace c @ [t]\<rparr>"
  by (auto simp: cemit_def)

lemma cprint_pubkey_Inr [command_simps]:
  "cprint_pubkey disp bp pt key c = Some (Inr u, c') \<longleftrightarrow>
     snd (print_pubkey disp bp pt key) = Inr ()
     \<and> c' = c\<lparr>cmd_out := cmd_out c @ fst (print_pubkey disp bp pt key)\<rparr>"
  by (auto simp: cprint_pubkey_def result_simps split: prod.splits)

lemma path_exists_Inr [command_simps]:
  "path_exists p c = Some (Inr b, c') \<longleftrightarrow> b = (files (cmd_fs c) p \<noteq> None) \<and> c' = c"
  by (auto simp: path_exists_def)

lemma create_dir_for_Inr [command_simps]:
  "create_dir_for msg p c = Some (Inr u, c') \<longleftrightarrow>
     path_parent p \<noteq> None \<and> (\<exists>f. next_fault (cmd_fs c) = (None, f) \<and> c' = c\<lparr>cmd_fs := f\<rparr>)"
  by (auto simp: create_dir_for_def cfs_Inr cfail_Inr split: option.splits prod.splits)

text \<open>A command does not return only if one of its steps waits for a thread that does not end.\<close>

named_theorems command_none

lemma cbind_None [command_none]:
  "cbind m k c = None \<longleftrightarrow> m c = None \<or> (\<exists>x c'. m c = Some (Inr x, c') \<and> k x c' = None)"
  by (auto simp: cbind_def split: option.splits sum.splits)

lemma simple_not_None [command_none]:
  "cret x c \<noteq> None" "cfail e c \<noteq> None" "ctry msg r c \<noteq> None" "cfs msg op c \<noteq> None"
  "cpanic m c \<noteq> None" "cprintln l c \<noteq> None" "cemit t c \<noteq> None" "cprint_pubkey disp bp pt key c \<noteq> None" "path_exists p c \<noteq> None"
  by (simp_all add: cret_def cfail_def ctry_def cfs_def cpanic_def cprintln_def cemit_def cprint_pubkey_def path_exists_def
      split: prod.splits)

lemma cwait_None [command_none]: "cwait msg r c = None \<longleftrightarrow> r = None"
  by (simp add: cwait_def split: option.splits)

text \<open>A command that does not fail, whether or not it returns: all its steps before the last one succeeded.\<close>

definition proceeds :: "((cmd_error + 'a) \<times> 't console) option \<Rightarrow> bool" where
  "proceeds r \<longleftrightarrow> (case r of None \<Rightarrow> True | Some (Inr _, _) \<Rightarrow> True | Some (Inl _, _) \<Rightarrow> False)"

lemma proceeds_cbind:
  assumes "proceeds (cbind m k c)" "m c \<noteq> None"
  obtains x c1 where "m c = Some (Inr x, c1)" and "cbind m k c = k x c1" and "proceeds (k x c1)"
  using assms by (auto simp: proceeds_def cbind_def split: option.splits sum.splits)

end
