(* ===== verification/Sgx_Runner.thy ===== *)
theory Sgx_Runner
  imports Sgx_App Command_Base
begin

text \<open>
  The SGX host program: \<open>config.rs\<close>, \<open>runner.rs\<close>, \<open>command.rs\<close> and \<open>main.rs\<close> of
  \<open>providers/sgx/sgx-runner/src\<close>.  TOML, JSON, the quoting library and the texts of errors are fields of \<open>runner_lib\<close>; the enclave loader
  is an \<open>sgx_platform\<close>, one for every launch, whose \<open>sp_run\<close> tells what a running enclave sends over the
  init stream and how its thread ends (\<open>None\<close>: it does not).
\<close>

section \<open>Configuration\<close>

record sgx_sign_opt =
  sgo_address :: address
  sgo_chain_id :: chain_id
  sgo_max_height :: "height option"
  sgo_sealed_consensus_key_path :: path
  sgo_sealed_id_key_path :: "path option"
  sgo_state_file_path :: path
  sgo_enclave_path :: path

definition sgx_sign_opt_default :: sgx_sign_opt where
  "sgx_sign_opt_default =
     \<lparr>sgo_address = Unix ''/tmp/validator.socket'', sgo_chain_id = ''testchain-1'', sgo_max_height = None,
      sgo_sealed_consensus_key_path = ''secrets/secret.key'',
      sgo_sealed_id_key_path = Some ''secrets/id.key'',
      sgo_state_file_path = ''state/priv_validator_state.json'',
      sgo_enclave_path = ''enclave/tmkms-light-sgx-app.sgxs''\<rparr>"

record recover_config =
  rcv_config_path :: "path option"
  rcv_pubkey_display :: "pubkey_display option"
  rcv_bech32_prefix :: "string option"
  rcv_wrap_backup_key_path :: path
  rcv_external_cloud_key_path :: path
  rcv_key_backup_data_path :: path
  rcv_recover_consensus_key :: bool

record runner_lib =
  rl_toml_to_string :: "sgx_sign_opt \<Rightarrow> string + bytes"
  rl_toml_from_str :: "bytes \<Rightarrow> string + sgx_sign_opt"
  rl_sealed_to_json :: "sealed_key_data \<Rightarrow> serde_error + bytes"
  rl_sealed_from_json :: "bytes \<Rightarrow> serde_error + sealed_key_data"
  rl_backup_to_json :: "cloud_backup_key_data \<Rightarrow> serde_error + bytes"
  rl_backup_from_json :: "bytes \<Rightarrow> serde_error + cloud_backup_key_data"
  rl_cloud_seal_from_json :: "bytes \<Rightarrow> serde_error + cloud_backup_seal"
  rl_request_to_json :: "sgx_init_request \<Rightarrow> serde_error + bytes"
  rl_response_from_json :: "bytes \<Rightarrow> serde_error + sgx_init_response"
  rl_io_debug :: "io_error \<Rightarrow> string"
  rl_error_debug :: "error \<Rightarrow> string"
  rl_error_display :: "error \<Rightarrow> string"
  rl_vk_try_from :: "bytes \<Rightarrow> string + verification_key"
  rl_display :: display_lib
  rl_dcap :: "(string + targetinfo) option"
  rl_dcap_quote :: "report \<Rightarrow> string + bytes"
  rl_url_safe :: "bytes \<Rightarrow> string"
  rl_pkcs1_pem :: "rsa_public_key \<Rightarrow> string + string"
  rl_claims :: sgx_lib
  rl_host :: host_env
  rl_writes :: "path \<Rightarrow> write_event list"

text \<open>
  \<open>write_json_file\<close>: the file is opened and truncated, then the serialiser writes to it; whatever fails there becomes \<open>Other\<close>.  What
  the writes of the file meet is \<open>rl_writes\<close>.
\<close>

definition write_json_file ::
    "runner_lib \<Rightarrow> ('d \<Rightarrow> serde_error + bytes) \<Rightarrow> path \<Rightarrow> 'd \<Rightarrow> fs \<Rightarrow> (io_error + unit) \<times> fs" where
  "write_json_file lib ser p data f =
     (case next_fault f of
        (Some e, f') \<Rightarrow> (Inl e, f')
      | (None, f') \<Rightarrow>
          (case ser data of
             Inl _ \<Rightarrow> (Inl (io_error_of Other), f'\<lparr>files := (files f')(p \<mapsto> [])\<rparr>)
           | Inr b \<Rightarrow>
               (case write_all_events b (rl_writes lib p) of
                  (Inl _, _, out) \<Rightarrow> (Inl (io_error_of Other), f'\<lparr>files := (files f')(p \<mapsto> out)\<rparr>)
                | (Inr _, _, out) \<Rightarrow> (Inr (), f'\<lparr>files := (files f')(p \<mapsto> out)\<rparr>))))"

definition write_sealed_file ::
    "runner_lib \<Rightarrow> path \<Rightarrow> sealed_key_data \<Rightarrow> fs \<Rightarrow> (io_error + unit) \<times> fs" where
  "write_sealed_file lib p sealed_data f = write_json_file lib (rl_sealed_to_json lib) p sealed_data f"

definition write_backup_file ::
    "runner_lib \<Rightarrow> path \<Rightarrow> cloud_backup_key_data \<Rightarrow> fs \<Rightarrow> (io_error + unit) \<times> fs" where
  "write_backup_file lib p sealed_data f = write_json_file lib (rl_backup_to_json lib) p sealed_data f"

section \<open>The runner\<close>

record tmkms_sgx_runner =
  init_stream :: sock
  state_stream :: sock
  tm_conn :: "path option"

text \<open>
  \<open>connect_stream\<close>: which of the enclave's connections the host redirects.  \<open>clone\<close> is \<open>try_clone\<close> with
  \<open>from_std\<close>, \<open>unix_connect\<close> the outcome of connecting to a Unix socket.
\<close>

definition connect_stream ::
    "(sock \<Rightarrow> io_error + sock) \<Rightarrow> (path \<Rightarrow> io_error + sock) \<Rightarrow> tmkms_sgx_runner \<Rightarrow> string \<Rightarrow> io_error + sock option" where
  "connect_stream clone unix_connect this addr =
     (if addr = ''init'' then res_bind (clone (init_stream this)) (\<lambda>s. Inr (Some s))
      else if addr = ''state'' then res_bind (clone (state_stream this)) (\<lambda>s. Inr (Some s))
      else if addr = ''tendermint'' then
        (case tm_conn this of
           Some p \<Rightarrow> res_bind (unix_connect p) (\<lambda>s. Inr (Some s))
         | None \<Rightarrow> Inr None)
      else Inr None)"

datatype 'a join = Joined 'a | JoinPanicked

record tmkms_sgx_signer =
  stream_to_enclave :: sock
  enclave_app_thread :: "(error + unit) join option"

record sgx_platform =
  sp_state_pair :: "io_error + sock \<times> sock"
  sp_init_pair :: "io_error + sock \<times> sock"
  sp_device :: "io_error + unit"
  sp_signature :: "path \<Rightarrow> io_error + unit"
  sp_build :: "path \<Rightarrow> string + unit"
  sp_argv0 :: "bytes list"
  sp_run :: "tmkms_sgx_runner \<Rightarrow> bytes list \<Rightarrow> read_event list \<times> (string + unit) join option"

definition get_state_syncer ::
    "runner_lib \<Rightarrow> sgx_platform \<Rightarrow> path \<Rightarrow> fs
      \<Rightarrow> ((panic + error) + sgx_state_syncer \<times> consensus_state \<times> sock) \<times> fs" where
  "get_state_syncer lib plat state_path f =
     (case sp_state_pair plat of
        Inl e \<Rightarrow> (Inl (Inr (IoError ''failed to get state unix socket pair'' e)), f)
      | Inr (state_from_enclave, stream) \<Rightarrow>
          (case sgx_syncer_new (rl_host lib) (rl_error_display lib) state_path state_from_enclave f of
             (Inl (StateErr e), f') \<Rightarrow>
               (Inl (Inr (io_error_wrap ''failed to get state persistence helper'' (state_error_message e))), f')
           | (Inl (SyncPanicked m), f') \<Rightarrow> (Inl (Inl (Panic m)), f')
           | (Inr (syncer, st), f') \<Rightarrow> (Inr (syncer, st, stream), f')))"

text \<open>
  \<open>launch_enclave_app\<close>: the state syncer's thread is started first, and stays when a later step fails.
\<close>

definition launch_enclave_app ::
    "sgx_platform \<Rightarrow> path \<Rightarrow> path option \<Rightarrow> sgx_state_syncer \<Rightarrow> sock \<Rightarrow> bytes list
      \<Rightarrow> (sgx_state_syncer, io_error + tmkms_sgx_signer) command" where
  "launch_enclave_app plat sgxs_path tmc syncer stream args =
     (case sp_init_pair plat of
        Inl e \<Rightarrow> cret (Inl e)
      | Inr (to_enclave, init) \<Rightarrow>
          cbind (cemit syncer) (\<lambda>_. cret (
            res_bind (sp_device plat) (\<lambda>_.
            res_bind (sp_signature plat sgxs_path) (\<lambda>_.
            case sp_build plat sgxs_path of
              Inl _ \<Rightarrow> Inl (io_error_of Other)
            | Inr _ \<Rightarrow>
                (case sp_run plat \<lparr>init_stream = init, state_stream = stream, tm_conn = tmc\<rparr> args of
                   (events, ended) \<Rightarrow>
                     Inr \<lparr>stream_to_enclave = to_enclave\<lparr>rx := events\<rparr>,
                          enclave_app_thread =
                            map_option (map_join (map_err (io_error_wrap ''enclave runner error''))) ended\<rparr>))))))"

definition join_enclave_thread :: "tmkms_sgx_signer \<Rightarrow> (error + unit) option" where
  "join_enclave_thread self =
     (case enclave_app_thread self of
        None \<Rightarrow> None
      | Some (Joined (Inr _)) \<Rightarrow> Some (Inr ())
      | Some JoinPanicked \<Rightarrow> Some (Inl PanicError)
      | Some (Joined (Inl e)) \<Rightarrow> Some (Inl e))"

definition get_init_response :: "runner_lib \<Rightarrow> tmkms_sgx_signer \<Rightarrow> (error + sgx_init_response) option" where
  "get_init_response lib self =
     (case read_u16_payload (stream_to_enclave self) of
        (Inl e, _) \<Rightarrow> Some (Inl e)
      | (Inr response_bytes, s) \<Rightarrow>
          (case rl_response_from_json lib response_bytes of
             Inl e \<Rightarrow> Some (Inl (io_error_wrap ''error deserializing response'' e))
           | Inr resp \<Rightarrow>
               (case join_enclave_thread (self\<lparr>stream_to_enclave := s\<rparr>) of
                  None \<Rightarrow> None
                | Some (Inl e) \<Rightarrow> Some (Inl e)
                | Some (Inr _) \<Rightarrow> Some (Inr resp))))"

definition read_sealed_key :: "runner_lib \<Rightarrow> string \<Rightarrow> path \<Rightarrow> fs \<Rightarrow> (error + sealed_key_data) \<times> fs" where
  "read_sealed_key lib msg p f =
     st_bind (st_map_err (IoError msg) (fs_read p f))
       (\<lambda>b f'. (map_err (\<lambda>_. InvalidKeyError) (rl_sealed_from_json lib b), f')) id"

definition get_start_request_bytes ::
    "runner_lib \<Rightarrow> path \<Rightarrow> validator_config \<Rightarrow> consensus_state \<Rightarrow> (address \<times> path) option \<Rightarrow> fs
      \<Rightarrow> (error + bytes) \<times> fs" where
  "get_start_request_bytes lib sealed_key_path cfg initial_state remote_conn f =
     st_bind (read_sealed_key lib ''error reading sealed consensus key'' sealed_key_path f) (\<lambda>sealed_key f1.
     st_bind (case remote_conn of
                Some (Tcp peer_id host port, id_path) \<Rightarrow>
                  st_bind (read_sealed_key lib ''error reading id sealed key'' id_path f1) (\<lambda>sealed_id_key f2.
                    (Inr (Some \<lparr>rcc_peer_id = peer_id, rcc_host = host, rcc_port = port,
                                rcc_sealed_key = sealed_id_key\<rparr>), f2)) id
              | _ \<Rightarrow> (Inr None, f1)) (\<lambda>secret_connection f3.
     (map_err (io_error_wrap ''failed to obtain the start request payload'')
        (rl_request_to_json lib (SgxStart sealed_key cfg secret_connection initial_state)), f3)) id) id"

section \<open>Commands\<close>

text \<open>The steps that the commands share: the state syncer, launching, and the first response.\<close>

definition state_syncer_for ::
    "runner_lib \<Rightarrow> sgx_platform \<Rightarrow> path \<Rightarrow> (sgx_state_syncer, sgx_state_syncer \<times> consensus_state \<times> sock) command" where
  "state_syncer_for lib plat p c =
     (case get_state_syncer lib plat p (cmd_fs c) of
        (Inl (Inl (Panic m)), f) \<Rightarrow> Some (Inl (CmdPanic m), c\<lparr>cmd_fs := f\<rparr>)
      | (Inl (Inr e), f) \<Rightarrow> Some (Inl (CmdErr (''state persistence error: '' @ rl_error_debug lib e)), c\<lparr>cmd_fs := f\<rparr>)
      | (Inr r, f) \<Rightarrow> Some (Inr r, c\<lparr>cmd_fs := f\<rparr>))"

definition launch ::
    "runner_lib \<Rightarrow> sgx_platform \<Rightarrow> path \<Rightarrow> path option \<Rightarrow> sgx_state_syncer \<Rightarrow> sock \<Rightarrow> bytes list
      \<Rightarrow> (sgx_state_syncer, tmkms_sgx_signer) command" where
  "launch lib plat enclave_path tmc syncer stream args =
     cbind (launch_enclave_app plat enclave_path tmc syncer stream args)
       (ctry (\<lambda>e. ''failed to launch the enclave app: '' @ rl_io_debug lib e))"

definition request_to_bytes :: "runner_lib \<Rightarrow> sgx_init_request \<Rightarrow> ('t, bytes) command" where
  "request_to_bytes lib request =
     ctry (\<lambda>e. ''failed to convert request to json: '' @ e) (rl_request_to_json lib request)"

text \<open>What \<open>keywrap\<close> prints with a quote, in JSON (34 is the quotation mark).\<close>

definition quoted :: "string \<Rightarrow> string" where
  "quoted s = [CHR 0x22] @ s @ [CHR 0x22]"

definition quote_text :: "string \<Rightarrow> string \<Rightarrow> string" where
  "quote_text encoded_quote encoded_claim =
     ''{'' @ quoted ''quote'' @ '': '' @ quoted encoded_quote @ '','' @ quoted ''runtimeData'' @ '': { ''
       @ quoted ''data'' @ '': '' @ quoted encoded_claim @ '', '' @ quoted ''dataType'' @ '': ''
       @ quoted ''Binary'' @ '' }}''"

definition keywrap ::
    "runner_lib \<Rightarrow> sgx_platform \<Rightarrow> path \<Rightarrow> path \<Rightarrow> bool \<Rightarrow> string \<Rightarrow> (sgx_state_syncer, unit) command" where
  "keywrap lib plat enclave_path sealed_output_path dcap log_level =
     cbind (if dcap then
              (case rl_dcap lib of
                 Some ti \<Rightarrow> cbind (ctry (\<lambda>e. ''dcap target info: '' @ e) ti) (\<lambda>ti. cret (Some ti))
               | None \<Rightarrow> cfail ''DCAP QL not loaded'')
            else cret None) (\<lambda>ti.
     cbind (request_to_bytes lib (GenWrapKey ti)) (\<lambda>request_bytes.
     cbind (state_syncer_for lib plat ''/tmp/state.json'') (\<lambda>(state_syncer, _, stream).
     cbind (launch lib plat enclave_path None state_syncer stream [request_bytes, as_bytes log_level]) (\<lambda>runner.
     cbind (cwait (\<lambda>e. ''failed to generate a wrapping key: '' @ rl_error_debug lib e) (get_init_response lib runner))
       (\<lambda>sealed_key. case sealed_key of
          WrapKey wrap_key_sealed wrap_pub_key pub_key_report \<Rightarrow>
            cbind (if dcap then cbind (ctry (\<lambda>e. ''dcap quote: '' @ e) (rl_dcap_quote lib pub_key_report)) (\<lambda>q. cret (Some q))
                   else cret None) (\<lambda>quote.
            cbind (cfs (\<lambda>e. ''failed to write wrapping key: '' @ rl_io_debug lib e)
                     (write_sealed_file lib sealed_output_path wrap_key_sealed)) (\<lambda>_.
            case quote of
              Some q \<Rightarrow>
                (let claim_payload = get_claim (rl_claims lib) wrap_pub_key;
                     encoded_claim = rl_url_safe lib (as_bytes claim_payload);
                     encoded_quote = rl_url_safe lib q
                 in cprintln (quote_text encoded_quote encoded_claim))
            | None \<Rightarrow>
                cbind (ctry (\<lambda>e. ''pubkey err: '' @ e) (rl_pkcs1_pem lib wrap_pub_key)) (\<lambda>pkcs1.
                cprintln (''wrap public key in PKCS1:'' @ [CHR 0x0A] @ pkcs1 @ [CHR 0x0A]))))
        | GenOrRecover _ _ \<Rightarrow> cfail ''unexpected enclave response'')))))"

text \<open>The backup package of \<open>init\<close> and \<open>recover\<close>: the sealed RSA key and the wrapped external key.\<close>

definition read_cloud_backup ::
    "runner_lib \<Rightarrow> path \<Rightarrow> path \<Rightarrow> ('t, cloud_backup_key) command" where
  "read_cloud_backup lib p1 p2 =
     cbind (cfs (\<lambda>e. ''failed to read sealed wrap key for external backup key: '' @ rl_io_debug lib e) (fs_read p1)) (\<lambda>b1.
     cbind (ctry (\<lambda>e. ''failed to parse sealed wrap key for external backup key: '' @ e) (rl_sealed_from_json lib b1)) (\<lambda>rsa.
     cbind (cfs (\<lambda>e. ''failed to read external backup key: '' @ rl_io_debug lib e) (fs_read p2)) (\<lambda>b2.
     cbind (ctry (\<lambda>e. ''failed to parse external backup key: '' @ e) (rl_cloud_seal_from_json lib b2)) (\<lambda>bk.
     cret \<lparr>sealed_rsa_key = rsa, backup_key = bk\<rparr>))))"

text \<open>
  One launch whose response is a sealed key: \<open>what\<close> is the text that the messages have.
\<close>

definition generate_sealed ::
    "runner_lib \<Rightarrow> sgx_platform \<Rightarrow> sgx_sign_opt \<Rightarrow> string \<Rightarrow> bytes list
      \<Rightarrow> (sgx_state_syncer, sealed_key_data \<times> cloud_backup_key_data option) command" where
  "generate_sealed lib plat cfg what enclave_args =
     cbind (state_syncer_for lib plat (sgo_state_file_path cfg)) (\<lambda>(state_syncer, _, stream).
     cbind (launch lib plat (sgo_enclave_path cfg) None state_syncer stream enclave_args) (\<lambda>runner.
     cbind (cwait (\<lambda>e. ''failed to '' @ what @ '': '' @ rl_error_debug lib e) (get_init_response lib runner)) (\<lambda>sealed_key.
     case get_gen_response sealed_key of
       None \<Rightarrow> cfail (''failed to '' @ what)
     | Some r \<Rightarrow> cret r)))"

text \<open>\<open>init\<close> in its two halves: the files before the keys, then the keys.\<close>

definition sgx_init_config ::
    "runner_lib \<Rightarrow> path option \<Rightarrow> sgx_sign_opt \<Rightarrow> ('t, unit) command" where
  "sgx_init_config lib config_path cfg =
     (let cp = (case config_path of Some p \<Rightarrow> p | None \<Rightarrow> ''tmkms.toml'') in
      cbind (ctry (\<lambda>e. ''config to toml failed: '' @ e) (rl_toml_to_string lib cfg)) (\<lambda>t.
      cbind (cfs (\<lambda>e. ''failed to write a config: '' @ rl_io_debug lib e)
               (fs_truncate_write cp t (rl_writes lib cp))) (\<lambda>_.
      cbind (create_dir_for (\<lambda>e. ''failed to create dirs for key storage: '' @ rl_io_debug lib e)
               (sgo_sealed_consensus_key_path cfg)) (\<lambda>_.
      create_dir_for (\<lambda>e. ''failed to create dirs for state storage: '' @ rl_io_debug lib e)
               (sgo_state_file_path cfg)))))"

definition write_backup_if ::
    "runner_lib \<Rightarrow> string \<Rightarrow> path \<Rightarrow> cloud_backup_key_data option \<Rightarrow> ('t, unit) command" where
  "write_backup_if lib msg p backup_data =
     (case backup_data of
        Some bkp \<Rightarrow> cfs (\<lambda>e. msg @ rl_io_debug lib e) (write_backup_file lib p bkp)
      | None \<Rightarrow> cret ())"

definition sgx_init_keys ::
    "runner_lib \<Rightarrow> sgx_platform \<Rightarrow> sgx_platform \<Rightarrow> pubkey_display option \<Rightarrow> string option \<Rightarrow> path option
      \<Rightarrow> sgx_sign_opt \<Rightarrow> bytes list \<Rightarrow> (sgx_state_syncer, unit) command" where
  "sgx_init_keys lib plat1 plat2 ptype bech32_prefix key_backup_data_path cfg enclave_args =
     cbind (generate_sealed lib plat1 cfg ''generate consensus key'' enclave_args) (\<lambda>(key_data, backup_data).
     cbind (cfs (\<lambda>e. ''failed to write consensus key: '' @ rl_io_debug lib e)
              (write_sealed_file lib (sgo_sealed_consensus_key_path cfg) key_data)) (\<lambda>_.
     cbind (ctry (\<lambda>e. ''invalid keyid: '' @ e) (rl_vk_try_from lib (krw_keyid (seal_key_request key_data)))) (\<lambda>public_key.
     cbind (cprint_pubkey (rl_display lib) bech32_prefix ptype public_key) (\<lambda>_.
     let base_backup_path = (case key_backup_data_path of Some p \<Rightarrow> p | None \<Rightarrow> []) in
     cbind (write_backup_if lib ''failed to write consensus key backup: ''
              (path_join base_backup_path ''consensus-key.backup'') backup_data) (\<lambda>_.
     case sgo_sealed_id_key_path cfg of
       None \<Rightarrow> cret ()
     | Some id_path \<Rightarrow>
         cbind (generate_sealed lib plat2 cfg ''generate id key'' enclave_args) (\<lambda>(id_data, id_backup).
         cbind (cfs (\<lambda>e. ''failed to write id key: '' @ rl_io_debug lib e) (write_sealed_file lib id_path id_data)) (\<lambda>_.
         write_backup_if lib ''failed to write id key backup: ''
           (path_join base_backup_path ''id-key.backup'') id_backup)))))))"

definition sgx_init ::
    "runner_lib \<Rightarrow> sgx_platform \<Rightarrow> sgx_platform \<Rightarrow> path option \<Rightarrow> pubkey_display option \<Rightarrow> string option
      \<Rightarrow> path option \<Rightarrow> path option \<Rightarrow> path option \<Rightarrow> string \<Rightarrow> (sgx_state_syncer, unit) command" where
  "sgx_init lib plat1 plat2 config_path ptype bech32_prefix wrap_backup_key_path external_cloud_key_path
       key_backup_data_path log_level =
     cbind (case (wrap_backup_key_path, external_cloud_key_path) of
              (Some p1, Some p2) \<Rightarrow> cbind (read_cloud_backup lib p1 p2) (\<lambda>b. cret (Some b))
            | (None, None) \<Rightarrow> cret None
            | _ \<Rightarrow> cfail ''Both `wrap_backup_key_path` (-w) and `external_cloud_key_path` (-e) need to be provided.'')
     (\<lambda>cb.
     let cfg = sgx_sign_opt_default in
     cbind (sgx_init_config lib config_path cfg) (\<lambda>_.
     cbind (request_to_bytes lib (KeyGen cb)) (\<lambda>request_bytes.
     sgx_init_keys lib plat1 plat2 ptype bech32_prefix key_backup_data_path cfg
       [request_bytes, as_bytes log_level])))"

text \<open>Reading the configuration, as \<open>start\<close> and \<open>recover\<close> begin.\<close>

definition read_config :: "runner_lib \<Rightarrow> path option \<Rightarrow> ('t, sgx_sign_opt) command" where
  "read_config lib config_path =
     (let cp = (case config_path of Some p \<Rightarrow> p | None \<Rightarrow> ''tmkms.toml'') in
      cbind (path_exists cp) (\<lambda>there.
      if \<not> there then cfail ''missing tmkms.toml file''
      else
        cbind (cfs (\<lambda>e. ''toml config file failed to read: '' @ rl_io_debug lib e) (fs_read_to_string cp)) (\<lambda>toml_string.
        ctry (\<lambda>e. ''toml config file failed to parse: '' @ e) (rl_toml_from_str lib toml_string))))"

definition start_tm_conn :: "sgx_sign_opt \<Rightarrow> path option" where
  "start_tm_conn cfg = (case sgo_address cfg of Unix p \<Rightarrow> Some p | Tcp _ _ _ \<Rightarrow> None)"

definition start_remote :: "sgx_sign_opt \<Rightarrow> (address \<times> path) option" where
  "start_remote cfg =
     (case (start_tm_conn cfg, sgo_sealed_id_key_path cfg) of
        (None, Some p) \<Rightarrow> Some (sgo_address cfg, p)
      | _ \<Rightarrow> None)"

text \<open>\<open>start\<close> up to the running enclave, and the join.\<close>

definition sgx_start_launch ::
    "runner_lib \<Rightarrow> sgx_platform \<Rightarrow> path option \<Rightarrow> string \<Rightarrow> (sgx_state_syncer, tmkms_sgx_signer) command" where
  "sgx_start_launch lib plat config_path log_level =
     cbind (read_config lib config_path) (\<lambda>cfg.
     cbind (state_syncer_for lib plat (sgo_state_file_path cfg)) (\<lambda>(state_syncer, st, stream).
     cbind (cfs (\<lambda>e. ''failed to get enclave request: '' @ rl_error_debug lib e)
              (get_start_request_bytes lib (sgo_sealed_consensus_key_path cfg)
                 \<lparr>cfg_chain_id = sgo_chain_id cfg, cfg_max_height = sgo_max_height cfg\<rparr> st (start_remote cfg)))
       (\<lambda>start_request_bytes.
     launch lib plat (sgo_enclave_path cfg) (start_tm_conn cfg) state_syncer stream
       [start_request_bytes, as_bytes log_level])))"

definition sgx_start ::
    "runner_lib \<Rightarrow> sgx_platform \<Rightarrow> path option \<Rightarrow> string \<Rightarrow> (sgx_state_syncer, unit) command" where
  "sgx_start lib plat config_path log_level =
     cbind (sgx_start_launch lib plat config_path log_level) (\<lambda>runner.
     cwait (\<lambda>e. ''enclave running failed: '' @ rl_error_debug lib e) (join_enclave_thread runner))"

text \<open>The end of \<open>recover\<close>; the \<open>unwrap\<close> was checked after parsing.\<close>

definition write_recovered ::
    "runner_lib \<Rightarrow> recover_config \<Rightarrow> sgx_sign_opt \<Rightarrow> sealed_key_data \<Rightarrow> ('t, unit) command" where
  "write_recovered lib rc cfg sealed =
     (if rcv_recover_consensus_key rc then
        cbind (cfs (\<lambda>e. ''failed to write consensus key: '' @ rl_io_debug lib e)
                 (write_sealed_file lib (sgo_sealed_consensus_key_path cfg) sealed)) (\<lambda>_.
        cbind (ctry (\<lambda>e. ''ivalid keyid: '' @ e) (rl_vk_try_from lib (krw_keyid (seal_key_request sealed)))) (\<lambda>public_key.
        cbind (cprintln ''recovered key'') (\<lambda>_.
        cprint_pubkey (rl_display lib) (rcv_bech32_prefix rc) (rcv_pubkey_display rc) public_key)))
      else
        (case sgo_sealed_id_key_path cfg of
           None \<Rightarrow> (\<lambda>c. Some (Inl (CmdPanic ''called `Option::unwrap()` on a `None` value''), c))
         | Some id_path \<Rightarrow>
             cfs (\<lambda>e. ''failed to write id key: '' @ rl_io_debug lib e) (write_sealed_file lib id_path sealed)))"

definition sgx_recover ::
    "runner_lib \<Rightarrow> sgx_platform \<Rightarrow> recover_config \<Rightarrow> string \<Rightarrow> (sgx_state_syncer, unit) command" where
  "sgx_recover lib plat rc log_level =
     cbind (read_config lib (rcv_config_path rc)) (\<lambda>cfg.
     if \<not> rcv_recover_consensus_key rc \<and> sgo_sealed_id_key_path cfg = None
     then cfail ''empty id key path in config''
     else
     cbind (read_cloud_backup lib (rcv_wrap_backup_key_path rc) (rcv_external_cloud_key_path rc)) (\<lambda>cb.
     cbind (cfs (\<lambda>e. ''failed to read backup data: '' @ rl_io_debug lib e)
              (fs_read_to_string (path_join (rcv_key_backup_data_path rc) ''consensus-key.backup''))) (\<lambda>backup_text.
     cbind (ctry (\<lambda>e. ''failed to parse backup data: '' @ e) (rl_backup_from_json lib backup_text)) (\<lambda>key_data.
     cbind (request_to_bytes lib (CloudRecover cb key_data)) (\<lambda>request_bytes.
     cbind (generate_sealed lib plat cfg ''recover key'' [request_bytes, as_bytes log_level]) (\<lambda>(sealed, _).
     write_recovered lib rc cfg sealed))))))"

section \<open>The main function\<close>

datatype sgx_command =
    CloudWrapKeyGen "path option" "path option" bool u32
  | SgxInit "path option" "pubkey_display option" "string option" "path option" "path option" "path option" u32
  | SgxRecover recover_config u32
  | SgxStartCmd "path option" u32

text \<open>\<open>set_log\<close>: the log level passed on to the enclave.  The host's own subscriber is not modelled.\<close>

definition set_log :: "u32 \<Rightarrow> string" where
  "set_log v = (if v = 0 \<or> v = 1 then ''info'' else ''verbose'')"

text \<open>The exit code: 1 for an error, 101 for a panic.\<close>

definition sgx_runner_main ::
    "runner_lib \<Rightarrow> sgx_platform \<Rightarrow> sgx_platform \<Rightarrow> sgx_command \<Rightarrow> sgx_state_syncer console
      \<Rightarrow> (nat \<times> sgx_state_syncer console) option" where
  "sgx_runner_main lib plat1 plat2 opt c =
     map_option (\<lambda>(r, c'). (case r of Inr _ \<Rightarrow> 0 | Inl (CmdErr _) \<Rightarrow> 1 | Inl (CmdPanic _) \<Rightarrow> 101, c'))
       ((case opt of
           CloudWrapKeyGen enclave_path sealed_wrap_key_path dcap v \<Rightarrow>
             keywrap lib plat1
               (case enclave_path of Some p \<Rightarrow> p | None \<Rightarrow> ''enclave/tmkms-light-sgx-app.sgxs'')
               (case sealed_wrap_key_path of Some p \<Rightarrow> p | None \<Rightarrow> ''sealed-wrap.key'') dcap (set_log v)
         | SgxInit config_path ptype bech32_prefix wp ep kp v \<Rightarrow>
             sgx_init lib plat1 plat2 config_path ptype bech32_prefix wp ep kp (set_log v)
         | SgxStartCmd config_path v \<Rightarrow> sgx_start lib plat1 config_path (set_log v)
         | SgxRecover rc v \<Rightarrow> sgx_recover lib plat1 rc (set_log v)) c)"

end
