(* ===== verification/Sgx_Runner_Props.thy ===== *)
theory Sgx_Runner_Props
  imports Sgx_Runner Concrete_Env
begin

text \<open>
  The SGX host and the enclave together.  \<open>runs_app\<close> states that a platform runs the program of
  \<open>Sgx_App\<close> behind the runner's \<open>connect_stream\<close>; then the response that the host decodes is the one the enclave computed,
  and the commands \<open>init\<close>, \<open>start\<close> and \<open>recover\<close> are followed from the files they read to the files they write.
\<close>

section \<open>The enclave behind the runner\<close>

text \<open>
  The network that the enclave's program sees: \<open>connect_stream\<close> is asked first, and the host connects where it returns no
  stream.
\<close>

definition runner_net :: "(nat \<Rightarrow> path \<Rightarrow> io_error + sock) \<Rightarrow> tmkms_sgx_runner \<Rightarrow> 'x net \<Rightarrow> 'x net" where
  "runner_net unix_connect runner net =
     net\<lparr>tcp_connect := (\<lambda>n a. case connect_stream Inr (unix_connect n) runner a of
            Inl e \<Rightarrow> Inl e
          | Inr (Some s) \<Rightarrow> Inr s
          | Inr None \<Rightarrow> tcp_connect net n a)\<rparr>"

text \<open>
  The loader runs the program of \<open>Sgx_App\<close>, with or without its path before the arguments: when the program returns, the host has
  received the bytes it wrote to the init stream, and the thread ends well exactly if the program returned \<open>Ok\<close>.
\<close>

definition runs_app ::
    "sgx_app_lib \<Rightarrow> 'x net \<Rightarrow> (nat \<Rightarrow> path \<Rightarrow> io_error + sock) \<Rightarrow> rng \<Rightarrow> sgx_platform \<Rightarrow> bool" where
  "runs_app app net unix_connect csprng plat \<longleftrightarrow>
     length (sp_argv0 plat) \<le> 1
     \<and> (\<forall>h i. sp_init_pair plat = Inr (h, i) \<longrightarrow> sent i = [])
     \<and> (\<forall>runner args r s.
          sgx_main app (runner_net unix_connect runner net) csprng (sp_argv0 plat @ args) = Some (SReturned r s) \<longrightarrow>
          (case sp_run plat runner args of (events, ended) \<Rightarrow>
             rx_clean events \<and> rx_bytes events = sent s \<and> (ended = Some (Joined (Inr ())) \<longleftrightarrow> r = Inr ())))"

text \<open>The JSON and cryptography that host and enclave rely on.\<close>

definition runner_ok :: "runner_lib \<Rightarrow> sgx_app_lib \<Rightarrow> bool" where
  "runner_ok lib app \<longleftrightarrow>
     (\<forall>r b. rl_request_to_json lib r = Inr b \<longrightarrow> sal_request_from_json app b = Inr r)
     \<and> (\<forall>r b. sal_response_to_json app r = Inr b \<longrightarrow> rl_response_from_json lib b = Inr r)
     \<and> (\<forall>d b. rl_sealed_to_json lib d = Inr b \<longrightarrow> rl_sealed_from_json lib b = Inr d)
     \<and> keys_ok (sal_sgx app)
     \<and> aead_ok (aes128_gcm_siv_encrypt (sal_sgx app)) (aes128_gcm_siv_decrypt (sal_sgx app))"

lemma runner_ok_request:
  "runner_ok lib app \<Longrightarrow> rl_request_to_json lib r = Inr b \<Longrightarrow> sal_request_from_json app b = Inr r"
  unfolding runner_ok_def by blast

lemma runner_ok_response:
  "runner_ok lib app \<Longrightarrow> sal_response_to_json app r = Inr b \<Longrightarrow> rl_response_from_json lib b = Inr r"
  unfolding runner_ok_def by blast

lemma runner_ok_sealed:
  "runner_ok lib app \<Longrightarrow> rl_sealed_to_json lib d = Inr b \<Longrightarrow> rl_sealed_from_json lib b = Inr d"
  unfolding runner_ok_def by blast

text \<open>The response of the enclave to a request that it answers, if it sends one.\<close>

definition keygen_reply :: "sgx_lib \<Rightarrow> rng \<Rightarrow> cloud_backup_key option \<Rightarrow> sgx_init_response option" where
  "keygen_reply lib csprng cb =
     (let (seed, csprng1) = fill_bytes 32 csprng;
          kp = key_new lib seed;
          (data, csprng2) =
            (case cb of
               None \<Rightarrow> (None, csprng1)
             | Some key \<Rightarrow>
                 (case cloud_backup lib csprng1 key kp of
                    (Inr d, r) \<Rightarrow> (Some d, r) | (Inl _, r) \<Rightarrow> (None, r)))
      in case seal lib csprng2 kp of
           (Inr sealed, _) \<Rightarrow> Some (GenOrRecover sealed data)
         | (Inl _, _) \<Rightarrow> None)"

fun app_reply :: "sgx_lib \<Rightarrow> rng \<Rightarrow> sgx_init_request \<Rightarrow> sgx_init_response option" where
  "app_reply lib csprng (GenWrapKey ti) =
     (case generate_keypair lib csprng
             (case ti of Some t \<Rightarrow> t | None \<Rightarrow> targetinfo_from lib (report_for_self lib)) of
        (Inr (pub, sealed, rep), _) \<Rightarrow> Some (WrapKey sealed pub rep) | _ \<Rightarrow> None)"
| "app_reply lib csprng (KeyGen cb) = keygen_reply lib csprng cb"
| "app_reply lib csprng (CloudRecover cb d) =
     (case reseal_recover_cloud lib csprng cb d of
        (Inr sealed, _) \<Rightarrow> Some (GenOrRecover sealed None) | _ \<Rightarrow> None)"
| "app_reply lib csprng (SgxStart _ _ _ _) = None"

fun answered :: "sgx_init_request \<Rightarrow> bool" where
  "answered (SgxStart _ _ _ _) = False"
| "answered _ = True"

lemma sgx_entry_reply:
  assumes "answered request"
  shows "sgx_entry app net csprng hs request =
    (case app_reply (sal_sgx app) csprng request of
       None \<Rightarrow> Some (SReturned (Inr ()) hs)
     | Some resp \<Rightarrow> (case send_response app resp hs of (r, s) \<Rightarrow> Some (SReturned r s)))"
  using assms
  by (cases request)
     (auto simp: sgx_entry_def sgx_gen_wrap_key_def sgx_key_gen_def sgx_cloud_recover_def keygen_reply_def Let_def
           split: prod.splits sum.splits option.splits)

lemma sgx_main_args_path:
  "length pre \<le> 1 \<Longrightarrow> fst (sgx_main_args (pre @ [b, l])) = Some b"
  by (cases pre) (auto simp: sgx_main_args_def)

lemma runner_net_init [simp]: "tcp_connect (runner_net uc runner net) n ''init'' = Inr (init_stream runner)"
  by (simp add: runner_net_def connect_stream_def)

lemma sgx_main_reply:
  assumes "length pre \<le> 1" "sal_request_from_json app b = Inr request" "answered request"
  shows "sgx_main app (runner_net uc runner net) csprng (pre @ [b, l]) =
    (case app_reply (sal_sgx app) csprng request of
       None \<Rightarrow> Some (SReturned (Inr ()) (init_stream runner))
     | Some resp \<Rightarrow> (case send_response app resp (init_stream runner) of (r, s) \<Rightarrow> Some (SReturned r s)))"
  using assms by (simp add: sgx_main_def sgx_main_args_path sgx_entry_reply)

lemma rx_clean_Nil: "rx_clean es \<Longrightarrow> rx_bytes es = [] \<longleftrightarrow> es = []"
  by (induction es rule: rx_clean.induct) auto

lemma read_u16_payload_Nil: "rx s = [] \<Longrightarrow> \<exists>e s'. read_u16_payload s = (Inl e, s')"
  by (simp add: read_u16_payload_def sock_read_exact_def)

lemma launch_Inr:
  "launch lib plat ep tmc sy st args c = Some (Inr signer, c') \<longleftrightarrow>
     (\<exists>h i events ended. sp_init_pair plat = Inr (h, i) \<and> sp_device plat = Inr () \<and> sp_signature plat ep = Inr ()
        \<and> (\<exists>u. sp_build plat ep = Inr u)
        \<and> sp_run plat \<lparr>init_stream = i, state_stream = st, tm_conn = tmc\<rparr> args = (events, ended)
        \<and> signer = \<lparr>stream_to_enclave = h\<lparr>rx := events\<rparr>,
             enclave_app_thread = map_option (map_join (map_err (io_error_wrap ''enclave runner error''))) ended\<rparr>
        \<and> c' = c\<lparr>cmd_trace := cmd_trace c @ [sy]\<rparr>)"
  by (auto simp: launch_def launch_enclave_app_def command_simps result_simps split: sum.splits prod.splits)

lemma join_Inr: "join_enclave_thread self = Some (Inr u) \<longleftrightarrow> enclave_app_thread self = Some (Joined (Inr ()))"
  by (auto simp: join_enclave_thread_def split: option.splits join.splits sum.splits)

lemma get_init_response_Inr:
  "get_init_response lib self = Some (Inr resp) \<longleftrightarrow>
     (\<exists>b s. read_u16_payload (stream_to_enclave self) = (Inr b, s) \<and> rl_response_from_json lib b = Inr resp
        \<and> enclave_app_thread self = Some (Joined (Inr ())))"
  by (auto simp: get_init_response_def join_enclave_thread_def
           split: prod.splits sum.splits option.splits join.splits)

lemma mapped_join_Inr:
  "map_option (map_join (map_err g)) ended = Some (Joined (Inr ())) \<longleftrightarrow> ended = Some (Joined (Inr ()))"
  by (cases ended; cases "the ended") (auto simp: result_simps)

text \<open>The response that the host decodes is the one the enclave computed.\<close>

lemma get_init_response_app:
  assumes "runner_ok lib app" and ra: "runs_app app net uc csprng plat"
    and "launch lib plat ep tmc sy st [b, l] c = Some (Inr signer, c')"
    and "sal_request_from_json app b = Inr request" "answered request"
    and resp: "get_init_response lib signer = Some (Inr resp)"
  shows "app_reply (sal_sgx app) csprng request = Some resp"
proof -
  from assms(3) obtain h i events ended where pair: "sp_init_pair plat = Inr (h, i)"
    and run: "sp_run plat \<lparr>init_stream = i, state_stream = st, tm_conn = tmc\<rparr> [b, l] = (events, ended)"
    and signer: "stream_to_enclave signer = h\<lparr>rx := events\<rparr>"
      "enclave_app_thread signer = map_option (map_join (map_err (io_error_wrap ''enclave runner error''))) ended"
    by (auto simp: launch_Inr)
  let ?r = "\<lparr>init_stream = i, state_stream = st, tm_conn = tmc\<rparr>"
  from resp obtain b' s' where read: "read_u16_payload (h\<lparr>rx := events\<rparr>) = (Inr b', s')"
    and b': "rl_response_from_json lib b' = Inr resp" and "ended = Some (Joined (Inr ()))"
    unfolding get_init_response_Inr signer mapped_join_Inr by blast
  moreover have sent: "sent i = []" and len: "length (sp_argv0 plat) \<le> 1"
    using ra pair unfolding runs_app_def by blast+
  ultimately have sends: "rx_clean events \<and> rx_bytes events = sent s \<and> r = Inr ()"
    if "sgx_main app (runner_net uc ?r net) csprng (sp_argv0 plat @ [b, l]) = Some (SReturned r s)" for r s
    using ra that run unfolding runs_app_def by fastforce
  note main = sgx_main_reply [OF len assms(4,5), of uc ?r net csprng l]
  have not_empty: "events \<noteq> []" using read_u16_payload_Nil [of "h\<lparr>rx := events\<rparr>"] read by auto
  show ?thesis
  proof (cases "app_reply (sal_sgx app) csprng request")
    case None
    with main sends [of "Inr ()" i] sent not_empty rx_clean_Nil show ?thesis by auto
  next
    case (Some resp')
    obtain r s where send: "send_response app resp' i = (r, s)" by fastforce
    with Some main sends [of r s]
    have ev: "rx_clean events" "rx_bytes events = sent s" and r: "r = Inr ()" by auto
    show ?thesis
    proof (cases "sal_response_to_json app resp'")
      case (Inl e)
      with send ev sent not_empty rx_clean_Nil show ?thesis by (auto simp: send_response_def)
    next
      case (Inr v)
      with send_response_Inr [of app resp' i "()" s] send r sent
      have "sent s = frame v" "length v \<le> 65535" by auto
      with read_u16_payload_frame [of "h\<lparr>rx := events\<rparr>" v "[]"] ev read have "b' = v" by auto
      with runner_ok_response [OF assms(1) Inr] b' Some show ?thesis by simp
    qed
  qed
qed

lemma sgx_syncer_new_files:
  assumes "sgx_syncer_new env disp p s f = (r, f')" "tempfile_ok (he_tempfile env)"
    and "q \<noteq> p" "\<not> tf_is_tmp (he_tempfile env) q"
  shows "files f' q = files f q"
proof -
  have rd: "files g q = files f q" if "fs_read_to_string p f = (x, g)" for x g
    using fs_read_to_string_files [OF that] by simp
  have rp: "files (snd (replace_file (he_tempfile env) dir p d g)) q = files g q" for dir d g
    by (rule replace_file_others [OF assms(2) _ assms(3,4)]) (rule prod.collapse [symmetric])
  have wr: "files g' q = files g q" if "sgx_host_persist env p cs g = (x, g')" for x cs g g'
    using that by (auto simp: sgx_host_persist_def st_map_err_def rp split: sum.splits option.splits)
  show ?thesis
    using assms(1)
    by (auto simp: sgx_syncer_new_def sgx_write_initial_state_def st_bind_def split: prod.splits sum.splits if_splits
             dest!: rd wr)
qed

lemma state_syncer_for_Inr:
  assumes "state_syncer_for lib plat p c = Some (Inr (sy, st, stream), c')"
  shows "\<exists>h f. sp_state_pair plat = Inr (h, stream) \<and> c' = c\<lparr>cmd_fs := f\<rparr>
    \<and> sgx_syncer_new (rl_host lib) (rl_error_display lib) p h (cmd_fs c) = (Inr (sy, st), f)"
  using assms
  by (auto simp: state_syncer_for_def get_state_syncer_def
           split: prod.splits sum.splits panic.splits sync_failure.splits)

lemma write_json_file_Inr:
  "write_json_file lib ser p d f = (Inr u, f') \<Longrightarrow> \<exists>b. ser d = Inr b \<and> files f' = (files f)(p \<mapsto> b)"
  by (auto simp: write_json_file_def next_fault_def dest: write_all_events_Inr
           split: prod.splits option.splits sum.splits list.splits)

lemma generate_sealed_app:
  assumes "runner_ok lib app" "runs_app app net uc csprng plat" "tempfile_ok (he_tempfile (rl_host lib))"
    and "sal_request_from_json app b = Inr request" "answered request"
    and "generate_sealed lib plat cfg what [b, l] c = Some (Inr (sealed, data), c')"
  shows "app_reply (sal_sgx app) csprng request = Some (GenOrRecover sealed data) \<and> cmd_out c' = cmd_out c
    \<and> (\<forall>q. q \<noteq> sgo_state_file_path cfg \<longrightarrow> \<not> tf_is_tmp (he_tempfile (rl_host lib)) q \<longrightarrow>
         files (cmd_fs c') q = files (cmd_fs c) q)"
proof -
  from assms(6) obtain sy st stream c1 signer c2 resp where
    1: "state_syncer_for lib plat (sgo_state_file_path cfg) c = Some (Inr (sy, st, stream), c1)"
    and 2: "launch lib plat (sgo_enclave_path cfg) None sy stream [b, l] c1 = Some (Inr signer, c2)"
    and 3: "get_init_response lib signer = Some (Inr resp)" "get_gen_response resp = Some (sealed, data)" "c' = c2"
    by (auto simp: generate_sealed_def command_simps split: option.splits)
  from 3(2) have "resp = GenOrRecover sealed data" by (auto simp: get_gen_response_def split: sgx_init_response.splits)
  with get_init_response_app [OF assms(1,2) 2 assms(4,5) 3(1)] 2 3(3) state_syncer_for_Inr [OF 1]
    sgx_syncer_new_files [OF _ assms(3)]
  show ?thesis by (auto simp: launch_Inr)
qed

text \<open>What a generated key looks like to the enclave, and which backup comes with it.\<close>

lemma seal_keyid:
  assumes "keys_ok lib" "aead_ok (aes128_gcm_siv_encrypt lib) (aes128_gcm_siv_decrypt lib)"
    and "seal lib rng keypair = (Inr sd, rng')"
  shows "krw_keyid (seal_key_request sd) = key_verification lib keypair"
  using seal_payload_unseal_secret [OF assms(1,2)] assms(3) by (simp add: seal_def Let_def)

lemma runner_ok_seal:
  assumes "runner_ok lib app" "seal (sal_sgx app) rng keypair = (Inr sd, rng')"
  shows "unseal (sal_sgx app) sd = Inr keypair
    \<and> krw_keyid (seal_key_request sd) = key_verification (sal_sgx app) keypair"
  using assms seal_unseal seal_keyid unfolding runner_ok_def by blast

lemma keygen_reply_Some:
  assumes "runner_ok lib app" "keygen_reply (sal_sgx app) csprng cb = Some (GenOrRecover sealed data)"
  shows "unseal (sal_sgx app) sealed = Inr (key_new (sal_sgx app) (fst (fill_bytes 32 csprng)))
    \<and> krw_keyid (seal_key_request sealed)
        = key_verification (sal_sgx app) (key_new (sal_sgx app) (fst (fill_bytes 32 csprng)))"
proof -
  from assms(2) obtain r r' where
    "seal (sal_sgx app) r (key_new (sal_sgx app) (fst (fill_bytes 32 csprng))) = (Inr sealed, r')"
    by (auto simp: keygen_reply_def Let_def split: prod.splits sum.splits option.splits)
  with runner_ok_seal [OF assms(1)] show ?thesis by blast
qed

lemma read_sealed_key_written:
  assumes "runner_ok lib app" "files f p = Some b" "rl_sealed_to_json lib d = Inr b" "faults f = []"
  shows "read_sealed_key lib msg p f = (Inr d, f)"
  using runner_ok_sealed [OF assms(1,3)] assms(2,4)
  by (simp add: read_sealed_key_def fs_read_def next_fault_def)

text \<open>A backup file does not touch the key files, and the second half of \<open>init\<close> leaves both keys sealed in them.\<close>

lemma write_backup_if_Inr:
  assumes "write_backup_if lib msg (path_join base name) d c = Some (Inr u, c')"
    and "name \<noteq> []" "last name = CHR ''p''"
  shows "\<exists>f. c' = c\<lparr>cmd_fs := f\<rparr> \<and> (\<forall>q. last q = CHR ''y'' \<longrightarrow> files f q = files (cmd_fs c) q)"
proof -
  have ne: "q \<noteq> path_join base name" if "last q = CHR ''y''" for q
    using path_join_last [OF assms(2), of base] assms(3) that by auto
  show ?thesis
  proof (cases d)
    case None
    with assms(1) show ?thesis by (intro exI [of _ "cmd_fs c"]) (simp add: write_backup_if_def command_simps)
  next
    case (Some x)
    with assms(1) ne show ?thesis
      by (auto simp: write_backup_if_def command_simps write_backup_file_def dest!: write_json_file_Inr)
  qed
qed

lemma default_paths [simp]:
  "sgo_sealed_consensus_key_path sgx_sign_opt_default = ''secrets/secret.key''"
  "sgo_sealed_id_key_path sgx_sign_opt_default = Some ''secrets/id.key''"
  "sgo_state_file_path sgx_sign_opt_default = ''state/priv_validator_state.json''"
  by (simp_all add: sgx_sign_opt_default_def)

lemma sgx_init_keys_files:
  assumes ok: "runner_ok lib app" and run1: "runs_app app net uc rng1 plat1" and run2: "runs_app app net uc rng2 plat2"
    and tf: "tempfile_ok (he_tempfile (rl_host lib))" "\<not> tf_is_tmp (he_tempfile (rl_host lib)) ''secrets/secret.key''"
    and req: "sal_request_from_json app b = Inr (KeyGen cb)"
    and init: "sgx_init_keys lib plat1 plat2 pd bp kp sgx_sign_opt_default [b, l] c = Some (Inr (), c')"
  shows "\<exists>sealed d1 sealed_id d2 b1 b2 vk.
    keygen_reply (sal_sgx app) rng1 cb = Some (GenOrRecover sealed d1)
    \<and> keygen_reply (sal_sgx app) rng2 cb = Some (GenOrRecover sealed_id d2)
    \<and> rl_sealed_to_json lib sealed = Inr b1 \<and> files (cmd_fs c') ''secrets/secret.key'' = Some b1
    \<and> rl_sealed_to_json lib sealed_id = Inr b2 \<and> files (cmd_fs c') ''secrets/id.key'' = Some b2
    \<and> rl_vk_try_from lib (krw_keyid (seal_key_request sealed)) = Inr vk
    \<and> cmd_out c' = cmd_out c @ fst (print_pubkey (rl_display lib) bp pd vk)"
proof -
  let ?base = "case kp of Some p \<Rightarrow> p | None \<Rightarrow> []"
  from init obtain sealed d1 c1 f2 vk c3 sealed_id d2 c4 f5 where
    1: "generate_sealed lib plat1 sgx_sign_opt_default ''generate consensus key'' [b, l] c = Some (Inr (sealed, d1), c1)"
    and 2: "write_sealed_file lib ''secrets/secret.key'' sealed (cmd_fs c1) = (Inr (), f2)"
    and vk: "rl_vk_try_from lib (krw_keyid (seal_key_request sealed)) = Inr vk"
    and 3: "write_backup_if lib ''failed to write consensus key backup: '' (path_join ?base ''consensus-key.backup'') d1
      (c1\<lparr>cmd_fs := f2, cmd_out := cmd_out c1 @ fst (print_pubkey (rl_display lib) bp pd vk)\<rparr>) = Some (Inr (), c3)"
    and 4: "generate_sealed lib plat2 sgx_sign_opt_default ''generate id key'' [b, l] c3 = Some (Inr (sealed_id, d2), c4)"
    and 5: "write_sealed_file lib ''secrets/id.key'' sealed_id (cmd_fs c4) = (Inr (), f5)"
    and 6: "write_backup_if lib ''failed to write id key backup: '' (path_join ?base ''id-key.backup'') d2
      (c4\<lparr>cmd_fs := f5\<rparr>) = Some (Inr (), c')"
    unfolding sgx_init_keys_def Let_def by (auto simp: command_simps)
  from 2 obtain b1 where b1: "rl_sealed_to_json lib sealed = Inr b1" "files f2 ''secrets/secret.key'' = Some b1"
    by (auto simp: write_sealed_file_def dest: write_json_file_Inr)
  from 5 obtain b2 where b2: "rl_sealed_to_json lib sealed_id = Inr b2"
    and f5: "files f5 = (files (cmd_fs c4))(''secrets/id.key'' \<mapsto> b2)"
    by (auto simp: write_sealed_file_def dest: write_json_file_Inr)
  note g1 = generate_sealed_app [OF ok run1 tf(1) req _ 1]
  note g4 = generate_sealed_app [OF ok run2 tf(1) req _ 4]
  from write_backup_if_Inr [OF 3] b1(2) have c3: "files (cmd_fs c3) ''secrets/secret.key'' = Some b1"
    "cmd_out c3 = cmd_out c1 @ fst (print_pubkey (rl_display lib) bp pd vk)" by auto
  from g4 tf(2) c3 have c4: "files (cmd_fs c4) ''secrets/secret.key'' = Some b1" "cmd_out c4 = cmd_out c3" by auto
  from write_backup_if_Inr [OF 6] c4 f5 have "files (cmd_fs c') ''secrets/secret.key'' = Some b1"
    "files (cmd_fs c') ''secrets/id.key'' = Some b2" "cmd_out c' = cmd_out c4" by auto
  with b1 b2 g1 g4 vk c3 c4 show ?thesis by auto
qed

lemma sgx_init_Inr:
  assumes "sgx_init lib plat1 plat2 cp pd bp wp ep kp lvl c = Some (Inr (), c')"
  shows "\<exists>cb b c1. rl_request_to_json lib (KeyGen cb) = Inr b \<and> cmd_out c1 = cmd_out c
    \<and> sgx_init_keys lib plat1 plat2 pd bp kp sgx_sign_opt_default [b, as_bytes lvl] c1 = Some (Inr (), c')"
proof -
  have out: "cmd_out c1 = cmd_out c0" if "read_cloud_backup lib p1 p2 c0 = Some (Inr x, c1)" for p1 p2 x c0 c1
    using that by (auto simp: read_cloud_backup_def command_simps)
  have out': "cmd_out c1 = cmd_out c0" if "sgx_init_config lib cp cfg c0 = Some (Inr (), c1)" for cfg c0 c1
    using that by (auto simp: sgx_init_config_def Let_def command_simps)
  show ?thesis
    using assms
    by (auto simp: sgx_init_def Let_def command_simps request_to_bytes_def split: option.splits dest!: out out') blast+
qed

text \<open>What \<open>start\<close> and \<open>recover\<close> read.\<close>

lemma read_config_Inr:
  assumes "read_config lib config_path c = Some (Inr cfg, c')"
  shows "\<exists>t f. files (cmd_fs c) (case config_path of Some p \<Rightarrow> p | None \<Rightarrow> ''tmkms.toml'') = Some t
    \<and> rl_toml_from_str lib t = Inr cfg \<and> c' = c\<lparr>cmd_fs := f\<rparr> \<and> files f = files (cmd_fs c)
    \<and> set (faults f) \<subseteq> set (faults (cmd_fs c))"
  using assms
  by (auto simp: read_config_def Let_def command_simps split: if_splits
           dest: fs_read_to_string_Inr fs_read_to_string_files)

lemma read_config_not_None: "read_config lib config_path c \<noteq> None"
proof
  assume "read_config lib config_path c = None"
  then show False by (auto simp: read_config_def Let_def command_none split: if_splits)
qed

lemma read_cloud_backup_Inr:
  assumes "read_cloud_backup lib p1 p2 c = Some (Inr cb, c')"
  shows "\<exists>b1 b2. files (cmd_fs c) p1 = Some b1 \<and> rl_sealed_from_json lib b1 = Inr (sealed_rsa_key cb)
    \<and> files (cmd_fs c) p2 = Some b2 \<and> rl_cloud_seal_from_json lib b2 = Inr (backup_key cb)
    \<and> files (cmd_fs c') = files (cmd_fs c)"
  using assms by (auto simp: read_cloud_backup_def command_simps dest!: fs_read_Inr)

lemma write_recovered_Inr:
  assumes "write_recovered lib rc cfg sealed c = Some (Inr u, c')"
  shows "write_sealed_file lib
      (if rcv_recover_consensus_key rc then sgo_sealed_consensus_key_path cfg else the (sgo_sealed_id_key_path cfg))
      sealed (cmd_fs c) = (Inr (), cmd_fs c')"
  using assms by (cases "rcv_recover_consensus_key rc")
    (auto simp: write_recovered_def command_simps split: option.splits)

lemma sgx_recover_Inr:
  assumes "sgx_recover lib plat rc lvl c = Some (Inr (), c')"
  obtains cfg t cb bt d b sealed data c3 c4 and c1 c2 :: "sgx_state_syncer console" where "rl_toml_from_str lib t = Inr cfg"
    and "files (cmd_fs c) (case rcv_config_path rc of Some p \<Rightarrow> p | None \<Rightarrow> ''tmkms.toml'') = Some t"
    and "read_cloud_backup lib (rcv_wrap_backup_key_path rc) (rcv_external_cloud_key_path rc) c1 = Some (Inr cb, c2)"
    and "files (cmd_fs c1) = files (cmd_fs c)"
    and "files (cmd_fs c) (path_join (rcv_key_backup_data_path rc) ''consensus-key.backup'') = Some bt"
    and "rl_backup_from_json lib bt = Inr d" and "rl_request_to_json lib (CloudRecover cb d) = Inr b"
    and "generate_sealed lib plat cfg ''recover key'' [b, as_bytes lvl] c3 = Some (Inr (sealed, data), c4)"
    and "write_sealed_file lib
        (if rcv_recover_consensus_key rc then sgo_sealed_consensus_key_path cfg else the (sgo_sealed_id_key_path cfg))
        sealed (cmd_fs c4) = (Inr (), cmd_fs c')"
proof -
  from assms obtain cfg c1 cb c2 bt f3 d b sealed data c4 where
    1: "read_config lib (rcv_config_path rc) c = Some (Inr cfg, c1)"
    and 2: "read_cloud_backup lib (rcv_wrap_backup_key_path rc) (rcv_external_cloud_key_path rc) c1 = Some (Inr cb, c2)"
    and 3: "fs_read_to_string (path_join (rcv_key_backup_data_path rc) ''consensus-key.backup'') (cmd_fs c2) = (Inr bt, f3)"
    and 4: "rl_backup_from_json lib bt = Inr d" "rl_request_to_json lib (CloudRecover cb d) = Inr b"
    and 5: "generate_sealed lib plat cfg ''recover key'' [b, as_bytes lvl] (c2\<lparr>cmd_fs := f3\<rparr>) = Some (Inr (sealed, data), c4)"
    and 6: "write_recovered lib rc cfg sealed c4 = Some (Inr (), c')"
    unfolding sgx_recover_def request_to_bytes_def by (auto simp: command_simps split: if_splits)
  from read_config_Inr [OF 1] obtain t where t: "rl_toml_from_str lib t = Inr cfg"
    "files (cmd_fs c) (case rcv_config_path rc of Some p \<Rightarrow> p | None \<Rightarrow> ''tmkms.toml'') = Some t"
    "files (cmd_fs c1) = files (cmd_fs c)" by auto
  moreover from read_cloud_backup_Inr [OF 2] fs_read_to_string_Inr [OF 3] t(3)
  have "files (cmd_fs c) (path_join (rcv_key_backup_data_path rc) ''consensus-key.backup'') = Some bt" by auto
  ultimately show thesis using that [OF t(1,2) 2 t(3) _ 4 5 write_recovered_Inr [OF 6]] by simp
qed

lemma launch_not_None: "launch lib plat ep tmc sy st args c \<noteq> None"
proof
  assume "launch lib plat ep tmc sy st args c = None"
  then show False by (auto simp: launch_def launch_enclave_app_def command_none split: sum.splits prod.splits)
qed

lemma state_syncer_for_not_None: "state_syncer_for lib plat p c \<noteq> None"
  by (auto simp: state_syncer_for_def split: prod.splits sum.splits panic.splits)

lemma sgx_start_launch_not_None: "sgx_start_launch lib plat cp lvl c \<noteq> None"
proof
  assume "sgx_start_launch lib plat cp lvl c = None"
  then show False
    by (auto simp: sgx_start_launch_def command_none read_config_not_None state_syncer_for_not_None launch_not_None)
qed

lemma sgx_syncer_new_state:
  assumes "sgx_syncer_new env disp p s f = (Inr (sy, st), f')" "no_spurious_not_found f"
  shows "(case files f p of Some j \<Rightarrow> from_json (he_json env) j = Inr st | None \<Rightarrow> st = initial_consensus_state)
    \<and> sss_path sy = p \<and> sss_stream sy = s"
proof -
  obtain x g where rd: "fs_read_to_string p f = (x, g)" by fastforce
  show ?thesis
  proof (cases x)
    case (Inl e)
    with assms rd fs_read_to_string_NotFound [of p f e g] show ?thesis
      by (auto simp: sgx_syncer_new_def sgx_write_initial_state_def no_spurious_not_found_def result_simps split: if_splits)
  next
    case (Inr j)
    with assms(1) rd fs_read_to_string_Inr [of p f j g] show ?thesis
      by (auto simp: sgx_syncer_new_def result_simps)
  qed
qed

lemma read_sealed_key_Inr:
  "read_sealed_key lib msg p f = (Inr sealed, f') \<Longrightarrow>
     \<exists>kb. files f p = Some kb \<and> rl_sealed_from_json lib kb = Inr sealed \<and> files f' = files f"
  by (auto simp: read_sealed_key_def result_simps dest: fs_read_Inr)

lemma get_start_request_bytes_Inr:
  assumes "get_start_request_bytes lib kp vcfg st remote f = (Inr b, f')"
  obtains sealed sc kb where "rl_request_to_json lib (SgxStart sealed vcfg sc st) = Inr b"
    and "files f' kp = Some kb" and "rl_sealed_from_json lib kb = Inr sealed" and "remote = None \<Longrightarrow> sc = None"
proof -
  from assms obtain sealed f1 sc where rd: "read_sealed_key lib ''error reading sealed consensus key'' kp f = (Inr sealed, f1)"
    and rq: "rl_request_to_json lib (SgxStart sealed vcfg sc st) = Inr b"
    and sc: "(case remote of
                Some (Tcp peer_id host port, id_path) \<Rightarrow>
                  st_bind (read_sealed_key lib ''error reading id sealed key'' id_path f1) (\<lambda>sealed_id_key f2.
                    (Inr (Some \<lparr>rcc_peer_id = peer_id, rcc_host = host, rcc_port = port,
                                rcc_sealed_key = sealed_id_key\<rparr>), f2)) id
              | _ \<Rightarrow> (Inr None, f1)) = (Inr sc, f')"
    unfolding get_start_request_bytes_def st_bind_eq_Inr by (auto simp: result_simps)
  from sc have "files f' = files f1" "remote = None \<Longrightarrow> sc = None"
    by (auto simp: result_simps dest!: read_sealed_key_Inr split: option.splits address.splits)
  with read_sealed_key_Inr [OF rd] rq that show thesis by auto
qed

section \<open>Properties\<close>

text \<open>
  C18. After a successful \<open>init\<close>, the start request that the runner builds from the key files carries sealed keys that the
  enclave unseals to the consensus key and the identity key which it generated in the two launches, and what \<open>init\<close> printed is the
  consensus key's public key.
\<close>

theorem sgx_init_keys_start:
  assumes "runner_ok lib app" and "runs_app app net uc rng1 plat1" and "runs_app app net uc rng2 plat2"
    and "tempfile_ok (he_tempfile (rl_host lib))" and "\<not> tf_is_tmp (he_tempfile (rl_host lib)) ''secrets/secret.key''"
    and "sgx_init lib plat1 plat2 cp pd bp wp ep kp lvl c = Some (Inr (), c')"
    and "faults (cmd_fs c') = []"
  shows "\<exists>sealed sealed_id k vk.
    get_start_request_bytes lib ''secrets/secret.key'' vcfg st (Some (Tcp peer host port, ''secrets/id.key'')) (cmd_fs c')
      = (map_err (io_error_wrap ''failed to obtain the start request payload'')
          (rl_request_to_json lib (SgxStart sealed vcfg
            (Some \<lparr>rcc_peer_id = peer, rcc_host = host, rcc_port = port, rcc_sealed_key = sealed_id\<rparr>) st)), cmd_fs c')
    \<and> unseal (sal_sgx app) sealed = Inr k \<and> k = key_new (sal_sgx app) (fst (fill_bytes 32 rng1))
    \<and> unseal (sal_sgx app) sealed_id = Inr (key_new (sal_sgx app) (fst (fill_bytes 32 rng2)))
    \<and> rl_vk_try_from lib (key_verification (sal_sgx app) k) = Inr vk
    \<and> cmd_out c' = cmd_out c @ fst (print_pubkey (rl_display lib) bp pd vk)"
proof -
  from sgx_init_Inr [OF assms(6)] obtain cb b0 c1 where b0: "rl_request_to_json lib (KeyGen cb) = Inr b0"
    and out: "cmd_out c1 = cmd_out c"
    and keys: "sgx_init_keys lib plat1 plat2 pd bp kp sgx_sign_opt_default [b0, as_bytes lvl] c1 = Some (Inr (), c')"
    by blast
  from sgx_init_keys_files [OF assms(1-5) runner_ok_request [OF assms(1) b0] keys]
  obtain sealed d1 sealed_id d2 b1 b2 vk where
    r: "keygen_reply (sal_sgx app) rng1 cb = Some (GenOrRecover sealed d1)"
      "keygen_reply (sal_sgx app) rng2 cb = Some (GenOrRecover sealed_id d2)"
    and f: "rl_sealed_to_json lib sealed = Inr b1" "files (cmd_fs c') ''secrets/secret.key'' = Some b1"
      "rl_sealed_to_json lib sealed_id = Inr b2" "files (cmd_fs c') ''secrets/id.key'' = Some b2"
    and vk: "rl_vk_try_from lib (krw_keyid (seal_key_request sealed)) = Inr vk"
      "cmd_out c' = cmd_out c1 @ fst (print_pubkey (rl_display lib) bp pd vk)"
    by blast
  have "get_start_request_bytes lib ''secrets/secret.key'' vcfg st (Some (Tcp peer host port, ''secrets/id.key''))
      (cmd_fs c') = (map_err (io_error_wrap ''failed to obtain the start request payload'')
          (rl_request_to_json lib (SgxStart sealed vcfg
            (Some \<lparr>rcc_peer_id = peer, rcc_host = host, rcc_port = port, rcc_sealed_key = sealed_id\<rparr>) st)), cmd_fs c')"
    using f assms(7) by (simp add: get_start_request_bytes_def read_sealed_key_written [OF assms(1)])
  with keygen_reply_Some [OF assms(1) r(1)] keygen_reply_Some [OF assms(1) r(2)] vk out show ?thesis
    by (intro exI [of _ sealed] exI [of _ sealed_id] exI [of _ vk] exI conjI) simp_all
qed

text \<open>
  C37. A successful \<open>recover\<close> leaves in the key file it writes a sealed key that the enclave unseals to the key whose
  backup is in \<open>consensus-key.backup\<close>: with \<open>recover_consensus_key\<close> that is the consensus key's file, and without it the identity key's, although
  \<open>init\<close> wrote the identity key's backup to \<open>id-key.backup\<close>.
\<close>

theorem sgx_recover_restores_consensus_backup:
  assumes "runner_ok lib app" and "aead_ok (aes256_gcm_siv_encrypt (sal_sgx app)) (aes256_gcm_siv_decrypt (sal_sgx app))"
    and "runs_app app net uc rng plat" and "tempfile_ok (he_tempfile (rl_host lib))"
    and "sgx_recover lib plat rc lvl c = Some (Inr (), c')"
    and "files (cmd_fs c) (case rcv_config_path rc of Some p \<Rightarrow> p | None \<Rightarrow> ''tmkms.toml'') = Some t"
    and "rl_toml_from_str lib t = Inr cfg"
    and "files (cmd_fs c) (rcv_wrap_backup_key_path rc) = Some b1"
    and "rl_sealed_from_json lib b1 = Inr (sealed_rsa_key cb)"
    and "files (cmd_fs c) (rcv_external_cloud_key_path rc) = Some b2"
    and "rl_cloud_seal_from_json lib b2 = Inr (backup_key cb)"
    and "files (cmd_fs c) (path_join (rcv_key_backup_data_path rc) ''consensus-key.backup'') = Some b3"
    and "rl_backup_from_json lib b3 = Inr d" and "cloud_backup (sal_sgx app) r1 cb keypair = (Inr d, r2)"
  shows "\<exists>sealed b.
    files (cmd_fs c')
      (if rcv_recover_consensus_key rc then sgo_sealed_consensus_key_path cfg else the (sgo_sealed_id_key_path cfg)) = Some b
    \<and> rl_sealed_to_json lib sealed = Inr b \<and> unseal (sal_sgx app) sealed = Inr keypair"
proof -
  obtain cb' b sealed data c3 c4 and c1 c2 :: "sgx_state_syncer console" where
    rc: "read_cloud_backup lib (rcv_wrap_backup_key_path rc) (rcv_external_cloud_key_path rc) c1 = Some (Inr cb', c2)"
    "files (cmd_fs c1) = files (cmd_fs c)"
    and b: "rl_request_to_json lib (CloudRecover cb' d) = Inr b"
    and gen: "generate_sealed lib plat cfg ''recover key'' [b, as_bytes lvl] c3 = Some (Inr (sealed, data), c4)"
    and wr: "write_sealed_file lib
            (if rcv_recover_consensus_key rc then sgo_sealed_consensus_key_path cfg else the (sgo_sealed_id_key_path cfg))
            sealed (cmd_fs c4) = (Inr (), cmd_fs c')"
    by (rule sgx_recover_Inr [OF assms(5)]) (use assms(6,7,12,13) in auto)
  from read_cloud_backup_Inr [OF rc(1)] rc(2) assms(8-11) have "cb' = cb" by auto
  with generate_sealed_app [OF assms(1,3,4) runner_ok_request [OF assms(1) b] _ gen] obtain r where
    "reseal_recover_cloud (sal_sgx app) rng cb d = (Inr sealed, r)"
    by (auto split: prod.splits sum.splits)
  with cloud_backup_reseal [OF _ assms(2,14), of rng] assms(1)
  have "st_map_err SealingError (seal (sal_sgx app) rng keypair) = (Inr sealed, r)" by (simp add: runner_ok_def)
  then have "seal (sal_sgx app) rng keypair = (Inr sealed, r)" by (simp add: result_simps)
  from runner_ok_seal [OF assms(1) this] wr show ?thesis
    by (auto simp: write_sealed_file_def dest!: write_json_file_Inr)
qed

text \<open>
  C17. A \<open>start\<close> that does not fail before the enclave runs has the outcome of the enclave run with a \<open>Start\<close> request that holds
  the sealed key of the consensus key's file, the configured chain and height limit, and as initial state what the state file holds (the initial state when
  there is none); the syncer it starts writes to that same file.
\<close>

theorem sgx_start_resumes_state:
  assumes "runner_ok lib app" and "no_spurious_not_found (cmd_fs c)" and "proceeds (sgx_start lib plat cp lvl c)"
  shows "\<exists>t cfg st b sealed sc kb sy stream c1 c2 runner.
    files (cmd_fs c) (case cp of Some p \<Rightarrow> p | None \<Rightarrow> ''tmkms.toml'') = Some t \<and> rl_toml_from_str lib t = Inr cfg
    \<and> (case files (cmd_fs c) (sgo_state_file_path cfg) of
         Some j \<Rightarrow> from_json (he_json (rl_host lib)) j = Inr st | None \<Rightarrow> st = initial_consensus_state)
    \<and> sal_request_from_json app b
        = Inr (SgxStart sealed \<lparr>cfg_chain_id = sgo_chain_id cfg, cfg_max_height = sgo_max_height cfg\<rparr> sc st)
    \<and> files (cmd_fs c1) (sgo_sealed_consensus_key_path cfg) = Some kb \<and> rl_sealed_from_json lib kb = Inr sealed
    \<and> sss_path sy = sgo_state_file_path cfg
    \<and> launch lib plat (sgo_enclave_path cfg) (start_tm_conn cfg) sy stream [b, as_bytes lvl] c1 = Some (Inr runner, c2)
    \<and> sgx_start lib plat cp lvl c
        = cwait (\<lambda>e. ''enclave running failed: '' @ rl_error_debug lib e) (join_enclave_thread runner) c2"
proof -
  obtain runner c4 where run: "sgx_start_launch lib plat cp lvl c = Some (Inr runner, c4)"
    and start: "sgx_start lib plat cp lvl c
        = cwait (\<lambda>e. ''enclave running failed: '' @ rl_error_debug lib e) (join_enclave_thread runner) c4"
    unfolding sgx_start_def
    by (rule proceeds_cbind [OF assms(3) [unfolded sgx_start_def] sgx_start_launch_not_None]) blast
  from run obtain cfg c1 sy st stream c2 b f3 where rd: "read_config lib cp c = Some (Inr cfg, c1)"
    and sy: "state_syncer_for lib plat (sgo_state_file_path cfg) c1 = Some (Inr (sy, st, stream), c2)"
    and rq: "get_start_request_bytes lib (sgo_sealed_consensus_key_path cfg)
           \<lparr>cfg_chain_id = sgo_chain_id cfg, cfg_max_height = sgo_max_height cfg\<rparr> st (start_remote cfg) (cmd_fs c2) = (Inr b, f3)"
    and la: "launch lib plat (sgo_enclave_path cfg) (start_tm_conn cfg) sy stream [b, as_bytes lvl] (c2\<lparr>cmd_fs := f3\<rparr>)
      = Some (Inr runner, c4)"
    by (auto simp: sgx_start_launch_def command_simps)
  from read_config_Inr [OF rd] obtain t f where t: "files (cmd_fs c) (case cp of Some p \<Rightarrow> p | None \<Rightarrow> ''tmkms.toml'') = Some t"
    "rl_toml_from_str lib t = Inr cfg" and f: "c1 = c\<lparr>cmd_fs := f\<rparr>" "files f = files (cmd_fs c)"
    and "no_spurious_not_found f"
    using assms(2) by (auto simp: no_spurious_not_found_def)
  with state_syncer_for_Inr [OF sy] sgx_syncer_new_state obtain g where
    st: "case files (cmd_fs c) (sgo_state_file_path cfg) of
         Some j \<Rightarrow> from_json (he_json (rl_host lib)) j = Inr st | None \<Rightarrow> st = initial_consensus_state"
    "sss_path sy = sgo_state_file_path cfg" and c2: "c2 = c\<lparr>cmd_fs := g\<rparr>"
    by fastforce
  obtain sealed sc kb where "rl_request_to_json lib (SgxStart sealed
      \<lparr>cfg_chain_id = sgo_chain_id cfg, cfg_max_height = sgo_max_height cfg\<rparr> sc st) = Inr b"
    "files f3 (sgo_sealed_consensus_key_path cfg) = Some kb" "rl_sealed_from_json lib kb = Inr sealed"
    by (rule get_start_request_bytes_Inr [OF rq]) blast
  then show ?thesis
    using t st runner_ok_request [OF assms(1)] la start
    by (intro exI [of _ t] exI [of _ cfg] exI [of _ st] exI [of _ b] exI [of _ sealed] exI [of _ sc] exI [of _ kb]
        exI [of _ sy] exI [of _ stream] exI [of _ "c2\<lparr>cmd_fs := f3\<rparr>"] exI [of _ c4] exI [of _ runner] conjI) simp_all
qed

text \<open>
  With a TCP address and no identity key in the configuration, \<open>start\<close> does not refuse: the request has no connection settings, the runner
  redirects nothing, and the enclave's connection attempts are plain TCP connections to a host called \<open>tendermint\<close>; the configured peer, host and port are not used.
\<close>

theorem sgx_tcp_without_id_key:
  assumes "runner_ok lib app" and "sgo_address cfg = Tcp peer host port" and "sgo_sealed_id_key_path cfg = None"
    and "get_start_request_bytes lib p vcfg st (start_remote cfg) f = (Inr b, f')"
  shows "(\<exists>sealed. sal_request_from_json app b = Inr (SgxStart sealed vcfg None st))
    \<and> start_tm_conn cfg = None
    \<and> sgx_connect_attempt (sal_sgx app)
        (runner_net uc \<lparr>init_stream = i, state_stream = s, tm_conn = start_tm_conn cfg\<rparr> net) None n
      = res_bind (tcp_connect net n ''tendermint'') (\<lambda>sck. Inr (BoxPlain (plain_new sck)))"
proof -
  have none: "start_tm_conn cfg = None" "start_remote cfg = None"
    using assms(2,3) by (simp_all add: start_tm_conn_def start_remote_def)
  obtain sealed where "rl_request_to_json lib (SgxStart sealed vcfg None st) = Inr b"
    by (rule get_start_request_bytes_Inr [OF assms(4)]) (use none(2) in auto)
  with runner_ok_request [OF assms(1)] none(1) show ?thesis
    by (auto simp: sgx_connect_attempt_def runner_net_def connect_stream_def)
qed

section \<open>A platform that runs the program, and concrete applications\<close>

definition app_platform ::
    "sgx_app_lib \<Rightarrow> 'x net \<Rightarrow> (nat \<Rightarrow> path \<Rightarrow> io_error + sock) \<Rightarrow> rng \<Rightarrow> sgx_platform" where
  "app_platform app net uc csprng =
     \<lparr>sp_state_pair = Inr (\<lparr>rx = [], wx = [], sent = []\<rparr>, \<lparr>rx = [], wx = [], sent = []\<rparr>),
      sp_init_pair = Inr (\<lparr>rx = [], wx = [], sent = []\<rparr>, \<lparr>rx = [], wx = [], sent = []\<rparr>),
      sp_device = Inr (), sp_signature = (\<lambda>_. Inr ()), sp_build = (\<lambda>_. Inr ()), sp_argv0 = [],
      sp_run = (\<lambda>runner args.
        case sgx_main app (runner_net uc runner net) csprng args of
          Some (SReturned r s) \<Rightarrow>
            (if sent s = [] then [] else [RData (sent s)],
             Some (Joined (case r of Inr _ \<Rightarrow> Inr () | Inl _ \<Rightarrow> Inl ''exit'')))
        | _ \<Rightarrow> ([], None))\<rparr>"

lemma app_platform_runs: "runs_app app net uc csprng (app_platform app net uc csprng)"
  by (auto simp: runs_app_def app_platform_def split: sum.splits)

lemma app_platform_responds:
  assumes "sal_request_from_json app b = Inr request" "answered request"
    and "app_reply (sal_sgx app) csprng request = Some resp" "sal_response_to_json app resp = Inr v" "length v \<le> 65535"
    and "rl_response_from_json lib v = Inr resp"
  shows "\<exists>signer. launch lib (app_platform app net uc csprng) ep tmc sy st [b, l] c
      = Some (Inr signer, c\<lparr>cmd_trace := cmd_trace c @ [sy]\<rparr>)
    \<and> get_init_response lib signer = Some (Inr resp)"
proof -
  let ?s = "\<lparr>rx = [], wx = [], sent = []\<rparr>"
  let ?r = "\<lparr>init_stream = ?s, state_stream = st, tm_conn = tmc\<rparr>"
  let ?sg = "\<lparr>stream_to_enclave = ?s\<lparr>rx := [RData (frame v)]\<rparr>, enclave_app_thread = Some (Joined (Inr ()))\<rparr>"
  have "send_response app resp ?s = (Inr (), ?s\<lparr>sent := frame v\<rparr>)"
    using assms(4,5) by (simp add: send_response_def write_u16_payload_ideal)
  with sgx_main_reply [OF _ assms(1,2), of "[]" uc ?r net csprng l] assms(3)
  have "sgx_main app (runner_net uc ?r net) csprng [b, l] = Some (SReturned (Inr ()) (?s\<lparr>sent := frame v\<rparr>))" by simp
  moreover have ne: "frame v \<noteq> []"
  proof -
    have "2 \<le> length (frame v)" by (simp add: frame_def)
    then show ?thesis by auto
  qed
  ultimately have l: "launch lib (app_platform app net uc csprng) ep tmc sy st [b, l] c
      = Some (Inr ?sg, c\<lparr>cmd_trace := cmd_trace c @ [sy]\<rparr>)"
    by (simp add: launch_Inr app_platform_def)
  obtain s' where "read_u16_payload (?s\<lparr>rx := [RData (frame v)]\<rparr>) = (Inr v, s')"
    using read_u16_payload_frame [of "?s\<lparr>rx := [RData (frame v)]\<rparr>" v "[]"] assms(5) ne by auto
  with assms(6) have "get_init_response lib ?sg = Some (Inr resp)" by (simp add: get_init_response_Inr)
  with l show ?thesis by blast
qed

text \<open>A coding by a table of one-byte codes.\<close>

definition enc_table :: "(u8 \<times> 'v) list \<Rightarrow> 'v \<Rightarrow> string + bytes" where
  "enc_table tbl x = (case List.find (\<lambda>e. snd e = x) tbl of Some e \<Rightarrow> Inr [fst e] | None \<Rightarrow> Inl ''unknown'')"

definition dec_table :: "(u8 \<times> 'v) list \<Rightarrow> bytes \<Rightarrow> string + 'v" where
  "dec_table tbl b =
     (case b of [k] \<Rightarrow> (case map_of tbl k of Some x \<Rightarrow> Inr x | None \<Rightarrow> Inl ''unknown'') | _ \<Rightarrow> Inl ''unknown'')"

lemma table_roundtrip:
  assumes "distinct (map fst tbl)" "enc_table tbl x = Inr b"
  shows "dec_table tbl b = Inr x"
proof -
  from assms(2) obtain e where e: "List.find (\<lambda>e. snd e = x) tbl = Some e" "b = [fst e]"
    by (auto simp: enc_table_def split: option.splits)
  then have "e \<in> set tbl" "snd e = x" by (auto simp: find_Some_iff)
  with assms(1) have "map_of tbl (fst e) = Some x" by (metis map_of_is_SomeI prod.collapse)
  with e show ?thesis by (simp add: dec_table_def)
qed

definition demo_zero :: bytes where
  "demo_zero = replicate 32 0"

definition demo_data :: cloud_backup_key_data where
  "demo_data = \<lparr>cbd_nonce = replicate 12 0, cbd_sealed_secret = [7, 7], cbd_public_key = [7]\<rparr>"

definition demo_start :: sgx_init_request where
  "demo_start = SgxStart (demo_seal [7] [7]) \<lparr>cfg_chain_id = ''testchain-1'', cfg_max_height = None\<rparr> None initial_consensus_state"

definition demo_requests :: "(u8 \<times> sgx_init_request) list" where
  "demo_requests = [(1, KeyGen None), (2, CloudRecover demo_backup demo_data), (3, demo_start)]"

definition demo_responses :: "(u8 \<times> sgx_init_response) list" where
  "demo_responses = [(1, GenOrRecover (demo_seal demo_zero demo_zero) None), (2, GenOrRecover (demo_seal [7] [7]) None)]"

definition demo_sealed :: "(u8 \<times> sealed_key_data) list" where
  "demo_sealed = [(1, demo_seal demo_zero demo_zero), (2, demo_seal [7] [7]), (3, demo_seal [5] [6])]"

definition demo_sgx_app :: sgx_app_lib where
  "demo_sgx_app = \<lparr>sal_sgx = demo_sgx, sal_response_to_json = enc_table demo_responses,
     sal_request_from_json = dec_table demo_requests, sal_state_json = demo_json, sal_error_display = (\<lambda>_. [])\<rparr>"

definition demo_runner :: runner_lib where
  "demo_runner =
     \<lparr>rl_toml_to_string = (\<lambda>_. Inr [9]), rl_toml_from_str = (\<lambda>_. Inr sgx_sign_opt_default),
      rl_sealed_to_json = enc_table demo_sealed, rl_sealed_from_json = dec_table demo_sealed,
      rl_backup_to_json = (\<lambda>_. Inl []), rl_backup_from_json = (\<lambda>_. Inr demo_data),
      rl_cloud_seal_from_json = (\<lambda>_. Inr (backup_key demo_backup)),
      rl_request_to_json = enc_table demo_requests, rl_response_from_json = dec_table demo_responses,
      rl_io_debug = (\<lambda>_. []), rl_error_debug = (\<lambda>_. []), rl_error_display = (\<lambda>_. []),
      rl_vk_try_from = Inr, rl_display = \<lparr>bech32_encode = (\<lambda>p b. p), base64_encode = (\<lambda>b. b), node_id = (\<lambda>_. Some [])\<rparr>,
      rl_dcap = None, rl_dcap_quote = (\<lambda>_. Inl []), rl_url_safe = (\<lambda>_. []), rl_pkcs1_pem = (\<lambda>_. Inl []),
      rl_claims = demo_sgx, rl_host = demo_env, rl_writes = (\<lambda>_. [])\<rparr>"

lemma demo_runner_ok: "runner_ok demo_runner demo_sgx_app"
proof -
  have "distinct (map fst demo_requests)" "distinct (map fst demo_responses)" "distinct (map fst demo_sealed)"
    by (simp_all add: demo_requests_def demo_responses_def demo_sealed_def)
  with demo_sgx_ok(1,2) show ?thesis
    by (auto simp: runner_ok_def demo_runner_def demo_sgx_app_def intro: table_roundtrip)
qed

lemma demo_seal_eq: "demo_seal a b = demo_seal a' b' \<Longrightarrow> b = b'"
  by (auto simp: demo_seal_def)

lemma demo_zero_ne: "demo_zero \<noteq> [x]"
proof
  assume "demo_zero = [x]"
  then have "length demo_zero = length [x]" by (rule arg_cong)
  then show False by (simp add: demo_zero_def)
qed

lemmas demo_zero_distinct [simp] = demo_zero_ne demo_zero_ne [symmetric]

lemma demo_sgx_app_simps [simp]:
  "sal_sgx demo_sgx_app = demo_sgx" "sal_response_to_json demo_sgx_app = enc_table demo_responses"
  "sal_request_from_json demo_sgx_app = dec_table demo_requests"
  by (simp_all add: demo_sgx_app_def)

lemma demo_tables [simp]:
  "enc_table demo_requests (KeyGen None) = Inr [1]" "dec_table demo_requests [1] = Inr (KeyGen None)"
  "enc_table demo_requests (CloudRecover demo_backup demo_data) = Inr [2]"
  "dec_table demo_requests [2] = Inr (CloudRecover demo_backup demo_data)"
  "enc_table demo_requests demo_start = Inr [3]" "dec_table demo_requests [3] = Inr demo_start"
  "enc_table demo_responses (GenOrRecover (demo_seal demo_zero demo_zero) None) = Inr [1]"
  "dec_table demo_responses [1] = Inr (GenOrRecover (demo_seal demo_zero demo_zero) None)"
  "enc_table demo_responses (GenOrRecover (demo_seal [7] [7]) None) = Inr [2]"
  "dec_table demo_responses [2] = Inr (GenOrRecover (demo_seal [7] [7]) None)"
  "enc_table demo_sealed (demo_seal demo_zero demo_zero) = Inr [1]"
  "dec_table demo_sealed [1] = Inr (demo_seal demo_zero demo_zero)"
  "enc_table demo_sealed (demo_seal [7] [7]) = Inr [2]" "dec_table demo_sealed [2] = Inr (demo_seal [7] [7])"
  "dec_table demo_sealed [3] = Inr (demo_seal [5] [6])"
  by (auto simp: enc_table_def dec_table_def demo_requests_def demo_responses_def demo_sealed_def demo_start_def
      dest: demo_seal_eq)

lemma demo_seal_key: "seal demo_sgx [] k = (Inr (demo_seal k k), [])"
  using demo_seal_payload [of k k] by (simp add: seal_def Let_def) (simp add: demo_sgx_def)

lemma demo_replies:
  "app_reply demo_sgx [] (KeyGen None) = Some (GenOrRecover (demo_seal demo_zero demo_zero) None)"
  "app_reply demo_sgx [] (CloudRecover demo_backup demo_data) = Some (GenOrRecover (demo_seal [7] [7]) None)"
proof -
  have "key_new demo_sgx (replicate 32 0) = demo_zero" by (simp add: demo_sgx_def demo_zero_def)
  then show "app_reply demo_sgx [] (KeyGen None) = Some (GenOrRecover (demo_seal demo_zero demo_zero) None)"
    by (simp add: keygen_reply_def fill_bytes_def demo_seal_key)
  have "aes256_gcm_siv_decrypt demo_sgx (replicate 32 8) (replicate 12 0) [7, 7] [7] = Some [7]"
    "key_try_from demo_sgx [7] = Some [7]"
    by (simp_all add: demo_sgx_def demo_dec_def)
  then show "app_reply demo_sgx [] (CloudRecover demo_backup demo_data) = Some (GenOrRecover (demo_seal [7] [7]) None)"
    by (simp add: reseal_recover_cloud_def demo_backup_key seal_recover_cloud_backup_def demo_data_def demo_seal_key)
qed

definition demo_state_bytes :: bytes where
  "demo_state_bytes = concat (map nib (demo_raw initial_consensus_state))"

lemma demo_state_bytes_ok:
  "utf8_valid demo_state_bytes" "from_json demo_json demo_state_bytes = Inr initial_consensus_state"
proof -
  have "to_json demo_json initial_consensus_state = Inr demo_state_bytes"
    by (simp add: demo_json_def demo_state_bytes_def)
  with demo_json_ok show "utf8_valid demo_state_bytes" "from_json demo_json demo_state_bytes = Inr initial_consensus_state"
    unfolding json_ok_def by blast+
qed

abbreviation demo_platform :: sgx_platform where
  "demo_platform \<equiv> app_platform demo_sgx_app demo_sgx_net (\<lambda>_ _. Inl (io_error_of NotFound)) []"

abbreviation demo_syncer :: sgx_state_syncer where
  "demo_syncer \<equiv> \<lparr>sss_path = ''state/priv_validator_state.json'', sss_stream = \<lparr>rx = [], wx = [], sent = []\<rparr>,
     sss_display = (\<lambda>_. [])\<rparr>"

lemma demo_syncer_for:
  assumes "files (cmd_fs c) ''state/priv_validator_state.json'' = Some demo_state_bytes" "faults (cmd_fs c) = []"
  shows "state_syncer_for demo_runner demo_platform ''state/priv_validator_state.json'' c
    = Some (Inr (demo_syncer, initial_consensus_state, \<lparr>rx = [], wx = [], sent = []\<rparr>), c)"
  using assms demo_state_bytes_ok
  by (simp add: state_syncer_for_def get_state_syncer_def app_platform_def sgx_syncer_new_def demo_runner_def
      fs_read_to_string_def fs_read_def next_fault_def demo_env_def)

lemma demo_generate:
  assumes "files (cmd_fs c) ''state/priv_validator_state.json'' = Some demo_state_bytes" "faults (cmd_fs c) = []"
    and "dec_table demo_requests b = Inr request" "answered request"
    and "app_reply demo_sgx [] request = Some (GenOrRecover sealed None)"
    and "enc_table demo_responses (GenOrRecover sealed None) = Inr [v]"
  shows "generate_sealed demo_runner demo_platform sgx_sign_opt_default what [b, l] c
    = Some (Inr (sealed, None), c\<lparr>cmd_trace := cmd_trace c @ [demo_syncer]\<rparr>)"
proof -
  have "rl_response_from_json demo_runner [v] = Inr (GenOrRecover sealed None)"
    using assms(6) runner_ok_response [OF demo_runner_ok] by simp
  then have "\<exists>signer. launch demo_runner demo_platform (sgo_enclave_path sgx_sign_opt_default) None demo_syncer
      \<lparr>rx = [], wx = [], sent = []\<rparr> [b, l] c = Some (Inr signer, c\<lparr>cmd_trace := cmd_trace c @ [demo_syncer]\<rparr>)
    \<and> get_init_response demo_runner signer = Some (Inr (GenOrRecover sealed None))"
    using assms(3-6) by (intro app_platform_responds [where v = "[v]"]) auto
  then obtain signer where "launch demo_runner demo_platform (sgo_enclave_path sgx_sign_opt_default) None demo_syncer
      \<lparr>rx = [], wx = [], sent = []\<rparr> [b, l] c = Some (Inr signer, c\<lparr>cmd_trace := cmd_trace c @ [demo_syncer]\<rparr>)"
    "get_init_response demo_runner signer = Some (Inr (GenOrRecover sealed None))"
    by blast
  then show ?thesis
    by (simp add: generate_sealed_def cbind_def demo_syncer_for [OF assms(1,2)] cwait_def cret_def get_gen_response_def)
qed

lemma demo_generates:
  assumes "files (cmd_fs c) ''state/priv_validator_state.json'' = Some demo_state_bytes" "faults (cmd_fs c) = []"
  shows "generate_sealed demo_runner demo_platform sgx_sign_opt_default what [[1], l] c
      = Some (Inr (demo_seal demo_zero demo_zero, None), c\<lparr>cmd_trace := cmd_trace c @ [demo_syncer]\<rparr>)"
    and "generate_sealed demo_runner demo_platform sgx_sign_opt_default what [[2], l] c
      = Some (Inr (demo_seal [7] [7], None), c\<lparr>cmd_trace := cmd_trace c @ [demo_syncer]\<rparr>)"
  using demo_generate [OF assms _ _ demo_replies(1), of "[1]" 1] demo_generate [OF assms _ _ demo_replies(2), of "[2]" 2]
  by simp_all

definition demo_console :: "(path \<Rightarrow> bytes option) \<Rightarrow> sgx_state_syncer console" where
  "demo_console m = \<lparr>cmd_fs = \<lparr>files = m(''state/priv_validator_state.json'' \<mapsto> demo_state_bytes), faults = []\<rparr>,
     cmd_out = [], cmd_trace = []\<rparr>"

lemma demo_runner_simps [simp]:
  "rl_request_to_json demo_runner = enc_table demo_requests" "rl_sealed_to_json demo_runner = enc_table demo_sealed"
  "rl_sealed_from_json demo_runner = dec_table demo_sealed" "rl_toml_to_string demo_runner c = Inr [9]"
  "rl_toml_from_str demo_runner b = Inr sgx_sign_opt_default" "rl_backup_from_json demo_runner b = Inr demo_data"
  "rl_cloud_seal_from_json demo_runner b = Inr (backup_key demo_backup)" "rl_vk_try_from demo_runner b = Inr b"
  "rl_writes demo_runner q = []" "rl_host demo_runner = demo_env"
  by (simp_all add: demo_runner_def)

lemmas demo_eval = cbind_def cret_def ctry_def cfs_def cwait_def cprint_pubkey_def create_dir_for_def path_exists_def
  cprintln_def fs_truncate_write_def fs_read_def fs_read_to_string_def next_fault_def write_json_file_def
  write_sealed_file_def write_backup_if_def request_to_bytes_def path_parent_def print_pubkey_def

lemma demo_init:
  "\<exists>c'. sgx_init demo_runner demo_platform demo_platform None (Some Bech32) None None None None ''info''
      (demo_console Map.empty) = Some (Inr (), c') \<and> faults (cmd_fs c') = []"
  by (simp add: sgx_init_def sgx_init_config_def sgx_init_keys_def demo_console_def demo_eval demo_generates Let_def)

lemma demo_tempfile_not_tmp [simp]: "\<not> tf_is_tmp (he_tempfile demo_env) p" "tempfile_ok (he_tempfile demo_env)"
  using demo_tempfile_ok by (simp_all add: demo_env_def demo_tempfile_def)

theorem sgx_init_keys_start_witness:
  "\<exists>c' sealed sealed_id.
     sgx_init demo_runner demo_platform demo_platform None (Some Bech32) None None None None ''info''
       (demo_console Map.empty) = Some (Inr (), c')
     \<and> get_start_request_bytes demo_runner ''secrets/secret.key'' \<lparr>cfg_chain_id = ''testchain-1'', cfg_max_height = None\<rparr>
         initial_consensus_state (Some (Tcp None ''validator'' 26659, ''secrets/id.key'')) (cmd_fs c')
       = (map_err (io_error_wrap ''failed to obtain the start request payload'')
           (rl_request_to_json demo_runner (SgxStart sealed \<lparr>cfg_chain_id = ''testchain-1'', cfg_max_height = None\<rparr>
             (Some \<lparr>rcc_peer_id = None, rcc_host = ''validator'', rcc_port = 26659, rcc_sealed_key = sealed_id\<rparr>)
             initial_consensus_state)), cmd_fs c')
     \<and> unseal demo_sgx sealed = Inr demo_zero"
proof -
  obtain c' where c': "sgx_init demo_runner demo_platform demo_platform None (Some Bech32) None None None None ''info''
      (demo_console Map.empty) = Some (Inr (), c')" "faults (cmd_fs c') = []"
    using demo_init by blast
  have "key_new demo_sgx (fst (fill_bytes 32 [])) = demo_zero" by (simp add: fill_bytes_def demo_sgx_def demo_zero_def)
  with sgx_init_keys_start [OF demo_runner_ok app_platform_runs app_platform_runs _ _ c',
      of "\<lparr>cfg_chain_id = ''testchain-1'', cfg_max_height = None\<rparr>" initial_consensus_state None "''validator''" 26659] c'(1)
  show ?thesis by auto
qed

definition demo_recover :: recover_config where
  "demo_recover = \<lparr>rcv_config_path = None, rcv_pubkey_display = None, rcv_bech32_prefix = None,
     rcv_wrap_backup_key_path = ''wrap'', rcv_external_cloud_key_path = ''external'', rcv_key_backup_data_path = [],
     rcv_recover_consensus_key = False\<rparr>"

abbreviation demo_recover_files :: "path \<Rightarrow> bytes option" where
  "demo_recover_files \<equiv> [''tmkms.toml'' \<mapsto> [9], ''wrap'' \<mapsto> [3], ''external'' \<mapsto> [4], ''consensus-key.backup'' \<mapsto> [65]]"

theorem sgx_recover_restores_consensus_backup_witness:
  "\<exists>c' sealed b. sgx_recover demo_runner demo_platform demo_recover ''info'' (demo_console demo_recover_files) = Some (Inr (), c')
     \<and> files (cmd_fs c') ''secrets/id.key'' = Some b \<and> rl_sealed_to_json demo_runner sealed = Inr b
     \<and> unseal demo_sgx sealed = Inr [7]"
proof -
  have ascii: "utf8_valid [65]" "utf8_valid [9]" by (auto intro!: utf8_valid_ascii)
  have bk: "\<lparr>sealed_rsa_key = demo_seal [5] [6], backup_key = backup_key demo_backup\<rparr> = demo_backup"
    by (simp add: demo_backup_def)
  obtain c' where c': "sgx_recover demo_runner demo_platform demo_recover ''info'' (demo_console demo_recover_files)
      = Some (Inr (), c')"
    by (simp add: sgx_recover_def read_config_def read_cloud_backup_def write_recovered_def demo_recover_def demo_console_def
        demo_eval demo_generates ascii path_join_def bk Let_def)
  have "cloud_backup demo_sgx [] demo_backup [7] = (Inr demo_data, [])"
    by (simp add: cloud_backup_def demo_backup_key fill_bytes_def demo_data_def) (simp add: demo_sgx_def demo_enc_def)
  then have cb: "cloud_backup (sal_sgx demo_sgx_app) [] demo_backup [7] = (Inr demo_data, [])" by simp
  have "\<exists>sealed b. files (cmd_fs c') (if rcv_recover_consensus_key demo_recover
         then sgo_sealed_consensus_key_path sgx_sign_opt_default else the (sgo_sealed_id_key_path sgx_sign_opt_default)) = Some b
      \<and> rl_sealed_to_json demo_runner sealed = Inr b \<and> unseal (sal_sgx demo_sgx_app) sealed = Inr [7]"
    by (rule sgx_recover_restores_consensus_backup [OF demo_runner_ok _ app_platform_runs _ c' _ _ _ _ _ _ _ _ cb,
          where t = "[9]" and ?b1.0 = "[3]" and ?b2.0 = "[4]" and ?b3.0 = "[65]"])
       (use demo_sgx_ok(3) in \<open>simp_all add: demo_recover_def demo_console_def path_join_def demo_backup_def\<close>)
  with c' show ?thesis by (auto simp: demo_recover_def)
qed

theorem sgx_start_resumes_state_witness:
  "\<exists>b sealed sc. sal_request_from_json demo_sgx_app b
     = Inr (SgxStart sealed \<lparr>cfg_chain_id = ''testchain-1'', cfg_max_height = None\<rparr> sc initial_consensus_state)"
proof -
  let ?plat = "demo_platform\<lparr>sp_run := \<lambda>_ _. ([], None)\<rparr>"
  let ?c = "demo_console [''tmkms.toml'' \<mapsto> [9], ''secrets/secret.key'' \<mapsto> [2]]"
  have ascii: "utf8_valid [9]" by (auto intro!: utf8_valid_ascii)
  have start: "enc_table demo_requests (SgxStart (demo_seal [7] [7]) \<lparr>cfg_chain_id = ''testchain-1'', cfg_max_height = None\<rparr>
      None initial_consensus_state) = Inr [3]"
    using demo_tables(5) by (simp only: demo_start_def)
  have "no_spurious_not_found (cmd_fs ?c)" by (simp add: demo_console_def no_spurious_not_found_def)
  moreover have "proceeds (sgx_start demo_runner ?plat None ''info'' ?c)"
    using demo_state_bytes_ok ascii
    by (simp add: proceeds_def sgx_start_def sgx_start_launch_def read_config_def demo_console_def demo_eval Let_def
        state_syncer_for_def get_state_syncer_def
        app_platform_def sgx_syncer_new_def demo_env_def get_start_request_bytes_def read_sealed_key_def start_remote_def
        start_tm_conn_def launch_def launch_enclave_app_def join_enclave_thread_def start cemit_def sgx_sign_opt_default_def)
  ultimately obtain cfg st b sealed sc t where "rl_toml_from_str demo_runner t = Inr cfg"
    "sal_request_from_json demo_sgx_app b
        = Inr (SgxStart sealed \<lparr>cfg_chain_id = sgo_chain_id cfg, cfg_max_height = sgo_max_height cfg\<rparr> sc st)"
    "case files (cmd_fs ?c) (sgo_state_file_path cfg) of
         Some j \<Rightarrow> from_json (he_json (rl_host demo_runner)) j = Inr st | None \<Rightarrow> st = initial_consensus_state"
    using sgx_start_resumes_state [OF demo_runner_ok, of ?c ?plat None "''info''"] by metis
  then show ?thesis
    using demo_state_bytes_ok by (auto simp: demo_console_def demo_env_def) (auto simp: sgx_sign_opt_default_def)
qed

definition demo_tcp_config :: sgx_sign_opt where
  "demo_tcp_config = sgx_sign_opt_default\<lparr>sgo_address := Tcp None ''validator'' 26659, sgo_sealed_id_key_path := None\<rparr>"

theorem sgx_tcp_without_id_key_witness:
  "(\<exists>sealed. sal_request_from_json demo_sgx_app [3]
     = Inr (SgxStart sealed \<lparr>cfg_chain_id = ''testchain-1'', cfg_max_height = None\<rparr> None initial_consensus_state))
   \<and> start_tm_conn demo_tcp_config = None"
proof -
  let ?f = "\<lparr>files = [''key'' \<mapsto> [2]], faults = []\<rparr>"
  have start: "enc_table demo_requests (SgxStart (demo_seal [7] [7]) \<lparr>cfg_chain_id = ''testchain-1'', cfg_max_height = None\<rparr>
      None initial_consensus_state) = Inr [3]"
    using demo_tables(5) by (simp only: demo_start_def)
  have rq: "get_start_request_bytes demo_runner ''key'' \<lparr>cfg_chain_id = ''testchain-1'', cfg_max_height = None\<rparr>
      initial_consensus_state (start_remote demo_tcp_config) ?f = (Inr [3], ?f)"
    by (simp add: get_start_request_bytes_def read_sealed_key_def fs_read_def next_fault_def start_remote_def start_tm_conn_def
        start demo_tcp_config_def)
  have cfg: "sgo_address demo_tcp_config = Tcp None ''validator'' 26659" "sgo_sealed_id_key_path demo_tcp_config = None"
    by (simp_all add: demo_tcp_config_def)
  from sgx_tcp_without_id_key [OF demo_runner_ok cfg rq] show ?thesis by blast
qed

end
