(* ===== verification/Sgx_Recovery.thy ===== *)
theory Sgx_Recovery
  imports Sgx_Runner_Props
begin

text \<open>
  The backup protocol between the SGX enclave, its host and a cloud provider, which \<open>test_recover_flow\<close> of
  \<open>providers/sgx/sgx-app/src/sgx_app.rs\<close> and \<open>test_cloud_reseal\<close> of \<open>providers/sgx/sgx-app/src/sgx_app/cloud.rs\<close> run once: the enclave generates a wrapping key, the provider
  wraps a backup key for it (\<open>get_wrapped_key\<close>), the enclave generates a validator key with a backup, and an enclave that was
  given the same backup key recovers it.  The two enclaves may run on different processors, with other sealing
  keys, which is what the backup is for.
\<close>

section \<open>The cloud provider\<close>

text \<open>
  RSA-OAEP encryption under a public key, with its random seed.  The two \<open>copy_from_slice\<close> and the \<open>expect\<close> panic on a ciphertext of
  another length and on a failed encryption.
\<close>

type_synonym oaep = "rsa_public_key \<Rightarrow> bytes \<Rightarrow> bytes \<Rightarrow> bytes option"

definition get_wrapped_key ::
    "oaep \<Rightarrow> aes256 \<Rightarrow> rng \<Rightarrow> rsa_public_key \<Rightarrow> (panic + cloud_backup_seal) \<times> rng" where
  "get_wrapped_key oaep aes csprng rsa_pub =
     (let (wrap_key1, csprng1) = fill_bytes 32 csprng;
          (wrap_key2, csprng2) = fill_bytes 32 csprng1;
          wrapped_key = aes256_wrap_key_with_pad aes wrap_key1 wrap_key2;
          (seed, csprng3) = fill_bytes 32 csprng2
      in (if length wrapped_key \<noteq> 40 then Inl (Panic ''copy_from_slice'')
          else case oaep rsa_pub seed wrap_key1 of
                 None \<Rightarrow> Inl (Panic ''failed to encrypt'')
               | Some enc_data \<Rightarrow>
                   if length enc_data \<noteq> 256 then Inl (Panic ''copy_from_slice'')
                   else Inr \<lparr>encrypted_symmetric_key = enc_data, wrapped_cloud_sealing_key = wrapped_key\<rparr>, csprng3))"

text \<open>
  What RSA is relied on for: decryption undoes the encryption of a 32-byte message under the public key, and the
  PKCS #1 form of a private key is read back.
\<close>

definition rsa_ok :: "oaep \<Rightarrow> sgx_lib \<Rightarrow> bool" where
  "rsa_ok oaep lib \<longleftrightarrow>
     (\<forall>priv seed m c. length m = 32 \<longrightarrow> oaep (rsa_public lib priv) seed m = Some c \<longrightarrow> rsa_oaep_decrypt lib priv c = Some m)
     \<and> (\<forall>priv der. rsa_to_pkcs1 lib priv = Some der \<longrightarrow> rsa_from_pkcs1 lib der = Some priv)"

text \<open>All that the protocol needs of the crates, on one processor.\<close>

definition crates_ok :: "oaep \<Rightarrow> sgx_lib \<Rightarrow> bool" where
  "crates_ok oaep lib \<longleftrightarrow>
     keys_ok lib \<and> aes_ok (aes_block lib) \<and> rsa_ok oaep lib
     \<and> aead_ok (aes128_gcm_siv_encrypt lib) (aes128_gcm_siv_decrypt lib)
     \<and> aead_ok (aes256_gcm_siv_encrypt lib) (aes256_gcm_siv_decrypt lib)"

text \<open>The same crates on a processor with other sealing keys and another security version.\<close>

definition on_cpu :: "(keyrequest \<Rightarrow> ErrorCode + bytes) \<Rightarrow> report \<Rightarrow> sgx_lib \<Rightarrow> sgx_lib" where
  "on_cpu sealing_keys rep lib = lib\<lparr>egetkey := sealing_keys, report_for_self := rep\<rparr>"

lemma crates_ok_on_cpu: "crates_ok oaep lib \<Longrightarrow> crates_ok oaep (on_cpu g rep lib)"
  by (simp add: crates_ok_def keys_ok_def rsa_ok_def on_cpu_def)

section \<open>Requests and the responses read by the host\<close>

text \<open>
  One request: the enclave's entry point runs on a fresh connection and returns, the host reads one payload from
  its end of the connection, in whatever chunks it arrives, and parses it.
\<close>

definition answers ::
    "runner_lib \<Rightarrow> sgx_app_lib \<Rightarrow> 'x net \<Rightarrow> rng \<Rightarrow> sgx_init_request \<Rightarrow> sgx_init_response \<Rightarrow> bool" where
  "answers lib app net csprng request resp \<longleftrightarrow>
     (\<exists>enclave_end enclave_end' host_end v s.
        sent enclave_end = [] \<and> sgx_entry app net csprng enclave_end request = Some (SReturned (Inr ()) enclave_end')
        \<and> connected enclave_end' host_end \<and> read_u16_payload host_end = (Inr v, s)
        \<and> rl_response_from_json lib v = Inr resp)"

lemma answers_reply:
  assumes "runner_ok lib app" "answered request" "answers lib app net csprng request resp"
  shows "app_reply (sal_sgx app) csprng request = Some resp"
proof -
  from assms(3) obtain e e' h v s where sent: "sent e = []"
    and entry: "sgx_entry app net csprng e request = Some (SReturned (Inr ()) e')"
    and h: "rx_clean (rx h)" "rx_bytes (rx h) = sent e'" and v: "read_u16_payload h = (Inr v, s)"
    "rl_response_from_json lib v = Inr resp"
    unfolding answers_def connected_def by blast
  have ne: "sent e' \<noteq> []" using read_u16_payload_Nil [of h] v(1) h rx_clean_Nil [of "rx h"] by auto
  show ?thesis
  proof (cases "app_reply (sal_sgx app) csprng request")
    case None
    with entry sent ne show ?thesis by (simp add: sgx_entry_reply [OF assms(2)])
  next
    case (Some resp')
    with entry have send: "send_response app resp' e = (Inr (), e')"
      by (simp add: sgx_entry_reply [OF assms(2)] split: prod.splits)
    with ne sent obtain b where b: "sal_response_to_json app resp' = Inr b"
      by (auto simp: send_response_def split: sum.splits)
    from send_response_Inr [OF send b] sent have "rx_bytes (rx h) = frame b @ []" "length b \<le> 65535"
      using h(2) by simp_all
    with v(1) read_u16_payload_frame [OF h(1)] have "v = b" by fastforce
    with v(2) runner_ok_response [OF assms(1) b] Some show ?thesis by simp
  qed
qed

lemma reply_answers:
  assumes "runner_ok lib app" "answered request" "app_reply (sal_sgx app) csprng request = Some resp"
    and "sal_response_to_json app resp = Inr v" "length v \<le> 65535"
  shows "answers lib app net csprng request resp"
proof -
  let ?e = "\<lparr>rx = [], wx = [], sent = []\<rparr>" and ?h = "\<lparr>rx = [RData (frame v)], wx = [], sent = []\<rparr>"
  have "frame v \<noteq> []" by (simp add: frame_def flip: length_greater_0_conv)
  then have c: "connected (?e\<lparr>sent := frame v\<rparr>) ?h" by (simp add: connected_def)
  then obtain s where "read_u16_payload ?h = (Inr v, s)"
    using read_u16_payload_frame [of ?h v "[]"] assms(5) by (auto simp: connected_def)
  moreover have "sgx_entry app net csprng ?e request = Some (SReturned (Inr ()) (?e\<lparr>sent := frame v\<rparr>))"
    using assms(3-5) by (simp add: sgx_entry_reply [OF assms(2)] send_response_def write_u16_payload_ideal)
  ultimately show ?thesis
    unfolding answers_def using c runner_ok_response [OF assms(1,4)] by (intro exI [of _ ?e] exI [of _ ?h] exI) auto
qed

section \<open>The backup key\<close>

lemma wrap_key_reply:
  assumes "app_reply lib csprng (GenWrapKey ti) = Some (WrapKey sealed pub rep)"
  shows "\<exists>ti' csprng'. generate_keypair lib csprng ti' = (Inr (pub, sealed, rep), csprng')"
  using assms by (auto split: prod.splits sum.splits)

lemma generate_keypair_Inr:
  assumes "generate_keypair lib csprng ti = (Inr (pub, sealed, rep), csprng')"
  obtains priv der result r where "pub = rsa_public lib priv" "rsa_to_pkcs1 lib priv = Some der"
    "seal_payload lib r der result result = (Inr sealed, csprng')"
  using assms by (auto simp: generate_keypair_def seal_secret_def Let_def split: prod.splits option.splits sum.splits)

text \<open>What the provider wrapped for the enclave's public key is what the enclave unwraps.\<close>

lemma backup_key_of_wrapped:
  assumes ok: "crates_ok oaep lib"
    and gen: "generate_keypair lib csprng ti = (Inr (pub, sealed, rep), csprng')"
    and wrap: "get_wrapped_key oaep (aes_block lib) (a # k # r) pub = (Inr bk, r')"
    and len: "length k = 32"
  shows "backup_key_of lib \<lparr>sealed_rsa_key = sealed, backup_key = bk\<rparr> = Inr k"
proof -
  obtain priv der result rr where pub: "pub = rsa_public lib priv" and der: "rsa_to_pkcs1 lib priv = Some der"
    and seal: "seal_payload lib rr der result result = (Inr sealed, csprng')"
    using generate_keypair_Inr [OF gen] .
  define k1 where "k1 = fst (fill_bytes 32 (a # k # r))"
  have k1: "length k1 = 32" by (simp add: k1_def fill_bytes_def)
  from wrap len pub obtain seed c where c: "oaep (rsa_public lib priv) seed k1 = Some c"
    and bk: "bk = \<lparr>encrypted_symmetric_key = c, wrapped_cloud_sealing_key = aes256_wrap_key_with_pad (aes_block lib) k1 k\<rparr>"
    by (auto simp: get_wrapped_key_def k1_def fill_bytes_def Let_def split: if_splits option.splits prod.splits)
  have "unseal_secret lib sealed = Inr der"
    using seal_payload_unseal_secret [OF _ _ seal] ok by (simp add: crates_ok_def)
  moreover have "rsa_from_pkcs1 lib der = Some priv" "rsa_oaep_decrypt lib priv c = Some k1"
    using ok der c k1 unfolding crates_ok_def rsa_ok_def by blast+
  moreover have "aes256_unwrap_key_with_pad (aes_block lib) k1 (aes256_wrap_key_with_pad (aes_block lib) k1 k) = Inr k"
    using ok k1 len by (intro unwrap_wrapped) (simp_all add: crates_ok_def)
  ultimately show ?thesis by (simp add: backup_key_of_def decrypt_wrapped_key_def bk)
qed

text \<open>A backup made under a backup key is resealed on every processor that was given the same key.\<close>

lemma cloud_backup_reseal_on_cpu:
  assumes "crates_ok oaep lib" "cloud_backup lib csprng cb keypair = (Inr d, csprng')"
    and "backup_key_of lib cb = Inr k" "backup_key_of (on_cpu g rep lib) cb' = Inr k"
  shows "reseal_recover_cloud (on_cpu g rep lib) r cb' d = st_map_err SealingError (seal (on_cpu g rep lib) r keypair)"
proof -
  from assms(2,3) obtain nonce ct
    where "aes256_gcm_siv_encrypt lib k nonce (key_bytes lib keypair) (key_verification lib keypair) = Some ct"
    and d: "d = \<lparr>cbd_nonce = nonce, cbd_sealed_secret = ct, cbd_public_key = key_verification lib keypair\<rparr>"
    by (auto simp: cloud_backup_def Let_def split: prod.splits option.splits)
  then have "aes256_gcm_siv_decrypt lib k nonce ct (key_verification lib keypair) = Some (key_bytes lib keypair)"
    using assms(1) unfolding crates_ok_def aead_ok_def by blast
  moreover have "key_try_from lib (key_bytes lib keypair) = Some keypair"
    using assms(1) by (simp add: crates_ok_def keys_ok_def)
  ultimately show ?thesis
    using assms(4) by (simp add: reseal_recover_cloud_def seal_recover_cloud_backup_def d on_cpu_def)
qed

lemma keygen_reply_backup:
  assumes "keygen_reply lib csprng (Some cb) = Some (GenOrRecover sealed data)" "backup_key_of lib cb = Inr k"
    and "\<And>n sk. length n = 12 \<Longrightarrow> aes256_gcm_siv_encrypt lib k n (key_bytes lib sk) (key_verification lib sk) \<noteq> None"
  obtains d kp r r' r'' r3 where "data = Some d" "cloud_backup lib r cb kp = (Inr d, r')" "seal lib r'' kp = (Inr sealed, r3)"
proof -
  obtain seed r where seed: "fill_bytes 32 csprng = (seed, r)" by fastforce
  obtain nonce r' where nonce: "fill_bytes 12 r = (nonce, r')" by fastforce
  then have "length nonce = 12" by (auto simp: fill_bytes_def split: list.splits)
  from assms(3) [OF this, of "key_new lib seed"] obtain d where d: "cloud_backup lib r cb (key_new lib seed) = (Inr d, r')"
    by (auto simp: cloud_backup_def assms(2) nonce)
  with assms(1) obtain r3 where "data = Some d" "seal lib r' (key_new lib seed) = (Inr sealed, r3)"
    by (auto simp: keygen_reply_def seed Let_def split: prod.splits sum.splits)
  with d show thesis using that by blast
qed

lemma seal_on_cpu_keyid:
  assumes "crates_ok oaep lib" "seal lib r keypair = (Inr sealed, r')"
  shows "unseal lib sealed = Inr keypair \<and> krw_keyid (seal_key_request sealed) = key_verification lib keypair"
  using seal_unseal [OF _ _ assms(2)] seal_payload_unseal_secret [of lib r] assms
  by (auto simp: crates_ok_def seal_def Let_def)

section \<open>Properties\<close>

text \<open>
  C11. The whole backup protocol, between two enclaves that may run on different processors.  The first one generates a
  wrapping key and then, with a backup key that the provider wrapped for it, a validator key; the second one generates a
  wrapping key of its own, for which the provider wraps the same backup key.  Then the first answer carries a backup, and
  recovering it in the second enclave does exactly what sealing the first enclave's key there does: every answer the host reads holds a
  sealed key that the second enclave unseals to the validator key of the first, under the same key identifier, and the
  host does read such an answer whenever sealing succeeds and the answer fits a frame.
\<close>

theorem relocated_backup_recovers:
  assumes crates: "crates_ok oaep lib"
    and apps: "sal_sgx app = lib" "sal_sgx app' = on_cpu g rep lib" "runner_ok host app" "runner_ok host app'"
    and encrypts: "\<And>n sk. length n = 12 \<Longrightarrow>
      aes256_gcm_siv_encrypt lib k n (key_bytes lib sk) (key_verification lib sk) \<noteq> None"
    and k: "length k = 32"
    and wrap: "answers host app net r1 (GenWrapKey ti) (WrapKey rsa pub rp)"
      "get_wrapped_key oaep (aes_block lib) (a # k # ra) pub = (Inr bk, ra')"
    and keygen: "answers host app net r2 (KeyGen (Some \<lparr>sealed_rsa_key = rsa, backup_key = bk\<rparr>)) (GenOrRecover sealed data)"
    and wrap': "answers host app' net' r3 (GenWrapKey ti') (WrapKey rsa' pub' rp')"
      "get_wrapped_key oaep (aes_block lib) (b # k # rb) pub' = (Inr bk', rb')"
  shows "\<exists>d keypair. data = Some d \<and> unseal lib sealed = Inr keypair
    \<and> (\<forall>r. reseal_recover_cloud (on_cpu g rep lib) r \<lparr>sealed_rsa_key = rsa', backup_key = bk'\<rparr> d
             = st_map_err SealingError (seal (on_cpu g rep lib) r keypair))
    \<and> (\<forall>r resp. answers host app' net' r (CloudRecover \<lparr>sealed_rsa_key = rsa', backup_key = bk'\<rparr> d) resp \<longrightarrow>
         (\<exists>sealed'. resp = GenOrRecover sealed' None \<and> unseal (on_cpu g rep lib) sealed' = Inr keypair
            \<and> krw_keyid (seal_key_request sealed') = krw_keyid (seal_key_request sealed)))
    \<and> (\<forall>r r' sealed' v. seal (on_cpu g rep lib) r keypair = (Inr sealed', r') \<longrightarrow>
         sal_response_to_json app' (GenOrRecover sealed' None) = Inr v \<longrightarrow> length v \<le> 65535 \<longrightarrow>
         answers host app' net' r (CloudRecover \<lparr>sealed_rsa_key = rsa', backup_key = bk'\<rparr> d) (GenOrRecover sealed' None))"
proof -
  let ?cb = "\<lparr>sealed_rsa_key = rsa, backup_key = bk\<rparr>" and ?cb' = "\<lparr>sealed_rsa_key = rsa', backup_key = bk'\<rparr>"
  let ?lib' = "on_cpu g rep lib"
  note crates' = crates_ok_on_cpu [OF crates, of g rep]
  note reply = answers_reply [OF apps(3), unfolded apps(1)] and reply' = answers_reply [OF apps(4), unfolded apps(2)]
  have kb: "backup_key_of lib ?cb = Inr k"
    using wrap_key_reply [OF reply [OF _ wrap(1)]] backup_key_of_wrapped [OF crates _ wrap(2) k] by auto
  have "aes_block ?lib' = aes_block lib" by (simp add: on_cpu_def)
  then have kb': "backup_key_of ?lib' ?cb' = Inr k"
    using wrap_key_reply [OF reply' [OF _ wrap'(1)]] backup_key_of_wrapped [OF crates' _ _ k] wrap'(2) by auto
  have "keygen_reply lib r2 (Some ?cb) = Some (GenOrRecover sealed data)" using reply [OF _ keygen] by simp
  then obtain d kp ra ra' rb rb' where d: "data = Some d" and backup: "cloud_backup lib ra ?cb kp = (Inr d, ra')"
    and seal: "seal lib rb kp = (Inr sealed, rb')"
    using keygen_reply_backup [OF _ kb encrypts] by metis
  note reseal = cloud_backup_reseal_on_cpu [OF crates backup kb kb']
  have "\<exists>sealed'. resp = GenOrRecover sealed' None \<and> unseal ?lib' sealed' = Inr kp
      \<and> krw_keyid (seal_key_request sealed') = krw_keyid (seal_key_request sealed)"
    if "answers host app' net' r (CloudRecover ?cb' d) resp" for r resp
  proof -
    from reply' [OF _ that] obtain sealed' r' where "resp = GenOrRecover sealed' None" "seal ?lib' r kp = (Inr sealed', r')"
      by (auto simp: reseal st_map_err_eq_Inr split: prod.splits sum.splits)
    with seal_on_cpu_keyid [OF crates seal] seal_on_cpu_keyid [OF crates'] show ?thesis by (auto simp: on_cpu_def)
  qed
  moreover have "answers host app' net' r (CloudRecover ?cb' d) (GenOrRecover sealed' None)"
    if "seal ?lib' r kp = (Inr sealed', r')" "sal_response_to_json app' (GenOrRecover sealed' None) = Inr v" "length v \<le> 65535"
    for r r' sealed' v
    using that by (intro reply_answers [OF apps(4)]) (simp_all add: apps(2) reseal)
  ultimately show ?thesis using d reseal seal_on_cpu_keyid [OF crates seal] by blast
qed

text \<open>Two processors and a provider, for the application.\<close>

definition demo_oaep :: oaep where
  "demo_oaep pub seed m = Some (m @ replicate 224 0)"

definition demo_cpu :: "keyrequest \<Rightarrow> ErrorCode + bytes" where
  "demo_cpu kr = Inr (0 # kr_keyid kr)"

abbreviation demo_sgx' :: sgx_lib where
  "demo_sgx' \<equiv> on_cpu demo_cpu (report_for_self demo_sgx) demo_sgx"

lemma demo_crates_ok: "crates_ok demo_oaep demo_sgx"
proof -
  have "rsa_ok demo_oaep demo_sgx" by (simp add: rsa_ok_def demo_oaep_def demo_sgx_def)
  moreover have "aes_ok (aes_block demo_sgx)" using demo_aes_ok by (simp add: demo_sgx_def)
  ultimately show ?thesis using demo_sgx_ok by (simp add: crates_ok_def)
qed

definition demo_wrap_key :: sgx_init_response where
  "demo_wrap_key = WrapKey (demo_seal demo_zero (replicate 32 9)) \<lparr>rsa_n = demo_zero, rsa_e = [1, 0, 1]\<rparr>
     \<lparr>rep_isvsvn = 1, rep_cpusvn = [2], rep_reportdata = copy_at (replicate 64 0) 0 (replicate 32 9)\<rparr>"

definition demo_recovery :: "(u8 \<times> sgx_init_response) list" where
  "demo_recovery = [(1, demo_wrap_key), (2, GenOrRecover (demo_seal demo_zero demo_zero)
      (Some \<lparr>cbd_nonce = replicate 12 0, cbd_sealed_secret = demo_zero @ demo_zero, cbd_public_key = demo_zero\<rparr>)),
     (3, GenOrRecover (demo_seal demo_zero demo_zero) None)]"

definition demo_host :: runner_lib where
  "demo_host = demo_runner\<lparr>rl_response_from_json := dec_table demo_recovery\<rparr>"

definition demo_enclave :: "sgx_lib \<Rightarrow> sgx_app_lib" where
  "demo_enclave lib = demo_sgx_app\<lparr>sal_sgx := lib, sal_response_to_json := enc_table demo_recovery\<rparr>"

lemma demo_host_ok:
  assumes "keys_ok lib" "aead_ok (aes128_gcm_siv_encrypt lib) (aes128_gcm_siv_decrypt lib)"
  shows "runner_ok demo_host (demo_enclave lib)"
proof -
  have "distinct (map fst demo_recovery)" by (simp add: demo_recovery_def)
  with assms demo_runner_ok show ?thesis
    by (auto simp: runner_ok_def demo_host_def demo_enclave_def intro: table_roundtrip)
qed

lemma demo_wrap_reply:
  "app_reply demo_sgx [] (GenWrapKey None) = Some demo_wrap_key"
  "app_reply demo_sgx' [] (GenWrapKey None) = Some demo_wrap_key"
  by (simp_all add: generate_keypair_def seal_secret_def seal_payload_def fill_bytes_def demo_sgx_def on_cpu_def demo_cpu_def
      demo_enc_def demo_seal_def key_request_wrap_from_def demo_wrap_key_def demo_zero_def Let_def)

abbreviation demo_cloud_seal :: cloud_backup_seal where
  "demo_cloud_seal \<equiv> \<lparr>encrypted_symmetric_key = replicate 32 1 @ replicate 224 0,
     wrapped_cloud_sealing_key = aes256_wrap_key_with_pad demo_aes (replicate 32 1) (replicate 32 8)\<rparr>"

abbreviation demo_cloud_key :: cloud_backup_key where
  "demo_cloud_key \<equiv> \<lparr>sealed_rsa_key = demo_seal demo_zero (replicate 32 9), backup_key = demo_cloud_seal\<rparr>"

abbreviation demo_cloud_data :: cloud_backup_key_data where
  "demo_cloud_data \<equiv> \<lparr>cbd_nonce = replicate 12 0, cbd_sealed_secret = demo_zero @ demo_zero, cbd_public_key = demo_zero\<rparr>"

lemma demo_wrapped:
  "get_wrapped_key demo_oaep (aes_block demo_sgx) [replicate 32 1, replicate 32 8] pub = (Inr demo_cloud_seal, [])"
proof -
  have "length (aes256_wrap_key_with_pad demo_aes (replicate 32 1) (replicate 32 8)) = 40"
    by (rule length_wrap) (simp_all add: demo_aes_ok)
  then show ?thesis by (simp add: get_wrapped_key_def fill_bytes_def demo_oaep_def demo_sgx_def)
qed

lemma demo_keygen_reply:
  "app_reply demo_sgx [] (KeyGen (Some demo_cloud_key)) = Some (GenOrRecover (demo_seal demo_zero demo_zero) (Some demo_cloud_data))"
proof -
  have "backup_key_of demo_sgx demo_cloud_key = Inr (replicate 32 8)"
    using wrap_key_reply [OF demo_wrap_reply(1) [unfolded demo_wrap_key_def]]
      backup_key_of_wrapped [OF demo_crates_ok _ demo_wrapped] by auto
  moreover have "key_new demo_sgx (replicate 32 0) = demo_zero" "key_verification demo_sgx demo_zero = demo_zero"
    "aes256_gcm_siv_encrypt demo_sgx k n (key_bytes demo_sgx demo_zero) demo_zero = Some (demo_zero @ demo_zero)" for k n
    by (simp_all add: demo_sgx_def demo_enc_def demo_zero_def)
  ultimately show ?thesis
    by (simp add: keygen_reply_def cloud_backup_def fill_bytes_def demo_seal_key)
qed

theorem relocated_backup_recovers_witness:
  "\<exists>sealed r. reseal_recover_cloud demo_sgx' [] demo_cloud_key demo_cloud_data = (Inr sealed, r)
     \<and> answers demo_host (demo_enclave demo_sgx') demo_sgx_net [] (CloudRecover demo_cloud_key demo_cloud_data) (GenOrRecover sealed None)
     \<and> unseal demo_sgx' sealed = unseal demo_sgx (demo_seal demo_zero demo_zero)"
proof -
  let ?sealed = "demo_seal demo_zero demo_zero"
  have ok: "runner_ok demo_host (demo_enclave demo_sgx)" "runner_ok demo_host (demo_enclave demo_sgx')"
    using demo_host_ok demo_crates_ok crates_ok_on_cpu [OF demo_crates_ok] by (auto simp: crates_ok_def)
  have codes: "enc_table demo_recovery demo_wrap_key = Inr [1]"
    "enc_table demo_recovery (GenOrRecover ?sealed (Some demo_cloud_data)) = Inr [2]"
    "enc_table demo_recovery (GenOrRecover ?sealed None) = Inr [3]"
    by (simp_all add: enc_table_def demo_recovery_def) (simp_all add: demo_wrap_key_def)
  note ask = reply_answers [OF ok(1), where net = demo_sgx_net, unfolded demo_enclave_def, simplified]
    and ask' = reply_answers [OF ok(2), where net = demo_sgx_net, unfolded demo_enclave_def, simplified]
  have a: "answers demo_host (demo_enclave demo_sgx) demo_sgx_net [] (GenWrapKey None) demo_wrap_key"
    "answers demo_host (demo_enclave demo_sgx') demo_sgx_net [] (GenWrapKey None) demo_wrap_key"
    "answers demo_host (demo_enclave demo_sgx) demo_sgx_net [] (KeyGen (Some demo_cloud_key))
       (GenOrRecover ?sealed (Some demo_cloud_data))"
    using codes demo_wrap_reply demo_keygen_reply unfolding demo_enclave_def
    by (auto intro!: ask ask' simp del: app_reply.simps)
  have enc: "aes256_gcm_siv_encrypt demo_sgx k n m v \<noteq> None" for k n m v by (simp add: demo_sgx_def demo_enc_def)
  have sals: "sal_sgx (demo_enclave demo_sgx) = demo_sgx" "sal_sgx (demo_enclave demo_sgx') = demo_sgx'"
    by (simp_all add: demo_enclave_def)
  have len: "length (replicate 32 (8 :: u8)) = 32" by simp
  note relocated = relocated_backup_recovers [OF demo_crates_ok sals ok enc len a(1) [unfolded demo_wrap_key_def] demo_wrapped a(3)
      a(2) [unfolded demo_wrap_key_def] demo_wrapped]
  obtain keypair where u: "unseal demo_sgx ?sealed = Inr keypair"
    and rs: "\<And>r. reseal_recover_cloud demo_sgx' r demo_cloud_key demo_cloud_data = st_map_err SealingError (seal demo_sgx' r keypair)"
    and read_back: "\<And>r r' sealed' v. seal demo_sgx' r keypair = (Inr sealed', r') \<Longrightarrow>
         sal_response_to_json (demo_enclave demo_sgx') (GenOrRecover sealed' None) = Inr v \<Longrightarrow> length v \<le> 65535 \<Longrightarrow>
         answers demo_host (demo_enclave demo_sgx') demo_sgx_net r (CloudRecover demo_cloud_key demo_cloud_data) (GenOrRecover sealed' None)"
    using relocated by blast
  have "keypair = demo_zero" using seal_unseal [OF demo_sgx_ok(1,2) demo_seal_key, of demo_zero] u by simp
  moreover have s: "seal demo_sgx' [] demo_zero = (Inr ?sealed, [])"
    by (simp add: seal_def seal_payload_def fill_bytes_def demo_sgx_def on_cpu_def demo_cpu_def demo_enc_def demo_seal_def
        key_request_wrap_from_def)
  ultimately show ?thesis
    using rs [of "[]"] read_back [OF s [folded \<open>keypair = demo_zero\<close>]] codes(3) u seal_unseal [OF _ _ s] crates_ok_on_cpu [OF demo_crates_ok]
    by (auto simp: demo_enclave_def crates_ok_def)
qed

end
