(* ===== verification/Keywrap_Rfc.thy ===== *)
theory Keywrap_Rfc
  imports Keywrap
begin

unbundle bit_operations_syntax

text \<open>
  The RFCs that \<open>providers/sgx/sgx-app/src/sgx_app/cloud/keywrap.rs\<close> cites, written down independently of its code, for every
  length of key: RFC 3394 unwrapping as a shift register over a list of eight-byte blocks (section 2.2.2, the
  first of its two formulations), and RFC 5649 unwrapping with its alternate initial value, length
  indicator and padding.  The code, which indexes one buffer and fixes the lengths, is shown to agree with
  them.
\<close>

section \<open>The reference\<close>

fun blocks8 :: "nat \<Rightarrow> bytes \<Rightarrow> bytes list" where
  "blocks8 0 xs = []"
| "blocks8 (Suc n) xs = take 8 xs # blocks8 n (drop 8 xs)"

definition rfc3394_step :: "aes256 \<Rightarrow> bytes \<Rightarrow> u64 \<times> bytes list \<Rightarrow> nat \<Rightarrow> u64 \<times> bytes list" where
  "rfc3394_step aes kek s t =
     (let block = decrypt_block aes kek (u64_to_be_bytes (fst s XOR word_of_nat t) @ last (snd s))
      in (u64_from_be_bytes (take 8 block), drop 8 block # butlast (snd s)))"

definition rfc3394_unwrap :: "aes256 \<Rightarrow> bytes \<Rightarrow> bytes \<Rightarrow> bytes \<times> bytes" where
  "rfc3394_unwrap aes kek input =
     (let n = length input div 8 - 1;
          s = foldl (rfc3394_step aes kek) (u64_from_be_bytes (take 8 input), blocks8 n (drop 8 input)) (rev [1..<6 * n + 1])
      in (u64_to_be_bytes (fst s), concat (snd s)))"

text \<open>
  RFC 5649, section 4.2: a ciphertext of two blocks is one AES block, a longer one is unwrapped by RFC 3394; then the
  initial value is checked (section 3: the constant, the length indicator within the last block, the padding of
  zeros) and the padding removed.
\<close>

definition rfc5649_unwrap :: "aes256 \<Rightarrow> bytes \<Rightarrow> bytes \<Rightarrow> bytes option" where
  "rfc5649_unwrap aes kek input =
     (if length input mod 8 \<noteq> 0 \<or> length input < 16 then None
      else let n = length input div 8 - 1;
               ap = (if n = 1 then let block = decrypt_block aes kek input in (take 8 block, drop 8 block)
                     else rfc3394_unwrap aes kek input);
               mli = of_be_bytes (drop 4 (fst ap));
               padding = drop mli (snd ap)
           in if take 4 (fst ap) = [0xa6, 0x59, 0x59, 0xa6] \<and> 8 * (n - 1) < mli \<and> mli \<le> 8 * n
                 \<and> padding = replicate (length padding) 0
              then Some (take mli (snd ap)) else None)"

section \<open>A buffer indexed in place and a shift register\<close>

lemma drop_copy_at_blocks:
  assumes "length b0 = 8" "length b1 = 8" "length b2 = 8" "length b3 = 8"
  shows "take 8 (drop (3 * 8) (b0 @ b1 @ b2 @ b3)) = b3" "take 8 (drop (2 * 8) (b0 @ b1 @ b2 @ b3)) = b2"
    "take 8 (drop (1 * 8) (b0 @ b1 @ b2 @ b3)) = b1" "take 8 (drop (0 * 8) (b0 @ b1 @ b2 @ b3)) = b0"
    "length x = 8 \<Longrightarrow> copy_at (b0 @ b1 @ b2 @ b3) (3 * 8) x = b0 @ b1 @ b2 @ x"
    "length x = 8 \<Longrightarrow> copy_at (b0 @ b1 @ b2 @ b3) (2 * 8) x = b0 @ b1 @ x @ b3"
    "length x = 8 \<Longrightarrow> copy_at (b0 @ b1 @ b2 @ b3) (1 * 8) x = b0 @ x @ b2 @ b3"
    "length x = 8 \<Longrightarrow> copy_at (b0 @ b1 @ b2 @ b3) (0 * 8) x = x @ b1 @ b2 @ b3"
  using assms by (simp_all add: copy_at_def)

text \<open>The two block steps and the block they write.\<close>

definition out_block :: "aes256 \<Rightarrow> bytes \<Rightarrow> u64 \<Rightarrow> nat \<Rightarrow> bytes \<Rightarrow> bytes" where
  "out_block aes kek a t b = decrypt_block aes kek (u64_to_be_bytes (a XOR word_of_nat t) @ b)"

lemma length_out_block:
  assumes "aes_ok aes" "length kek = 32" "length b = 8"
  shows "length (out_block aes kek a t b) = 16"
  using aes_ok_D(2) [OF assms(1,2)] assms(3) by (simp add: out_block_def)

lemma unwrap_round:
  assumes "aes_ok aes" "length kek = 32" "length bs = 4" "\<forall>b \<in> set bs. length b = 8"
  obtains a' bs' where "foldl (rfc3394_step aes kek) (a, bs) [t + 4, t + 3, t + 2, t + 1] = (a', bs')"
    "foldl (unwrap_step aes kek) (a, concat bs) [(t + 4, 3), (t + 3, 2), (t + 2, 1), (t + 1, 0)] = (a', concat bs')"
    "length bs' = 4" "\<forall>b \<in> set bs'. length b = 8"
proof -
  from assms(3) obtain b0 b1 b2 b3 where bs: "bs = [b0, b1, b2, b3]"
    by (auto simp: numeral_eq_Suc length_Suc_conv)
  with assms(4) have b: "length b0 = 8" "length b1 = 8" "length b2 = 8" "length b3 = 8" by simp_all
  define x3 where "x3 = out_block aes kek a (t + 4) b3"
  define a3 where "a3 = u64_from_be_bytes (take 8 x3)"
  define x2 where "x2 = out_block aes kek a3 (t + 3) b2"
  define a2 where "a2 = u64_from_be_bytes (take 8 x2)"
  define x1 where "x1 = out_block aes kek a2 (t + 2) b1"
  define a1 where "a1 = u64_from_be_bytes (take 8 x1)"
  define x0 where "x0 = out_block aes kek a1 (t + 1) b0"
  note defs = x3_def a3_def x2_def a2_def x1_def a1_def x0_def
  have step: "rfc3394_step aes kek (a, cs) t'
      = (u64_from_be_bytes (take 8 (out_block aes kek a t' (last cs))), drop 8 (out_block aes kek a t' (last cs)) # butlast cs)"
    for a cs t' by (simp add: rfc3394_step_def out_block_def Let_def)
  have step': "unwrap_step aes kek (a, R) (t', i)
      = (u64_from_be_bytes (take 8 (out_block aes kek a t' (take 8 (drop (i * 8) R)))),
         copy_at R (i * 8) (drop 8 (out_block aes kek a t' (take 8 (drop (i * 8) R)))))"
    for a R t' i by (simp add: unwrap_step_def out_block_def Let_def)
  have x: "length (drop 8 x3) = 8" "length (drop 8 x2) = 8" "length (drop 8 x1) = 8" "length (drop 8 x0) = 8"
    using length_out_block [OF assms(1,2)] b by (simp_all add: defs)
  note d = drop_copy_at_blocks
  have "unwrap_step aes kek (a, b0 @ b1 @ b2 @ b3) (t + 4, 3) = (a3, b0 @ b1 @ b2 @ drop 8 x3)"
    unfolding step' d(1) [OF b] x3_def [symmetric] a3_def d(5) [OF b x(1)] ..
  moreover have "unwrap_step aes kek (a3, b0 @ b1 @ b2 @ drop 8 x3) (t + 3, 2) = (a2, b0 @ b1 @ drop 8 x2 @ drop 8 x3)"
    unfolding step' d(2) [OF b(1-3) x(1)] x2_def [symmetric] a2_def d(6) [OF b(1-3) x(1) x(2)] ..
  moreover have "unwrap_step aes kek (a2, b0 @ b1 @ drop 8 x2 @ drop 8 x3) (t + 2, 1)
      = (a1, b0 @ drop 8 x1 @ drop 8 x2 @ drop 8 x3)"
    unfolding step' d(3) [OF b(1,2) x(2,1)] x1_def [symmetric] a1_def d(7) [OF b(1,2) x(2,1,3)] ..
  moreover have "unwrap_step aes kek (a1, b0 @ drop 8 x1 @ drop 8 x2 @ drop 8 x3) (t + 1, 0)
      = (u64_from_be_bytes (take 8 x0), drop 8 x0 @ drop 8 x1 @ drop 8 x2 @ drop 8 x3)"
    unfolding step' d(4) [OF b(1) x(3,2,1)] x0_def [symmetric] d(8) [OF b(1) x(3,2,1,4)] ..
  ultimately have code: "foldl (unwrap_step aes kek) (a, concat bs) [(t + 4, 3), (t + 3, 2), (t + 2, 1), (t + 1, 0)]
      = (u64_from_be_bytes (take 8 x0), concat [drop 8 x0, drop 8 x1, drop 8 x2, drop 8 x3])"
    by (simp add: bs)
  have "rfc3394_step aes kek (a, [b0, b1, b2, b3]) (t + 4) = (a3, [drop 8 x3, b0, b1, b2])"
    "rfc3394_step aes kek (a3, [drop 8 x3, b0, b1, b2]) (t + 3) = (a2, [drop 8 x2, drop 8 x3, b0, b1])"
    "rfc3394_step aes kek (a2, [drop 8 x2, drop 8 x3, b0, b1]) (t + 2) = (a1, [drop 8 x1, drop 8 x2, drop 8 x3, b0])"
    "rfc3394_step aes kek (a1, [drop 8 x1, drop 8 x2, drop 8 x3, b0]) (t + 1)
      = (u64_from_be_bytes (take 8 x0), [drop 8 x0, drop 8 x1, drop 8 x2, drop 8 x3])"
    unfolding step by (simp_all del: add_2_eq_Suc' add_Suc_right One_nat_def flip: x3_def x2_def x1_def x0_def a3_def a2_def a1_def)
  then have rfc: "foldl (rfc3394_step aes kek) (a, bs) [t + 4, t + 3, t + 2, t + 1]
      = (u64_from_be_bytes (take 8 x0), [drop 8 x0, drop 8 x1, drop 8 x2, drop 8 x3])"
    by (simp add: bs)
  show thesis by (rule that [OF rfc code]) (use x in simp_all)
qed

text \<open>Any number of rounds.\<close>

lemma unwrap_rounds:
  assumes "aes_ok aes" "length kek = 32" "length bs = 4" "\<forall>b \<in> set bs. length b = 8"
  shows "\<exists>a' bs'. foldl (rfc3394_step aes kek) (a, bs) (concat (map (\<lambda>t. [t + 4, t + 3, t + 2, t + 1]) ts)) = (a', bs')
    \<and> foldl (unwrap_step aes kek) (a, concat bs) (concat (map (\<lambda>t. [(t + 4, 3), (t + 3, 2), (t + 2, 1), (t + 1, 0)]) ts))
        = (a', concat bs')
    \<and> length bs' = 4 \<and> (\<forall>b \<in> set bs'. length b = 8)"
  using assms(3,4)
proof (induction ts arbitrary: a bs)
  case (Cons t ts)
  obtain a' bs' where r: "foldl (rfc3394_step aes kek) (a, bs) [t + 4, t + 3, t + 2, t + 1] = (a', bs')"
    "foldl (unwrap_step aes kek) (a, concat bs) [(t + 4, 3), (t + 3, 2), (t + 2, 1), (t + 1, 0)] = (a', concat bs')"
    "length bs' = 4" "\<forall>b \<in> set bs'. length b = 8"
    using unwrap_round [OF assms(1,2) Cons.prems] .
  show ?case
    using Cons.IH [OF r(3,4), of a'] unfolding list.map(2) concat.simps(2) foldl_append r(1,2) .
qed simp

lemma concat_blocks8: "length xs = 8 * n \<Longrightarrow> concat (blocks8 n xs) = xs"
  by (induction n xs rule: blocks8.induct) simp_all

lemma blocks8_lengths: "length xs = 8 * n \<Longrightarrow> length (blocks8 n xs) = n \<and> (\<forall>b \<in> set (blocks8 n xs). length b = 8)"
  by (induction n xs rule: blocks8.induct) simp_all

lemma rfc3394_unwrap_code:
  assumes "aes_ok aes" "length kek = 32" "length wrapped = 40"
  obtains a bs where "rfc3394_unwrap aes kek wrapped = (u64_to_be_bytes a, concat bs)"
    "aes256_unwrap_key_and_iv aes kek wrapped = (concat bs, u64_to_be_bytes a)"
    "length (concat bs) = 32"
proof -
  let ?ts = "[20, 16, 12, 8, 4, 0 :: nat]"
  have n: "length wrapped div 8 - 1 = 4" using assms(3) by simp
  have len: "length (drop 8 wrapped) = 8 * 4" using assms(3) by simp
  have ts: "rev [1..<6 * 4 + 1] = concat (map (\<lambda>t. [t + 4, t + 3, t + 2, t + 1]) ?ts)"
    by (simp add: upt_rec numeral_eq_Suc)
  have st: "rev steps = concat (map (\<lambda>t. [(t + 4, 3), (t + 3, 2), (t + 2, 1), (t + 1, 0)]) ?ts)"
    by (simp add: steps_def upt_rec numeral_eq_Suc)
  obtain a bs where r: "foldl (rfc3394_step aes kek) (u64_from_be_bytes (take 8 wrapped), blocks8 4 (drop 8 wrapped))
        (rev [1..<6 * 4 + 1]) = (a, bs)"
    "foldl (unwrap_step aes kek) (u64_from_be_bytes (take 8 wrapped), drop 8 wrapped) (rev steps) = (a, concat bs)"
    "length bs = 4" "\<forall>b \<in> set bs. length b = 8"
    using unwrap_rounds [OF assms(1,2) conjunct1 [OF blocks8_lengths [OF len]] conjunct2 [OF blocks8_lengths [OF len]],
        of "u64_from_be_bytes (take 8 wrapped)" ?ts]
    unfolding ts [symmetric] st [symmetric] concat_blocks8 [OF len] by blast
  have "rfc3394_unwrap aes kek wrapped = (u64_to_be_bytes a, concat bs)"
    unfolding rfc3394_unwrap_def Let_def n r(1) by simp
  moreover have "aes256_unwrap_key_and_iv aes kek wrapped = (concat bs, u64_to_be_bytes a)"
    unfolding unwrap_key_and_iv_steps [OF assms(3)] Let_def r(2) by simp
  moreover have "sum_list (map length bs) = sum_list (map (\<lambda>_. 8) bs)"
    using r(4) by (intro arg_cong [of _ _ sum_list] map_cong) simp_all
  then have "length (concat bs) = 32" unfolding length_concat sum_list_triv using r(3) by simp
  ultimately show thesis by (rule that)
qed

lemma iv_is_length_32:
  assumes "length iv = 8"
  shows "IV_5649 = iv \<longleftrightarrow> take 4 iv = [0xa6, 0x59, 0x59, 0xa6] \<and> of_be_bytes (drop 4 iv) = 32"
proof -
  have "of_be_bytes (drop 4 iv) = 32 \<longleftrightarrow> drop 4 iv = [0, 0, 0, 32]"
  proof
    assume e: "of_be_bytes (drop 4 iv) = 32"
    have "be_bytes 4 (of_be_bytes (drop 4 iv)) = drop 4 iv" using assms by (simp add: byte_simps)
    moreover have "4 = Suc (Suc (Suc (Suc 0)))" by simp
    then have "be_bytes 4 32 = [0, 0, 0, 32]" unfolding be_bytes_def by (simp only: le_bytes.simps) simp
    ultimately show "drop 4 iv = [0, 0, 0, 32]" using e by simp
  qed (simp add: of_be_bytes_def)
  moreover have "[0xa6, 0x59, 0x59, 0xa6] @ [0, 0, 0, 32] = iv
      \<longleftrightarrow> [0xa6, 0x59, 0x59, 0xa6] = take 4 iv \<and> [0, 0, 0, 32] = drop 4 iv"
    unfolding append_eq_conv_conj by (simp flip: numeral_eq_Suc) (simp add: numeral_eq_Suc)
  then have "IV_5649 = iv \<longleftrightarrow> take 4 iv = [0xa6, 0x59, 0x59, 0xa6] \<and> drop 4 iv = [0, 0, 0, 32]"
    unfolding IV_5649_def append_Cons append_Nil by (simp only: eq_commute)
  ultimately show ?thesis by blast
qed

section \<open>Properties\<close>

text \<open>
  C12. \<open>aes256_unwrap_key_with_pad\<close> is RFC 5649 unwrapping cut down to 32-byte keys: wherever it does not
  refuse the lengths, it returns a key exactly when the RFC's unwrapping returns that key and the key has 32 bytes,
  and \<open>AuthFailed\<close> otherwise (a key of 25 to 31 bytes, which the RFC pads to the same 40 bytes, is refused).
\<close>

theorem unwrap_is_rfc5649:
  assumes "aes_ok aes"
  shows "aes256_unwrap_key_with_pad aes kek wrapped
    = (if length kek \<noteq> 32 \<or> length wrapped \<noteq> 40 then Inl IncorrectLength
       else case rfc5649_unwrap aes kek wrapped of
              Some key \<Rightarrow> if length key = 32 then Inr key else Inl AuthFailed
            | None \<Rightarrow> Inl AuthFailed)"
proof (cases "length kek \<noteq> 32 \<or> length wrapped \<noteq> 40")
  case True
  then show ?thesis by (simp add: aes256_unwrap_key_with_pad_def)
next
  case False
  then have len: "length kek = 32" "length wrapped = 40" by simp_all
  obtain a bs where r: "rfc3394_unwrap aes kek wrapped = (u64_to_be_bytes a, concat bs)"
    "aes256_unwrap_key_and_iv aes kek wrapped = (concat bs, u64_to_be_bytes a)" "length (concat bs) = 32"
    using rfc3394_unwrap_code [OF assms len] .
  define mli where "mli = of_be_bytes (drop 4 (u64_to_be_bytes a))"
  note iv = iv_is_length_32 [of "u64_to_be_bytes a", folded mli_def]
  have ref: "rfc5649_unwrap aes kek wrapped
      = (if take 4 (u64_to_be_bytes a) = [0xa6, 0x59, 0x59, 0xa6] \<and> 24 < mli \<and> mli \<le> 32
            \<and> drop mli (concat bs) = replicate (length (drop mli (concat bs))) 0
         then Some (take mli (concat bs)) else None)"
    unfolding rfc5649_unwrap_def r(1) Let_def using len(2) by (simp add: mli_def)
  have "aes256_unwrap_key_with_pad aes kek wrapped
      = (if take 4 (u64_to_be_bytes a) = [0xa6, 0x59, 0x59, 0xa6] \<and> mli = 32 then Inr (concat bs) else Inl AuthFailed)"
    using len iv by (simp add: aes256_unwrap_key_with_pad_def r(2))
  then show ?thesis
    using len r(3) unfolding ref by auto
qed

theorem unwrap_is_rfc5649_witness:
  "rfc5649_unwrap demo_aes (replicate 32 1) (aes256_wrap_key_with_pad demo_aes (replicate 32 1) (replicate 32 7))
     = Some (replicate 32 7)"
proof -
  let ?w = "aes256_wrap_key_with_pad demo_aes (replicate 32 1) (replicate 32 7)"
  have "aes256_unwrap_key_with_pad demo_aes (replicate 32 1) ?w = Inr (replicate 32 7)"
    by (rule unwrap_wrapped) (simp_all add: demo_aes_ok)
  then show ?thesis
    using unwrap_is_rfc5649 [OF demo_aes_ok, of "replicate 32 1" ?w]
    by (simp split: if_splits option.splits)
qed

end
