(* ===== verification/Proxy_Link.thy ===== *)
theory Proxy_Link
  imports Std_IO
begin

text \<open>
  \<open>providers/nitro/nitro-helper/src/proxy.rs\<close>: the proxy between the enclave's vsock and the validator's Unix socket.  The answers of
  \<open>select\<close> are a list.  Over sockets that accept everything the proxy moves the bytes of both directions
  unchanged and in order; where a write fails, the code can overlook it.
\<close>

section \<open>The code\<close>

record proxy =
  px_local_port :: u32
  px_remote_addr :: path

definition proxy_new :: "u32 \<Rightarrow> path \<Rightarrow> proxy" where
  "proxy_new local_port remote_addr = \<lparr>px_local_port = local_port, px_remote_addr = remote_addr\<rparr>"

text \<open>Whether the source is finished or the write failed, then the source and the destination.\<close>

definition transfer :: "sock \<Rightarrow> sock \<Rightarrow> bool \<times> sock \<times> sock" where
  "transfer src dst =
     (case sock_read 8192 src of
        (r, src') \<Rightarrow>
          (let buffer = (case r of Inr bs \<Rightarrow> bs | Inl _ \<Rightarrow> []) in
           if length buffer = 0 then (True, src', dst)
           else (case sock_write_all buffer dst of
                   (Inl _, dst') \<Rightarrow> (True, src', dst')
                 | (Inr _, dst') \<Rightarrow> (False, src', dst'))))"

text \<open>
  One round of the loop: \<open>select\<close> says which of client and server can be read; the result is
  \<open>disconnected\<close>, the client and the server.
\<close>

definition proxy_round :: "bool \<Rightarrow> bool \<Rightarrow> sock \<Rightarrow> sock \<Rightarrow> bool \<times> sock \<times> sock" where
  "proxy_round client_ready server_ready client server =
     (let (d1, client1, server1) = (if client_ready then transfer client server else (False, client, server));
          (d2, server2, client2) = (if server_ready then transfer server1 client1 else (d1, server1, client1))
      in (d2, client2, server2))"

datatype proxy_end = ProxyWaiting | ProxyDisconnected | ProxyPanic

fun proxy_loop :: "(bool \<times> bool) option list \<Rightarrow> sock \<Rightarrow> sock \<Rightarrow> proxy_end \<times> sock \<times> sock" where
  "proxy_loop [] client server = (ProxyWaiting, client, server)"
| "proxy_loop (None # rs) client server = (ProxyPanic, client, server)"
| "proxy_loop (Some (cr, sr) # rs) client server =
     (case proxy_round cr sr client server of
        (d, client', server') \<Rightarrow>
          if d then (ProxyDisconnected, client', server') else proxy_loop rs client' server')"

definition proxy_sock_accept ::
    "proxy \<Rightarrow> io_error + sock \<Rightarrow> (path \<Rightarrow> io_error + sock) \<Rightarrow> (path \<Rightarrow> string) \<Rightarrow> (bool \<times> bool) option list
      \<Rightarrow> string + proxy_end \<times> sock \<times> sock" where
  "proxy_sock_accept self accepted uds_connect debug selects =
     (case accepted of
        Inl _ \<Rightarrow> Inl ''Could not accept connection''
      | Inr client \<Rightarrow>
          (case uds_connect (px_remote_addr self) of
             Inl _ \<Rightarrow> Inl (''Could not connect to '' @ debug (px_remote_addr self))
           | Inr server \<Rightarrow> Inr (proxy_loop selects client server)))"

text \<open>
  \<open>sock_listen\<close>, and the loop of \<open>launch_proxy\<close>: each element of the list is what one round meets (the outcome of \<open>bind\<close>, the accepted connection, the connection
  to the validator, the answers of \<open>select\<close>); the result is the links that were served with their ends, and whether the thread still lives.
\<close>

definition proxy_sock_listen :: "proxy \<Rightarrow> (u32 \<Rightarrow> string) \<Rightarrow> io_error + unit \<Rightarrow> string + unit" where
  "proxy_sock_listen self addr_debug bound = map_err (\<lambda>_. ''Could not bind to '' @ addr_debug (px_local_port self)) bound"

record proxy_round_env =
  pr_bound :: "io_error + unit"
  pr_accepted :: "io_error + sock"
  pr_connect :: "path \<Rightarrow> io_error + sock"
  pr_selects :: "(bool \<times> bool) option list"

fun launch_proxy ::
    "proxy \<Rightarrow> (u32 \<Rightarrow> string) \<Rightarrow> (path \<Rightarrow> string) \<Rightarrow> proxy_round_env list \<Rightarrow> (proxy_end \<times> sock \<times> sock) list \<times> bool" where
  "launch_proxy self addr_debug path_debug [] = ([], True)"
| "launch_proxy self addr_debug path_debug (r # rs) =
     (case proxy_sock_listen self addr_debug (pr_bound r) of
        Inl _ \<Rightarrow> launch_proxy self addr_debug path_debug rs
      | Inr _ \<Rightarrow>
          (case proxy_sock_accept self (pr_accepted r) (pr_connect r) path_debug (pr_selects r) of
             Inl _ \<Rightarrow> launch_proxy self addr_debug path_debug rs
           | Inr (ProxyPanic, link) \<Rightarrow> ([(ProxyPanic, link)], False)
           | Inr (ProxyWaiting, link) \<Rightarrow> ([(ProxyWaiting, link)], True)
           | Inr (ProxyDisconnected, link) \<Rightarrow>
               (case launch_proxy self addr_debug path_debug rs of
                  (links, alive) \<Rightarrow> ((ProxyDisconnected, link) # links, alive))))"

section \<open>What is moved\<close>

lemma sock_read_bytes:
  assumes "sock_read n s = (r, s')"
  shows "rx_bytes (rx s) = (case r of Inr bs \<Rightarrow> bs | Inl _ \<Rightarrow> []) @ rx_bytes (rx s')
    \<and> sent s' = sent s \<and> wx s' = wx s"
proof (cases "rx s")
  case (Cons ev es)
  with assms show ?thesis by (cases ev) (auto simp: sock_read_def split: if_splits)
qed (use assms in \<open>auto simp: sock_read_def\<close>)

text \<open>\<open>moved a b a' b'\<close>: some bytes left the input of \<open>a\<close> and were appended to the output of \<open>b\<close>.\<close>

definition moved :: "sock \<Rightarrow> sock \<Rightarrow> sock \<Rightarrow> sock \<Rightarrow> bool" where
  "moved a b a' b' \<longleftrightarrow> (\<exists>xs. rx_bytes (rx a) = xs @ rx_bytes (rx a') \<and> sent b' = sent b @ xs)"

lemma moved_refl: "moved a b a b"
  by (auto simp: moved_def)

lemma moved_trans: "moved a b a1 b1 \<Longrightarrow> moved a1 b1 a2 b2 \<Longrightarrow> moved a b a2 b2"
  unfolding moved_def by (metis append.assoc)

lemma transfer_moves:
  assumes "transfer src dst = (d, src', dst')" "wx dst = []"
  shows "moved src dst src' dst' \<and> rx dst' = rx dst \<and> wx dst' = [] \<and> wx src' = wx src \<and> sent src' = sent src"
proof -
  obtain r s1 where r: "sock_read 8192 src = (r, s1)" by fastforce
  note b = sock_read_bytes [OF r]
  show ?thesis
  proof (cases "(case r of Inr bs \<Rightarrow> bs | Inl _ \<Rightarrow> []) = []")
    case True
    with assms r b show ?thesis by (auto simp: transfer_def moved_def Let_def)
  next
    case False
    with assms r b show ?thesis by (auto simp: transfer_def moved_def Let_def)
  qed
qed

lemma proxy_round_moves:
  assumes "proxy_round cr sr c s = (d, c', s')" "wx c = []" "wx s = []"
  shows "moved c s c' s' \<and> moved s c s' c' \<and> wx c' = [] \<and> wx s' = []"
proof -
  obtain d1 c1 s1 where 1: "(if cr then transfer c s else (False, c, s)) = (d1, c1, s1)"
    by (metis prod_cases3)
  obtain d2 s2 c2 where 2: "(if sr then transfer s1 c1 else (d1, s1, c1)) = (d2, s2, c2)"
    by (metis prod_cases3)
  have r: "c' = c2" "s' = s2" using assms(1) 1 2 by (simp_all add: proxy_round_def)
  have m1: "moved c s c1 s1 \<and> rx s1 = rx s \<and> wx s1 = [] \<and> wx c1 = [] \<and> sent c1 = sent c"
    using 1 assms(2,3) transfer_moves [of c s d1 c1 s1] by (cases cr) (auto simp: moved_refl)
  have m2: "moved s1 c1 s2 c2 \<and> rx c2 = rx c1 \<and> wx c2 = [] \<and> wx s2 = [] \<and> sent s2 = sent s1"
    using 2 m1 transfer_moves [of s1 c1 d2 s2 c2] by (cases sr) (auto simp: moved_refl)
  show ?thesis using m1 m2 unfolding r moved_def by auto
qed

text \<open>Only a failing \<open>select\<close> ends the proxy's thread.\<close>

lemma proxy_loop_no_panic: "None \<notin> set selects \<Longrightarrow> fst (proxy_loop selects c s) \<noteq> ProxyPanic"
  by (induction selects c s rule: proxy_loop.induct) (auto split: prod.splits)

lemma launch_proxy_lives:
  "\<forall>r\<in>set rs. None \<notin> set (pr_selects r) \<Longrightarrow> snd (launch_proxy self ad pd rs)"
proof (induction rs)
  case (Cons r rs)
  then have ih: "snd (launch_proxy self ad pd rs)" by simp
  have np: "fst (proxy_loop (pr_selects r) c s) \<noteq> ProxyPanic" for c s using Cons.prems proxy_loop_no_panic by simp
  have "proxy_sock_accept self (pr_accepted r) (pr_connect r) pd (pr_selects r) \<noteq> Inr (ProxyPanic, l)" for l
    using np [of "projr (pr_accepted r)" "projr (pr_connect r (px_remote_addr self))"]
    by (auto simp: proxy_sock_accept_def split: sum.splits)
  with ih show ?case by (auto split: sum.splits proxy_end.splits prod.splits)
qed simp

section \<open>Properties\<close>

text \<open>
  C31. On sockets that accept what is written, whatever \<open>select\<close> answers, whatever the chunks and the read errors: at every moment the
  validator has been sent exactly the bytes taken from the enclave, in order, and the enclave exactly the
  bytes taken from the validator; nothing is lost, added or reordered.
\<close>

theorem proxy_moves_bytes_unchanged:
  assumes "wx client = []" and "wx server = []"
    and "proxy_loop selects client server = (e, client', server')"
  shows "(\<exists>xs. rx_bytes (rx client) = xs @ rx_bytes (rx client') \<and> sent server' = sent server @ xs)
    \<and> (\<exists>ys. rx_bytes (rx server) = ys @ rx_bytes (rx server') \<and> sent client' = sent client @ ys)"
proof -
  have "moved client server client' server' \<and> moved server client server' client'"
    using assms
  proof (induction selects client server rule: proxy_loop.induct)
    case (3 cr sr rs client server)
    obtain d c1 s1 where r: "proxy_round cr sr client server = (d, c1, s1)" by (metis prod_cases3)
    note m = proxy_round_moves [OF r "3.prems"(1,2)]
    show ?case
    proof (cases d)
      case True
      with "3.prems"(3) r m show ?thesis by simp
    next
      case False
      with "3.IH" [OF r [symmetric] refl False] "3.prems"(3) r m
      have "moved c1 s1 client' server' \<and> moved s1 c1 server' client'" by simp
      with m show ?thesis using moved_trans by blast
    qed
  qed (auto simp: moved_refl)
  then show ?thesis by (simp add: moved_def)
qed

theorem proxy_moves_bytes_unchanged_witness:
  "\<exists>c s. proxy_loop [Some (True, True), Some (True, False)]
       \<lparr>rx = [RData [1, 2], RData [3]], wx = [], sent = []\<rparr> \<lparr>rx = [RData [7]], wx = [], sent = []\<rparr>
     = (ProxyWaiting, c, s) \<and> (\<exists>xs. [1, 2, 3] = xs @ rx_bytes (rx c) \<and> sent s = xs)"
proof -
  have l: "proxy_loop [Some (True, True), Some (True, False)]
       \<lparr>rx = [RData [1, 2], RData [3]], wx = [], sent = []\<rparr> \<lparr>rx = [RData [7]], wx = [], sent = []\<rparr>
     = (ProxyWaiting, \<lparr>rx = [], wx = [], sent = [7]\<rparr>, \<lparr>rx = [], wx = [], sent = [1, 2, 3]\<rparr>)"
    by (simp add: proxy_round_def transfer_def sock_read_def)
  from proxy_moves_bytes_unchanged [OF _ _ l] l show ?thesis by auto
qed

text \<open>
  When both sides can be read in one round and the write of the client's bytes to the server fails, a successful transfer in
  the other direction overwrites \<open>disconnected\<close>: the loop goes on although bytes of the client are lost.
\<close>

theorem proxy_overlooks_failed_write:
  assumes "sock_read 8192 client = (Inr xs, client1)" and "xs \<noteq> []"
    and "sock_write_all xs server = (Inl e, server1)"
    and "transfer server1 client1 = (False, server2, client2)"
  shows "proxy_round True True client server = (False, client2, server2)"
  using assms by (simp add: proxy_round_def transfer_def)

theorem proxy_overlooks_failed_write_witness:
  "proxy_round True True \<lparr>rx = [RData [1]], wx = [], sent = []\<rparr>
     \<lparr>rx = [RData [7]], wx = [WErr (io_error_of BrokenPipe)], sent = []\<rparr>
   = (False, \<lparr>rx = [], wx = [], sent = [7]\<rparr>, \<lparr>rx = [], wx = [], sent = []\<rparr>)"
  by (rule proxy_overlooks_failed_write [where xs = "[1]" and e = "io_error_of BrokenPipe"
        and ?client1.0 = "\<lparr>rx = [], wx = [], sent = []\<rparr>" and ?server1.0 = "\<lparr>rx = [RData [7]], wx = [], sent = []\<rparr>"])
     (simp_all add: sock_read_def sock_write_all_def transfer_def)

end
