(* ===== verification/Nitro_Helper.thy ===== *)
theory Nitro_Helper
  imports Nitro_Enclave Proxy_Link Command_Base
begin

text \<open>
  The Nitro host program \<open>providers/nitro/nitro-helper/src\<close>: \<open>config.rs\<close>, \<open>command.rs\<close>, \<open>command/nitro_enclave.rs\<close> and the credentials of
  \<open>key_utils.rs\<close>.  TOML and JSON, the instance metadata service and the texts of errors are fields of \<open>helper_lib\<close>; programs that are run
  (\<open>nitro-cli\<close>) are a function from their arguments to their output.
\<close>

section \<open>Configuration\<close>

record nitro_sign_opt =
  nso_address :: address
  nso_chain_id :: chain_id
  nso_max_height :: "height option"
  nso_sealed_consensus_key_path :: path
  nso_sealed_id_key_path :: "path option"
  nso_state_file_path :: path
  nso_enclave_config_cid :: u32
  nso_enclave_config_port :: u32
  nso_enclave_state_port :: u32
  nso_enclave_tendermint_conn :: u32
  nso_credentials :: "aws_credentials option"
  nso_aws_region :: string

record vsock_proxy_opt =
  vpo_num_workers :: u64
  vpo_local_port :: u32
  vpo_remote_port :: u16
  vpo_remote_addr :: string
  vpo_config_file :: string

definition vsock_proxy_opt_default :: vsock_proxy_opt where
  "vsock_proxy_opt_default =
     \<lparr>vpo_num_workers = 4, vpo_local_port = 8000, vpo_remote_port = 443,
      vpo_remote_addr = ''kms.ap-southeast-1.amazonaws.com'',
      vpo_config_file = ''/etc/nitro_enclaves/vsock-proxy.yaml''\<rparr>"

record enclave_opt =
  eo_eif_path :: string
  eo_enclave_cid :: "u64 option"
  eo_memory_mib :: u64
  eo_cpu_count :: u64
  eo_log_server_port :: u32

definition enclave_opt_default :: enclave_opt where
  "enclave_opt_default =
     \<lparr>eo_eif_path = ''tmkms.eif'', eo_enclave_cid = None, eo_memory_mib = 512, eo_cpu_count = 2,
      eo_log_server_port = 6050\<rparr>"

definition nitro_sign_opt_default :: nitro_sign_opt where
  "nitro_sign_opt_default =
     \<lparr>nso_address = Unix ''/tmp/validator.socket'', nso_chain_id = ''testchain-1'', nso_max_height = None,
      nso_sealed_consensus_key_path = ''secrets/secret.key'', nso_sealed_id_key_path = Some ''secrets/id.key'',
      nso_state_file_path = ''state/priv_validator_state.json'', nso_enclave_config_cid = 15,
      nso_enclave_config_port = 5050, nso_enclave_state_port = 5555, nso_enclave_tendermint_conn = 5000,
      nso_credentials = None, nso_aws_region = ''ap-southeast-1''\<rparr>"

record enclave_config =
  ec_vsock_proxy :: vsock_proxy_opt
  ec_enclave :: enclave_opt

section \<open>The enclave's command line tool\<close>

record enclave_describe_info =
  edi_enclave_id :: string
  edi_process_id :: u32
  edi_enclave_cid :: u64
  edi_cpu_count :: u64
  edi_cpu_ids :: "u32 list"
  edi_memory_mib :: u64
  edi_state :: string
  edi_flags :: string

record enclave_run_info =
  eri_enclave_id :: string
  eri_process_id :: u32
  eri_enclave_cid :: u64
  eri_cpu_count :: u64
  eri_cpu_ids :: "u32 list"
  eri_memory_mib :: u64

record enclave_terminate_info =
  eti_enclave_id :: string
  eti_terminated :: bool

text \<open>\<open>std::process::Output\<close>; no code when the process was ended by a signal.\<close>

record cmd_output =
  out_success :: bool
  out_code :: "int option"
  out_stdout :: bytes
  out_stderr :: bytes

text \<open>What the instance metadata service provides; the session token is optional.\<close>

record imds_credentials =
  imds_access_key_id :: string
  imds_secret_access_key :: string
  imds_session_token :: "string option"

datatype imds_error = RuntimeError string | CredentialsError string

record helper_lib =
  hl_nitro :: nitro_lib
  hl_host :: host_env
  hl_opt_to_toml :: "nitro_sign_opt \<Rightarrow> string + bytes"
  hl_opt_from_toml :: "bytes \<Rightarrow> string + nitro_sign_opt"
  hl_enclave_to_toml :: "enclave_config \<Rightarrow> string + bytes"
  hl_enclave_from_toml :: "bytes \<Rightarrow> string + enclave_config"
  hl_state_error_debug :: "state_error \<Rightarrow> string"
  hl_error_debug :: "error \<Rightarrow> string"
  hl_display :: display_lib
  hl_base64 :: "bytes \<Rightarrow> bytes"
  hl_utf8_error :: "bytes \<Rightarrow> string"
  hl_imds :: "imds_error + imds_credentials"
  hl_is_dir :: "path \<Rightarrow> bool"
  hl_exists :: "path \<Rightarrow> bool"
  hl_writes :: "path \<Rightarrow> write_event list"
  hl_describe_from_json :: "bytes \<Rightarrow> serde_error + enclave_describe_info list"
  hl_describe_to_json :: "enclave_describe_info list \<Rightarrow> serde_error + string"
  hl_string_debug :: "string \<Rightarrow> string"
  hl_run_to_json :: "enclave_run_info \<Rightarrow> serde_error + string"
  hl_run_from_json :: "bytes \<Rightarrow> serde_error + enclave_run_info"
  hl_terminate_from_json :: "bytes \<Rightarrow> serde_error + enclave_terminate_info"
  hl_utf8_lossy :: "bytes \<Rightarrow> string"
  hl_bind :: "u32 \<Rightarrow> u32 \<Rightarrow> io_error + unit"

text \<open>What a helper command starts or sends.\<close>

datatype helper_event =
    RanCommand string "string list"
  | SpawnedProcess string "string list"
  | KillRequested string
  | StartedLogServer u32
  | Pushed u32 u32 bytes
  | StartedProxy proxy
  | StartedSyncer nitro_state_syncer

type_synonym 'a helper_command = "(helper_event, 'a) command"
type_synonym cli = "string \<Rightarrow> string list \<Rightarrow> io_error + cmd_output"

definition run_command :: "cli \<Rightarrow> (io_error \<Rightarrow> string) \<Rightarrow> string \<Rightarrow> string list \<Rightarrow> cmd_output helper_command" where
  "run_command cli msg prog args = cbind (cemit (RanCommand prog args)) (\<lambda>_. ctry msg (cli prog args))"

text \<open>\<open>{:?}\<close> of \<open>Option<i32>\<close>.\<close>

definition show_code :: "int option \<Rightarrow> string" where
  "show_code c = (case c of None \<Rightarrow> ''None'' | Some n \<Rightarrow> ''Some('' @ show_int n @ '')'')"

definition parse_output :: "helper_lib \<Rightarrow> (bytes \<Rightarrow> serde_error + 'a) \<Rightarrow> cmd_output \<Rightarrow> string + 'a" where
  "parse_output lib parse out =
     (if \<not> out_success out
      then Inl (hl_utf8_lossy lib (out_stderr out) @ '', status code: '' @ show_code (out_code out))
      else map_err (\<lambda>_. ''command invalid output'') (parse (out_stdout out)))"

definition describe_enclave :: "helper_lib \<Rightarrow> cli \<Rightarrow> enclave_describe_info list helper_command" where
  "describe_enclave lib cli =
     cbind (run_command cli (\<lambda>e. ''execute nitro-cli error: '' @ nl_io_error_debug (hl_nitro lib) e)
              ''nitro-cli'' [''describe-enclaves'']) (\<lambda>out.
     ctry id (parse_output lib (hl_describe_from_json lib) out))"

definition run_enclave_daemon ::
    "helper_lib \<Rightarrow> cli \<Rightarrow> string \<Rightarrow> u64 \<Rightarrow> u64 \<Rightarrow> u64 option \<Rightarrow> enclave_run_info helper_command" where
  "run_enclave_daemon lib cli image_path cpu_count memory_mib cid =
     cbind (run_command cli (\<lambda>e. ''execute nitro-cli error: '' @ nl_io_error_display (hl_nitro lib) e) ''nitro-cli''
              ([''run-enclave'', ''--eif-path'', image_path, ''--cpu-count'', show_nat (unat cpu_count),
                ''--memory'', show_nat (unat memory_mib)]
               @ (case cid of Some c \<Rightarrow> [''--cid'', show_nat (unat c)] | None \<Rightarrow> []))) (\<lambda>out.
     ctry id (parse_output lib (hl_run_from_json lib) out))"

definition stop_enclave :: "helper_lib \<Rightarrow> cli \<Rightarrow> string option \<Rightarrow> enclave_terminate_info helper_command" where
  "stop_enclave lib cli cid =
     cbind (run_command cli (\<lambda>e. ''execute nitro-cli error: '' @ nl_io_error_debug (hl_nitro lib) e) ''nitro-cli''
              (''terminate-enclave'' # (case cid of Some i \<Rightarrow> [''--enclave-id'', i] | None \<Rightarrow> [''--all'']))) (\<lambda>out.
     ctry id (parse_output lib (hl_terminate_from_json lib) out))"

text \<open>
  \<open>run_enclave\<close> in its two halves: starting, and waiting for the stop signal (\<open>stop\<close>: whether one arrives).  What
  \<open>stop_enclave\<close> returns is ignored.
\<close>

definition run_enclave_start :: "helper_lib \<Rightarrow> cli \<Rightarrow> enclave_opt \<Rightarrow> enclave_run_info helper_command" where
  "run_enclave_start lib cli opt =
     cbind (describe_enclave lib cli) (\<lambda>enclave_info.
     if enclave_info \<noteq> [] then
       (case hl_describe_to_json lib enclave_info of
          Inl _ \<Rightarrow> cpanic ''get invalid enclave info''
        | Inr info \<Rightarrow>
            cfail (''the following enclave is already active, please stop and try again:'' @ [CHR 0x0A] @ hl_string_debug lib info))
     else
       cbind (cemit (StartedLogServer (eo_log_server_port opt))) (\<lambda>_.
       cbind (run_enclave_daemon lib cli (eo_eif_path opt) (eo_cpu_count opt) (eo_memory_mib opt) (eo_enclave_cid opt)) (\<lambda>info.
       case hl_run_to_json lib info of
         Inl _ \<Rightarrow> cpanic ''called `Result::unwrap()` on an `Err` value''
       | Inr _ \<Rightarrow> cret info)))"

definition run_enclave :: "helper_lib \<Rightarrow> cli \<Rightarrow> enclave_opt \<Rightarrow> bool \<Rightarrow> unit helper_command" where
  "run_enclave lib cli opt stop =
     cbind (run_enclave_start lib cli opt) (\<lambda>info.
     cbind (crecv stop) (\<lambda>_.
     cignore (stop_enclave lib cli (Some (eri_enclave_id info)))))"

text \<open>\<open>str::contains\<close>\<close>

fun str_contains :: "string \<Rightarrow> string \<Rightarrow> bool" where
  "str_contains needle [] = (needle = [])"
| "str_contains needle (c # cs) = (take (length needle) (c # cs) = needle \<or> str_contains needle cs)"

text \<open>\<open>check_vsock_proxy\<close>; the processes are given by their command lines.\<close>

definition check_vsock_proxy :: "string list list \<Rightarrow> bool" where
  "check_vsock_proxy processes = (\<exists>cmd\<in>set processes. \<exists>x\<in>set cmd. str_contains ''vsock-proxy'' x)"

definition vsock_proxy_args :: "vsock_proxy_opt \<Rightarrow> string list" where
  "vsock_proxy_args opt =
     [''--num_workers'', show_nat (unat (vpo_num_workers opt)), ''--config'', vpo_config_file opt,
      show_nat (unat (vpo_local_port opt)), vpo_remote_addr opt, show_nat (unat (vpo_remote_port opt))]"

definition run_vsock_proxy ::
    "helper_lib \<Rightarrow> string list list \<Rightarrow> io_error + unit \<Rightarrow> vsock_proxy_opt \<Rightarrow> bool \<Rightarrow> unit helper_command" where
  "run_vsock_proxy lib processes spawned opt stop =
     (if check_vsock_proxy processes then cret ()
      else
        cbind (ctry (\<lambda>e. ''spawn vsock proxy error: '' @ nl_io_error_debug (hl_nitro lib) e) spawned) (\<lambda>_.
        cbind (cemit (SpawnedProcess ''vsock-proxy'' (vsock_proxy_args opt))) (\<lambda>_.
        cbind (crecv stop) (\<lambda>_.
        cemit (KillRequested ''vsock-proxy'')))))"

section \<open>Credentials\<close>

definition get_credentials :: "helper_lib \<Rightarrow> aws_credentials helper_command" where
  "get_credentials lib =
     (case hl_imds lib of
        Inl (RuntimeError e) \<Rightarrow> cfail (''failed to create tokio runtime: '' @ e)
      | Inl (CredentialsError e) \<Rightarrow> cfail (''invalid credential: '' @ e)
      | Inr cred \<Rightarrow>
          (case imds_session_token cred of
             None \<Rightarrow> cpanic ''called `Option::unwrap()` on a `None` value''
           | Some token \<Rightarrow>
               cret \<lparr>aws_key_id = imds_access_key_id cred, aws_secret_key = imds_secret_access_key cred,
                     aws_session_token = token\<rparr>))"

definition credentials_of :: "helper_lib \<Rightarrow> nitro_sign_opt \<Rightarrow> aws_credentials helper_command" where
  "credentials_of lib cfg =
     (case nso_credentials cfg of Some credentials \<Rightarrow> cret credentials | None \<Rightarrow> get_credentials lib)"

section \<open>Commands\<close>

definition nitro_opt_from_file :: "helper_lib \<Rightarrow> path \<Rightarrow> nitro_sign_opt helper_command" where
  "nitro_opt_from_file lib config_path =
     cbind (cfs (\<lambda>e. ''toml config file failed to read: '' @ nl_io_error_debug (hl_nitro lib) e)
              (fs_read_to_string config_path)) (\<lambda>toml_string.
     ctry (\<lambda>e. ''toml config file failed to parse: '' @ e) (hl_opt_from_toml lib toml_string))"

definition enclave_config_from_file :: "helper_lib \<Rightarrow> path \<Rightarrow> enclave_config helper_command" where
  "enclave_config_from_file lib config_path =
     cbind (path_exists config_path) (\<lambda>there.
     if \<not> there then cfail ''config path is not exists''
     else
       cbind (cfs (\<lambda>e. ''toml config file failed to read: '' @ nl_io_error_debug (hl_nitro lib) e)
                (fs_read_to_string config_path)) (\<lambda>toml_string.
       ctry (\<lambda>e. ''toml config file failed to parse: '' @ e) (hl_enclave_from_toml lib toml_string)))"

text \<open>
  \<open>init\<close>: the two configuration files, then the checks, then the keys.  \<open>connect1\<close> and \<open>connect2\<close> are the outcomes of
  the two connections to the enclave.
\<close>

definition nitro_init_config ::
    "helper_lib \<Rightarrow> path \<Rightarrow> string \<Rightarrow> nitro_sign_opt helper_command" where
  "nitro_init_config lib config_dir aws_region =
     (if \<not> hl_is_dir lib config_dir \<or> \<not> hl_exists lib config_dir
      then cfail ''config path is not a directory or not exists''
      else
      let cp_helper = path_join config_dir ''tmkms.toml'';
          cp_enclave = path_join config_dir ''enclave.toml'';
          nitro_sign_opt = nitro_sign_opt_default\<lparr>nso_aws_region := aws_region\<rparr>;
          proxy_opt = vsock_proxy_opt_default\<lparr>vpo_remote_addr := ''kms.'' @ aws_region @ ''.amazonaws.com''\<rparr>;
          enclave_config = \<lparr>ec_vsock_proxy = proxy_opt, ec_enclave = enclave_opt_default\<rparr> in
      cbind (ctry (\<lambda>e. ''failed to create a config in toml: '' @ e) (hl_opt_to_toml lib nitro_sign_opt)) (\<lambda>t.
      cbind (ctry (\<lambda>e. ''failed to create a config in toml: '' @ e) (hl_enclave_to_toml lib enclave_config)) (\<lambda>te.
      cbind (cfs (\<lambda>e. ''failed to write a config: '' @ nl_io_error_debug (hl_nitro lib) e)
               (fs_truncate_write cp_helper t (hl_writes lib cp_helper))) (\<lambda>_.
      cbind (cfs (\<lambda>e. ''failed to write a launch all config: '' @ nl_io_error_debug (hl_nitro lib) e)
               (fs_truncate_write cp_enclave te (hl_writes lib cp_enclave))) (\<lambda>_.
      cret nitro_sign_opt)))))"

definition nitro_init_checks ::
    "helper_lib \<Rightarrow> cli \<Rightarrow> string list list \<Rightarrow> nitro_sign_opt \<Rightarrow> u32 \<Rightarrow> aws_credentials helper_command" where
  "nitro_init_checks lib cli processes cfg cid =
     cbind (credentials_of lib cfg) (\<lambda>credentials.
     cbind (create_dir_for (\<lambda>e. ''failed to create dirs for key storage: '' @ nl_io_error_debug (hl_nitro lib) e)
              (nso_sealed_consensus_key_path cfg)) (\<lambda>_.
     cbind (create_dir_for (\<lambda>e. ''failed to create dirs for state storage: '' @ nl_io_error_debug (hl_nitro lib) e)
              (nso_state_file_path cfg)) (\<lambda>_.
     cbind (describe_enclave lib cli) (\<lambda>infos.
     if \<not> list_ex (\<lambda>x. edi_enclave_cid x = ucast cid) infos
     then cfail ''can't find running enclave with matched cid. Please use tmkms-nitro-helper run command''
     else if \<not> check_vsock_proxy processes
     then cfail ''vsock proxy is not running, Please run vsock-proxy 8000 kms.{{ kms_region }}.amazonaws.com 443 &''
     else cret credentials))))"

definition nitro_init_keys ::
    "helper_lib \<Rightarrow> (u32 \<Rightarrow> u32 \<Rightarrow> io_error + sock) \<Rightarrow> (u32 \<Rightarrow> u32 \<Rightarrow> io_error + sock) \<Rightarrow> pubkey_display option
      \<Rightarrow> string option \<Rightarrow> string \<Rightarrow> nitro_sign_opt \<Rightarrow> u32 \<Rightarrow> aws_credentials \<Rightarrow> unit helper_command" where
  "nitro_init_keys lib connect1 connect2 ptype bech32_prefix kms_key_id cfg cid credentials =
     (let port = nso_enclave_config_port cfg in
     cbind (cfs (\<lambda>e. ''failed to generate a key: '' @ hl_string_debug lib e)
              (nitro_generate_key (hl_nitro lib) connect1 cid port (nso_sealed_consensus_key_path cfg) (nso_aws_region cfg)
                 credentials kms_key_id (hl_writes lib (nso_sealed_consensus_key_path cfg)))) (\<lambda>(pubkey, attestation_doc).
     cbind (cprint_pubkey (hl_display lib) bech32_prefix ptype pubkey) (\<lambda>_.
     let encoded = hl_base64 lib attestation_doc in
     cbind (if utf8_valid encoded then cret () else cfail (''enconding attestation doc: '' @ hl_utf8_error lib encoded)) (\<lambda>_.
     cbind (cprintln (''Nitro Enclave attestation:'' @ [CHR 0x0A] @ text_of encoded)) (\<lambda>_.
     case nso_sealed_id_key_path cfg of
       None \<Rightarrow> cret ()
     | Some id_path \<Rightarrow>
         cbind (cfs (\<lambda>e. ''failed to generate a sealed id key: '' @ hl_string_debug lib e)
                  (nitro_generate_key (hl_nitro lib) connect2 cid port id_path (nso_aws_region cfg)
                     credentials kms_key_id (hl_writes lib id_path))) (\<lambda>_. cret ()))))))"

definition nitro_init ::
    "helper_lib \<Rightarrow> cli \<Rightarrow> string list list \<Rightarrow> (u32 \<Rightarrow> u32 \<Rightarrow> io_error + sock) \<Rightarrow> (u32 \<Rightarrow> u32 \<Rightarrow> io_error + sock)
      \<Rightarrow> path \<Rightarrow> pubkey_display option \<Rightarrow> string option \<Rightarrow> string \<Rightarrow> string \<Rightarrow> u32 option \<Rightarrow> unit helper_command" where
  "nitro_init lib cli processes connect1 connect2 config_dir ptype bech32_prefix aws_region kms_key_id cid_arg =
     cbind (nitro_init_config lib config_dir aws_region) (\<lambda>cfg.
     let cid = (case cid_arg of Some c \<Rightarrow> c | None \<Rightarrow> nso_enclave_config_cid cfg) in
     cbind (nitro_init_checks lib cli processes cfg cid) (\<lambda>credentials.
     nitro_init_keys lib connect1 connect2 ptype bech32_prefix kms_key_id cfg cid credentials))"

text \<open>
  \<open>start\<close>: the request pushed to the enclave, then the proxy, then the syncer, whose thread is joined: \<open>conns\<close> are the connections it accepts and \<open>stops\<close>
  the answers of the stop channel.
\<close>

definition nitro_new_syncer :: "helper_lib \<Rightarrow> nitro_sign_opt \<Rightarrow> nitro_state_syncer helper_command" where
  "nitro_new_syncer lib cfg c =
     (case nitro_syncer_new (hl_host lib) (hl_bind lib) (nso_state_file_path cfg) (nso_enclave_state_port cfg) (cmd_fs c) of
        (Inl (StateErr e), f) \<Rightarrow>
          Some (Inl (CmdErr (''failed to get a state syncing helper: '' @ hl_state_error_debug lib e)), c\<lparr>cmd_fs := f\<rparr>)
      | (Inl (SyncPanicked m), f) \<Rightarrow> Some (Inl (CmdPanic m), c\<lparr>cmd_fs := f\<rparr>)
      | (Inr s, f) \<Rightarrow> Some (Inr s, c\<lparr>cmd_fs := f\<rparr>))"

definition nitro_enclave_config ::
    "helper_lib \<Rightarrow> nitro_sign_opt \<Rightarrow> aws_credentials \<Rightarrow> nitro_config helper_command" where
  "nitro_enclave_config lib cfg credentials =
     cbind (cfs (\<lambda>e. ''failed to read a sealed consensus key: '' @ nl_io_error_debug (hl_nitro lib) e)
              (fs_read (nso_sealed_consensus_key_path cfg))) (\<lambda>sealed_consensus_key.
     cbind (case (nso_sealed_id_key_path cfg, nso_address cfg) of
              (Some p, Tcp _ _ _) \<Rightarrow>
                cbind (cfs (\<lambda>e. ''failed to read a sealed identity key: '' @ nl_io_error_debug (hl_nitro lib) e) (fs_read p))
                  (\<lambda>b. cret (Some b))
            | _ \<Rightarrow> cret None) (\<lambda>sealed_id_key.
     cret \<lparr>nc_chain_id = nso_chain_id cfg, nc_max_height = nso_max_height cfg,
           nc_sealed_consensus_key = sealed_consensus_key, nc_sealed_id_key = sealed_id_key,
           nc_peer_id = (case nso_address cfg of Tcp peer_id _ _ \<Rightarrow> peer_id | Unix _ \<Rightarrow> None),
           nc_enclave_state_port = nso_enclave_state_port cfg,
           nc_enclave_tendermint_conn = nso_enclave_tendermint_conn cfg,
           nc_credentials = credentials, nc_aws_region = nso_aws_region cfg\<rparr>))"

definition nitro_push_config ::
    "helper_lib \<Rightarrow> (u32 \<Rightarrow> u32 \<Rightarrow> io_error + sock) \<Rightarrow> u32 \<Rightarrow> u32 \<Rightarrow> nitro_config \<Rightarrow> unit helper_command" where
  "nitro_push_config lib connect cid port enclave_config =
     cbind (ctry (\<lambda>e. ''failed to connect to the enclave to push its config: '' @ nl_io_error_debug (hl_nitro lib) e)
              (connect cid port)) (\<lambda>sck.
     cbind (ctry (\<lambda>e. ''failed to serialize the config: '' @ e)
              (nl_request_to_json (hl_nitro lib) (Start enclave_config))) (\<lambda>config_raw.
     case write_u16_payload config_raw sck of (r, sck') \<Rightarrow>
       cbind (cemit (Pushed cid port (sent sck'))) (\<lambda>_.
       ctry (\<lambda>e. ''failed to write the config: '' @ nl_io_error_debug (hl_nitro lib) e) r)))"

definition nitro_join_syncer ::
    "helper_lib \<Rightarrow> (io_error + sock) list \<Rightarrow> try_recv list \<Rightarrow> nitro_state_syncer \<Rightarrow> unit helper_command" where
  "nitro_join_syncer lib conns stops syncer c =
     (case nitro_launch_syncer (hl_host lib) conns syncer (cmd_fs c) stops of
        None \<Rightarrow> None
      | Some (Continue, _, _) \<Rightarrow> None
      | Some (Return, _, f) \<Rightarrow> Some (Inr (), c\<lparr>cmd_fs := f\<rparr>)
      | Some (ThreadPanic _, _, f) \<Rightarrow> Some (Inl (CmdErr ''join thread error''), c\<lparr>cmd_fs := f\<rparr>))"

text \<open>Everything before the syncer's thread is joined.\<close>

definition nitro_start_prepare ::
    "helper_lib \<Rightarrow> (u32 \<Rightarrow> u32 \<Rightarrow> io_error + sock) \<Rightarrow> nitro_sign_opt \<Rightarrow> u32 option \<Rightarrow> nitro_state_syncer helper_command" where
  "nitro_start_prepare lib connect cfg cid_arg =
     cbind (credentials_of lib cfg) (\<lambda>credentials.
     cbind (nitro_new_syncer lib cfg) (\<lambda>state_syncer.
     cbind (nitro_enclave_config lib cfg credentials) (\<lambda>enclave_config.
     let cid = (case cid_arg of Some c \<Rightarrow> c | None \<Rightarrow> nso_enclave_config_cid cfg) in
     cbind (nitro_push_config lib connect cid (nso_enclave_config_port cfg) enclave_config) (\<lambda>_.
     cbind (case nso_address cfg of
              Unix p \<Rightarrow> cemit (StartedProxy (proxy_new (nso_enclave_tendermint_conn cfg) p))
            | Tcp _ _ _ \<Rightarrow> cret ()) (\<lambda>_.
     cbind (cemit (StartedSyncer state_syncer)) (\<lambda>_.
     cret state_syncer))))))"

definition nitro_helper_start ::
    "helper_lib \<Rightarrow> (u32 \<Rightarrow> u32 \<Rightarrow> io_error + sock) \<Rightarrow> (io_error + sock) list \<Rightarrow> try_recv list \<Rightarrow> nitro_sign_opt
      \<Rightarrow> u32 option \<Rightarrow> unit helper_command" where
  "nitro_helper_start lib connect conns stops cfg cid_arg =
     cbind (nitro_start_prepare lib connect cfg cid_arg) (\<lambda>state_syncer.
     nitro_join_syncer lib conns stops state_syncer)"

section \<open>Lemmas\<close>

lemma get_credentials_not_None: "get_credentials lib c \<noteq> None"
proof
  assume "get_credentials lib c = None"
  then show False by (auto simp: get_credentials_def command_none split: sum.splits imds_error.splits option.splits)
qed

lemma credentials_of_not_None: "credentials_of lib cfg c \<noteq> None"
proof
  assume "credentials_of lib cfg c = None"
  then show False by (auto simp: credentials_of_def command_none get_credentials_not_None split: option.splits)
qed

lemma credentials_of_Inr: "credentials_of lib cfg c = Some (Inr creds, c') \<Longrightarrow> c' = c"
  by (auto simp: credentials_of_def get_credentials_def command_simps
           split: option.splits sum.splits imds_error.splits)

lemma nitro_new_syncer_not_None: "nitro_new_syncer lib cfg c \<noteq> None"
  by (auto simp: nitro_new_syncer_def split: prod.splits sum.splits sync_failure.splits)

lemma nitro_enclave_config_not_None: "nitro_enclave_config lib cfg creds c \<noteq> None"
proof
  assume "nitro_enclave_config lib cfg creds c = None"
  then show False
    by (auto simp: nitro_enclave_config_def command_none split: option.splits address.splits)
qed

lemma nitro_push_config_not_None: "nitro_push_config lib connect cid port ec c \<noteq> None"
proof
  assume "nitro_push_config lib connect cid port ec c = None"
  then show False by (auto simp: nitro_push_config_def command_none split: prod.splits)
qed

text \<open>The state that a new syncer holds is what its file says.\<close>

lemma nitro_syncer_new_state:
  assumes "nitro_syncer_new env bnd p port f = (Inr s, f')" "no_spurious_not_found f"
  shows "(case files f p of Some j \<Rightarrow> from_json (he_json env) j = Inr (nss_state s) | None \<Rightarrow> nss_state s = initial_consensus_state)
    \<and> nss_path s = p"
proof -
  obtain x g where rd: "fs_read_to_string p f = (x, g)" by fastforce
  show ?thesis
  proof (cases x)
    case (Inl e)
    with assms rd fs_read_to_string_NotFound [of p f e g] show ?thesis
      by (auto simp: nitro_syncer_new_def nitro_write_initial_state_def no_spurious_not_found_def result_simps split: if_splits)
  next
    case (Inr j)
    with assms(1) rd fs_read_to_string_Inr [of p f j g] show ?thesis
      by (auto simp: nitro_syncer_new_def result_simps)
  qed
qed

lemma nitro_new_syncer_Inr:
  assumes "nitro_new_syncer lib cfg c = Some (Inr s, c')" "no_spurious_not_found (cmd_fs c)"
  shows "(case files (cmd_fs c) (nso_state_file_path cfg) of
       Some j \<Rightarrow> from_json (he_json (hl_host lib)) j = Inr (nss_state s) | None \<Rightarrow> nss_state s = initial_consensus_state)
    \<and> nss_path s = nso_state_file_path cfg \<and> (\<exists>f. c' = c\<lparr>cmd_fs := f\<rparr>)"
  using assms
  by (auto simp: nitro_new_syncer_def dest: nitro_syncer_new_state split: prod.splits sum.splits sync_failure.splits)

lemma nitro_enclave_config_Inr:
  assumes "nitro_enclave_config lib cfg creds c = Some (Inr ec, c')"
  shows "nc_chain_id ec = nso_chain_id cfg \<and> nc_max_height ec = nso_max_height cfg
    \<and> files (cmd_fs c') (nso_sealed_consensus_key_path cfg) = Some (nc_sealed_consensus_key ec)
    \<and> (nc_sealed_id_key ec =
        (case (nso_sealed_id_key_path cfg, nso_address cfg) of (Some p, Tcp _ _ _) \<Rightarrow> files (cmd_fs c') p | _ \<Rightarrow> None))
    \<and> nc_peer_id ec = (case nso_address cfg of Tcp peer _ _ \<Rightarrow> peer | Unix _ \<Rightarrow> None)
    \<and> nc_enclave_state_port ec = nso_enclave_state_port cfg \<and> nc_credentials ec = creds
    \<and> nc_enclave_tendermint_conn ec = nso_enclave_tendermint_conn cfg \<and> nc_aws_region ec = nso_aws_region cfg
    \<and> (\<exists>f. c' = c\<lparr>cmd_fs := f\<rparr>)"
  using assms
  by (cases "nso_sealed_id_key_path cfg"; cases "nso_address cfg")
     (auto simp: nitro_enclave_config_def command_simps dest!: fs_read_Inr)

lemma nitro_push_config_Inr:
  assumes "nitro_push_config lib connect cid port ec c = Some (Inr u, c')"
  shows "\<exists>b s. connect cid port = Inr s \<and> nl_request_to_json (hl_nitro lib) (Start ec) = Inr b \<and> length b \<le> 65535
    \<and> c' = c\<lparr>cmd_trace := cmd_trace c @ [Pushed cid port (sent s @ frame b)]\<rparr>"
proof -
  from assms obtain s b where sb: "connect cid port = Inr s" "nl_request_to_json (hl_nitro lib) (Start ec) = Inr b"
    by (auto simp: nitro_push_config_def command_simps)
  obtain r s' where w: "write_u16_payload b s = (r, s')" by fastforce
  with assms sb have "r = Inr ()" "c' = c\<lparr>cmd_trace := cmd_trace c @ [Pushed cid port (sent s')]\<rparr>"
    by (auto simp: nitro_push_config_def command_simps)
  with w write_u16_payload_Inr [of b s "()" s'] sb show ?thesis by auto
qed

lemma nitro_start_prepare_not_None: "nitro_start_prepare lib connect cfg cid_arg c \<noteq> None"
proof
  assume "nitro_start_prepare lib connect cfg cid_arg c = None"
  then show False
    by (auto simp: nitro_start_prepare_def Let_def command_none credentials_of_not_None nitro_new_syncer_not_None
        nitro_enclave_config_not_None nitro_push_config_not_None split: address.splits)
qed

section \<open>Properties\<close>

text \<open>
  C16. A helper's \<open>start\<close> that does not fail before its syncer runs has sent to the enclave exactly one frame, which decodes to a \<open>Start\<close> request with the configured chain, height
  limit, ports and region, the contents of the sealed key files (the identity key and the peer only for a TCP address); it started the proxy exactly for a Unix address; and the syncer it then
  waits for holds what the state file said.
\<close>

theorem nitro_helper_start_pushes_config:
  assumes "\<And>r b. nl_request_to_json (hl_nitro lib) r = Inr b \<Longrightarrow> nl_request_from_json (hl_nitro lib) b = Inr r"
    and "no_spurious_not_found (cmd_fs c)"
    and "proceeds (nitro_helper_start lib connect conns stops cfg cid_arg c)"
  shows "\<exists>ec b s syncer c1 cid. cid = (case cid_arg of Some x \<Rightarrow> x | None \<Rightarrow> nso_enclave_config_cid cfg)
    \<and> connect cid (nso_enclave_config_port cfg) = Inr s \<and> length b \<le> 65535
    \<and> nl_request_from_json (hl_nitro lib) b = Inr (Start ec)
    \<and> cmd_trace c1 = cmd_trace c @ [Pushed cid (nso_enclave_config_port cfg) (sent s @ frame b)]
        @ (case nso_address cfg of
             Unix p \<Rightarrow> [StartedProxy (proxy_new (nso_enclave_tendermint_conn cfg) p)] | Tcp _ _ _ \<Rightarrow> [])
        @ [StartedSyncer syncer]
    \<and> nitro_helper_start lib connect conns stops cfg cid_arg c = nitro_join_syncer lib conns stops syncer c1
    \<and> nc_chain_id ec = nso_chain_id cfg \<and> nc_max_height ec = nso_max_height cfg
    \<and> files (cmd_fs c1) (nso_sealed_consensus_key_path cfg) = Some (nc_sealed_consensus_key ec)
    \<and> nc_sealed_id_key ec =
        (case (nso_sealed_id_key_path cfg, nso_address cfg) of (Some p, Tcp _ _ _) \<Rightarrow> files (cmd_fs c1) p | _ \<Rightarrow> None)
    \<and> nc_peer_id ec = (case nso_address cfg of Tcp peer _ _ \<Rightarrow> peer | Unix _ \<Rightarrow> None)
    \<and> nc_enclave_state_port ec = nso_enclave_state_port cfg \<and> nc_aws_region ec = nso_aws_region cfg
    \<and> nc_enclave_tendermint_conn ec = nso_enclave_tendermint_conn cfg
    \<and> (case files (cmd_fs c) (nso_state_file_path cfg) of
         Some j \<Rightarrow> from_json (he_json (hl_host lib)) j = Inr (nss_state syncer)
       | None \<Rightarrow> nss_state syncer = initial_consensus_state)
    \<and> nss_path syncer = nso_state_file_path cfg"
proof -
  obtain syncer c1 where
    prep: "nitro_start_prepare lib connect cfg cid_arg c = Some (Inr syncer, c1)"
    and join: "nitro_helper_start lib connect conns stops cfg cid_arg c = nitro_join_syncer lib conns stops syncer c1"
    unfolding nitro_helper_start_def
    by (rule proceeds_cbind [OF assms(3) [unfolded nitro_helper_start_def] nitro_start_prepare_not_None]) blast
  from prep obtain creds c2 ec c3 c4 where
    syn: "nitro_new_syncer lib cfg c = Some (Inr syncer, c2)"
    and ec: "nitro_enclave_config lib cfg creds c2 = Some (Inr ec, c3)"
    and push: "nitro_push_config lib connect (case cid_arg of Some x \<Rightarrow> x | None \<Rightarrow> nso_enclave_config_cid cfg)
      (nso_enclave_config_port cfg) ec c3 = Some (Inr (), c4)"
    and c1: "c1 = c4\<lparr>cmd_trace := cmd_trace c4
        @ (case nso_address cfg of
             Unix p \<Rightarrow> [StartedProxy (proxy_new (nso_enclave_tendermint_conn cfg) p)] | Tcp _ _ _ \<Rightarrow> [])
        @ [StartedSyncer syncer]\<rparr>"
    by (cases "nso_address cfg") (auto simp: nitro_start_prepare_def Let_def command_simps dest!: credentials_of_Inr)
  from nitro_push_config_Inr [OF push] assms(1) obtain b s where
    p: "connect (case cid_arg of Some x \<Rightarrow> x | None \<Rightarrow> nso_enclave_config_cid cfg) (nso_enclave_config_port cfg) = Inr s"
    "nl_request_from_json (hl_nitro lib) b = Inr (Start ec)" "length b \<le> 65535"
    and c4: "c4 = c3\<lparr>cmd_trace := cmd_trace c3 @ [Pushed (case cid_arg of Some x \<Rightarrow> x | None \<Rightarrow> nso_enclave_config_cid cfg)
      (nso_enclave_config_port cfg) (sent s @ frame b)]\<rparr>"
    by blast
  from nitro_new_syncer_Inr [OF syn assms(2)] obtain f where c2: "c2 = c\<lparr>cmd_fs := f\<rparr>" by blast
  from nitro_enclave_config_Inr [OF ec] obtain g where c3: "c3 = c2\<lparr>cmd_fs := g\<rparr>" by blast
  have sid: "nc_sealed_id_key ec =
      (case (nso_sealed_id_key_path cfg, nso_address cfg) of (Some p, Tcp _ _ _) \<Rightarrow> files (cmd_fs c1) p | _ \<Rightarrow> None)"
    using nitro_enclave_config_Inr [OF ec] c1 c4 by (cases "nso_sealed_id_key_path cfg"; cases "nso_address cfg") auto
  show ?thesis
    using p join sid c1 c4 c3 c2 nitro_new_syncer_Inr [OF syn assms(2)] nitro_enclave_config_Inr [OF ec]
    by (intro exI [of _ ec] exI [of _ b] exI [of _ s] exI [of _ syncer] exI [of _ c1] exI conjI) (rule sid | simp)+
qed

text \<open>An instance: the default configuration, with a state file and a sealed key on disk.\<close>

definition demo_credentials :: aws_credentials where
  "demo_credentials = \<lparr>aws_key_id = [], aws_secret_key = [], aws_session_token = []\<rparr>"

definition demo_start_config :: nitro_config where
  "demo_start_config =
     \<lparr>nc_chain_id = ''testchain-1'', nc_max_height = None, nc_sealed_consensus_key = [42], nc_sealed_id_key = None, nc_peer_id = None,
      nc_enclave_state_port = 5555, nc_enclave_tendermint_conn = 5000, nc_credentials = demo_credentials,
      nc_aws_region = ''ap-southeast-1''\<rparr>"

definition demo_helper :: helper_lib where
  "demo_helper =
     \<lparr>hl_nitro = demo_nitro
        \<lparr>nl_request_to_json := (\<lambda>r. if r = Start demo_start_config then Inr [1] else Inl []),
         nl_request_from_json := (\<lambda>_. Inr (Start demo_start_config))\<rparr>,
      hl_host = demo_env, hl_opt_to_toml = (\<lambda>_. Inr [9]), hl_opt_from_toml = (\<lambda>_. Inr nitro_sign_opt_default),
      hl_enclave_to_toml = (\<lambda>_. Inr [8]),
      hl_enclave_from_toml = (\<lambda>_. Inr \<lparr>ec_vsock_proxy = vsock_proxy_opt_default, ec_enclave = enclave_opt_default\<rparr>),
      hl_state_error_debug = (\<lambda>_. []), hl_error_debug = (\<lambda>_. []),
      hl_display = \<lparr>bech32_encode = (\<lambda>p b. p), base64_encode = (\<lambda>b. b), node_id = (\<lambda>_. Some [])\<rparr>,
      hl_base64 = (\<lambda>b. b), hl_utf8_error = (\<lambda>_. []), hl_imds = Inl (RuntimeError []), hl_is_dir = (\<lambda>_. True),
      hl_exists = (\<lambda>_. True), hl_writes = (\<lambda>_. []), hl_describe_from_json = (\<lambda>_. Inr []), hl_describe_to_json = (\<lambda>_. Inr []),
      hl_string_debug = (\<lambda>s. s), hl_run_to_json = (\<lambda>_. Inr []),
      hl_run_from_json = (\<lambda>_. Inl []), hl_terminate_from_json = (\<lambda>_. Inl []),
      hl_utf8_lossy = (\<lambda>_. []), hl_bind = (\<lambda>_ _. Inr ())\<rparr>"

definition demo_console :: "helper_event console" where
  "demo_console =
     \<lparr>cmd_fs = \<lparr>files = [''state/priv_validator_state.json'' \<mapsto> demo_bytes, ''secrets/secret.key'' \<mapsto> [42]], faults = []\<rparr>,
      cmd_out = [], cmd_trace = []\<rparr>"

definition demo_opt :: nitro_sign_opt where
  "demo_opt = nitro_sign_opt_default\<lparr>nso_credentials := Some demo_credentials\<rparr>"

lemma demo_helper_starts:
  "nitro_helper_start demo_helper (\<lambda>_ _. Inr (demo_sock [])) [] [] demo_opt None demo_console = None"
proof -
  have w: "write_u16_payload [1] (demo_sock []) = (Inr (), (demo_sock [])\<lparr>sent := frame [1]\<rparr>)"
    by (simp add: write_u16_payload_ideal demo_sock_def)
  have rd: "fs_read_to_string ''state/priv_validator_state.json'' (cmd_fs demo_console) = (Inr demo_bytes, cmd_fs demo_console)"
    using utf8_valid_nib by (simp add: fs_read_to_string_def fs_read_def demo_console_def next_fault_def demo_bytes_def)
  have s: "nitro_new_syncer demo_helper demo_opt demo_console =
      Some (Inr \<lparr>nss_path = ''state/priv_validator_state.json'', nss_state = demo_vote_state\<rparr>, demo_console)"
    using rd demo_bytes_facts
    by (simp add: nitro_new_syncer_def nitro_syncer_new_def demo_helper_def demo_opt_def nitro_sign_opt_default_def)
  have e: "nitro_enclave_config demo_helper demo_opt demo_credentials demo_console = Some (Inr demo_start_config, demo_console)"
    by (simp add: nitro_enclave_config_def demo_opt_def nitro_sign_opt_default_def cbind_def cfs_def cret_def fs_read_def
        demo_console_def next_fault_def demo_start_config_def)
  have c: "credentials_of demo_helper demo_opt = cret demo_credentials"
    by (simp add: credentials_of_def demo_opt_def)
  show ?thesis
    unfolding nitro_helper_start_def nitro_start_prepare_def c Let_def
    using w s e
    by (simp add: cbind_def cret_def nitro_push_config_def ctry_def cemit_def demo_helper_def demo_opt_def nitro_sign_opt_default_def
        nitro_join_syncer_def)
qed

theorem nitro_helper_start_pushes_config_witness:
  "\<exists>c1 b syncer. cmd_trace c1 = [Pushed 15 5050 (frame b), StartedProxy (proxy_new 5000 ''/tmp/validator.socket''), StartedSyncer syncer]
    \<and> nitro_helper_start demo_helper (\<lambda>_ _. Inr (demo_sock [])) [] [] demo_opt None demo_console =
        nitro_join_syncer demo_helper [] [] syncer c1
    \<and> nl_request_from_json (hl_nitro demo_helper) b = Inr (Start demo_start_config) \<and> nss_state syncer = demo_vote_state"
proof -
  have rt: "nl_request_to_json (hl_nitro demo_helper) r = Inr b \<Longrightarrow> nl_request_from_json (hl_nitro demo_helper) b = Inr r" for r b
    by (simp add: demo_helper_def split: if_splits)
  have ns: "no_spurious_not_found (cmd_fs demo_console)" by (simp add: demo_console_def no_spurious_not_found_def)
  have pr: "proceeds (nitro_helper_start demo_helper (\<lambda>_ _. Inr (demo_sock [])) [] [] demo_opt None demo_console)"
    by (simp add: demo_helper_starts proceeds_def)
  have fl: "files (cmd_fs demo_console) (nso_state_file_path demo_opt) = Some demo_bytes" "cmd_trace demo_console = []"
    "nso_enclave_config_cid demo_opt = 15" "nso_enclave_config_port demo_opt = 5050"
    "nso_enclave_tendermint_conn demo_opt = 5000" "nso_address demo_opt = Unix ''/tmp/validator.socket''"
    by (simp_all add: demo_console_def demo_opt_def nitro_sign_opt_default_def)
  have js: "he_json (hl_host demo_helper) = demo_json" "nl_request_from_json (hl_nitro demo_helper) b = Inr (Start demo_start_config)" for b
    by (simp_all add: demo_helper_def)
  obtain b s syncer c1 where
    "(Inr (demo_sock []) :: io_error + sock) = Inr s"
    "cmd_trace c1 = [Pushed 15 5050 (sent s @ frame b), StartedProxy (proxy_new 5000 ''/tmp/validator.socket''), StartedSyncer syncer]"
    "nitro_helper_start demo_helper (\<lambda>_ _. Inr (demo_sock [])) [] [] demo_opt None demo_console =
        nitro_join_syncer demo_helper [] [] syncer c1"
    "nss_state syncer = demo_vote_state"
    using nitro_helper_start_pushes_config [OF rt ns pr, unfolded fl js] demo_bytes_facts(2) by auto
  then show ?thesis using js(2) by (intro exI [of _ c1] exI [of _ b] exI [of _ syncer]) (auto simp: demo_sock_def)
qed

end
