(* ===== verification/Nitro_Launcher.thy ===== *)
theory Nitro_Launcher
  imports Nitro_Helper
begin

text \<open>
  \<open>providers/nitro/nitro-helper/src/command/launch_all.rs\<close>: the launcher's three threads, its three stop channels and the main thread, which polls for
  the enclave, as a step relation in which the threads interleave arbitrarily, together with the state syncer that \<open>start\<close> waits for (\<open>state.rs\<close>).
\<close>

section \<open>Waiting for the enclave\<close>

text \<open>The loop of \<open>run\<close>: \<open>describe t\<close> is the answer to the poll number \<open>t\<close>.\<close>

definition timeout :: nat where
  "timeout = 15"

datatype poll = PollError string | PollFound u32 | PollAgain | PollTimeout

definition poll_enclave :: "(nat \<Rightarrow> string + enclave_describe_info list) \<Rightarrow> nat \<Rightarrow> poll" where
  "poll_enclave describe t =
     (case describe t of
        Inl e \<Rightarrow> PollError e
      | Inr (info # _) \<Rightarrow> PollFound (ucast (edi_enclave_cid info))
      | Inr [] \<Rightarrow> if t + 1 \<ge> timeout then PollTimeout else PollAgain)"

function wait_enclave :: "(nat \<Rightarrow> string + enclave_describe_info list) \<Rightarrow> nat \<Rightarrow> poll" where
  "wait_enclave describe t =
     (case poll_enclave describe t of PollAgain \<Rightarrow> wait_enclave describe (t + 1) | p \<Rightarrow> p)"
  by pat_completeness auto
termination
  by (relation "measure (\<lambda>(_, t). timeout - t)")
     (auto simp: poll_enclave_def split: sum.splits list.splits if_splits)

declare wait_enclave.simps [simp del]

section \<open>The launcher\<close>

text \<open>A channel as its senders see it: the number of signals not yet received, and whether the receiver still lives.\<close>

record chan =
  ch_msgs :: nat
  ch_open :: bool

definition chan_new :: chan where
  "chan_new = \<lparr>ch_msgs = 0, ch_open = True\<rparr>"

text \<open>
  \<open>Starting\<close> is a thread before its service runs, \<open>Waiting\<close> one that waits for the stop signal, \<open>Ended\<close> one whose \<open>run_enclave\<close> or \<open>run_vsock_proxy\<close> has returned, which drops its
  receiver.  The third thread runs \<open>start\<close>: \<open>Preparing\<close> up to the launch of the state syncer, then \<open>Listening\<close> for the enclave's connection and \<open>Syncing\<close> in the inner loop of \<open>launch_syncer\<close>
  (\<open>providers/nitro/nitro-helper/src/state.rs\<close>), which looks at the stop channel only after it has received a state.
\<close>

datatype 'a phase = Starting | Waiting 'a | Ended

datatype helper_phase = NotStarted | Preparing | Listening | Syncing | Finished

datatype main_phase = Polling nat | SettingHandler | Joining | Returned "string + unit"

datatype thread = EnclaveThread | ProxyThread | HelperThread | MainThread | CtrlC

text \<open>How a thread's work ends: \<open>OutNone\<close> if never.\<close>

datatype 'a outcome = OutOk 'a | OutErr string | OutPanic | OutNone

definition outcome_of :: "('a \<Rightarrow> 'b) \<Rightarrow> ((cmd_error + 'a) \<times> 't console) option \<Rightarrow> 'b outcome" where
  "outcome_of f r =
     (case r of
        None \<Rightarrow> OutNone
      | Some (Inr x, _) \<Rightarrow> OutOk (f x)
      | Some (Inl (CmdErr e), _) \<Rightarrow> OutErr e
      | Some (Inl (CmdPanic _), _) \<Rightarrow> OutPanic)"

text \<open>
  What happens around the launcher: starting the enclave gives its identifier (\<open>le_left\<close>: whether a start that fails leaves an enclave running all the same); the proxy was already running or has been
  spawned; the answers to the polls; the outcome of \<open>start\<close> up to the launch of the syncer; whether the enclave that the polling finds is the one the launcher starts; whether terminating the enclave, killing the proxy and setting the handler succeed.
\<close>

record launch_env =
  le_enclave :: "string outcome"
  le_left :: bool
  le_proxy :: "bool outcome"
  le_describe :: "nat \<Rightarrow> string + enclave_describe_info list"
  le_prepare :: "u32 \<Rightarrow> unit outcome"
  le_own :: bool
  le_terminated :: bool
  le_killed :: bool
  le_handler_set :: bool

text \<open>
  The surroundings given by the helper's own operations: \<open>cli1\<close> answers the enclave's thread, \<open>clis t\<close> the poll number \<open>t\<close>.
\<close>

definition launch_env_of ::
    "helper_lib \<Rightarrow> cli \<Rightarrow> (nat \<Rightarrow> cli) \<Rightarrow> string list list \<Rightarrow> io_error + unit \<Rightarrow> (u32 \<Rightarrow> u32 \<Rightarrow> io_error + sock)
      \<Rightarrow> nitro_sign_opt \<Rightarrow> enclave_config \<Rightarrow> bool \<Rightarrow> bool \<Rightarrow> bool \<Rightarrow> bool \<Rightarrow> helper_event console \<Rightarrow> launch_env" where
  "launch_env_of lib cli1 clis processes spawned connect tmkms_config enclave_config left own killed handler_set c =
     \<lparr>le_enclave = outcome_of eri_enclave_id (run_enclave_start lib cli1 (ec_enclave enclave_config) c),
      le_left = left,
      le_proxy =
        (if check_vsock_proxy processes then OutOk True
         else case spawned of
                Inl e \<Rightarrow> OutErr (''spawn vsock proxy error: '' @ nl_io_error_debug (hl_nitro lib) e)
              | Inr _ \<Rightarrow> OutOk False),
      le_describe = (\<lambda>t. case describe_enclave lib (clis t) c of
          Some (Inr infos, _) \<Rightarrow> Inr infos | Some (Inl (CmdErr e), _) \<Rightarrow> Inl e | _ \<Rightarrow> Inl []),
      le_prepare = (\<lambda>cid. outcome_of (\<lambda>_. ()) (nitro_start_prepare lib connect tmkms_config (Some cid) c)),
      le_own = own,
      le_terminated =
        (case run_enclave_start lib cli1 (ec_enclave enclave_config) c of
           Some (Inr info, c1) \<Rightarrow> (case stop_enclave lib cli1 (Some (eri_enclave_id info)) c1 of
               Some (Inr t, _) \<Rightarrow> eti_terminated t | _ \<Rightarrow> False)
         | _ \<Rightarrow> False),
      le_killed = killed, le_handler_set = handler_set\<rparr>"

record launcher =
  la_enclave :: "string phase"
  la_proxy :: "unit phase"
  la_helper :: helper_phase
  la_main :: main_phase
  la_cid :: "u32 option"
  la_handler :: bool
  la_chans :: "chan list"
  la_sends :: "thread \<Rightarrow> nat option"
  la_states :: nat
  la_enclave_up :: bool
  la_proxy_up :: bool
  la_exit :: "nat option"

text \<open>
  \<open>Launcher::new\<close> and the first lines of \<open>run\<close>: the channels are made and the threads of the enclave and the proxy are spawned.  \<open>la_sends s th = Some k\<close>: the thread \<open>th\<close> is in the loop
  that sends the stop signals and has sent \<open>k\<close> of them.  \<open>la_states\<close> counts the states that the enclave has sent and the syncer has not received.
\<close>

definition launcher_new :: launcher where
  "launcher_new =
     \<lparr>la_enclave = Starting, la_proxy = Starting, la_helper = NotStarted, la_main = Polling 0, la_cid = None, la_handler = False,
      la_chans = [chan_new, chan_new, chan_new], la_sends = (\<lambda>_. None), la_states = 0, la_enclave_up = False, la_proxy_up = False,
      la_exit = None\<rparr>"

text \<open>A receiver is dropped when the function that owns it returns.\<close>

definition drop_receiver :: "nat \<Rightarrow> launcher \<Rightarrow> launcher" where
  "drop_receiver i s = s\<lparr>la_chans := (la_chans s)[i := (la_chans s ! i)\<lparr>ch_open := False\<rparr>]\<rparr>"

definition take_stop :: "nat \<Rightarrow> launcher \<Rightarrow> launcher" where
  "take_stop i s = s\<lparr>la_chans := (la_chans s)[i := (la_chans s ! i)\<lparr>ch_msgs := ch_msgs (la_chans s ! i) - 1\<rparr>]\<rparr>"

definition put_stop :: "nat \<Rightarrow> launcher \<Rightarrow> launcher" where
  "put_stop i s = s\<lparr>la_chans := (la_chans s)[i := (la_chans s ! i)\<lparr>ch_msgs := Suc (ch_msgs (la_chans s ! i))\<rparr>]\<rparr>"

definition set_sends :: "thread \<Rightarrow> nat option \<Rightarrow> launcher \<Rightarrow> launcher" where
  "set_sends th k s = s\<lparr>la_sends := (la_sends s)(th := k)\<rparr>"

abbreviation stop_waits :: "nat \<Rightarrow> launcher \<Rightarrow> bool" where
  "stop_waits i s \<equiv> 0 < ch_msgs (la_chans s ! i)"

text \<open>The enclave at the other end of the syncer's connection can send: the launcher's own one as long as it is up.\<close>

abbreviation sender_up :: "launch_env \<Rightarrow> launcher \<Rightarrow> bool" where
  "sender_up env s \<equiv> le_own env \<longrightarrow> la_enclave_up s"

text \<open>
  One step of one thread.  Each iteration of \<open>for tx in stop_senders { if let Err(e) = tx.send(()) { exit(1) } }\<close> is a step of its own; the handler of Ctrl-C only logs a send that fails.  A read
  of the syncer that fails, or finds the end of the stream, changes nothing and so is no step; nor is a connection that it cannot send its state to.  What an enclave sent before it was terminated may still arrive or be lost.  The syncer does not panic: it would for a state file without a parent directory, which \<open>start\<close> does not get past.
\<close>

inductive launcher_step :: "launch_env \<Rightarrow> launcher \<Rightarrow> launcher \<Rightarrow> bool" for env where
  enclave_starts: "\<lbrakk>la_exit s = None; la_enclave s = Starting; le_enclave env = OutOk i\<rbrakk> \<Longrightarrow>
    launcher_step env s (s\<lparr>la_enclave := Waiting i, la_enclave_up := True\<rparr>)"
| enclave_fails: "\<lbrakk>la_exit s = None; la_enclave s = Starting; le_enclave env = OutErr e\<rbrakk> \<Longrightarrow>
    launcher_step env s
      (set_sends EnclaveThread (Some 0) (drop_receiver 0 (s\<lparr>la_enclave := Ended, la_enclave_up := le_left env\<rparr>)))"
| enclave_panics: "\<lbrakk>la_exit s = None; la_enclave s = Starting; le_enclave env = OutPanic\<rbrakk> \<Longrightarrow>
    launcher_step env s (drop_receiver 0 (s\<lparr>la_enclave := Ended, la_enclave_up := le_left env\<rparr>))"
| enclave_stops: "\<lbrakk>la_exit s = None; la_enclave s = Waiting i; stop_waits 0 s\<rbrakk> \<Longrightarrow>
    launcher_step env s
      (drop_receiver 0 (take_stop 0 (s\<lparr>la_enclave := Ended, la_enclave_up := \<not> le_terminated env\<rparr>)))"
| proxy_starts: "\<lbrakk>la_exit s = None; la_proxy s = Starting; le_proxy env = OutOk False\<rbrakk> \<Longrightarrow>
    launcher_step env s (s\<lparr>la_proxy := Waiting (), la_proxy_up := True\<rparr>)"
| proxy_runs_already: "\<lbrakk>la_exit s = None; la_proxy s = Starting; le_proxy env = OutOk True\<rbrakk> \<Longrightarrow>
    launcher_step env s (drop_receiver 1 (s\<lparr>la_proxy := Ended\<rparr>))"
| proxy_fails: "\<lbrakk>la_exit s = None; la_proxy s = Starting; le_proxy env = OutErr e\<rbrakk> \<Longrightarrow>
    launcher_step env s (set_sends ProxyThread (Some 0) (drop_receiver 1 (s\<lparr>la_proxy := Ended\<rparr>)))"
| proxy_stops: "\<lbrakk>la_exit s = None; la_proxy s = Waiting u; stop_waits 1 s\<rbrakk> \<Longrightarrow>
    launcher_step env s
      (drop_receiver 1 (take_stop 1 (s\<lparr>la_proxy := Ended, la_proxy_up := \<not> le_killed env\<rparr>)))"
| helper_listens: "\<lbrakk>la_exit s = None; la_helper s = Preparing; la_cid s = Some cid; le_prepare env cid = OutOk u\<rbrakk> \<Longrightarrow>
    launcher_step env s (s\<lparr>la_helper := Listening\<rparr>)"
| helper_fails: "\<lbrakk>la_exit s = None; la_helper s = Preparing; la_cid s = Some cid; le_prepare env cid = OutErr e\<rbrakk> \<Longrightarrow>
    launcher_step env s (set_sends HelperThread (Some 0) (drop_receiver 2 (s\<lparr>la_helper := Finished\<rparr>)))"
| helper_panics: "\<lbrakk>la_exit s = None; la_helper s = Preparing; la_cid s = Some cid; le_prepare env cid = OutPanic\<rbrakk> \<Longrightarrow>
    launcher_step env s (drop_receiver 2 (s\<lparr>la_helper := Finished\<rparr>))"
| syncer_accepts: "\<lbrakk>la_exit s = None; la_helper s = Listening\<rbrakk> \<Longrightarrow>
    launcher_step env s (s\<lparr>la_helper := Syncing\<rparr>)"
| enclave_persists: "\<lbrakk>la_exit s = None; la_helper s = Syncing; sender_up env s\<rbrakk> \<Longrightarrow>
    launcher_step env s (s\<lparr>la_states := Suc (la_states s)\<rparr>)"
| states_lost: "\<lbrakk>la_exit s = None; \<not> sender_up env s\<rbrakk> \<Longrightarrow>
    launcher_step env s (s\<lparr>la_states := 0\<rparr>)"
| syncer_goes_on: "\<lbrakk>la_exit s = None; la_helper s = Syncing; 0 < la_states s; \<not> stop_waits 2 s\<rbrakk> \<Longrightarrow>
    launcher_step env s (s\<lparr>la_states := la_states s - 1\<rparr>)"
| syncer_stops: "\<lbrakk>la_exit s = None; la_helper s = Syncing; 0 < la_states s; stop_waits 2 s\<rbrakk> \<Longrightarrow>
    launcher_step env s (drop_receiver 2 (take_stop 2 (s\<lparr>la_helper := Finished, la_states := la_states s - 1\<rparr>)))"
| poll_again: "\<lbrakk>la_exit s = None; la_main s = Polling t; poll_enclave (le_describe env) t = PollAgain\<rbrakk> \<Longrightarrow>
    launcher_step env s (s\<lparr>la_main := Polling (t + 1)\<rparr>)"
| poll_fails: "\<lbrakk>la_exit s = None; la_main s = Polling t; poll_enclave (le_describe env) t = PollError e\<rbrakk> \<Longrightarrow>
    launcher_step env s (s\<lparr>la_main := Returned (Inl e), la_exit := Some 1\<rparr>)"
| poll_finds: "\<lbrakk>la_exit s = None; la_main s = Polling t; poll_enclave (le_describe env) t = PollFound cid\<rbrakk> \<Longrightarrow>
    launcher_step env s (s\<lparr>la_main := SettingHandler, la_cid := Some cid, la_helper := Preparing\<rparr>)"
| poll_times_out: "\<lbrakk>la_exit s = None; la_main s = Polling t; poll_enclave (le_describe env) t = PollTimeout\<rbrakk> \<Longrightarrow>
    launcher_step env s (set_sends MainThread (Some 0) (s\<lparr>la_main := SettingHandler\<rparr>))"
| handler_set: "\<lbrakk>la_exit s = None; la_main s = SettingHandler; la_sends s MainThread = None; le_handler_set env\<rbrakk> \<Longrightarrow>
    launcher_step env s (s\<lparr>la_main := Joining, la_handler := True\<rparr>)"
| handler_fails: "\<lbrakk>la_exit s = None; la_main s = SettingHandler; la_sends s MainThread = None; \<not> le_handler_set env\<rbrakk> \<Longrightarrow>
    launcher_step env s
      (s\<lparr>la_main := Returned (Inl ''Error to set Ctrl-C channel''), la_exit := Some 1\<rparr>)"
| ctrl_c: "\<lbrakk>la_exit s = None; la_handler s; la_sends s CtrlC = None\<rbrakk> \<Longrightarrow>
    launcher_step env s (set_sends CtrlC (Some 0) s)"
| send: "\<lbrakk>la_exit s = None; la_sends s th = Some k; k < 3; ch_open (la_chans s ! k)\<rbrakk> \<Longrightarrow>
    launcher_step env s (set_sends th (Some (Suc k)) (put_stop k s))"
| send_exits: "\<lbrakk>la_exit s = None; la_sends s th = Some k; k < 3; \<not> ch_open (la_chans s ! k); th \<noteq> CtrlC\<rbrakk> \<Longrightarrow>
    launcher_step env s (s\<lparr>la_exit := Some 1\<rparr>)"
| send_logs: "\<lbrakk>la_exit s = None; la_sends s CtrlC = Some k; k < 3; \<not> ch_open (la_chans s ! k)\<rbrakk> \<Longrightarrow>
    launcher_step env s (set_sends CtrlC (Some (Suc k)) s)"
| sent_all: "\<lbrakk>la_exit s = None; la_sends s th = Some 3\<rbrakk> \<Longrightarrow> launcher_step env s (set_sends th None s)"
| joined: "\<lbrakk>la_exit s = None; la_main s = Joining; la_enclave s = Ended; la_proxy s = Ended; la_helper s \<in> {NotStarted, Finished};
     la_sends s EnclaveThread = None; la_sends s ProxyThread = None; la_sends s HelperThread = None\<rbrakk> \<Longrightarrow>
    launcher_step env s (s\<lparr>la_main := Returned (Inr ()), la_exit := Some 0\<rparr>)"

inductive_cases launcher_stepE: "launcher_step env s s'"

abbreviation launcher_steps :: "launch_env \<Rightarrow> launcher \<Rightarrow> launcher \<Rightarrow> bool" where
  "launcher_steps env \<equiv> (launcher_step env)\<^sup>*\<^sup>*"

abbreviation launcher_reach :: "launch_env \<Rightarrow> launcher \<Rightarrow> bool" where
  "launcher_reach env \<equiv> launcher_steps env launcher_new"

section \<open>Invariants\<close>

lemma launcher_ops_simps [simp]:
  "map ch_open (la_chans (drop_receiver i s)) = (map ch_open (la_chans s))[i := False]"
  "map ch_open (la_chans (take_stop i s)) = map ch_open (la_chans s)"
  "map ch_open (la_chans (put_stop i s)) = map ch_open (la_chans s)"
  "la_chans (set_sends th k s) = la_chans s"
  "la_sends (set_sends th k s) = (la_sends s)(th := k)" "la_sends (drop_receiver i s) = la_sends s"
  "la_sends (take_stop i s) = la_sends s" "la_sends (put_stop i s) = la_sends s"
  by (simp_all add: drop_receiver_def take_stop_def put_stop_def set_sends_def map_update) (metis list_update_id map_update)+

lemma launcher_ops_keep [simp]:
  "la_enclave (drop_receiver i s) = la_enclave s" "la_proxy (drop_receiver i s) = la_proxy s" "la_helper (drop_receiver i s) = la_helper s"
  "la_main (drop_receiver i s) = la_main s" "la_cid (drop_receiver i s) = la_cid s" "la_handler (drop_receiver i s) = la_handler s"
  "la_enclave_up (drop_receiver i s) = la_enclave_up s" "la_proxy_up (drop_receiver i s) = la_proxy_up s" "la_exit (drop_receiver i s) = la_exit s" "la_states (drop_receiver i s) = la_states s"
  "la_enclave (take_stop i s) = la_enclave s" "la_proxy (take_stop i s) = la_proxy s" "la_helper (take_stop i s) = la_helper s"
  "la_main (take_stop i s) = la_main s" "la_cid (take_stop i s) = la_cid s" "la_handler (take_stop i s) = la_handler s"
  "la_enclave_up (take_stop i s) = la_enclave_up s" "la_proxy_up (take_stop i s) = la_proxy_up s" "la_exit (take_stop i s) = la_exit s" "la_states (take_stop i s) = la_states s"
  "la_enclave (put_stop i s) = la_enclave s" "la_proxy (put_stop i s) = la_proxy s" "la_helper (put_stop i s) = la_helper s"
  "la_main (put_stop i s) = la_main s" "la_cid (put_stop i s) = la_cid s" "la_handler (put_stop i s) = la_handler s"
  "la_enclave_up (put_stop i s) = la_enclave_up s" "la_proxy_up (put_stop i s) = la_proxy_up s" "la_exit (put_stop i s) = la_exit s" "la_states (put_stop i s) = la_states s"
  "la_enclave (set_sends th k s) = la_enclave s" "la_proxy (set_sends th k s) = la_proxy s" "la_helper (set_sends th k s) = la_helper s"
  "la_main (set_sends th k s) = la_main s" "la_cid (set_sends th k s) = la_cid s" "la_handler (set_sends th k s) = la_handler s"
  "la_enclave_up (set_sends th k s) = la_enclave_up s" "la_proxy_up (set_sends th k s) = la_proxy_up s" "la_exit (set_sends th k s) = la_exit s" "la_states (set_sends th k s) = la_states s"
  by (simp_all add: drop_receiver_def take_stop_def put_stop_def set_sends_def)

text \<open>The receivers that live are those of the threads that have not ended.\<close>

definition chans_match :: "launcher \<Rightarrow> bool" where
  "chans_match s \<longleftrightarrow>
     map ch_open (la_chans s) = [la_enclave s \<noteq> Ended, la_proxy s \<noteq> Ended, la_helper s \<noteq> Finished]"

text \<open>The polling: its progress, and that the helper runs only with the identifier it found.\<close>

definition polling_ok :: "launch_env \<Rightarrow> launcher \<Rightarrow> bool" where
  "polling_ok env s \<longleftrightarrow>
     (\<forall>t. la_main s = Polling t \<longrightarrow>
        la_helper s = NotStarted \<and> t < timeout \<and> wait_enclave (le_describe env) 0 = wait_enclave (le_describe env) t)
     \<and> (\<forall>cid. la_cid s = Some cid \<longrightarrow> wait_enclave (le_describe env) 0 = PollFound cid)
     \<and> (la_helper s \<noteq> NotStarted \<longrightarrow> la_cid s \<noteq> None)"

text \<open>A thread that failed has ended; it never gets past its own channel.\<close>

definition sends_ok :: "launcher \<Rightarrow> bool" where
  "sends_ok s \<longleftrightarrow>
     (\<forall>k. la_sends s EnclaveThread = Some k \<longrightarrow> la_enclave s = Ended \<and> k = 0)
     \<and> (\<forall>k. la_sends s ProxyThread = Some k \<longrightarrow> la_proxy s = Ended \<and> k \<le> 1)
     \<and> (\<forall>k. la_sends s HelperThread = Some k \<longrightarrow> la_helper s = Finished \<and> k \<le> 2)
     \<and> (\<forall>k. la_sends s CtrlC = Some k \<longrightarrow> la_handler s \<and> k \<le> 3)"

text \<open>
  How the threads have ended: not by an error, unless they are still in their loop of stop signals.
\<close>

fun ended_ok :: "'a outcome \<Rightarrow> bool \<Rightarrow> bool" where
  "ended_ok (OutOk x) failing \<longleftrightarrow> True"
| "ended_ok OutPanic failing \<longleftrightarrow> True"
| "ended_ok (OutErr e) failing \<longleftrightarrow> failing"
| "ended_ok OutNone failing \<longleftrightarrow> False"

definition threads_ok :: "launch_env \<Rightarrow> launcher \<Rightarrow> bool" where
  "threads_ok env s \<longleftrightarrow>
     (\<forall>i. la_enclave s = Waiting i \<longrightarrow> le_enclave env = OutOk i)
     \<and> (la_enclave s = Ended \<longrightarrow> ended_ok (le_enclave env) (la_sends s EnclaveThread \<noteq> None))
     \<and> (la_proxy s = Waiting () \<longrightarrow> le_proxy env = OutOk False)
     \<and> (la_proxy s = Ended \<longrightarrow> le_proxy env \<noteq> OutPanic \<and> ended_ok (le_proxy env) (la_sends s ProxyThread \<noteq> None))
     \<and> (la_helper s \<in> {Listening, Syncing} \<longrightarrow> le_prepare env (the (la_cid s)) = OutOk ())
     \<and> (la_helper s = Finished \<longrightarrow> ended_ok (le_prepare env (the (la_cid s))) (la_sends s HelperThread \<noteq> None))"

text \<open>What runs: the enclave is up while its thread waits, and after that only when terminating it failed or its start failed and left it; likewise the proxy.\<close>

definition running_ok :: "launch_env \<Rightarrow> launcher \<Rightarrow> bool" where
  "running_ok env s \<longleftrightarrow>
     (\<forall>i. la_enclave s = Waiting i \<longrightarrow> la_enclave_up s)
     \<and> (la_enclave_up s \<longrightarrow> la_enclave s \<noteq> Starting)
     \<and> (la_enclave_up s \<and> la_enclave s = Ended \<longrightarrow> (if \<exists>i. le_enclave env = OutOk i then \<not> le_terminated env else le_left env))
     \<and> (la_proxy_up s \<longrightarrow> la_proxy s = Waiting () \<or> la_proxy s = Ended \<and> \<not> le_killed env)
     \<and> (la_exit s = Some 0 \<longrightarrow> la_enclave s = Ended \<and> la_proxy s = Ended \<and> la_helper s \<in> {NotStarted, Finished}
        \<and> la_sends s EnclaveThread = None \<and> la_sends s ProxyThread = None \<and> la_sends s HelperThread = None)"

definition launcher_inv :: "launch_env \<Rightarrow> launcher \<Rightarrow> bool" where
  "launcher_inv env s \<longleftrightarrow> chans_match s \<and> polling_ok env s \<and> sends_ok s \<and> threads_ok env s \<and> running_ok env s"

lemma poll_again_progress:
  "poll_enclave d t = PollAgain \<Longrightarrow> t + 1 < timeout \<and> wait_enclave d t = wait_enclave d (t + 1)"
  by (subst wait_enclave.simps) (auto simp: poll_enclave_def split: sum.splits list.splits if_splits)

lemma poll_finds_wait: "poll_enclave d t = PollFound cid \<Longrightarrow> wait_enclave d t = PollFound cid"
  by (subst wait_enclave.simps) simp

lemma polling_ok_step: "launcher_step env s s' \<Longrightarrow> polling_ok env s \<Longrightarrow> polling_ok env s'"
  by (induction rule: launcher_step.induct) (auto simp: polling_ok_def dest!: poll_again_progress poll_finds_wait)

lemma chans_match_step:
  "launcher_step env s s' \<Longrightarrow> polling_ok env s \<Longrightarrow> chans_match s \<Longrightarrow> chans_match s'"
  by (induction rule: launcher_step.induct) (auto simp: chans_match_def polling_ok_def)

lemma chans_match_open:
  assumes "chans_match s"
  shows "ch_open (la_chans s ! 0) \<longleftrightarrow> la_enclave s \<noteq> Ended" "ch_open (la_chans s ! 1) \<longleftrightarrow> la_proxy s \<noteq> Ended"
    "ch_open (la_chans s ! 2) \<longleftrightarrow> la_helper s \<noteq> Finished" "length (la_chans s) = 3"
proof -
  from assms obtain a b c where "la_chans s = [a, b, c]" by (auto simp: chans_match_def)
  with assms show "ch_open (la_chans s ! 0) \<longleftrightarrow> la_enclave s \<noteq> Ended" "ch_open (la_chans s ! 1) \<longleftrightarrow> la_proxy s \<noteq> Ended"
    "ch_open (la_chans s ! 2) \<longleftrightarrow> la_helper s \<noteq> Finished" "length (la_chans s) = 3"
    by (auto simp: chans_match_def)
qed

lemma sends_ok_step:
  "launcher_step env s s' \<Longrightarrow> chans_match s \<Longrightarrow> polling_ok env s \<Longrightarrow> sends_ok s \<Longrightarrow> sends_ok s'"
proof (induction rule: launcher_step.induct)
  case (send s th k)
  then consider "k = 0" | "k = 1" | "k = 2" by linarith
  then show ?case using send chans_match_open [OF send.prems(1)] by cases (cases th; auto simp: sends_ok_def)+
qed (auto simp: sends_ok_def polling_ok_def)

lemma threads_ok_step:
  "launcher_step env s s' \<Longrightarrow> sends_ok s \<Longrightarrow> polling_ok env s \<Longrightarrow> threads_ok env s \<Longrightarrow> threads_ok env s'"
proof (induction rule: launcher_step.induct)
  case (send s th k)
  then show ?case by (cases th) (auto simp: threads_ok_def)
next
  case (sent_all s th)
  then show ?case by (cases th) (auto simp: threads_ok_def sends_ok_def)
qed (simp_all add: threads_ok_def sends_ok_def polling_ok_def)

lemma running_ok_step: "launcher_step env s s' \<Longrightarrow> threads_ok env s \<Longrightarrow> running_ok env s \<Longrightarrow> running_ok env s'"
  by (induction rule: launcher_step.induct) (auto simp: running_ok_def threads_ok_def)

lemma launcher_inv_new: "launcher_inv env launcher_new"
  by (simp add: launcher_inv_def chans_match_def polling_ok_def sends_ok_def threads_ok_def running_ok_def launcher_new_def chan_new_def
      timeout_def)

lemma launcher_inv_step: "launcher_step env s s' \<Longrightarrow> launcher_inv env s \<Longrightarrow> launcher_inv env s'"
  unfolding launcher_inv_def using polling_ok_step chans_match_step sends_ok_step threads_ok_step running_ok_step by blast

interpretation launcher_run: step_invariant "launcher_step env" launcher_new "launcher_inv env" for env
  by unfold_locales (rule launcher_inv_new, rule launcher_inv_step)

lemma launcher_exited: "la_exit s \<noteq> None \<Longrightarrow> \<not> launcher_step env s s'"
  by (auto elim: launcher_stepE)

text \<open>A thread that has failed stays in its loop, and the process does not end with 0.\<close>

lemma failed_step:
  assumes "launcher_step env s s'" "launcher_inv env s" "th \<in> {EnclaveThread, ProxyThread, HelperThread}"
    "la_sends s th \<noteq> None \<and> la_exit s \<noteq> Some 0"
  shows "la_sends s' th \<noteq> None \<and> la_exit s' \<noteq> Some 0"
  using assms by (induction rule: launcher_step.induct) (auto simp: launcher_inv_def sends_ok_def)

lemma failed_stays:
  assumes "launcher_steps env s s'" "launcher_inv env s" "th \<in> {EnclaveThread, ProxyThread, HelperThread}"
    "la_sends s th \<noteq> None" "la_exit s \<noteq> Some 0"
  shows "la_sends s' th \<noteq> None \<and> la_exit s' \<noteq> Some 0"
  by (rule launcher_run.stable_steps [OF assms(1,2), where P = "\<lambda>s. la_sends s th \<noteq> None \<and> la_exit s \<noteq> Some 0"])
     (use assms failed_step in blast)+

text \<open>Left to itself, the loop of a thread reaches the first channel without a receiver and ends the process there.\<close>

lemma sends_until_exit:
  assumes "la_exit s = None" "la_sends s th = Some k" "th \<noteq> CtrlC" "k \<le> j" "j < length (la_chans s)"
    "length (la_chans s) = 3" "\<not> ch_open (la_chans s ! j)"
  shows "\<exists>s'. launcher_steps env s s' \<and> la_exit s' = Some 1 \<and> la_enclave_up s' = la_enclave_up s
    \<and> la_proxy_up s' = la_proxy_up s"
  using assms
proof (induction "j - k" arbitrary: s k)
  case 0
  then have "launcher_step env s (s\<lparr>la_exit := Some 1\<rparr>)" by (intro send_exits) auto
  then show ?case by (intro exI [of _ "s\<lparr>la_exit := Some 1\<rparr>"]) auto
next
  case (Suc n)
  show ?case
  proof (cases "ch_open (la_chans s ! k)")
    case True
    let ?s = "set_sends th (Some (Suc k)) (put_stop k s)"
    have "launcher_step env s ?s" using True Suc.hyps(2) Suc.prems by (intro send) auto
    moreover have "\<exists>s'. launcher_steps env ?s s' \<and> la_exit s' = Some 1 \<and> la_enclave_up s' = la_enclave_up ?s
        \<and> la_proxy_up s' = la_proxy_up ?s"
      by (rule Suc.hyps(1) [of "Suc k"]) (use Suc.hyps(2) Suc.prems in \<open>auto simp: put_stop_def\<close>)
    ultimately show ?thesis by (auto intro: converse_rtranclp_into_rtranclp)
  next
    case False
    then have "launcher_step env s (s\<lparr>la_exit := Some 1\<rparr>)" using Suc.hyps(2) Suc.prems by (intro send_exits) auto
    then show ?thesis by (intro exI [of _ "s\<lparr>la_exit := Some 1\<rparr>"]) auto
  qed
qed

text \<open>Ctrl-C: the handler's loop puts a signal into every channel whose receiver lives, and every waiting thread then ends.\<close>

definition signalled :: "chan \<Rightarrow> chan" where
  "signalled c = (if ch_open c then c\<lparr>ch_msgs := Suc (ch_msgs c)\<rparr> else c)"

lemma ctrl_c_send:
  assumes "la_exit s = None" "la_sends s CtrlC = Some k" "k < 3"
  shows "launcher_step env s
    (s\<lparr>la_chans := (la_chans s)[k := signalled (la_chans s ! k)], la_sends := (la_sends s)(CtrlC := Some (Suc k))\<rparr>)"
proof (cases "ch_open (la_chans s ! k)")
  case True
  with send [OF assms True, of env] show ?thesis by (simp add: signalled_def set_sends_def put_stop_def)
next
  case False
  with send_logs [OF assms False, of env] show ?thesis by (simp add: signalled_def set_sends_def)
qed

lemma ctrl_c_sends:
  assumes "la_exit s = None" "la_handler s" "la_sends s CtrlC = None" "length (la_chans s) = 3"
  shows "launcher_steps env s
    (s\<lparr>la_chans := map signalled (la_chans s), la_sends := (la_sends s)(CtrlC := Some 3)\<rparr>)"
proof -
  obtain a b c where ch: "la_chans s = [a, b, c]"
    using assms(4) by (auto simp: numeral_3_eq_3 length_Suc_conv)
  let ?f = "\<lambda>xs k. s\<lparr>la_chans := xs, la_sends := (la_sends s)(CtrlC := Some k)\<rparr>"
  have 0: "launcher_step env s (?f [a, b, c] 0)"
    using ctrl_c [OF assms(1-3), of env] ch by (cases s) (simp add: set_sends_def)
  have 1: "launcher_step env (?f [a, b, c] 0) (?f [signalled a, b, c] 1)"
    using ctrl_c_send [of "?f [a, b, c] 0" 0 env] assms(1) by simp
  have 2: "launcher_step env (?f [signalled a, b, c] 1) (?f [signalled a, signalled b, c] 2)"
    using ctrl_c_send [of "?f [signalled a, b, c] 1" 1 env] assms(1) by (simp add: numeral_2_eq_2)
  have 3: "launcher_step env (?f [signalled a, signalled b, c] 2) (?f [signalled a, signalled b, signalled c] 3)"
    using ctrl_c_send [of "?f [signalled a, signalled b, c] 2" 2 env] assms(1)
    by (simp add: numeral_2_eq_2 numeral_3_eq_3)
  from 0 1 2 3 ch show ?thesis by (simp add: rtranclp.rtrancl_into_rtrancl)
qed

lemma enclave_thread_ends:
  assumes "la_exit s = None" "la_enclave s = Ended \<or> (\<exists>i. la_enclave s = Waiting i \<and> stop_waits 0 s)"
  shows "\<exists>cs. launcher_steps env s (s\<lparr>la_enclave := Ended,
      la_enclave_up := (if la_enclave s = Ended then la_enclave_up s else \<not> le_terminated env), la_chans := cs\<rparr>)
    \<and> (\<forall>j. j \<noteq> 0 \<longrightarrow> cs ! j = la_chans s ! j)"
proof (cases "la_enclave s = Ended")
  case True
  then show ?thesis by (intro exI [of _ "la_chans s"]) (cases s; simp)
next
  case False
  with assms obtain i where i: "la_enclave s = Waiting i" "stop_waits 0 s" by auto
  show ?thesis
    using enclave_stops [OF assms(1) i, of env] i(1)
    by (auto simp: drop_receiver_def take_stop_def intro!: exI r_into_rtranclp)
qed

lemma proxy_thread_ends:
  assumes "la_exit s = None" "la_proxy s = Ended \<or> la_proxy s = Waiting () \<and> stop_waits 1 s"
  shows "\<exists>up cs. launcher_steps env s (s\<lparr>la_proxy := Ended, la_proxy_up := up, la_chans := cs\<rparr>)
    \<and> (\<forall>j. j \<noteq> 1 \<longrightarrow> cs ! j = la_chans s ! j)"
proof (cases "la_proxy s = Ended")
  case True
  then show ?thesis by (intro exI [of _ "la_proxy_up s"] exI [of _ "la_chans s"]) (cases s; simp)
next
  case False
  with assms have i: "la_proxy s = Waiting ()" "stop_waits 1 s" by auto
  show ?thesis
    using proxy_stops [OF assms(1) i, of env]
    by (auto simp: drop_receiver_def take_stop_def intro!: exI r_into_rtranclp)
qed

lemma syncer_thread_ends:
  assumes "la_exit s = None" "la_helper s = Syncing" "0 < la_states s" "stop_waits 2 s"
  shows "\<exists>cs n. launcher_step env s (s\<lparr>la_helper := Finished, la_states := n, la_chans := cs\<rparr>)"
  using syncer_stops [OF assms, of env] by (auto simp: drop_receiver_def take_stop_def)

lemma signalled_threads_end:
  assumes "chans_match s" "la_exit s = None" "la_handler s" "la_sends s = (\<lambda>_. None)"
    and "la_enclave s \<noteq> Starting" "la_proxy s \<noteq> Starting" "la_helper s = Syncing"
  obtains s' where "launcher_steps env s s'" "la_exit s' = None" "la_main s' = la_main s" "la_enclave s' = Ended" "la_proxy s' = Ended"
    "la_helper s' = Syncing" "la_states s' = la_states s" "la_sends s' = (\<lambda>_. None)(CtrlC := Some 3)" "stop_waits 2 s'"
    "la_enclave_up s' = (if la_enclave s = Ended then la_enclave_up s else \<not> le_terminated env)"
proof -
  note op = chans_match_open [OF assms(1)]
  let ?s1 = "s\<lparr>la_chans := map signalled (la_chans s), la_sends := (la_sends s)(CtrlC := Some 3)\<rparr>"
  have 1: "launcher_steps env s ?s1" by (rule ctrl_c_sends) (simp_all add: assms(2,3,4) op(4))
  have sig: "stop_waits j ?s1" if "j < 3" "ch_open (la_chans s ! j)" for j
    using that op(4) by (simp add: signalled_def)
  have "la_enclave ?s1 = Ended \<or> (\<exists>i. la_enclave ?s1 = Waiting i \<and> stop_waits 0 ?s1)"
    using assms(5) op(1) sig [of 0] by (cases "la_enclave s") auto
  then obtain cs1 where 2: "launcher_steps env ?s1 (?s1\<lparr>la_enclave := Ended,
      la_enclave_up := (if la_enclave ?s1 = Ended then la_enclave_up ?s1 else \<not> le_terminated env), la_chans := cs1\<rparr>)"
    and cs1: "\<forall>j. j \<noteq> 0 \<longrightarrow> cs1 ! j = la_chans ?s1 ! j"
    using enclave_thread_ends [of ?s1 env] assms(2) by auto
  let ?s2 = "?s1\<lparr>la_enclave := Ended,
      la_enclave_up := (if la_enclave ?s1 = Ended then la_enclave_up ?s1 else \<not> le_terminated env), la_chans := cs1\<rparr>"
  have "la_proxy ?s2 = Ended \<or> la_proxy ?s2 = Waiting () \<and> stop_waits 1 ?s2"
    using assms(6) op(2) sig [of 1] cs1 by (cases "la_proxy s") auto
  then obtain up2 cs2 where 3: "launcher_steps env ?s2 (?s2\<lparr>la_proxy := Ended, la_proxy_up := up2, la_chans := cs2\<rparr>)"
    and cs2: "\<forall>j. j \<noteq> 1 \<longrightarrow> cs2 ! j = la_chans ?s2 ! j"
    using proxy_thread_ends [of ?s2 env] assms(2) by auto
  let ?s3 = "?s2\<lparr>la_proxy := Ended, la_proxy_up := up2, la_chans := cs2\<rparr>"
  have 4: "launcher_steps env s ?s3" using 1 2 3 by (meson rtranclp_trans)
  have "stop_waits 2 ?s3" using assms(7) op(3) sig [of 2] cs1 cs2 by auto
  with assms show thesis by (intro that [OF 4]) simp_all
qed

text \<open>Then the process ends, if the syncer still receives a state.\<close>

lemma ctrl_c_ends_process:
  assumes "launcher_inv env s" "la_exit s = None" "la_main s = Joining" "la_handler s" "la_sends s = (\<lambda>_. None)"
    and "la_enclave s \<noteq> Starting" "la_proxy s \<noteq> Starting" "la_helper s = Syncing" "0 < la_states s \<or> sender_up env s"
  shows "\<exists>s'. launcher_steps env s s' \<and> la_exit s' = Some 0 \<and> la_helper s' = Finished"
proof -
  define s0 where "s0 = (if 0 < la_states s then s else s\<lparr>la_states := Suc (la_states s)\<rparr>)"
  have 0: "launcher_steps env s s0"
    using assms(9) enclave_persists [OF assms(2,8), of env] by (auto simp: s0_def)
  have s0: "la_exit s0 = None" "la_main s0 = Joining" "la_handler s0" "la_sends s0 = (\<lambda>_. None)" "la_enclave s0 \<noteq> Starting"
    "la_proxy s0 \<noteq> Starting" "la_helper s0 = Syncing" "0 < la_states s0"
    using assms(2-8) by (simp_all add: s0_def)
  have "chans_match s0" using assms(1) by (simp add: launcher_inv_def chans_match_def s0_def)
  from signalled_threads_end [OF this s0(1,3-7), where env = env] obtain s1 where
    1: "launcher_steps env s0 s1" and s1: "la_exit s1 = None" "la_main s1 = la_main s0" "la_enclave s1 = Ended" "la_proxy s1 = Ended"
      "la_helper s1 = Syncing" "la_states s1 = la_states s0" "la_sends s1 = (\<lambda>_. None)(CtrlC := Some 3)" "stop_waits 2 s1" .
  then obtain cs n where 2: "launcher_step env s1 (s1\<lparr>la_helper := Finished, la_states := n, la_chans := cs\<rparr>)"
    using syncer_thread_ends [of s1 env] s0(8) by auto
  let ?s2 = "s1\<lparr>la_helper := Finished, la_states := n, la_chans := cs\<rparr>"
  have "launcher_step env ?s2 (?s2\<lparr>la_main := Returned (Inr ()), la_exit := Some 0\<rparr>)"
    using s0(2) s1 by (intro joined) simp_all
  with 0 1 2 have "launcher_steps env s (?s2\<lparr>la_main := Returned (Inr ()), la_exit := Some 0\<rparr>)"
    by (meson rtranclp.rtrancl_into_rtrancl rtranclp_trans)
  then show ?thesis by (intro exI [of _ "?s2\<lparr>la_main := Returned (Inr ()), la_exit := Some 0\<rparr>"]) simp
qed

text \<open>Otherwise it never ends: the syncer waits for a state that cannot come, and the main thread for the syncer.\<close>

definition stuck :: "launch_env \<Rightarrow> launcher \<Rightarrow> bool" where
  "stuck env s \<longleftrightarrow> la_exit s = None \<and> la_main s = Joining \<and> la_helper s = Syncing \<and> la_states s = 0 \<and> \<not> sender_up env s
     \<and> la_enclave s = Ended \<and> la_proxy s \<noteq> Starting \<and> (\<forall>th. th \<noteq> CtrlC \<longrightarrow> la_sends s th = None)"

lemma stuck_step: "launcher_step env s s' \<Longrightarrow> stuck env s \<Longrightarrow> stuck env s'"
  by (induction rule: launcher_step.induct) (auto simp: stuck_def)

lemma stuck_steps: "launcher_steps env s s' \<Longrightarrow> stuck env s \<Longrightarrow> stuck env s'"
  by (induction rule: rtranclp_induct) (auto intro: stuck_step)

text \<open>How the process ends with code 0.\<close>

lemma exit_zero_clean:
  assumes "polling_ok env s" "threads_ok env s" "running_ok env s" "la_exit s = Some 0"
  shows "la_enclave s = Ended \<and> la_proxy s = Ended \<and> la_helper s \<in> {NotStarted, Finished}
    \<and> (le_enclave env = OutPanic \<or> (\<exists>i. le_enclave env = OutOk i)) \<and> (\<exists>b. le_proxy env = OutOk b)
    \<and> (la_helper s = Finished \<longrightarrow> (\<exists>cid. la_cid s = Some cid \<and> le_prepare env cid \<in> {OutOk (), OutPanic}))
    \<and> (la_enclave_up s \<longrightarrow> (\<exists>i. le_enclave env = OutOk i) \<and> \<not> le_terminated env \<or> le_enclave env = OutPanic \<and> le_left env)
    \<and> (la_proxy_up s \<longrightarrow> \<not> le_killed env)"
proof -
  have e: "la_enclave s = Ended" "la_proxy s = Ended" "la_helper s \<in> {NotStarted, Finished}"
    "la_sends s EnclaveThread = None" "la_sends s ProxyThread = None" "la_sends s HelperThread = None"
    using assms(3,4) by (simp_all add: running_ok_def)
  have up: "la_enclave_up s \<longrightarrow> (if \<exists>i. le_enclave env = OutOk i then \<not> le_terminated env else le_left env)" "la_proxy_up s \<longrightarrow> \<not> le_killed env"
    using assms(3) e(1,2) by (auto simp: running_ok_def)
  have r: "ended_ok (le_enclave env) False" "ended_ok (le_proxy env) False" "le_proxy env \<noteq> OutPanic"
    "la_helper s = Finished \<longrightarrow> ended_ok (le_prepare env (the (la_cid s))) False"
    using assms(2) e by (simp_all add: threads_ok_def)
  have "le_enclave env = OutPanic \<or> (\<exists>i. le_enclave env = OutOk i)" using r(1) by (cases "le_enclave env") simp_all
  moreover have "\<exists>b. le_proxy env = OutOk b" using r(2,3) by (cases "le_proxy env") simp_all
  moreover have "\<exists>cid. la_cid s = Some cid \<and> le_prepare env cid \<in> {OutOk (), OutPanic}" if "la_helper s = Finished"
  proof -
    from that assms(1) obtain cid where "la_cid s = Some cid" by (auto simp: polling_ok_def)
    with r(4) that show ?thesis by (cases "le_prepare env cid") simp_all
  qed
  ultimately show ?thesis using e up by (auto split: if_splits)
qed

text \<open>Runs to instantiate the properties with: everything starts at the second poll, and the helper gets as far as \<open>h\<close>.\<close>

definition demo_launch_env :: "unit outcome \<Rightarrow> launch_env" where
  "demo_launch_env p =
     \<lparr>le_enclave = OutOk ''i-1'', le_left = False, le_proxy = OutOk False,
      le_describe = (\<lambda>t. if t = 0 then Inr [] else
        Inr [\<lparr>edi_enclave_id = ''i-1'', edi_process_id = 7, edi_enclave_cid = 16, edi_cpu_count = 2, edi_cpu_ids = [1, 3],
              edi_memory_mib = 512, edi_state = ''RUNNING'', edi_flags = ''NONE''\<rparr>]),
      le_prepare = (\<lambda>_. p), le_own = True, le_terminated = True, le_killed = True, le_handler_set = True\<rparr>"

definition demo_running :: "helper_phase \<Rightarrow> launcher" where
  "demo_running h =
     \<lparr>la_enclave = Waiting ''i-1'', la_proxy = Waiting (), la_helper = h, la_main = Joining, la_cid = Some 16,
      la_handler = True, la_chans = [chan_new, chan_new, chan_new], la_sends = (\<lambda>_. None), la_states = 0, la_enclave_up = True,
      la_proxy_up = True, la_exit = None\<rparr>"

lemma demo_reach: "launcher_reach (demo_launch_env p) (demo_running Preparing)"
proof -
  let ?e = "demo_launch_env p"
  let ?s1 = "launcher_new\<lparr>la_enclave := Waiting ''i-1'', la_enclave_up := True\<rparr>"
  let ?s2 = "?s1\<lparr>la_proxy := Waiting (), la_proxy_up := True\<rparr>"
  let ?s3 = "?s2\<lparr>la_main := Polling 1\<rparr>"
  let ?s4 = "?s3\<lparr>la_main := SettingHandler, la_cid := Some 16, la_helper := Preparing\<rparr>"
  let ?s5 = "?s4\<lparr>la_main := Joining, la_handler := True\<rparr>"
  have "launcher_step ?e launcher_new ?s1" by (rule enclave_starts) (simp_all add: launcher_new_def demo_launch_env_def)
  moreover have "launcher_step ?e ?s1 ?s2" by (rule proxy_starts) (simp_all add: launcher_new_def demo_launch_env_def)
  moreover have "launcher_step ?e ?s2 ?s3"
    using poll_again [of ?s2 0 ?e] by (simp add: launcher_new_def demo_launch_env_def poll_enclave_def timeout_def)
  moreover have "launcher_step ?e ?s3 ?s4"
    by (rule poll_finds [where t = 1]) (simp_all add: launcher_new_def demo_launch_env_def poll_enclave_def)
  moreover have "launcher_step ?e ?s4 ?s5" by (rule handler_set) (simp_all add: launcher_new_def demo_launch_env_def)
  ultimately have "launcher_steps ?e launcher_new ?s5"
    by (meson r_into_rtranclp rtranclp.rtrancl_into_rtrancl)
  then show ?thesis by (simp add: launcher_new_def demo_running_def)
qed

lemma demo_syncing: "launcher_reach (demo_launch_env (OutOk ())) (demo_running Syncing)"
proof -
  have "launcher_step (demo_launch_env (OutOk ())) (demo_running Preparing) (demo_running Listening)"
    using helper_listens [of "demo_running Preparing" 16 "demo_launch_env (OutOk ())" "()"]
    by (simp add: demo_running_def demo_launch_env_def)
  moreover have "launcher_step (demo_launch_env (OutOk ())) (demo_running Listening) (demo_running Syncing)"
    using syncer_accepts [of "demo_running Listening" "demo_launch_env (OutOk ())"] by (simp add: demo_running_def)
  ultimately show ?thesis using demo_reach [of "OutOk ()"] by (meson rtranclp.rtrancl_into_rtrancl)
qed

lemma demo_helper_fails:
  "launcher_reach (demo_launch_env (OutErr e))
     (set_sends HelperThread (Some 0) (drop_receiver 2 ((demo_running Preparing)\<lparr>la_helper := Finished\<rparr>)))"
  by (rule rtranclp.rtrancl_into_rtrancl [OF demo_reach], rule helper_fails [where cid = 16 and e = e])
     (simp_all add: demo_running_def demo_launch_env_def)

lemma demo_exits: "\<exists>s. launcher_reach (demo_launch_env (OutOk ())) s \<and> la_exit s = Some 0 \<and> la_helper s = Finished"
proof -
  have "\<exists>s. launcher_steps (demo_launch_env (OutOk ())) (demo_running Syncing) s \<and> la_exit s = Some 0 \<and> la_helper s = Finished"
    by (rule ctrl_c_ends_process [OF launcher_run.inv_reach [OF demo_syncing]]) (simp_all add: demo_running_def)
  with demo_syncing show ?thesis by (meson rtranclp_trans)
qed

text \<open>With the helper's own operations, a syncer that runs has pushed its configuration to the enclave that the polling found.\<close>

lemma launched_syncer_has_pushed:
  assumes "launcher_reach (launch_env_of lib cli1 clis processes spawned connect tmkms_config enclave_config left own killed handler_set c) s"
    and "la_helper s \<in> {Listening, Syncing}"
  shows "\<exists>cid syncer c'. la_cid s = Some cid \<and> nitro_start_prepare lib connect tmkms_config (Some cid) c = Some (Inr syncer, c')"
proof -
  let ?env = "launch_env_of lib cli1 clis processes spawned connect tmkms_config enclave_config left own killed handler_set c"
  from launcher_run.inv_reach [OF assms(1)] assms(2) obtain cid where cid: "la_cid s = Some cid" "le_prepare ?env cid = OutOk ()"
    by (auto simp: launcher_inv_def threads_ok_def polling_ok_def)
  from cid(2) have "outcome_of (\<lambda>_. ()) (nitro_start_prepare lib connect tmkms_config (Some cid) c) = OutOk ()"
    by (simp add: launch_env_of_def)
  then show ?thesis using cid(1) by (auto simp: outcome_of_def split: option.splits prod.splits sum.splits cmd_error.splits)
qed

section \<open>Properties\<close>

text \<open>
  C22. Whatever the interleaving: the launcher's receivers live exactly as long as their threads; it polls at most 15 times, runs \<open>start\<close> only with the identifier of the enclave that the polling found, and its syncer only after \<open>start\<close> got that far.  When the
  process ends with code 0, all its threads have ended, and none of them with an error; the enclave's and the helper's may have panicked, which joining them only logs.  The proxy that it started is then left running only if killing it failed, the
  enclave only if terminating it failed or its thread panicked when the enclave had been started.
\<close>

theorem launcher_exit_is_clean:
  assumes "launcher_reach env s"
  shows "map ch_open (la_chans s) = [la_enclave s \<noteq> Ended, la_proxy s \<noteq> Ended, la_helper s \<noteq> Finished]
    \<and> (\<forall>t. la_main s = Polling t \<longrightarrow> t < 15)
    \<and> (la_helper s \<noteq> NotStarted \<longrightarrow> (\<exists>cid. la_cid s = Some cid \<and> wait_enclave (le_describe env) 0 = PollFound cid
        \<and> (la_helper s \<in> {Listening, Syncing} \<longrightarrow> le_prepare env cid = OutOk ())))
    \<and> (la_exit s = Some 0 \<longrightarrow> la_enclave s = Ended \<and> la_proxy s = Ended \<and> la_helper s \<in> {NotStarted, Finished}
        \<and> (le_enclave env = OutPanic \<or> (\<exists>i. le_enclave env = OutOk i)) \<and> (\<exists>b. le_proxy env = OutOk b)
        \<and> (la_helper s = Finished \<longrightarrow> (\<exists>cid. la_cid s = Some cid \<and> le_prepare env cid \<in> {OutOk (), OutPanic}))
        \<and> (la_enclave_up s \<longrightarrow> (\<exists>i. le_enclave env = OutOk i) \<and> \<not> le_terminated env \<or> le_enclave env = OutPanic \<and> le_left env)
        \<and> (la_proxy_up s \<longrightarrow> \<not> le_killed env))"
proof -
  have inv: "chans_match s" "polling_ok env s" "threads_ok env s" "running_ok env s"
    using launcher_run.inv_reach [OF assms] by (simp_all add: launcher_inv_def)
  have "\<exists>cid. la_cid s = Some cid \<and> wait_enclave (le_describe env) 0 = PollFound cid
      \<and> (la_helper s \<in> {Listening, Syncing} \<longrightarrow> le_prepare env cid = OutOk ())" if "la_helper s \<noteq> NotStarted"
    using that inv(2,3) by (auto simp: polling_ok_def threads_ok_def)
  moreover note exit_zero_clean [OF inv(2-4)]
  ultimately show ?thesis using inv(1,2) by (intro conjI impI) (simp_all add: chans_match_def polling_ok_def timeout_def)
qed

theorem launcher_exit_is_clean_witness:
  "\<exists>s. launcher_reach (demo_launch_env (OutOk ())) s \<and> la_exit s = Some 0 \<and> la_helper s = Finished
     \<and> \<not> la_enclave_up s \<and> \<not> la_proxy_up s"
proof -
  obtain s where s: "launcher_reach (demo_launch_env (OutOk ())) s" "la_exit s = Some 0" "la_helper s = Finished" using demo_exits by blast
  then have "\<not> la_enclave_up s \<and> \<not> la_proxy_up s" using launcher_exit_is_clean [OF s(1)] by (simp add: demo_launch_env_def)
  with s show ?thesis by blast
qed

text \<open>
  C38. A thread that fails has dropped its own receiver, so its loop of stop signals never gets past its own channel: threads that come later in the list get no signal from it, the process never ends with code 0,
  and it can end with code 1 while the enclave and the proxy are still as they were, before any of them has reacted.
\<close>

theorem launcher_failure_is_not_graceful:
  assumes "launcher_reach env s" and "la_exit s = None" and "la_sends s th = Some k"
    and "(th, own) \<in> {(EnclaveThread, 0), (ProxyThread, 1), (HelperThread, 2)}"
  shows "k \<le> own \<and> (\<forall>s'. launcher_steps env s s' \<longrightarrow> la_exit s' \<noteq> Some 0)
    \<and> (\<exists>s'. launcher_steps env s s' \<and> la_exit s' = Some 1 \<and> la_enclave_up s' = la_enclave_up s
        \<and> la_proxy_up s' = la_proxy_up s)"
proof (intro conjI)
  note inv = launcher_run.inv_reach [OF assms(1)]
  then have sends: "sends_ok s" and chans: "chans_match s" by (simp_all add: launcher_inv_def)
  show k: "k \<le> own" using assms(3,4) sends by (auto simp: sends_ok_def)
  show "\<forall>s'. launcher_steps env s s' \<longrightarrow> la_exit s' \<noteq> Some 0" using failed_stays [OF _ inv] assms by auto
  have "\<not> ch_open (la_chans s ! own)" "own < length (la_chans s)"
    using assms(3,4) sends chans_match_open [OF chans] by (auto simp: sends_ok_def)
  with assms k chans_match_open(4) [OF chans]
  show "\<exists>s'. launcher_steps env s s' \<and> la_exit s' = Some 1 \<and> la_enclave_up s' = la_enclave_up s
      \<and> la_proxy_up s' = la_proxy_up s"
    by (intro sends_until_exit [where j = own]) auto
qed

theorem launcher_failure_is_not_graceful_witness:
  "\<exists>s'. launcher_steps (demo_launch_env (OutErr ''e''))
       (set_sends HelperThread (Some 0) (drop_receiver 2 ((demo_running Preparing)\<lparr>la_helper := Finished\<rparr>))) s'
     \<and> la_exit s' = Some 1 \<and> la_enclave_up s' \<and> la_proxy_up s'"
proof -
  have "la_exit (set_sends HelperThread (Some 0) (drop_receiver 2 ((demo_running Preparing)\<lparr>la_helper := Finished\<rparr>))) = None"
    by (simp add: demo_running_def)
  from launcher_failure_is_not_graceful [OF demo_helper_fails this, of HelperThread 0 2 "''e''"] show ?thesis
    by (simp add: demo_running_def)
qed

text \<open>
  C33. The polling loop ends, and its result is that of the first of at most 15 polls that does not answer with an empty list: an error is passed on, otherwise the first enclave's identifier
  is cut to 32 bits.
\<close>

theorem wait_enclave_polls:
  "wait_enclave describe 0 =
     (case find (\<lambda>t. describe t \<noteq> Inr []) [0..<15] of
        None \<Rightarrow> PollTimeout
      | Some t \<Rightarrow> (case describe t of Inl e \<Rightarrow> PollError e | Inr infos \<Rightarrow> PollFound (ucast (edi_enclave_cid (hd infos)))))"
proof -
  have "wait_enclave describe t =
     (case find (\<lambda>t. describe t \<noteq> Inr []) [t..<timeout] of
        None \<Rightarrow> PollTimeout
      | Some t \<Rightarrow> (case describe t of Inl e \<Rightarrow> PollError e | Inr infos \<Rightarrow> PollFound (ucast (edi_enclave_cid (hd infos)))))"
    if "t < timeout" for t
    using that
  proof (induction describe t rule: wait_enclave.induct)
    case (1 describe t)
    have upt: "[t..<timeout] = t # [Suc t..<timeout]" using "1.prems" by (rule upt_conv_Cons)
    show ?case
    proof (cases "poll_enclave describe t = PollAgain")
      case True
      then have "describe t = Inr []" by (auto simp: poll_enclave_def split: sum.splits list.splits if_splits)
      with "1.IH" [OF True] poll_again_progress [OF True] upt show ?thesis by simp
    next
      case False
      then have "wait_enclave describe t = poll_enclave describe t"
        by (subst wait_enclave.simps) (auto split: poll.splits)
      with False upt "1.prems" show ?thesis by (auto simp: poll_enclave_def split: sum.splits list.splits if_splits)
    qed
  qed
  from this [of 0] show ?thesis by (simp add: timeout_def)
qed

text \<open>
  C23. Ctrl-C, once the main thread waits for the others, none of which has failed or is still starting, and the syncer is connected to the enclave.  The process can end with code 0 exactly if a state of the enclave is on its way to the syncer or the enclave can
  still send one, since the syncer looks at its stop channel only after it has received a state.  But Ctrl-C also stops the enclave: when that succeeds before a state arrives, the process has reached a point from which it never ends, although the syncer's stop signal waits in its
  channel and the other threads have ended.
\<close>

theorem ctrl_c_needs_a_state:
  assumes "launcher_reach env s" and "la_exit s = None" and "la_main s = Joining" and "la_handler s"
    and "la_sends s = (\<lambda>_. None)" and "la_enclave s \<noteq> Starting" and "la_proxy s \<noteq> Starting" and "la_helper s = Syncing"
  shows "((\<exists>s'. launcher_steps env s s' \<and> la_exit s' = Some 0) \<longleftrightarrow> 0 < la_states s \<or> sender_up env s)
    \<and> ((\<exists>i. la_enclave s = Waiting i) \<and> le_own env \<and> le_terminated env \<longrightarrow>
        (\<exists>s'. launcher_steps env s s' \<and> la_enclave s' = Ended \<and> la_proxy s' = Ended \<and> stop_waits 2 s'
           \<and> (\<forall>s''. launcher_steps env s' s'' \<longrightarrow> la_exit s'' = None)))"
proof (intro conjI iffI impI)
  note inv = launcher_run.inv_reach [OF assms(1)]
  show "0 < la_states s \<or> sender_up env s" if "\<exists>s'. launcher_steps env s s' \<and> la_exit s' = Some 0"
  proof (rule ccontr)
    assume no: "\<not> (0 < la_states s \<or> sender_up env s)"
    then have "la_enclave s = Ended" using inv assms(6) by (cases "la_enclave s") (auto simp: launcher_inv_def running_ok_def)
    with no assms have "stuck env s" by (simp add: stuck_def)
    with that show False using stuck_steps by (fastforce simp: stuck_def)
  qed
  show "\<exists>s'. launcher_steps env s s' \<and> la_exit s' = Some 0" if "0 < la_states s \<or> sender_up env s"
    using ctrl_c_ends_process [OF inv assms(2-8) that] by blast
  assume c: "(\<exists>i. la_enclave s = Waiting i) \<and> le_own env \<and> le_terminated env"
  have "chans_match s" using inv by (simp add: launcher_inv_def)
  from signalled_threads_end [OF this assms(2,4-8), where env = env] obtain s1 where
    1: "launcher_steps env s s1" and s1: "la_exit s1 = None" "la_main s1 = la_main s" "la_enclave s1 = Ended" "la_proxy s1 = Ended"
      "la_helper s1 = Syncing" "la_sends s1 = (\<lambda>_. None)(CtrlC := Some 3)" "stop_waits 2 s1"
    and up: "la_enclave_up s1 = (if la_enclave s = Ended then la_enclave_up s else \<not> le_terminated env)" .
  have down: "\<not> sender_up env s1" using c up by auto
  have "launcher_step env s1 (s1\<lparr>la_states := 0\<rparr>)" using s1(1) down by (rule states_lost)
  with 1 have "launcher_steps env s (s1\<lparr>la_states := 0\<rparr>)" by (rule rtranclp.rtrancl_into_rtrancl)
  moreover have "stuck env (s1\<lparr>la_states := 0\<rparr>)" using s1 down assms(3) by (simp add: stuck_def)
  ultimately show "\<exists>s'. launcher_steps env s s' \<and> la_enclave s' = Ended \<and> la_proxy s' = Ended \<and> stop_waits 2 s'
      \<and> (\<forall>s''. launcher_steps env s' s'' \<longrightarrow> la_exit s'' = None)"
    using s1 stuck_steps by (intro exI [of _ "s1\<lparr>la_states := 0\<rparr>"]) (auto simp: stuck_def)
qed

theorem ctrl_c_needs_a_state_witness:
  "(\<exists>s. launcher_steps (demo_launch_env (OutOk ())) (demo_running Syncing) s \<and> la_exit s = Some 0)
   \<and> (\<exists>s. launcher_steps (demo_launch_env (OutOk ())) (demo_running Syncing) s \<and> stop_waits 2 s
        \<and> (\<forall>s'. launcher_steps (demo_launch_env (OutOk ())) s s' \<longrightarrow> la_exit s' = None))"
proof -
  have "la_exit (demo_running Syncing) = None" "la_main (demo_running Syncing) = Joining" "la_handler (demo_running Syncing)"
    "la_sends (demo_running Syncing) = (\<lambda>_. None)" "la_enclave (demo_running Syncing) \<noteq> Starting" "la_proxy (demo_running Syncing) \<noteq> Starting"
    "la_helper (demo_running Syncing) = Syncing"
    by (simp_all add: demo_running_def)
  note either = ctrl_c_needs_a_state [OF demo_syncing this]
  have "la_enclave (demo_running Syncing) = Waiting ''i-1''" "sender_up (demo_launch_env (OutOk ())) (demo_running Syncing)"
    "le_own (demo_launch_env (OutOk ()))" "le_terminated (demo_launch_env (OutOk ()))"
    by (simp_all add: demo_running_def demo_launch_env_def)
  with either show ?thesis by blast
qed

end
