(* ===== verification/Nitro_Main.thy ===== *)
theory Nitro_Main
  imports Nitro_Launcher
begin

text \<open>
  \<open>providers/nitro/nitro-helper/src/main.rs\<close>: the subcommands of the helper and their exit codes.  \<open>clap\<close> is the function \<open>nw_parse\<close> from the
  arguments to a subcommand, and the processes that the program sees are itself and \<open>nw_others\<close>.
\<close>

section \<open>The code\<close>

datatype command_enclave =
    Info
  | RunEnclave enclave_opt u32
  | StopEnclave "string option"
  | RunProxy vsock_proxy_opt u32

datatype command_helper =
    HelperInit path "pubkey_display option" "string option" string string "u32 option"
  | HelperStart path "u32 option" u32
  | LaunchAll path path u32

datatype tmkms_light = Helper command_helper | Enclave command_enclave

datatype log_level = LevelInfo | LevelDebug | LevelTrace

text \<open>
  The surroundings of one run: \<open>nw_subscriber\<close> and \<open>nw_handler\<close> are the outcomes of installing the logger and the handler of Ctrl-C, \<open>nw_stop\<close> whether
  Ctrl-C is pressed, \<open>nw_launch\<close> what \<open>launch_all\<close> returns (the steps of the launcher, whose threads may end the process before it does, are those of \<open>Nitro_Launcher\<close>).
\<close>

record nitro_world =
  nw_lib :: helper_lib
  nw_argv :: "string list"
  nw_others :: "string list list"
  nw_parse :: "string list \<Rightarrow> tmkms_light"
  nw_cli :: cli
  nw_spawned :: "io_error + unit"
  nw_connect1 :: "u32 \<Rightarrow> u32 \<Rightarrow> io_error + sock"
  nw_connect2 :: "u32 \<Rightarrow> u32 \<Rightarrow> io_error + sock"
  nw_conns :: "(io_error + sock) list"
  nw_stops :: "try_recv list"
  nw_stop :: bool
  nw_subscriber :: "log_level \<Rightarrow> string + unit"
  nw_handler :: bool
  nw_launch :: "nitro_sign_opt \<Rightarrow> enclave_config \<Rightarrow> (string + unit) option"

definition helper_log_level :: "u32 \<Rightarrow> log_level" where
  "helper_log_level v = (if v = 0 \<or> v = 1 then LevelInfo else if v = 2 then LevelDebug else LevelTrace)"

definition set_logger :: "nitro_world \<Rightarrow> u32 \<Rightarrow> unit helper_command" where
  "set_logger w v = ctry (\<lambda>e. ''setting default subscriber failed: '' @ e) (nw_subscriber w (helper_log_level v))"

definition set_ctrl_c :: "nitro_world \<Rightarrow> unit helper_command" where
  "set_ctrl_c w = (if nw_handler w then cret () else cfail ''Error to set Ctrl-C channel'')"

definition nw_processes :: "nitro_world \<Rightarrow> string list list" where
  "nw_processes w = nw_argv w # nw_others w"

definition nitro_info :: "nitro_world \<Rightarrow> unit helper_command" where
  "nitro_info w =
     cbind (describe_enclave (nw_lib w) (nw_cli w)) (\<lambda>info.
     cbind (ctry (\<lambda>_. ''get invalid enclave info'') (hl_describe_to_json (nw_lib w) info)) (\<lambda>s.
     cprintln (''enclave status:'' @ [CHR 0x0A] @ s)))"

definition nitro_run :: "nitro_world \<Rightarrow> unit helper_command" where
  "nitro_run w =
     (let lib = nw_lib w in
      case nw_parse w (nw_argv w) of
        Helper (HelperInit config_dir pubkey_display bech32_prefix aws_region kms_key_id cid) \<Rightarrow>
          nitro_init lib (nw_cli w) (nw_processes w) (nw_connect1 w) (nw_connect2 w) config_dir pubkey_display bech32_prefix
            aws_region kms_key_id cid
      | Helper (HelperStart config_path cid v) \<Rightarrow>
          cbind (set_logger w v) (\<lambda>_.
          cbind (nitro_opt_from_file lib config_path) (\<lambda>cfg.
          if \<not> check_vsock_proxy (nw_processes w) then cfail ''vsock proxy not started''
          else cbind (set_ctrl_c w) (\<lambda>_. nitro_helper_start lib (nw_connect1 w) (nw_conns w) (nw_stops w) cfg cid)))
      | Helper (LaunchAll tmkms_config enclave_config v) \<Rightarrow>
          cbind (set_logger w v) (\<lambda>_.
          cbind (nitro_opt_from_file lib tmkms_config) (\<lambda>cfg.
          cbind (enclave_config_from_file lib enclave_config) (\<lambda>ecfg.
          cwait id (nw_launch w cfg ecfg))))
      | Enclave Info \<Rightarrow> nitro_info w
      | Enclave (RunEnclave opt v) \<Rightarrow>
          cbind (set_logger w v) (\<lambda>_. cbind (set_ctrl_c w) (\<lambda>_. run_enclave lib (nw_cli w) opt (nw_stop w)))
      | Enclave (StopEnclave cid) \<Rightarrow>
          cbind (stop_enclave lib (nw_cli w) cid) (\<lambda>_. cret ())
      | Enclave (RunProxy opt v) \<Rightarrow>
          cbind (set_logger w v) (\<lambda>_.
          cbind (set_ctrl_c w) (\<lambda>_. run_vsock_proxy lib (nw_processes w) (nw_spawned w) opt (nw_stop w))))"

text \<open>The exit code of the process, none while it runs, and the error it prints last.\<close>

definition nitro_main :: "nitro_world \<Rightarrow> helper_event console \<Rightarrow> (nat \<times> string option \<times> helper_event console) option" where
  "nitro_main w c =
     (case nitro_run w c of
        None \<Rightarrow> None
      | Some (Inr _, c') \<Rightarrow> Some (0, None, c')
      | Some (Inl (CmdErr e), c') \<Rightarrow> Some (1, Some e, c')
      | Some (Inl (CmdPanic m), c') \<Rightarrow> Some (101, Some m, c'))"

section \<open>Lemmas\<close>

lemma str_contains_self: "str_contains needle needle"
  by (cases needle) auto

lemma check_vsock_proxy_own: "''vsock-proxy'' \<in> set cmd \<Longrightarrow> cmd \<in> set processes \<Longrightarrow> check_vsock_proxy processes"
  unfolding check_vsock_proxy_def using str_contains_self by blast

lemma nitro_generate_key_files:
  assumes "nitro_generate_key lib connect cid port p region creds kid ws f = (Inr r, f')"
  shows "\<exists>secret. files f' = (files f)(p \<mapsto> secret)"
  using assms
  by (auto simp: nitro_generate_key_def Let_def dest: fs_truncate_write_Inr split: sum.splits prod.splits)

lemma describe_enclave_fs: "describe_enclave lib cli c = Some (Inr infos, c') \<Longrightarrow> cmd_fs c' = cmd_fs c"
  by (auto simp: describe_enclave_def run_command_def command_simps)

lemma nitro_init_config_Inr:
  assumes "nitro_init_config lib dir region c = Some (Inr cfg, c')"
  shows "cfg = nitro_sign_opt_default\<lparr>nso_aws_region := region\<rparr> \<and> (\<exists>t te. hl_opt_to_toml lib cfg = Inr t
    \<and> hl_enclave_to_toml lib
        \<lparr>ec_vsock_proxy = vsock_proxy_opt_default\<lparr>vpo_remote_addr := ''kms.'' @ region @ ''.amazonaws.com''\<rparr>,
         ec_enclave = enclave_opt_default\<rparr> = Inr te
    \<and> files (cmd_fs c') = (files (cmd_fs c))(path_join dir ''tmkms.toml'' \<mapsto> t, path_join dir ''enclave.toml'' \<mapsto> te))"
  using assms
  by (auto simp: nitro_init_config_def Let_def command_simps dest!: fs_truncate_write_Inr split: if_splits)

lemma path_join_suffix: "\<exists>q. path_join d name = q @ name"
  by (auto simp: path_join_def)

lemma toml_is_not_key:
  "path_join d ''tmkms.toml'' \<noteq> ''secrets/secret.key''" "path_join d ''tmkms.toml'' \<noteq> ''secrets/id.key''"
  "path_join d ''enclave.toml'' \<noteq> ''secrets/secret.key''" "path_join d ''enclave.toml'' \<noteq> ''secrets/id.key''"
  "path_join d ''enclave.toml'' \<noteq> path_join d ''tmkms.toml''"
  by (auto dest: arg_cong [where f = last] simp: path_join_last) (auto simp: path_join_def split: if_splits)

lemma create_dir_for_files: "create_dir_for msg p c = Some (Inr u, c') \<Longrightarrow> files (cmd_fs c') = files (cmd_fs c)"
  by (auto simp: create_dir_for_Inr dest: next_fault_files)

text \<open>The checks of \<open>init\<close> before it generates keys, and the files it writes.\<close>

lemma nitro_init_checks_Inr:
  assumes "nitro_init_checks lib cli processes cfg cid c = Some (Inr creds, c')"
  shows "check_vsock_proxy processes \<and> files (cmd_fs c') = files (cmd_fs c)
    \<and> (\<exists>c1 c2 infos. describe_enclave lib cli c1 = Some (Inr infos, c2) \<and> (\<exists>x\<in>set infos. edi_enclave_cid x = ucast cid))"
  using assms
  by (auto simp: nitro_init_checks_def cbind_Inr cret_Inr cfail_Inr list_ex_iff
      dest!: credentials_of_Inr create_dir_for_files split: if_splits)
     (auto dest: describe_enclave_fs)

lemma nitro_init_keys_Inr:
  assumes "nitro_init_keys lib connect1 connect2 ptype bech kms_key cfg cid creds c = Some (Inr (), c')"
    and "nso_sealed_id_key_path cfg = Some idp"
  shows "\<exists>key idkey. files (cmd_fs c') = (files (cmd_fs c))(nso_sealed_consensus_key_path cfg \<mapsto> key, idp \<mapsto> idkey)"
  using assms
  by (auto simp: nitro_init_keys_def Let_def command_simps dest!: nitro_generate_key_files split: if_splits) blast

section \<open>Properties\<close>

text \<open>
  C19. An \<open>init\<close> that succeeds has checked that the enclave and a proxy run, and changes exactly four files: the two configuration files, which parse to the defaults with the chosen region and its KMS
  host, and the two sealed keys, at the paths that this configuration names, so that \<open>start\<close> with it sends the key that \<open>init\<close> generated.
\<close>

theorem nitro_init_prepares_start:
  assumes "\<And>x b. hl_opt_to_toml lib x = Inr b \<Longrightarrow> hl_opt_from_toml lib b = Inr x"
    and "\<And>x b. hl_enclave_to_toml lib x = Inr b \<Longrightarrow> hl_enclave_from_toml lib b = Inr x"
    and "nitro_init lib cli processes connect1 connect2 dir ptype bech region kms_key cid_arg c = Some (Inr (), c')"
  shows "\<exists>cfg t te key idkey. check_vsock_proxy processes
    \<and> (\<exists>c1 c2 infos. describe_enclave lib cli c1 = Some (Inr infos, c2)
        \<and> (\<exists>x\<in>set infos. edi_enclave_cid x = ucast (case cid_arg of Some k \<Rightarrow> k | None \<Rightarrow> nso_enclave_config_cid cfg)))
    \<and> files (cmd_fs c') = (files (cmd_fs c))
        (path_join dir ''tmkms.toml'' \<mapsto> t, path_join dir ''enclave.toml'' \<mapsto> te, ''secrets/secret.key'' \<mapsto> key,
         ''secrets/id.key'' \<mapsto> idkey)
    \<and> hl_opt_from_toml lib t = Inr cfg \<and> cfg = nitro_sign_opt_default\<lparr>nso_aws_region := region\<rparr>
    \<and> hl_enclave_from_toml lib te = Inr
        \<lparr>ec_vsock_proxy = vsock_proxy_opt_default\<lparr>vpo_remote_addr := ''kms.'' @ region @ ''.amazonaws.com''\<rparr>,
         ec_enclave = enclave_opt_default\<rparr>
    \<and> (faults (cmd_fs c') = [] \<longrightarrow> (\<exists>ec c1. nitro_enclave_config lib cfg creds c' = Some (Inr ec, c1)
        \<and> nc_sealed_consensus_key ec = key \<and> nc_aws_region ec = region))"
proof -
  let ?cfg = "nitro_sign_opt_default\<lparr>nso_aws_region := region\<rparr>"
  let ?cid = "\<lambda>cfg. case cid_arg of Some k \<Rightarrow> k | None \<Rightarrow> nso_enclave_config_cid cfg"
  from assms(3) obtain cfg0 cr c1 c2 where
    conf0: "nitro_init_config lib dir region c = Some (Inr cfg0, c1)"
    and chk0: "nitro_init_checks lib cli processes cfg0 (?cid cfg0) c1 = Some (Inr cr, c2)"
    and keys0: "nitro_init_keys lib connect1 connect2 ptype bech kms_key cfg0 (?cid cfg0) cr c2 = Some (Inr (), c')"
    unfolding nitro_init_def Let_def cbind_Inr by blast
  have "cfg0 = ?cfg" using nitro_init_config_Inr [OF conf0] by blast
  note conf = conf0 [unfolded this] and chk = chk0 [unfolded this] and keys = keys0 [unfolded this]
  have id: "nso_sealed_id_key_path ?cfg = Some ''secrets/id.key''" by (simp add: nitro_sign_opt_default_def)
  from nitro_init_config_Inr [OF conf] obtain t te where
    toml: "hl_opt_to_toml lib ?cfg = Inr t" "hl_enclave_to_toml lib
        \<lparr>ec_vsock_proxy = vsock_proxy_opt_default\<lparr>vpo_remote_addr := ''kms.'' @ region @ ''.amazonaws.com''\<rparr>,
         ec_enclave = enclave_opt_default\<rparr> = Inr te"
    and f1: "files (cmd_fs c1) = (files (cmd_fs c))(path_join dir ''tmkms.toml'' \<mapsto> t, path_join dir ''enclave.toml'' \<mapsto> te)"
    by blast
  from nitro_init_keys_Inr [OF keys id] nitro_init_checks_Inr [OF chk] f1 obtain key idkey where
    f: "files (cmd_fs c') = (files (cmd_fs c))
        (path_join dir ''tmkms.toml'' \<mapsto> t, path_join dir ''enclave.toml'' \<mapsto> te, ''secrets/secret.key'' \<mapsto> key,
         ''secrets/id.key'' \<mapsto> idkey)"
    by (auto simp: nitro_sign_opt_default_def)
  have start: "\<exists>ec c1. nitro_enclave_config lib ?cfg creds c' = Some (Inr ec, c1)
      \<and> nc_sealed_consensus_key ec = key \<and> nc_aws_region ec = region" if "faults (cmd_fs c') = []"
    using that f
    by (simp add: nitro_enclave_config_def nitro_sign_opt_default_def cbind_def cfs_def cret_def fs_read_def next_fault_def)
  show ?thesis
    using nitro_init_checks_Inr [OF chk] f start assms(1) [OF toml(1)] assms(2) [OF toml(2)]
    by (intro exI [of _ ?cfg] exI [of _ t] exI [of _ te] exI [of _ key] exI [of _ idkey]) auto
qed

text \<open>An instance: the region is the default one, the enclave with identifier 15 runs.\<close>

definition demo_enclave_config :: enclave_config where
  "demo_enclave_config =
     \<lparr>ec_vsock_proxy = vsock_proxy_opt_default\<lparr>vpo_remote_addr := ''kms.'' @ ''ap-southeast-1'' @ ''.amazonaws.com''\<rparr>,
      ec_enclave = enclave_opt_default\<rparr>"

definition demo_init_helper :: helper_lib where
  "demo_init_helper = demo_helper
     \<lparr>hl_nitro := demo_nitro,
      hl_opt_to_toml := (\<lambda>x. if x = nitro_sign_opt_default\<lparr>nso_aws_region := ''ap-southeast-1''\<rparr> then Inr [9] else Inl []),
      hl_opt_from_toml := (\<lambda>_. Inr (nitro_sign_opt_default\<lparr>nso_aws_region := ''ap-southeast-1''\<rparr>)),
      hl_enclave_to_toml := (\<lambda>x. if x = demo_enclave_config then Inr [8] else Inl []),
      hl_enclave_from_toml := (\<lambda>_. Inr demo_enclave_config),
      hl_imds := Inr \<lparr>imds_access_key_id = [], imds_secret_access_key = [], imds_session_token = Some []\<rparr>,
      hl_describe_from_json := (\<lambda>_. Inr
        [\<lparr>edi_enclave_id = ''i-1'', edi_process_id = 7, edi_enclave_cid = 15, edi_cpu_count = 2, edi_cpu_ids = [1, 3],
          edi_memory_mib = 512, edi_state = ''RUNNING'', edi_flags = ''NONE''\<rparr>])\<rparr>"

definition demo_cli :: cli where
  "demo_cli _ _ = Inr \<lparr>out_success = True, out_code = Some 0, out_stdout = [], out_stderr = []\<rparr>"

abbreviation demo_connect :: "u32 \<Rightarrow> u32 \<Rightarrow> io_error + sock" where
  "demo_connect \<equiv> \<lambda>_ _. Inr (demo_sock [5])"

lemma demo_generate_key:
  "nitro_generate_key demo_nitro demo_connect cid port p region creds kid [] \<lparr>files = fl, faults = []\<rparr>
     = (Inr ([42], [3]), \<lparr>files = fl(p \<mapsto> [42]), faults = []\<rparr>)"
proof -
  have w: "write_u16_payload [1] (demo_sock [5]) = (Inr (), (demo_sock [5])\<lparr>sent := frame [1]\<rparr>)"
    by (simp add: write_u16_payload_ideal demo_sock_def)
  obtain h where r: "read_u16_payload ((demo_sock [5])\<lparr>sent := frame [1]\<rparr>) = (Inr [5], h)"
    using read_u16_payload_frame [of "(demo_sock [5])\<lparr>sent := frame [1]\<rparr>" "[5]" "[]"]
    by (auto simp: demo_sock_def frame_def)
  show ?thesis using w r by (simp add: nitro_generate_key_def demo_nitro_def fs_truncate_write_def next_fault_def)
qed

abbreviation demo_fs :: "(path \<rightharpoonup> bytes) \<Rightarrow> helper_event list \<Rightarrow> helper_event console" where
  "demo_fs fl tr \<equiv> \<lparr>cmd_fs = \<lparr>files = fl, faults = []\<rparr>, cmd_out = [], cmd_trace = tr\<rparr>"

lemma demo_nitro_init:
  "\<exists>c'. nitro_init demo_init_helper demo_cli [[''vsock-proxy'', ''8000'']] demo_connect demo_connect ''.'' (Some Bech32) None
     ''ap-southeast-1'' ''kms-1'' None (demo_fs Map.empty []) = Some (Inr (), c') \<and> faults (cmd_fs c') = []"
proof -
  let ?cfg = "nitro_sign_opt_default\<lparr>nso_aws_region := ''ap-southeast-1''\<rparr>"
  let ?fl = "[''./tmkms.toml'' \<mapsto> [9], ''./enclave.toml'' \<mapsto> [8]]"
  have conf: "nitro_init_config demo_init_helper ''.'' ''ap-southeast-1'' (demo_fs Map.empty []) = Some (Inr ?cfg, demo_fs ?fl [])"
    by (simp add: nitro_init_config_def Let_def cbind_def ctry_def cfs_def cret_def demo_init_helper_def demo_helper_def
        demo_enclave_config_def path_join_def fs_truncate_write_def next_fault_def)
  have chk: "nitro_init_checks demo_init_helper demo_cli [[''vsock-proxy'', ''8000'']] ?cfg 15 (demo_fs ?fl [])
      = Some (Inr \<lparr>aws_key_id = [], aws_secret_key = [], aws_session_token = []\<rparr>,
          demo_fs ?fl [RanCommand ''nitro-cli'' [''describe-enclaves'']])"
    by (simp add: nitro_init_checks_def cbind_def ctry_def cfs_def cret_def cemit_def credentials_of_def get_credentials_def
        create_dir_for_def path_parent_def describe_enclave_def run_command_def demo_cli_def parse_output_def
        check_vsock_proxy_def demo_init_helper_def demo_helper_def nitro_sign_opt_default_def next_fault_def)
  obtain c' where keys: "nitro_init_keys demo_init_helper demo_connect demo_connect (Some Bech32) None ''kms-1'' ?cfg 15
      \<lparr>aws_key_id = [], aws_secret_key = [], aws_session_token = []\<rparr>
      (demo_fs ?fl [RanCommand ''nitro-cli'' [''describe-enclaves'']]) = Some (Inr (), c')" "faults (cmd_fs c') = []"
    using utf8_valid_ascii [of "[3]"]
    by (simp add: nitro_init_keys_def Let_def cbind_def cfs_def cret_def cprintln_def cprint_pubkey_def print_pubkey_def
        demo_generate_key demo_init_helper_def demo_helper_def nitro_sign_opt_default_def)
  have "nso_enclave_config_cid ?cfg = 15" by (simp add: nitro_sign_opt_default_def)
  then show ?thesis using keys by (simp add: nitro_init_def Let_def cbind_def conf chk)
qed

theorem nitro_init_prepares_start_witness:
  "\<exists>c' key ec c1. nitro_init demo_init_helper demo_cli [[''vsock-proxy'', ''8000'']] demo_connect demo_connect ''.'' (Some Bech32) None
       ''ap-southeast-1'' ''kms-1'' None (demo_fs Map.empty []) = Some (Inr (), c')
     \<and> files (cmd_fs c') ''secrets/secret.key'' = Some key
     \<and> nitro_enclave_config demo_init_helper (nitro_sign_opt_default\<lparr>nso_aws_region := ''ap-southeast-1''\<rparr>) demo_credentials c'
         = Some (Inr ec, c1) \<and> nc_sealed_consensus_key ec = key"
proof -
  from demo_nitro_init obtain c' where i: "nitro_init demo_init_helper demo_cli [[''vsock-proxy'', ''8000'']] demo_connect demo_connect ''.''
      (Some Bech32) None ''ap-southeast-1'' ''kms-1'' None (demo_fs Map.empty []) = Some (Inr (), c')"
    and f: "faults (cmd_fs c') = []" by blast
  have t: "hl_opt_to_toml demo_init_helper x = Inr b \<Longrightarrow> hl_opt_from_toml demo_init_helper b = Inr x"
    "hl_enclave_to_toml demo_init_helper y = Inr b \<Longrightarrow> hl_enclave_from_toml demo_init_helper b = Inr y" for x y b
    by (simp_all add: demo_init_helper_def split: if_splits)
  from nitro_init_prepares_start [OF t i, where creds = demo_credentials] f i show ?thesis
    by (auto simp: fun_upd_apply)
qed

text \<open>
  C39. \<open>tmkms-nitro-helper enclave vsock-proxy\<close> never starts the proxy: its own command line contains \<open>vsock-proxy\<close>, so the check for a running proxy finds the program itself, and
  it exits with code 0 at once.
\<close>

theorem own_proxy_command_starts_nothing:
  assumes "nw_parse w (nw_argv w) = Enclave (RunProxy opt v)"
    and "\<And>argv x n. nw_parse w argv = Enclave (RunProxy x n) \<Longrightarrow> ''vsock-proxy'' \<in> set argv"
    and "nw_subscriber w (helper_log_level v) = Inr ()" and "nw_handler w"
  shows "nitro_main w c = Some (0, None, c)"
proof -
  have "check_vsock_proxy (nw_processes w)"
    by (rule check_vsock_proxy_own [OF assms(2) [OF assms(1)]]) (simp add: nw_processes_def)
  with assms show ?thesis
    by (simp add: nitro_main_def nitro_run_def set_logger_def set_ctrl_c_def run_vsock_proxy_def cbind_def ctry_def cret_def)
qed

definition demo_world :: nitro_world where
  "demo_world =
     \<lparr>nw_lib = demo_helper, nw_argv = [''tmkms-nitro-helper'', ''enclave'', ''vsock-proxy''], nw_others = [[''init'']],
      nw_parse = (\<lambda>argv. if ''vsock-proxy'' \<in> set argv then Enclave (RunProxy vsock_proxy_opt_default 0) else Enclave Info),
      nw_cli = demo_cli, nw_spawned = Inr (), nw_connect1 = demo_connect, nw_connect2 = demo_connect, nw_conns = [],
      nw_stops = [], nw_stop = True, nw_subscriber = (\<lambda>_. Inr ()), nw_handler = True, nw_launch = (\<lambda>_ _. None)\<rparr>"

theorem own_proxy_command_starts_nothing_witness: "nitro_main demo_world (demo_fs Map.empty []) = Some (0, None, demo_fs Map.empty [])"
  by (rule own_proxy_command_starts_nothing [of demo_world vsock_proxy_opt_default 0])
     (auto simp: demo_world_def split: if_splits)

end
