(* ===== verification/Log_Server.thy ===== *)
theory Log_Server
  imports Log_Layer Remote_State
begin

text \<open>
  \<open>providers/nitro/nitro-helper/src/enclave_log_server.rs\<close>: the thread that binds a vsock port, accepts connections, reads one buffer from each and logs it.  An error
  drops the listener and the thread binds again; a panic ends the thread.
\<close>

section \<open>The code\<close>

record log_server =
  lsv_cid :: u32
  lsv_local_port :: u32

definition log_server_new :: "u32 \<Rightarrow> io_error + log_server" where
  "log_server_new local_port = Inr \<lparr>lsv_cid = VSOCK_HOST_CID, lsv_local_port = local_port\<rparr>"

text \<open>What the server is given: the outcome of \<open>bind\<close>, lower-casing, the order of the debug fields, and the \<open>Debug\<close> form of addresses and errors.\<close>

record log_lib =
  ll_lower :: "bytes \<Rightarrow> bytes"
  ll_order :: "bytes list"
  ll_addr_debug :: "u32 \<Rightarrow> u32 \<Rightarrow> string"
  ll_error_debug :: "io_error \<Rightarrow> string"

definition log_sock_listen :: "log_lib \<Rightarrow> log_server \<Rightarrow> io_error + unit \<Rightarrow> string + unit" where
  "log_sock_listen lib self bound =
     map_err (\<lambda>e. ''Could not bind to '' @ ll_addr_debug lib (lsv_cid self) (lsv_local_port self) @ '', '' @ ll_error_debug lib e) bound"

text \<open>
  \<open>sock_accept\<close> on the connections still to come: the lines logged, how it ends, and the connections left.  With none left it waits.
\<close>

datatype server_end = ServerWaiting | ServerErr string | ServerPanic

fun log_sock_accept ::
    "log_lib \<Rightarrow> (io_error + sock) list \<Rightarrow> (level \<times> bytes) list \<times> server_end \<times> (io_error + sock) list" where
  "log_sock_accept lib [] = ([], ServerWaiting, [])"
| "log_sock_accept lib (Inl e # cs) = ([], ServerErr ''Enclave log server could not accept connection'', cs)"
| "log_sock_accept lib (Inr client # cs) =
     (case sock_read 8192 client of
        (Inl e, _) \<Rightarrow> ([], ServerErr (ll_error_debug lib e), cs)
      | (Inr buffer, _) \<Rightarrow>
          (case process_log (ll_lower lib) (ll_order lib) buffer of
             Inl _ \<Rightarrow> ([], ServerPanic, cs)
           | Inr line \<Rightarrow> (case log_sock_accept lib cs of (lines, r, rest) \<Rightarrow> (line # lines, r, rest))))"

text \<open>
  The loop of \<open>launch\<close>: \<open>binds\<close> are the outcomes of the successive calls of \<open>bind\<close>; the result is the lines logged and whether the thread still lives.
\<close>

fun log_server_launch ::
    "log_lib \<Rightarrow> log_server \<Rightarrow> (io_error + unit) list \<Rightarrow> (io_error + sock) list \<Rightarrow> (level \<times> bytes) list \<times> bool" where
  "log_server_launch lib self [] conns = ([], True)"
| "log_server_launch lib self (b # binds) conns =
     (case log_sock_listen lib self b of
        Inl e \<Rightarrow> log_server_launch lib self binds conns
      | Inr _ \<Rightarrow>
          (case log_sock_accept lib conns of
             (lines, ServerWaiting, _) \<Rightarrow> (lines, True)
           | (lines, ServerPanic, _) \<Rightarrow> (lines, False)
           | (lines, ServerErr e, rest) \<Rightarrow>
               (case log_server_launch lib self binds rest of (lines', alive) \<Rightarrow> (lines @ lines', alive))))"

section \<open>Reference\<close>

text \<open>The line of one connection: none if accepting or reading fails.\<close>

definition conn_line :: "log_lib \<Rightarrow> io_error + sock \<Rightarrow> (panic + level \<times> bytes) option" where
  "conn_line lib c =
     (case c of
        Inl _ \<Rightarrow> None
      | Inr client \<Rightarrow>
          (case fst (sock_read 8192 client) of
             Inl _ \<Rightarrow> None
           | Inr buffer \<Rightarrow> Some (process_log (ll_lower lib) (ll_order lib) buffer)))"

definition readable_lines :: "log_lib \<Rightarrow> (io_error + sock) list \<Rightarrow> (level \<times> bytes) list" where
  "readable_lines lib conns = List.map_filter (\<lambda>c. case conn_line lib c of Some (Inr l) \<Rightarrow> Some l | _ \<Rightarrow> None) conns"

definition conn_failures :: "log_lib \<Rightarrow> (io_error + sock) list \<Rightarrow> nat" where
  "conn_failures lib conns = length (filter (\<lambda>c. conn_line lib c = None) conns)"

definition no_panic_line :: "log_lib \<Rightarrow> (io_error + sock) list \<Rightarrow> bool" where
  "no_panic_line lib conns \<longleftrightarrow> (\<forall>c\<in>set conns. \<forall>p. conn_line lib c \<noteq> Some (Inl p))"

lemma readable_lines_simps [simp]:
  "readable_lines lib [] = []"
  "readable_lines lib (c # cs) = (case conn_line lib c of Some (Inr l) \<Rightarrow> [l] | _ \<Rightarrow> []) @ readable_lines lib cs"
  by (auto simp: readable_lines_def map_filter_simps split: option.splits sum.splits)

lemma readable_lines_append: "readable_lines lib (xs @ ys) = readable_lines lib xs @ readable_lines lib ys"
  by (induction xs) (auto split: option.splits sum.splits)

text \<open>
  Without panics \<open>sock_accept\<close> handles a part of the connections: all of them, or those up to and with the first failure.
\<close>

lemma log_sock_accept_split:
  assumes "log_sock_accept lib conns = (lines, r, rest)" "no_panic_line lib conns"
  shows "\<exists>done. conns = done @ rest \<and> lines = readable_lines lib done
    \<and> (r = ServerWaiting \<and> rest = [] \<and> conn_failures lib done = 0
       \<or> (\<exists>e. r = ServerErr e) \<and> conn_failures lib done = 1)"
  using assms
proof (induction lib conns arbitrary: lines rule: log_sock_accept.induct)
  case (1 lib)
  then show ?case by (simp add: conn_failures_def)
next
  case (2 lib e cs)
  then show ?case by (intro exI [of _ "[Inl e]"]) (auto simp: conn_line_def conn_failures_def)
next
  case (3 lib client cs)
  obtain x s' where rd: "sock_read 8192 client = (x, s')" by fastforce
  show ?case
  proof (cases x)
    case (Inl e)
    with 3 rd show ?thesis by (intro exI [of _ "[Inr client]"]) (auto simp: conn_line_def conn_failures_def)
  next
    case (Inr buffer)
    with "3.prems"(2) rd obtain line where l: "process_log (ll_lower lib) (ll_order lib) buffer = Inr line"
      by (cases "process_log (ll_lower lib) (ll_order lib) buffer") (auto simp: no_panic_line_def conn_line_def)
    obtain lines' r' rest' where rec: "log_sock_accept lib cs = (lines', r', rest')" by (metis prod_cases3)
    with "3.prems"(1) rd Inr l have eq: "lines = line # lines'" "r' = r" "rest' = rest" by auto
    have "no_panic_line lib cs" using "3.prems"(2) by (simp add: no_panic_line_def)
    with "3.IH" [OF rd [symmetric] Inr l] rec eq rd obtain don where
      "cs = don @ rest" "lines' = readable_lines lib don" "r = ServerWaiting \<and> rest = [] \<and> conn_failures lib don = 0
       \<or> (\<exists>e. r = ServerErr e) \<and> conn_failures lib don = 1"
      by fastforce
    then show ?thesis
      using eq rd Inr l by (intro exI [of _ "Inr client # don"]) (auto simp: conn_line_def conn_failures_def)
  qed
qed

lemma no_panic_line_append [simp]: "no_panic_line lib (xs @ ys) \<longleftrightarrow> no_panic_line lib xs \<and> no_panic_line lib ys"
  by (auto simp: no_panic_line_def)

lemma conn_failures_append [simp]: "conn_failures lib (xs @ ys) = conn_failures lib xs + conn_failures lib ys"
  by (simp add: conn_failures_def)

section \<open>Properties\<close>

text \<open>
  C32. Unless a buffer makes the reader panic, and as long as binding succeeds once more often than connections fail, whatever attempts to bind fail in between: the server logs exactly one line for every connection
  whose buffer it could read, in the order of the connections, and its thread lives on.
\<close>

theorem log_server_logs_every_connection:
  assumes "no_panic_line lib conns" and "conn_failures lib conns < length (filter (\<lambda>b. b = Inr ()) binds)"
  shows "log_server_launch lib self binds conns = (readable_lines lib conns, True)"
  using assms
proof (induction lib self binds conns rule: log_server_launch.induct)
  case (2 lib self b binds conns)
  show ?case
  proof (cases b)
    case (Inl e)
    then have "log_sock_listen lib self b = Inl (''Could not bind to '' @ ll_addr_debug lib (lsv_cid self) (lsv_local_port self)
        @ '', '' @ ll_error_debug lib e)" by (simp add: log_sock_listen_def)
    with "2.IH"(1) [OF this] "2.prems" Inl show ?thesis by simp
  next
    case (Inr u)
    then have b: "log_sock_listen lib self b = Inr ()" by (simp add: log_sock_listen_def)
    obtain lines r rest where acc: "log_sock_accept lib conns = (lines, r, rest)" by (metis prod_cases3)
    from log_sock_accept_split [OF acc "2.prems"(1)] obtain don where d: "conns = don @ rest" "lines = readable_lines lib don"
      and r: "r = ServerWaiting \<and> rest = [] \<and> conn_failures lib don = 0 \<or> (\<exists>e. r = ServerErr e) \<and> conn_failures lib don = 1"
      by blast
    from r show ?thesis
    proof (elim disjE conjE exE)
      fix e assume e: "r = ServerErr e" and f: "conn_failures lib don = 1"
      have "log_server_launch lib self binds rest = (readable_lines lib rest, True)"
        using "2.IH"(2) [OF b acc [symmetric] refl e] "2.prems" d(1) f Inr by simp
      with b acc e d show ?thesis by (simp add: readable_lines_append)
    qed (use b acc d in simp)
  qed
qed simp

definition demo_log_lib :: log_lib where
  "demo_log_lib = \<lparr>ll_lower = (\<lambda>b. b), ll_order = [], ll_addr_debug = (\<lambda>_ _. []), ll_error_debug = (\<lambda>_. [])\<rparr>"

theorem log_server_logs_every_connection_witness:
  "log_server_launch demo_log_lib \<lparr>lsv_cid = 3, lsv_local_port = 6050\<rparr> [Inl (io_error_of Other), Inr (), Inr ()]
     [Inl (io_error_of Other), Inr \<lparr>rx = [], wx = [], sent = []\<rparr>]
   = ([(log_level log_default, log_format [] log_default)], True)"
proof -
  have 1: "conn_line demo_log_lib (Inr \<lparr>rx = [], wx = [], sent = []\<rparr>)
      = Some (Inr (log_level log_default, log_format [] log_default))"
    by (simp add: conn_line_def sock_read_def process_log_def log_from_raw_def from_raw_loop.simps from_raw_round_def
        demo_log_lib_def)
  have 2: "conn_line demo_log_lib (Inl (io_error_of Other)) = None" by (simp add: conn_line_def)
  have "log_server_launch demo_log_lib \<lparr>lsv_cid = 3, lsv_local_port = 6050\<rparr> [Inl (io_error_of Other), Inr (), Inr ()]
      [Inl (io_error_of Other), Inr \<lparr>rx = [], wx = [], sent = []\<rparr>]
      = (readable_lines demo_log_lib [Inl (io_error_of Other), Inr \<lparr>rx = [], wx = [], sent = []\<rparr>], True)"
    by (rule log_server_logs_every_connection) (simp_all add: no_panic_line_def conn_failures_def 1 2)
  then show ?thesis by (simp only: readable_lines_simps 1 2) simp
qed

end
