(* ===== verification/Log_Link.thy ===== *)
theory Log_Link
  imports Log_Server
begin

text \<open>
  The log layer of the enclave and the log server of the host together: an event inside spans is written to a new connection
  (\<open>get_socket\<close> and the end of \<open>on_event\<close> in \<open>providers/nitro/nitro-helper/src/tracing_layer.rs\<close>), and the server reads once from it.  The lemmas say which fields the
  reader sees in a buffer that was cut at any byte.
\<close>

section \<open>The code\<close>

text \<open>
  \<open>connect\<close> is \<open>VsockStream::connect\<close> for a context identifier and a port.
\<close>

definition get_socket :: "(u32 \<Rightarrow> u32 \<Rightarrow> io_error + sock) \<Rightarrow> (io_error \<Rightarrow> string) \<Rightarrow> log_layer \<Rightarrow> string + sock" where
  "get_socket connect debug self =
     map_err (\<lambda>e. ''failed to connect to the enclave server to push log: '' @ debug e)
       (connect (layer_cid self) (layer_local_port self))"

text \<open>
  The end of \<open>on_event\<close>: no connection is passed over in silence, an error of \<open>write_all\<close> is only printed.  The result is the socket as it is
  dropped and what \<open>write_all\<close> returned.
\<close>

definition on_event_push ::
    "(u32 \<Rightarrow> u32 \<Rightarrow> io_error + sock) \<Rightarrow> (io_error \<Rightarrow> string) \<Rightarrow> log_layer \<Rightarrow> bytes list \<Rightarrow> metadata
      \<Rightarrow> (bytes \<times> bytes) list \<Rightarrow> ((io_error + unit) \<times> sock) option" where
  "on_event_push connect debug self spans meta flds =
     (case get_socket connect debug self of
        Inr sck \<Rightarrow> Some (sock_write_all (on_event self spans meta flds) sck)
      | Inl _ \<Rightarrow> None)"

text \<open>
  The spans around an event, root first: name, metadata, the attributes at its creation and what was recorded later.  The depth of a
  span is the number of its ancestors.
\<close>

record span_info =
  sp_name :: bytes
  sp_meta :: metadata
  sp_attrs :: "(bytes \<times> bytes) list"
  sp_recorded :: "(bytes \<times> bytes) list"

definition scope_bufs :: "log_layer \<Rightarrow> span_info list \<Rightarrow> bytes list" where
  "scope_bufs self spans =
     map (\<lambda>(depth, sp). on_record self depth (sp_recorded sp) (on_new_span self depth (sp_name sp) (sp_meta sp) (sp_attrs sp)))
       (enumerate 0 spans)"

section \<open>The fields of an event\<close>

definition event_field :: "log_layer \<Rightarrow> bytes \<times> bytes \<Rightarrow> bytes \<times> bytes" where
  "event_field self f =
     ((case field_prefix self of
         Some p \<Rightarrow> if fst f \<noteq> as_bytes ''message'' then p @ [95] else []
       | None \<Rightarrow> []) @ sanitize_name (fst f), snd f)"

definition span_field :: "log_layer \<Rightarrow> nat \<Rightarrow> bytes \<times> bytes \<Rightarrow> bytes \<times> bytes" where
  "span_field self depth f =
     (as_bytes ''S'' @ dec_bytes depth @ (case field_prefix self of Some p \<Rightarrow> p | None \<Rightarrow> []) @ [95] @ sanitize_name (fst f), snd f)"

definition span_fields :: "log_layer \<Rightarrow> nat \<Rightarrow> span_info \<Rightarrow> (bytes \<times> bytes) list" where
  "span_fields self depth sp =
     (as_bytes ''S'' @ dec_bytes depth @ as_bytes ''_NAME'', sp_name sp)
     # map (\<lambda>(k, v). (as_bytes ''S'' @ dec_bytes depth @ as_bytes ''_'' @ k, v)) (tl (meta_fields (sp_meta sp)))
     @ map (span_field self depth) (sp_attrs sp @ sp_recorded sp)"

definition sent_fields :: "log_layer \<Rightarrow> span_info list \<Rightarrow> metadata \<Rightarrow> (bytes \<times> bytes) list \<Rightarrow> (bytes \<times> bytes) list" where
  "sent_fields self spans meta flds =
     concat (map (\<lambda>(depth, sp). span_fields self depth sp) (enumerate 0 spans)) @ meta_fields meta @ map (event_field self) flds"

lemma event_records_fields:
  "foldl (event_record (field_prefix self)) buf flds = buf @ encode_fields (map (event_field self) flds)"
  by (induction flds arbitrary: buf)
     (auto simp: event_record_def event_field_def put_debug_encode encode_field_def split: option.splits)

lemma span_records_fields:
  "foldl (span_record (field_prefix self) depth) buf flds = buf @ encode_fields (map (span_field self depth) flds)"
  by (induction flds arbitrary: buf)
     (auto simp: span_record_def span_field_def put_debug_encode encode_field_def Let_def split: option.splits)

lemma put_metadata_span:
  "put_metadata buf meta (Some depth)
    = buf @ encode_fields (map (\<lambda>(k, v). (as_bytes ''S'' @ dec_bytes depth @ as_bytes ''_'' @ k, v)) (tl (meta_fields meta)))"
  by (simp add: put_metadata_def put_field_def put_value_def encode_field_def meta_fields_def Let_def split: option.splits)

lemma span_buf_fields:
  "on_record self depth (sp_recorded sp) (on_new_span self depth (sp_name sp) (sp_meta sp) (sp_attrs sp))
    = encode_fields (span_fields self depth sp)"
  by (simp add: on_record_def on_new_span_def span_records_fields put_metadata_span span_fields_def put_value_def)
     (simp add: encode_field_def)

lemma on_event_fields: "on_event self (scope_bufs self spans) meta flds = encode_fields (sent_fields self spans meta flds)"
proof -
  have "concat (map (\<lambda>(depth, sp). on_record self depth (sp_recorded sp)
        (on_new_span self depth (sp_name sp) (sp_meta sp) (sp_attrs sp))) xs)
      = encode_fields (concat (map (\<lambda>(depth, sp). span_fields self depth sp) xs))" for xs
    by (induction xs) (auto simp: span_buf_fields)
  then show ?thesis
    by (simp add: on_event_def scope_bufs_def put_metadata_event event_records_fields sent_fields_def)
qed

abbreviation no_newline :: "(bytes \<times> bytes) list \<Rightarrow> bool" where
  "no_newline fs \<equiv> list_all (\<lambda>(k, v). 10 \<notin> set k) fs"

lemma dec_bytes_no_flag: "10 \<notin> set (dec_bytes n)"
  using dec_bytes_digits [of n] by (auto simp: list_all_iff is_digit_byte_def in_range_def)

lemma as_bytes_no_flag: "10 \<notin> set (as_bytes ''S'')" "10 \<notin> set (as_bytes ''_'')" "10 \<notin> set (as_bytes ''_NAME'')"
  by (simp_all add: as_bytes_def)

lemma sent_fields_no_newline:
  assumes "pred_option (\<lambda>p. 10 \<notin> set p) (field_prefix self)"
  shows "no_newline (sent_fields self spans meta flds)"
proof -
  note flag = sanitize_name_no_flag dec_bytes_no_flag as_bytes_no_flag
  have "no_newline (map (event_field self) flds)" "no_newline (map (span_field self d) flds)" for d flds
    using assms flag by (cases "field_prefix self"; auto simp: event_field_def span_field_def list_all_iff)+
  moreover have "list_all (\<lambda>(k, v). 10 \<notin> set k) (tl (meta_fields m))" for m
    using meta_fields_no_flag [of m] by (cases "meta_fields m") auto
  then have "no_newline (map (\<lambda>(k, v). (as_bytes ''S'' @ dec_bytes d @ as_bytes ''_'' @ k, v)) (tl (meta_fields m)))" for d m
    using flag by (fastforce simp: list_all_iff)
  ultimately have "no_newline (span_fields self d sp)" for d sp
    using flag by (simp add: span_fields_def del: map_append)
  then have "no_newline (concat (map (\<lambda>(d, sp). span_fields self d sp) xs))" for xs
    by (induction xs) auto
  with \<open>no_newline (map (event_field self) flds)\<close> meta_fields_no_flag show ?thesis by (simp add: sent_fields_def)
qed

section \<open>Cut buffers\<close>

text \<open>
  The fields that are complete in the first \<open>n\<close> bytes: of the value all bytes, and of an empty value at least the newline after it.
\<close>

fun complete_fields :: "nat \<Rightarrow> (bytes \<times> bytes) list \<Rightarrow> (bytes \<times> bytes) list" where
  "complete_fields n [] = []"
| "complete_fields n ((k, v) # fs) =
     (if n < length k + 9 + max 1 (length v) then []
      else (k, v) # complete_fields (n - (length k + 10 + length v)) fs)"

lemma complete_fields_0 [simp]: "complete_fields 0 fs = []"
  by (cases fs) auto

lemma complete_fields_all: "length (encode_fields fs) \<le> n \<Longrightarrow> complete_fields n fs = fs"
  by (induction n fs rule: complete_fields.induct) (auto simp: encode_field_def)

lemma from_raw_round_cut:
  assumes "10 \<notin> set k" "n < length k + 9 + max 1 (length v)" "length v \<le> usize_max"
  shows "from_raw_round lower (pre @ take n (encode_field (k, v))) (length pre) log = RoundDone"
proof (cases "n \<le> length k")
  case True
  then have "take n (encode_field (k, v)) = take n k" by (simp add: encode_field_def)
  moreover have "10 \<notin> set (take n k)" using assms(1) by (auto dest: in_set_takeD)
  ultimately show ?thesis
    using slice_middle [of pre "take n k" "[]"] by (simp add: from_raw_round_def flag_position_def Let_def)
next
  case False
  then have t: "take n (encode_field (k, v)) = k @ 10 # take (n - length k - 1) (le_bytes 8 (length v) @ v @ [10])"
    by (simp add: encode_field_def take_Cons' Suc_diff_Suc)
  define r where "r = take (n - length k - 1) (le_bytes 8 (length v) @ v @ [10])"
  let ?raw = "pre @ k @ 10 # r"
  have rest: "slice ?raw (length pre) (length ?raw) = Inr (k @ 10 # r)"
    using slice_middle [of pre "k @ 10 # r" "[]"] by simp
  have key: "slice ?raw (length pre) (length pre + length k) = Inr k"
    using slice_middle [of pre k "10 # r"] by simp
  show ?thesis
  proof (cases "length r \<le> 8")
    case True
    then show ?thesis
      unfolding t r_def [symmetric] from_raw_round_def Let_def rest sum.case flag_position_key [OF assms(1)] option.case key
      by simp
  next
    case False
    then have n: "9 \<le> n - length k - 1" by (simp add: r_def)
    with assms(2) have v: "n - length k - 1 < 8 + length v" by (auto simp: max_def split: if_splits)
    have r: "r = le_bytes 8 (length v) @ take (n - length k - 9) v" using n v by (simp add: r_def add.commute)
    have vl: "slice ?raw (length pre + length k + 1) (length pre + length k + 1 + 8) = Inr (le_bytes 8 (length v))"
      using slice_middle [of "pre @ k @ [10]" "le_bytes 8 (length v)" "take (n - length k - 9) v"] by (simp add: r)
    have "length v < 256 ^ 8" using assms(3) by (simp add: usize_max_def)
    then have vlen: "of_le_bytes (le_bytes 8 (length v)) = length v" by (rule of_le_bytes_le_bytes)
    have "length ?raw < length pre + length k + 1 + 8 + length v" using n v by (simp add: r)
    then show ?thesis
      unfolding t r_def [symmetric] from_raw_round_def Let_def rest sum.case flag_position_key [OF assms(1)] option.case key vl vlen
      by simp
  qed
qed

lemma from_raw_loop_cut:
  assumes "no_newline fs" and "length (pre @ encode_fields fs) \<le> usize_max"
  shows "from_raw_loop lower (pre @ take n (encode_fields fs)) (length pre) log = apply_fields lower (complete_fields n fs) log"
  using assms
proof (induction fs arbitrary: pre log n)
  case Nil
  then show ?case by (simp add: from_raw_loop.simps [of lower pre] from_raw_round_def)
next
  case (Cons f fs)
  obtain k v where f: "f = (k, v)" by (cases f)
  have k: "10 \<notin> set k" using Cons.prems(1) f by simp
  let ?size = "length k + 10 + length v"
  have e: "length (encode_field (k, v)) = ?size" by (simp add: encode_field_def)
  let ?raw = "pre @ take n (encode_fields (f # fs))"
  consider (cut) "n < length k + 9 + max 1 (length v)" | (bare) "n = length k + 9 + length v" "v \<noteq> []" | (whole) "?size \<le> n"
  proof (cases "v = []")
    case False
    then have "max 1 (length v) = length v" by (cases v) simp_all
    with False that show thesis by linarith
  qed (use that in \<open>simp; linarith\<close>)
  then show ?case
  proof cases
    case cut
    then have "take n (encode_fields (f # fs)) = take n (encode_field (k, v))" using e by (auto simp: f max_def split: if_splits)
    with from_raw_round_cut [OF k cut, of lower pre log] Cons.prems(2) e cut show ?thesis
      by (simp add: from_raw_loop.simps [of lower _ "length pre" log] f)
  next
    case bare
    then have raw: "?raw = pre @ k @ 10 # le_bytes 8 (length v) @ v @ []" by (simp add: f encode_field_def take_Cons')
    have ended: "from_raw_loop lower ?raw (length pre + length k + 10 + length v) log' = apply_fields lower [] log'" for log'
      unfolding raw by (subst from_raw_loop.simps) (simp add: from_raw_round_def)
    have "from_raw_loop lower ?raw (length pre) log = apply_fields lower [(k, v)] log"
      using Cons.prems(2) bare(2) by (intro from_raw_loop_update [OF _ ended] from_raw_round_value [OF k raw]) auto
    moreover have "max 1 (length v) = length v" using bare(2) by (cases v) simp_all
    ultimately show ?thesis using bare(1) by (simp only: f complete_fields.simps) simp
  next
    case whole
    then have raw: "?raw = pre @ encode_field (k, v) @ take (n - ?size) (encode_fields fs)" using e by (simp add: f)
    have "from_raw_loop lower ?raw (length (pre @ encode_field (k, v))) log'
        = apply_fields lower (complete_fields (n - ?size) fs) log'" for log'
      using Cons.IH [of "pre @ encode_field (k, v)" "n - ?size" log'] Cons.prems unfolding raw by (simp add: f)
    then have "from_raw_loop lower ?raw (length pre) log = apply_fields lower ((k, v) # complete_fields (n - ?size) fs) log"
      using Cons.prems(2) unfolding raw by (intro from_raw_loop_update [OF from_raw_round_field [OF k]]) (auto simp: f)
    moreover have "\<not> n < length k + 9 + max 1 (length v)" using whole by (simp add: max_def)
    ultimately show ?thesis by (simp only: f complete_fields.simps if_False)
  qed
qed

section \<open>Properties\<close>

text \<open>
  C29. A log event end to end: the enclave wrote the buffer of an event, inside any spans and with any field prefix, to a
  connection, and the host's server serves that connection.  It logs one line, made of exactly the fields that are
  complete in what its single read returned (at most 8192 bytes), in the order the enclave wrote them: those of the spans from
  the root, then the metadata and the fields of the event.  All of them are, if the whole buffer came in
  one piece of at most 8192 bytes; otherwise the others are lost, and no error is reported.
\<close>

theorem log_event_reaches_host:
  assumes connect: "connect (layer_cid self) (layer_local_port self) = Inr sck" "sent sck = []"
    and push: "on_event_push connect debug self (scope_bufs self spans) meta flds = Some (Inr (), sck')"
    and prefix: "pred_option (\<lambda>p. 10 \<notin> set p) (field_prefix self)"
    and size: "length (on_event self (scope_bufs self spans) meta flds) \<le> usize_max"
    and client: "connected sck' client" "rx client = RData chunk # es"
  shows "log_sock_accept lib [Inr client]
      = (case apply_fields (ll_lower lib) (complete_fields (min 8192 (length chunk)) (sent_fields self spans meta flds)) log_default of
           Inr log \<Rightarrow> ([(log_level log, log_format (ll_order lib) log)], ServerWaiting, [])
         | Inl p \<Rightarrow> ([], ServerPanic, []))
    \<and> (es = [] \<and> length chunk \<le> 8192 \<longrightarrow>
         complete_fields (min 8192 (length chunk)) (sent_fields self spans meta flds) = sent_fields self spans meta flds)"
proof -
  let ?fs = "sent_fields self spans meta flds"
  note buf = on_event_fields [of self spans meta flds]
  have "sock_write_all (encode_fields ?fs) sck = (Inr (), sck')"
    using push connect(1) by (simp add: on_event_push_def get_socket_def buf)
  with connect(2) have "sent sck' = encode_fields ?fs" by (auto dest: sock_write_all_Inr)
  with client have chunks: "chunk @ rx_bytes es = encode_fields ?fs" "chunk \<noteq> []" by (simp_all add: connected_def)
  let ?n = "min 8192 (length chunk)"
  have "take 8192 chunk = take ?n (chunk @ rx_bytes es)" by (simp add: min_def)
  then have cut: "take 8192 chunk = take ?n (encode_fields ?fs)" by (simp only: chunks(1))
  have read: "fst (sock_read 8192 client) = Inr (take 8192 chunk)"
    using client(2) by (simp add: sock_read_def)
  have "length ([] @ encode_fields ?fs) \<le> usize_max" using size by (simp add: buf)
  from from_raw_loop_cut [OF sent_fields_no_newline [OF prefix] this, of "ll_lower lib" ?n log_default]
  have "log_from_raw (ll_lower lib) (take 8192 chunk) = apply_fields (ll_lower lib) (complete_fields ?n ?fs) log_default"
    by (simp add: log_from_raw_def cut)
  then have "log_sock_accept lib [Inr client]
      = (case apply_fields (ll_lower lib) (complete_fields ?n ?fs) log_default of
           Inr log \<Rightarrow> ([(log_level log, log_format (ll_order lib) log)], ServerWaiting, [])
         | Inl p \<Rightarrow> ([], ServerPanic, []))"
    using read by (cases "sock_read 8192 client") (simp add: process_log_def split: sum.split)
  moreover have "complete_fields ?n ?fs = ?fs" if "es = []" "length chunk \<le> 8192"
    using complete_fields_all [of ?fs ?n] chunks(1) that by simp
  ultimately show ?thesis by blast
qed

text \<open>An event whose message arrives in a second piece: its line is logged without the message.\<close>

theorem log_event_reaches_host_witness:
  "log_sock_accept demo_log_lib [Inr \<lparr>rx = [RData (encode_fields (meta_fields demo_meta)),
       RData (encode_field (as_bytes ''MESSAGE'', [72, 105]))], wx = [], sent = []\<rparr>]
   = ([(WARN, as_bytes ''[A] B:42 '')], ServerWaiting, [])"
proof -
  let ?l = "layer_new 3 6050" and ?flds = "[(as_bytes ''message'', [72, 105])]"
  let ?chunk = "encode_fields (meta_fields demo_meta)" and ?m = "encode_field (as_bytes ''MESSAGE'', [72, 105])"
  let ?sck = "\<lparr>rx = [], wx = [], sent = []\<rparr>"
  have d: "dec_bytes 42 = [52, 50]" by (simp add: dec_bytes_def dec_digits.simps)
  have p: "parse_u32 [52, 50] = Some 42" using parse_u32_dec_bytes [of 42] by (simp add: d)
  have m: "sanitize_name (as_bytes ''message'') = as_bytes ''MESSAGE''"
    by (simp add: sanitize_name_def as_bytes_def to_ascii_uppercase_def is_ascii_alphanumeric_def in_range_def)
  have fs: "sent_fields ?l [] demo_meta ?flds = meta_fields demo_meta @ [(as_bytes ''MESSAGE'', [72, 105])]"
    by (simp add: sent_fields_def event_field_def layer_new_def m)
  have buf: "on_event ?l (scope_bufs ?l []) demo_meta ?flds = ?chunk @ ?m" by (simp add: on_event_fields fs)
  have len: "length ?chunk = 77" "length ?m = 19"
    by (simp_all add: meta_fields_def demo_meta_def encode_field_def get_raw_level_def as_bytes_def d)
  then have ne: "?chunk \<noteq> []" "?m \<noteq> []" by (metis list.size(3) zero_neq_numeral)+
  have "log_sock_accept demo_log_lib [Inr \<lparr>rx = [RData ?chunk, RData ?m], wx = [], sent = []\<rparr>]
      = (case apply_fields (ll_lower demo_log_lib) (complete_fields (min 8192 (length ?chunk)) (sent_fields ?l [] demo_meta ?flds))
               log_default of
           Inr log \<Rightarrow> ([(log_level log, log_format (ll_order demo_log_lib) log)], ServerWaiting, [])
         | Inl p \<Rightarrow> ([], ServerPanic, []))"
  proof (rule conjunct1 [OF log_event_reaches_host [where connect = "\<lambda>_ _. Inr ?sck" and debug = "\<lambda>_. []"
        and sck = ?sck and sck' = "?sck\<lparr>sent := ?chunk @ ?m\<rparr>" and es = "[RData ?m]"]])
    show "connected (?sck\<lparr>sent := ?chunk @ ?m\<rparr>) \<lparr>rx = [RData ?chunk, RData ?m], wx = [], sent = []\<rparr>"
      using ne by (simp add: connected_def)
    show "length (on_event ?l (scope_bufs ?l []) demo_meta ?flds) \<le> usize_max"
      unfolding buf length_append len by (simp add: usize_max_def)
    show "on_event_push (\<lambda>_ _. Inr ?sck) (\<lambda>_. []) ?l (scope_bufs ?l []) demo_meta ?flds = Some (Inr (), ?sck\<lparr>sent := ?chunk @ ?m\<rparr>)"
      unfolding on_event_push_def get_socket_def buf by simp
  qed (simp_all add: layer_new_def)
  moreover have "complete_fields 77 (sent_fields ?l [] demo_meta ?flds) = meta_fields demo_meta"
    unfolding fs by (simp add: meta_fields_def demo_meta_def get_raw_level_def as_bytes_def d)
  ultimately show ?thesis
    unfolding len
    by (simp add: meta_fields_def demo_meta_def get_raw_level_def d p as_bytes_def log_update_def log_default_def get_log_level_def
        log_format_def demo_log_lib_def)
qed

end
