(* ===== verification/Source_Tests.thy ===== *)
theory Source_Tests
  imports Log_Layer Chain_State Keywrap
begin

text \<open>
  The unit tests of \<open>src/chain/state.rs\<close> and \<open>providers/nitro/nitro-helper/src/tracing_layer.rs\<close>, and the property that \<open>providers/sgx/sgx-app/src/sgx_app/cloud/keywrap.rs\<close> tries on random keys.
  The lemmas say that the model gives the values the tests assert.  The other tests of key unwrapping are in \<open>Keywrap_Vectors\<close>, those of the enclave program in \<open>Sgx_Tests\<close>.
\<close>

section \<open>The double-sign state\<close>

definition EXAMPLE_BLOCK_ID :: block_id where
  "EXAMPLE_BLOCK_ID = as_bytes ''26C0A41F3243C6BCD7AD2DFF8A8D83A71D29D307B5326C227F734A1A512FE47D''"

definition EXAMPLE_DOUBLE_SIGN_BLOCK_ID :: block_id where
  "EXAMPLE_DOUBLE_SIGN_BLOCK_ID = as_bytes ''2470A41F3243C6BCD7AD2DFF8A8D83A71D29D307B5326C227F734A1A512FE47D''"

text \<open>The macros; a block identifier is kept as its text.\<close>

definition test_state :: "u32 \<Rightarrow> u16 \<Rightarrow> i8 \<Rightarrow> block_id option \<Rightarrow> consensus_state" where
  "test_state height round step block_id =
     \<lparr>cs_height = ucast height, cs_round = ucast round, cs_step = step, cs_block_id = block_id\<rparr>"

definition successful_update_test :: "consensus_state \<Rightarrow> consensus_state \<Rightarrow> bool" where
  "successful_update_test old_state new_state \<longleftrightarrow>
     check_consensus_state (\<lambda>_. []) \<lparr>consensus_state = old_state\<rparr> new_state = Inr ()"

definition double_sign_test :: "consensus_state \<Rightarrow> consensus_state \<Rightarrow> bool" where
  "double_sign_test old_state new_state \<longleftrightarrow>
     (case check_consensus_state (\<lambda>_. []) \<lparr>consensus_state = old_state\<rparr> new_state of
        Inl (DoubleSignError _ _ _ _ _) \<Rightarrow> True | _ \<Rightarrow> False)"

text \<open>The invocations of the two macros: the names of the tests with the old and the new state.\<close>

definition successful_update_tests :: "(string \<times> consensus_state \<times> consensus_state) list" where
  "successful_update_tests =
     [(''height_update_with_nil_block_id_success'', test_state 1 1 0 None, test_state 2 0 0 None),
      (''step_update_with_nil_to_some_block_id_success'', test_state 1 1 1 None, test_state 1 1 2 (Some EXAMPLE_BLOCK_ID)),
      (''round_update_with_different_block_id_success'',
         test_state 1 1 0 (Some EXAMPLE_BLOCK_ID), test_state 2 0 0 (Some EXAMPLE_DOUBLE_SIGN_BLOCK_ID)),
      (''round_update_with_block_id_and_nil_success'', test_state 1 1 0 (Some EXAMPLE_BLOCK_ID), test_state 2 0 0 None),
      (''step_update_with_block_id_and_nil_success'', test_state 1 0 0 (Some EXAMPLE_BLOCK_ID), test_state 1 0 1 None)]"

definition double_sign_tests :: "(string \<times> consensus_state \<times> consensus_state) list" where
  "double_sign_tests =
     [(''step_update_with_different_block_id_double_sign'',
         test_state 1 1 0 (Some EXAMPLE_BLOCK_ID), test_state 1 1 1 (Some EXAMPLE_DOUBLE_SIGN_BLOCK_ID)),
      (''same_hrs_with_different_block_id_double_sign'', test_state 1 1 2 None, test_state 1 1 2 (Some EXAMPLE_BLOCK_ID))]"

lemma example_block_ids: "EXAMPLE_BLOCK_ID \<noteq> EXAMPLE_DOUBLE_SIGN_BLOCK_ID"
  by (simp add: EXAMPLE_BLOCK_ID_def EXAMPLE_DOUBLE_SIGN_BLOCK_ID_def as_bytes_def)

lemmas state_test_simps = successful_update_test_def double_sign_test_def test_state_def check_consensus_state_def check_defs
  example_block_ids example_block_ids [symmetric]

lemma successful_updates_pass: "list_all (\<lambda>(_, old_state, new_state). successful_update_test old_state new_state) successful_update_tests"
  by (simp add: successful_update_tests_def state_test_simps)

lemma double_signs_detected: "list_all (\<lambda>(_, old_state, new_state). double_sign_test old_state new_state) double_sign_tests"
  by (simp add: double_sign_tests_def state_test_simps)

section \<open>Reading log buffers\<close>

definition level_as_str :: "level \<Rightarrow> bytes" where
  "level_as_str l = as_bytes (case l of ERROR \<Rightarrow> ''ERROR'' | WARN \<Rightarrow> ''WARN'' | INFO \<Rightarrow> ''INFO'' | DEBUG \<Rightarrow> ''DEBUG'' | TRACE \<Rightarrow> ''TRACE'')"

definition run_test :: "(bytes \<Rightarrow> bytes) \<Rightarrow> bytes list \<Rightarrow> bytes \<Rightarrow> panic + bytes" where
  "run_test lower order bytes =
     res_bind (log_from_raw lower bytes)
       (\<lambda>log. Inr (level_as_str (log_level log) @ as_bytes '': '' @ log_format order log))"

text \<open>Lower-casing of ASCII text, and the field that the buffers write by hand.\<close>

definition ascii_lower :: "bytes \<Rightarrow> bytes" where
  "ascii_lower = map (\<lambda>c. if in_range 65 90 c then c + 32 else c)"

lemma run_test_fields:
  assumes "list_all (\<lambda>(k, v). 10 \<notin> set k) fs" "length (encode_fields fs) \<le> usize_max"
  shows "run_test lower order (encode_fields fs)
    = res_bind (apply_fields lower fs log_default) (\<lambda>log. Inr (level_as_str (log_level log) @ as_bytes '': '' @ log_format order log))"
  using from_raw_loop_fields [OF assms(1), of "[]"] assms(2) by (simp add: run_test_def log_from_raw_def)

lemma empty_log_line:
  "level_as_str (log_level log_default) @ as_bytes '': '' @ log_format order log_default = as_bytes ''TRACE: [] :0 ''"
proof -
  have d: "dec_bytes 0 = [48]" by (simp add: dec_bytes_def dec_digits.simps)
  have "foldl (\<lambda>s k. case None of Some v \<Rightarrow> s @ as_bytes '', '' @ k @ as_bytes ''='' @ v | None \<Rightarrow> s) b order = b" for b :: bytes
    by (induction order) simp_all
  then show ?thesis by (simp add: log_format_def log_default_def level_as_str_def d as_bytes_def)
qed

lemmas log_test_simps = log_update_def get_log_level_def usize_max_def as_bytes_def encode_field_def ascii_lower_def in_range_def

text \<open>The buffers of the tests, as they are put together there.\<close>

definition value_len_too_big_bytes :: bytes where
  "value_len_too_big_bytes = as_bytes ''TARGET'' @ [0x0a] @ [0xff, 0xff, 0xff, 0xff, 0xff, 0xff, 0xff, 0xff]"

definition value_len_missing_bytes_bytes :: bytes where
  "value_len_missing_bytes_bytes = as_bytes ''TARGET'' @ [0x0a] @ [0x01]"

definition normal_log_bytes :: bytes where
  "normal_log_bytes =
     as_bytes ''PRIORITY'' @ [0x0a] @ le_bytes 8 1 @ as_bytes ''3'' @ [0x0a]
     @ as_bytes ''TARGET'' @ [0x0a] @ le_bytes 8 8 @ as_bytes ''acquired'' @ [0x0a]
     @ as_bytes ''MESSAGE'' @ [0x0a] @ le_bytes 8 5 @ as_bytes ''Hello'' @ [0x0a]
     @ as_bytes ''CODE_FILE'' @ [0x0a] @ le_bytes 8 4 @ as_bytes ''file'' @ [0x0a]
     @ as_bytes ''CODE_LINE'' @ [0x0a] @ le_bytes 8 2 @ as_bytes ''10'' @ [0x0a]
     @ as_bytes ''OTHER1'' @ [0x0a] @ le_bytes 8 3 @ as_bytes ''aaa'' @ [0x0a]"

definition invalid_priority_bytes :: bytes where
  "invalid_priority_bytes = as_bytes ''PRIORITY'' @ [0x0a] @ le_bytes 8 1 @ as_bytes ''2'' @ [0x0a]"

definition invalid_code_line_bytes :: bytes where
  "invalid_code_line_bytes = as_bytes ''CODE_LINE'' @ [0x0a] @ le_bytes 8 2 @ as_bytes ''2z'' @ [0x0a]"

definition invalid_utf8_key_bytes :: bytes where
  "invalid_utf8_key_bytes = [0xe0, 0x80, 0x80] @ [0x0a] @ le_bytes 8 5 @ as_bytes ''VALUE'' @ [0x0a]"

definition invalid_utf8_value_bytes :: bytes where
  "invalid_utf8_value_bytes = as_bytes ''MESSAGE'' @ [0x0a] @ le_bytes 8 3 @ [0xe0, 0x80, 0x80] @ [0x0a]"

lemma value_len_too_big: "run_test lower order value_len_too_big_bytes = Inr (as_bytes ''TRACE: [] :0 '')"
proof -
  have "from_raw_round lower value_len_too_big_bytes 0 log_default = RoundDone"
    by (simp add: from_raw_round_def value_len_too_big_bytes_def as_bytes_def slice_def flag_position_def)
  then show ?thesis by (simp add: run_test_def log_from_raw_def from_raw_loop.simps empty_log_line)
qed

lemma value_len_missing_bytes: "run_test lower order value_len_missing_bytes_bytes = Inr (as_bytes ''TRACE: [] :0 '')"
proof -
  have "from_raw_round lower value_len_missing_bytes_bytes 0 log_default = RoundDone"
    by (simp add: from_raw_round_def value_len_missing_bytes_bytes_def as_bytes_def slice_def flag_position_def)
  then show ?thesis by (simp add: run_test_def log_from_raw_def from_raw_loop.simps empty_log_line)
qed

lemma normal_log:
  "run_test ascii_lower [as_bytes ''other1''] normal_log_bytes = Inr (as_bytes ''ERROR: [acquired] file:10 Hello, other1=aaa'')"
proof -
  let ?fs = "[(as_bytes ''PRIORITY'', as_bytes ''3''), (as_bytes ''TARGET'', as_bytes ''acquired''), (as_bytes ''MESSAGE'', as_bytes ''Hello''),
    (as_bytes ''CODE_FILE'', as_bytes ''file''), (as_bytes ''CODE_LINE'', as_bytes ''10''), (as_bytes ''OTHER1'', as_bytes ''aaa'')]"
  have d: "dec_bytes 10 = as_bytes ''10''" by (simp add: dec_bytes_def dec_digits.simps as_bytes_def)
  then have p: "parse_u32 (as_bytes ''10'') = Some 10" using parse_u32_dec_bytes [of 10] by simp
  have e: "normal_log_bytes = encode_fields ?fs" by (simp add: normal_log_bytes_def encode_field_def as_bytes_def flip: numeral_2_eq_2)
  have "length (encode_fields ?fs) \<le> usize_max" by (simp add: log_test_simps)
  then have "run_test ascii_lower [as_bytes ''other1''] (encode_fields ?fs) = res_bind (apply_fields ascii_lower ?fs log_default)
      (\<lambda>log. Inr (level_as_str (log_level log) @ as_bytes '': '' @ log_format [as_bytes ''other1''] log))"
    by (intro run_test_fields) (simp_all add: as_bytes_def)
  also have "\<dots> = Inr (as_bytes ''ERROR: [acquired] file:10 Hello, other1=aaa'')"
    using d p by (simp add: log_test_simps log_default_def log_format_def level_as_str_def)
  finally show ?thesis by (simp only: e)
qed

lemma one_field:
  assumes "10 \<notin> set k" "length (encode_field (k, v)) \<le> usize_max" "log_update lower k v log_default = Inr log_default"
  shows "run_test lower order (encode_field (k, v)) = Inr (as_bytes ''TRACE: [] :0 '')"
  using run_test_fields [of "[(k, v)]" lower order] assms by (simp add: empty_log_line)

lemma invalid_priority: "run_test lower order invalid_priority_bytes = Inr (as_bytes ''TRACE: [] :0 '')"
  using one_field [of "as_bytes ''PRIORITY''" "as_bytes ''2''" lower order]
  by (simp add: invalid_priority_bytes_def log_test_simps)

lemma invalid_code_line: "run_test lower order invalid_code_line_bytes = Inr (as_bytes ''TRACE: [] :0 '')"
proof -
  have "parse_u32 (as_bytes ''2z'') = None" by (simp add: parse_u32_def as_bytes_def is_digit_byte_def in_range_def)
  then show ?thesis
    using one_field [of "as_bytes ''CODE_LINE''" "as_bytes ''2z''" lower order]
    by (simp add: invalid_code_line_bytes_def log_test_simps log_default_def flip: numeral_2_eq_2)
qed

lemma invalid_utf8_key: "run_test lower order invalid_utf8_key_bytes = Inr (as_bytes ''TRACE: [] :0 '')"
  using one_field [of "[0xe0, 0x80, 0x80]" "as_bytes ''VALUE''" lower order]
  by (simp add: invalid_utf8_key_bytes_def log_test_simps flip: numeral_2_eq_2)

lemma invalid_utf8_value: "run_test lower order invalid_utf8_value_bytes = Inr (as_bytes ''TRACE: [] :0 '')"
  using one_field [of "as_bytes ''MESSAGE''" "[0xe0, 0x80, 0x80]" lower order]
  by (simp add: invalid_utf8_value_bytes_def log_test_simps flip: numeral_2_eq_2)

section \<open>Key unwrapping\<close>

text \<open>\<open>wrap_unwrap\<close>, which the repository tries on random keys.\<close>

definition wrap_unwrap :: "aes256 \<Rightarrow> bytes \<Rightarrow> bytes \<Rightarrow> bool" where
  "wrap_unwrap aes kek key \<longleftrightarrow> aes256_unwrap_key_with_pad aes kek (aes256_wrap_key_with_pad aes kek key) = Inr key"

lemma wrap_unwrap_all: "aes_ok aes \<Longrightarrow> length kek = 32 \<Longrightarrow> length key = 32 \<Longrightarrow> wrap_unwrap aes kek key"
  by (simp add: wrap_unwrap_def unwrap_wrapped)

end
