(* ===== verification/Sgx_Tests.thy ===== *)
theory Sgx_Tests
  imports Sgx_Recovery
begin

text \<open>
  The unit tests of the SGX enclave program that run the repository's own code on random keys: \<open>test_recover_flow\<close> and \<open>test_unseal\<close> of \<open>providers/sgx/sgx-app/src/sgx_app.rs\<close>, \<open>test_cloud_reseal\<close> and
  \<open>test_recover_fail\<close> of \<open>providers/sgx/sgx-app/src/sgx_app/cloud.rs\<close>.  Each test is a function of the crates and of the random numbers; \<open>Inl\<close> is a panic (a failed \<open>expect\<close> or \<open>unwrap\<close>), \<open>Inr\<close> the value of its assertions.
  The lemmas say that the tests pass for all random numbers, where the crates do what they are relied on for and do not fail.
\<close>

unbundle bit_operations_syntax

section \<open>The tests\<close>

text \<open>
  One request in \<open>test_recover_flow\<close>: the thread runs \<open>entry\<close> on a new connection, and the test reads the response from the other end.  The test's own sockets do not fail;
  a thread that stops at \<open>expect\<close> is a failed request.
\<close>

definition test_request ::
    "runner_lib \<Rightarrow> sgx_app_lib \<Rightarrow> 'x net \<Rightarrow> rng \<Rightarrow> sgx_init_request \<Rightarrow> string \<Rightarrow> panic + sgx_init_response" where
  "test_request host app net csprng request response =
     (case sgx_entry app net csprng \<lparr>rx = [], wx = [], sent = []\<rparr> request of
        Some (SReturned (Inr _) s) \<Rightarrow>
          (case read_u16_payload \<lparr>rx = (if sent s = [] then [] else [RData (sent s)]), wx = [], sent = []\<rparr> of
             (Inl _, _) \<Rightarrow> Inl (Panic response)
           | (Inr resp, _) \<Rightarrow> map_err (\<lambda>_. Panic response) (rl_response_from_json host resp))
      | _ \<Rightarrow> Inl (Panic ''ok entry''))"

definition test_recover_flow ::
    "oaep \<Rightarrow> runner_lib \<Rightarrow> sgx_app_lib \<Rightarrow> 'x net \<Rightarrow> rng \<Rightarrow> rng \<Rightarrow> rng \<Rightarrow> rng \<Rightarrow> panic + bool" where
  "test_recover_flow oaep host app net r0 csprng r1 r2 =
     res_bind (test_request host app net r0 (GenWrapKey None) ''response0'') (\<lambda>response1.
       case response1 of
         WrapKey wrap_key_sealed wrap_pub_key _ \<Rightarrow>
           res_bind (fst (get_wrapped_key oaep (aes_block (sal_sgx app)) csprng wrap_pub_key)) (\<lambda>backup_key.
             let cloud_backup = \<lparr>sealed_rsa_key = wrap_key_sealed, backup_key = backup_key\<rparr> in
             res_bind (test_request host app net r1 (KeyGen (Some cloud_backup)) ''response1'') (\<lambda>response1.
               case get_gen_response response1 of
                 None \<Rightarrow> Inl (Panic ''response1'')
               | Some (_, None) \<Rightarrow> Inl (Panic ''backup'')
               | Some (seal_key_request1, Some cloud_backup_key_data) \<Rightarrow>
                   res_bind (test_request host app net r2 (CloudRecover cloud_backup cloud_backup_key_data) ''response2'') (\<lambda>response2.
                     case get_gen_response response2 of
                       None \<Rightarrow> Inl (Panic ''response2'')
                     | Some (seal_key_request2, _) \<Rightarrow>
                         Inr (krw_keyid (seal_key_request seal_key_request1) = krw_keyid (seal_key_request seal_key_request2)))))
       | _ \<Rightarrow> Inl (Panic ''wrong response''))"

text \<open>\<open>x[0] ^= 1\<close>, which panics on an empty vector.\<close>

definition mangle :: "bytes \<Rightarrow> panic + bytes" where
  "mangle bs = (case bs of [] \<Rightarrow> Inl (Panic ''index out of bounds'') | b # r \<Rightarrow> Inr ((b XOR 1) # r))"

definition is_err :: "'e + 'a \<Rightarrow> bool" where
  "is_err r = (case r of Inl _ \<Rightarrow> True | Inr _ \<Rightarrow> False)"

definition test_unseal :: "sgx_lib \<Rightarrow> rng \<Rightarrow> panic + bool" where
  "test_unseal lib csprng =
     (let (seed, csprng) = fill_bytes 32 csprng;
          kp = key_new lib seed
      in res_bind (map_err (\<lambda>_. Panic ''unwrap'') (fst (seal lib csprng kp))) (\<lambda>sealed_data.
         res_bind (mangle (seal_nonce sealed_data)) (\<lambda>nonce.
         res_bind (map_err (\<lambda>_. Panic ''unwrap'') (unseal lib sealed_data)) (\<lambda>unsealed.
           Inr (is_err (unseal lib (sealed_data\<lparr>seal_nonce := nonce\<rparr>))
                \<and> key_verification lib unsealed = key_verification lib kp)))))"

text \<open>The beginning that the last two tests share.\<close>

definition test_backup :: "oaep \<Rightarrow> sgx_lib \<Rightarrow> rng \<Rightarrow> panic + cloud_backup_key \<times> cloud_backup_key_data \<times> rng" where
  "test_backup oaep lib csprng =
     (case generate_keypair lib csprng (targetinfo_from lib (report_for_self lib)) of
        (Inl _, _) \<Rightarrow> Inl (Panic ''gen rsa'')
      | (Inr (rsa_pub, sealed_rsa_priv, _), csprng) \<Rightarrow>
          (case get_wrapped_key oaep (aes_block lib) csprng rsa_pub of
             (Inl p, _) \<Rightarrow> Inl p
           | (Inr cloud_seal, csprng) \<Rightarrow>
               (let cbk = \<lparr>sealed_rsa_key = sealed_rsa_priv, backup_key = cloud_seal\<rparr>;
                    (seed, csprng) = fill_bytes 32 csprng
                in case cloud_backup lib csprng cbk (key_new lib seed) of
                     (Inl _, _) \<Rightarrow> Inl (Panic ''backup'')
                   | (Inr backup, csprng) \<Rightarrow> Inr (cbk, backup, csprng))))"

definition test_cloud_reseal :: "oaep \<Rightarrow> sgx_lib \<Rightarrow> rng \<Rightarrow> panic + unit" where
  "test_cloud_reseal oaep lib csprng =
     res_bind (test_backup oaep lib csprng) (\<lambda>(cbk, backup, csprng).
       res_bind (map_err (\<lambda>_. Panic ''reseal'') (fst (reseal_recover_cloud lib csprng cbk backup))) (\<lambda>_. Inr ()))"

definition test_recover_fail :: "oaep \<Rightarrow> sgx_lib \<Rightarrow> rng \<Rightarrow> panic + bool" where
  "test_recover_fail oaep lib csprng =
     res_bind (test_backup oaep lib csprng) (\<lambda>(cbk, backup, csprng).
       res_bind (mangle (cbd_sealed_secret backup)) (\<lambda>secret.
       res_bind (mangle (encrypted_symmetric_key (backup_key cbk))) (\<lambda>esk.
         case reseal_recover_cloud lib csprng cbk (backup\<lparr>cbd_sealed_secret := secret\<rparr>) of
           (first, csprng) \<Rightarrow>
             Inr (is_err first
               \<and> is_err (fst (reseal_recover_cloud lib csprng
                    (cbk\<lparr>backup_key := (backup_key cbk)\<lparr>encrypted_symmetric_key := esk\<rparr>\<rparr>) backup))))))"

section \<open>Crates that do not fail\<close>

definition crates_total :: "oaep \<Rightarrow> sgx_lib \<Rightarrow> bool" where
  "crates_total oaep lib \<longleftrightarrow>
     (\<forall>s. rsa_generate lib 2048 s \<noteq> None) \<and> (\<forall>priv. rsa_to_pkcs1 lib priv \<noteq> None) \<and> (\<forall>kr. \<exists>k. egetkey lib kr = Inr k)
     \<and> (\<forall>k n m a. aes128_gcm_siv_encrypt lib k n m a \<noteq> None) \<and> (\<forall>k n m a. aes256_gcm_siv_encrypt lib k n m a \<noteq> None)
     \<and> (\<forall>pub seed m. length m = 32 \<longrightarrow> (\<exists>c. oaep pub seed m = Some c \<and> length c = 256))"

text \<open>A ciphertext whose first byte was changed, or that comes with a nonce whose first byte was changed, is rejected.\<close>

definition rejects_mangled :: "oaep \<Rightarrow> sgx_lib \<Rightarrow> bool" where
  "rejects_mangled oaep lib \<longleftrightarrow>
     (\<forall>k n n' m a c. aes128_gcm_siv_encrypt lib k n m a = Some c \<longrightarrow> mangle n = Inr n' \<longrightarrow> aes128_gcm_siv_decrypt lib k n' c a = None)
     \<and> (\<forall>k n m a c c'. aes256_gcm_siv_encrypt lib k n m a = Some c \<longrightarrow> mangle c = Inr c' \<longrightarrow> aes256_gcm_siv_decrypt lib k n c' a = None)
     \<and> (\<forall>priv seed m c c'. oaep (rsa_public lib priv) seed m = Some c \<longrightarrow> mangle c = Inr c' \<longrightarrow> rsa_oaep_decrypt lib priv c' = None)"

lemma crates_totalD:
  assumes "crates_total oaep lib"
  shows "\<exists>priv. rsa_generate lib 2048 s = Some priv" "\<exists>der. rsa_to_pkcs1 lib priv = Some der" "\<exists>key. egetkey lib kr = Inr key"
    "\<exists>ct. aes128_gcm_siv_encrypt lib k n m a = Some ct" "\<exists>ct. aes256_gcm_siv_encrypt lib k n m a = Some ct"
    "length w = 32 \<Longrightarrow> \<exists>c. oaep pub seed w = Some c \<and> length c = 256"
  using assms unfolding crates_total_def by blast+

lemma seal_payload_total:
  assumes "crates_total oaep lib"
  shows "\<exists>sd csprng'. seal_payload lib csprng msg aad keyid = (Inr sd, csprng')"
proof -
  let ?kr = "(keyrequest_default lib)\<lparr>kr_keyname := keyname_seal lib,
     kr_keypolicy := keypolicy_mrsigner lib, kr_isvsvn := rep_isvsvn (report_for_self lib),
     kr_cpusvn := rep_cpusvn (report_for_self lib), kr_keyid := keyid\<rparr>"
  obtain nonce r where r: "fill_bytes 12 csprng = (nonce, r)" by fastforce
  obtain key where "egetkey lib ?kr = Inr key" using crates_totalD(3) [OF assms] by blast
  moreover obtain ct where "aes128_gcm_siv_encrypt lib key nonce msg aad = Some ct" using crates_totalD(4) [OF assms] by blast
  ultimately show ?thesis using r by (simp add: seal_payload_def Let_def)
qed

lemma seal_total:
  assumes "crates_total oaep lib"
  shows "\<exists>sd csprng'. seal lib csprng kp = (Inr sd, csprng')"
  using seal_payload_total [OF assms] by (simp add: seal_def Let_def)

lemma generate_keypair_total:
  assumes "crates_total oaep lib"
  shows "\<exists>pub sealed rep csprng'. generate_keypair lib csprng ti = (Inr (pub, sealed, rep), csprng')"
proof -
  obtain seed r where r: "fill_bytes 32 csprng = (seed, r)" by fastforce
  obtain priv where priv: "rsa_generate lib 2048 seed = Some priv" using crates_totalD(1) [OF assms] by blast
  obtain der where "rsa_to_pkcs1 lib priv = Some der" using crates_totalD(2) [OF assms] by blast
  moreover obtain sd r' where "seal_payload lib r der x x = (Inr sd, r')"
    if "x = sha256 lib (as_bytes (get_claim lib (rsa_public lib priv)))" for x
    using seal_payload_total [OF assms] by blast
  ultimately show ?thesis using r priv by (simp add: generate_keypair_def seal_secret_def Let_def)
qed

lemma get_wrapped_key_total:
  assumes "crates_total oaep lib" "aes_ok (aes_block lib)" "length k = 32"
  shows "\<exists>bk r'. get_wrapped_key oaep (aes_block lib) (a # k # r) pub = (Inr bk, r')"
proof -
  obtain k1 where k1: "fill_bytes 32 (a # k # r) = (k1, k # r)" "length k1 = 32" by (simp add: fill_bytes_def)
  have k: "fill_bytes 32 (k # r) = (k, r)" using assms(3) by (simp add: fill_bytes_def)
  obtain seed r' where seed: "fill_bytes 32 r = (seed, r')" by fastforce
  have "length (aes256_wrap_key_with_pad (aes_block lib) k1 k) = 40" using assms k1 by (intro length_wrap) simp_all
  moreover obtain c where "oaep pub seed k1 = Some c" "length c = 256" using crates_totalD(6) [OF assms(1) k1(2)] by blast
  ultimately show ?thesis using k1 k seed by (simp add: get_wrapped_key_def)
qed

lemma cloud_backup_total:
  assumes "crates_total oaep lib" "backup_key_of lib cb = Inr gk"
  shows "\<exists>d csprng'. cloud_backup lib csprng cb kp = (Inr d, csprng')"
proof -
  obtain nonce r where r: "fill_bytes 12 csprng = (nonce, r)" by fastforce
  obtain ct where "aes256_gcm_siv_encrypt lib gk nonce (key_bytes lib kp) (key_verification lib kp) = Some ct"
    using crates_totalD(5) [OF assms(1)] by blast
  with r assms(2) show ?thesis by (simp add: cloud_backup_def)
qed

section \<open>The tests pass\<close>

lemma generate_keypair_rest:
  assumes "generate_keypair lib (s # n # r) ti = (Inr x, r')"
  shows "r' = r"
  using assms
  by (auto simp: generate_keypair_def seal_secret_def seal_payload_def fill_bytes_def Let_def split: option.splits prod.splits sum.splits)

text \<open>The random numbers of the shared beginning: for the RSA key, its sealing, the two keys of the provider, and the rest.\<close>

lemma test_backup_Inr:
  assumes "crates_ok oaep lib" "crates_total oaep lib" "length k = 32"
  obtains ti pub sealed rep bk r1 kp r2 d r3 where
    "generate_keypair lib (s # n # a # k # r) ti = (Inr (pub, sealed, rep), a # k # r)"
    "get_wrapped_key oaep (aes_block lib) (a # k # r) pub = (Inr bk, r1)"
    "backup_key_of lib \<lparr>sealed_rsa_key = sealed, backup_key = bk\<rparr> = Inr k"
    "cloud_backup lib r2 \<lparr>sealed_rsa_key = sealed, backup_key = bk\<rparr> kp = (Inr d, r3)"
    "test_backup oaep lib (s # n # a # k # r) = Inr (\<lparr>sealed_rsa_key = sealed, backup_key = bk\<rparr>, d, r3)"
proof -
  let ?ti = "targetinfo_from lib (report_for_self lib)"
  obtain pub sealed rep where gen: "generate_keypair lib (s # n # a # k # r) ?ti = (Inr (pub, sealed, rep), a # k # r)"
    using generate_keypair_total [OF assms(2)] generate_keypair_rest by metis
  obtain bk r1 where bk: "get_wrapped_key oaep (aes_block lib) (a # k # r) pub = (Inr bk, r1)"
    using get_wrapped_key_total assms by (metis crates_ok_def)
  obtain seed r2 where seed: "fill_bytes 32 r1 = (seed, r2)" by fastforce
  have k: "backup_key_of lib \<lparr>sealed_rsa_key = sealed, backup_key = bk\<rparr> = Inr k"
    using backup_key_of_wrapped [OF assms(1) gen bk assms(3)] .
  obtain d r3 where d: "cloud_backup lib r2 \<lparr>sealed_rsa_key = sealed, backup_key = bk\<rparr> (key_new lib seed) = (Inr d, r3)"
    using cloud_backup_total [OF assms(2) k] by blast
  have "test_backup oaep lib (s # n # a # k # r) = Inr (\<lparr>sealed_rsa_key = sealed, backup_key = bk\<rparr>, d, r3)"
    using gen bk seed d by (simp add: test_backup_def)
  with gen bk k d show thesis using that by blast
qed

lemma test_cloud_reseal_passes:
  assumes "crates_ok oaep lib" "crates_total oaep lib" "length k = 32"
  shows "test_cloud_reseal oaep lib (s # n # a # k # r) = Inr ()"
proof -
  obtain sealed bk r2 kp d r3 where b: "test_backup oaep lib (s # n # a # k # r) = Inr (\<lparr>sealed_rsa_key = sealed, backup_key = bk\<rparr>, d, r3)"
    and d: "cloud_backup lib r2 \<lparr>sealed_rsa_key = sealed, backup_key = bk\<rparr> kp = (Inr d, r3)"
    by (rule test_backup_Inr [OF assms])
  have "reseal_recover_cloud lib r3 \<lparr>sealed_rsa_key = sealed, backup_key = bk\<rparr> d = st_map_err SealingError (seal lib r3 kp)"
    using cloud_backup_reseal [OF _ _ d] assms(1) by (simp add: crates_ok_def)
  moreover obtain sd r4 where "seal lib r3 kp = (Inr sd, r4)" using seal_total [OF assms(2)] by blast
  ultimately show ?thesis using b by (simp add: test_cloud_reseal_def)
qed

lemma mangled_backup_key:
  assumes ok: "crates_ok oaep lib" "rejects_mangled oaep lib"
    and gen: "generate_keypair lib csprng ti = (Inr (pub, sealed, rep), csprng')"
    and wrap: "get_wrapped_key oaep aes rc pub = (Inr bk, rc')"
    and m: "mangle (encrypted_symmetric_key bk) = Inr c'"
  shows "is_err (backup_key_of lib \<lparr>sealed_rsa_key = sealed, backup_key = bk\<lparr>encrypted_symmetric_key := c'\<rparr>\<rparr>)"
proof -
  obtain priv der result rr where pub: "pub = rsa_public lib priv" and der: "rsa_to_pkcs1 lib priv = Some der"
    and seal: "seal_payload lib rr der result result = (Inr sealed, csprng')"
    using generate_keypair_Inr [OF gen] .
  from wrap pub obtain seed k1 where "oaep (rsa_public lib priv) seed k1 = Some (encrypted_symmetric_key bk)"
    by (auto simp: get_wrapped_key_def Let_def split: if_splits option.splits prod.splits)
  with ok(2) m have "rsa_oaep_decrypt lib priv c' = None" unfolding rejects_mangled_def by blast
  moreover have "unseal_secret lib sealed = Inr der"
    using seal_payload_unseal_secret [OF _ _ seal] ok(1) by (simp add: crates_ok_def)
  moreover have "rsa_from_pkcs1 lib der = Some priv" using ok(1) der unfolding crates_ok_def rsa_ok_def by blast
  ultimately show ?thesis by (simp add: backup_key_of_def decrypt_wrapped_key_def is_err_def)
qed

lemma mangle_total: "bs \<noteq> [] \<Longrightarrow> \<exists>bs'. mangle bs = Inr bs'"
  by (cases bs) (simp_all add: mangle_def)

lemma test_recover_fail_passes:
  assumes "crates_ok oaep lib" "crates_total oaep lib" "length k = 32" "rejects_mangled oaep lib"
    and "\<And>k n m a c. aes256_gcm_siv_encrypt lib k n m a = Some c \<Longrightarrow> c \<noteq> []"
  shows "test_recover_fail oaep lib (s # n # a # k # r) = Inr True"
proof -
  obtain ti pub sealed rep bk r1 kp r2 d r3 where
    gen: "generate_keypair lib (s # n # a # k # r) ti = (Inr (pub, sealed, rep), a # k # r)"
    and bk: "get_wrapped_key oaep (aes_block lib) (a # k # r) pub = (Inr bk, r1)"
    and k: "backup_key_of lib \<lparr>sealed_rsa_key = sealed, backup_key = bk\<rparr> = Inr k"
    and d: "cloud_backup lib r2 \<lparr>sealed_rsa_key = sealed, backup_key = bk\<rparr> kp = (Inr d, r3)"
    and b: "test_backup oaep lib (s # n # a # k # r) = Inr (\<lparr>sealed_rsa_key = sealed, backup_key = bk\<rparr>, d, r3)"
    by (rule test_backup_Inr [OF assms(1-3)])
  from d k obtain nonce ct where ct: "aes256_gcm_siv_encrypt lib k nonce (key_bytes lib kp) (key_verification lib kp) = Some ct"
    and dd: "d = \<lparr>cbd_nonce = nonce, cbd_sealed_secret = ct, cbd_public_key = key_verification lib kp\<rparr>"
    by (auto simp: cloud_backup_def Let_def split: prod.splits option.splits)
  obtain ct' where ct': "mangle ct = Inr ct'" using mangle_total assms(5) [OF ct] by blast
  from assms(4) ct ct' have dec: "aes256_gcm_siv_decrypt lib k nonce ct' (key_verification lib kp) = None"
    unfolding rejects_mangled_def by blast
  have "length (encrypted_symmetric_key bk) = 256"
    using bk by (auto simp: get_wrapped_key_def Let_def split: if_splits option.splits prod.splits)
  then have "encrypted_symmetric_key bk \<noteq> []" by (metis list.size(3) zero_neq_numeral)
  from mangle_total [OF this] obtain c' where c': "mangle (encrypted_symmetric_key bk) = Inr c'" ..
  obtain e where "backup_key_of lib \<lparr>sealed_rsa_key = sealed, backup_key = bk\<lparr>encrypted_symmetric_key := c'\<rparr>\<rparr> = Inl e"
    using mangled_backup_key [OF assms(1,4) gen bk c'] by (auto simp: is_err_def split: sum.splits)
  with b k ct' c' dec show ?thesis
    by (simp add: test_recover_fail_def dd reseal_recover_cloud_def seal_recover_cloud_backup_def is_err_def)
qed

lemma test_unseal_passes:
  assumes "crates_ok oaep lib" "crates_total oaep lib" "rejects_mangled oaep lib"
  shows "test_unseal lib csprng = Inr True"
proof -
  obtain seed r where seed: "fill_bytes 32 csprng = (seed, r)" by fastforce
  let ?kp = "key_new lib seed"
  obtain sd r' where sd: "seal lib r ?kp = (Inr sd, r')" using seal_total [OF assms(2)] by blast
  have u: "unseal lib sd = Inr ?kp" using seal_unseal [OF _ _ sd] assms(1) by (simp add: crates_ok_def)
  have "length (seal_nonce sd) = 12"
    using sd by (auto simp: seal_def seal_payload_def fill_bytes_def Let_def split: sum.splits option.splits list.splits)
  then have "seal_nonce sd \<noteq> []" by (metis list.size(3) zero_neq_numeral)
  from mangle_total [OF this] obtain n' where n': "mangle (seal_nonce sd) = Inr n'" ..
  have "is_err (unseal lib (sd\<lparr>seal_nonce := n'\<rparr>))"
  proof -
    from u obtain kr key b where "key_request_try_into lib (seal_key_request sd) = Inr kr" "egetkey lib kr = Inr key"
      and dec: "aes128_gcm_siv_decrypt lib key (seal_nonce sd) (sealed_secret sd) (krw_keyid (seal_key_request sd)) = Some b"
      by (auto simp: unseal_def unseal_secret_def result_simps split: if_splits option.splits)
    moreover from dec assms(1) have "aes128_gcm_siv_encrypt lib key (seal_nonce sd) b (krw_keyid (seal_key_request sd)) = Some (sealed_secret sd)"
      unfolding crates_ok_def aead_ok_def by blast
    with assms(3) n' have "aes128_gcm_siv_decrypt lib key n' (sealed_secret sd) (krw_keyid (seal_key_request sd)) = None"
      unfolding rejects_mangled_def by blast
    ultimately show ?thesis by (simp add: unseal_def unseal_secret_def is_err_def split: option.splits)
  qed
  with seed sd u n' show ?thesis by (simp add: test_unseal_def)
qed

text \<open>The messages can be serialised and fit a frame.\<close>

definition responses_fit :: "sgx_app_lib \<Rightarrow> bool" where
  "responses_fit app \<longleftrightarrow> (\<forall>resp. \<exists>v. sal_response_to_json app resp = Inr v \<and> length v \<le> 65535)"

lemma test_request_reply:
  assumes "runner_ok host app" "responses_fit app" "answered request" "app_reply (sal_sgx app) csprng request = Some resp"
  shows "test_request host app net csprng request what = Inr resp"
proof -
  from assms(2) obtain v where v: "sal_response_to_json app resp = Inr v" "length v \<le> 65535" unfolding responses_fit_def by blast
  have ne: "frame v \<noteq> []" by (simp add: frame_def flip: length_greater_0_conv)
  then obtain s where "read_u16_payload \<lparr>rx = [RData (frame v)], wx = [], sent = []\<rparr> = (Inr v, s)"
    using read_u16_payload_frame [of "\<lparr>rx = [RData (frame v)], wx = [], sent = []\<rparr>" v "[]"] v(2) by auto
  with v ne runner_ok_response [OF assms(1) v(1)] show ?thesis
    using assms(4) by (simp add: test_request_def sgx_entry_reply [OF assms(3)] send_response_def write_u16_payload_ideal)
qed

lemma test_recover_flow_passes:
  assumes ok: "crates_ok oaep (sal_sgx app)" "crates_total oaep (sal_sgx app)" "runner_ok host app" "responses_fit app"
    and k: "length k = 32"
  shows "test_recover_flow oaep host app net r0 (a # k # r) r1 r2 = Inr True"
proof -
  let ?lib = "sal_sgx app"
  note ask = test_request_reply [OF ok(3,4)]
  obtain pub sealed rep r0' where gen: "generate_keypair ?lib r0 (targetinfo_from ?lib (report_for_self ?lib)) = (Inr (pub, sealed, rep), r0')"
    using generate_keypair_total [OF ok(2)] by blast
  then have q0: "test_request host app net r0 (GenWrapKey None) ''response0'' = Inr (WrapKey sealed pub rep)" by (intro ask) simp_all
  obtain bk rc where bk: "get_wrapped_key oaep (aes_block ?lib) (a # k # r) pub = (Inr bk, rc)"
    using get_wrapped_key_total [OF ok(2) _ k] ok(1) by (metis crates_ok_def)
  let ?cb = "\<lparr>sealed_rsa_key = sealed, backup_key = bk\<rparr>"
  obtain seed r1a where seed: "fill_bytes 32 r1 = (seed, r1a)" by fastforce
  let ?kp = "key_new ?lib seed"
  obtain d r1b where d: "cloud_backup ?lib r1a ?cb ?kp = (Inr d, r1b)"
    using cloud_backup_total [OF ok(2) backup_key_of_wrapped [OF ok(1) gen bk k]] by blast
  obtain sd r1c where sd: "seal ?lib r1b ?kp = (Inr sd, r1c)" using seal_total [OF ok(2)] by blast
  have q1: "test_request host app net r1 (KeyGen (Some ?cb)) ''response1'' = Inr (GenOrRecover sd (Some d))"
    using seed d sd by (intro ask) (simp_all add: keygen_reply_def)
  obtain sd2 r2' where sd2: "seal ?lib r2 ?kp = (Inr sd2, r2')" using seal_total [OF ok(2)] by blast
  have "reseal_recover_cloud ?lib r2 ?cb d = st_map_err SealingError (seal ?lib r2 ?kp)"
    using cloud_backup_reseal [OF _ _ d] ok(1) by (simp add: crates_ok_def)
  with sd2 have q2: "test_request host app net r2 (CloudRecover ?cb d) ''response2'' = Inr (GenOrRecover sd2 None)"
    by (intro ask) simp_all
  have "krw_keyid (seal_key_request sd) = krw_keyid (seal_key_request sd2)"
    using seal_on_cpu_keyid [OF ok(1)] sd sd2 by simp
  with q0 bk q1 q2 show ?thesis by (simp add: test_recover_flow_def get_gen_response_def Let_def)
qed

section \<open>Crates that meet all of this\<close>

definition strict_enc :: aead where
  "strict_enc k n m a = Some (1 # n @ a @ m)"

definition strict_dec :: aead where
  "strict_dec k n c a = (if take (1 + length n + length a) c = 1 # n @ a then Some (drop (1 + length n + length a) c) else None)"

definition strict_oaep :: oaep where
  "strict_oaep pub seed m = Some (1 # m @ replicate 223 0)"

definition strict_sgx :: sgx_lib where
  "strict_sgx = demo_sgx\<lparr>aes128_gcm_siv_encrypt := strict_enc, aes128_gcm_siv_decrypt := strict_dec,
     aes256_gcm_siv_encrypt := strict_enc, aes256_gcm_siv_decrypt := strict_dec,
     rsa_oaep_decrypt := (\<lambda>k c. if take 1 c = [1] then Some (take 32 (tl c)) else None)\<rparr>"

lemma strict_aead_ok: "aead_ok strict_enc strict_dec"
proof -
  have "strict_dec k n c a = Some m \<longleftrightarrow> strict_enc k n m a = Some c" for k n c a m
  proof
    assume "strict_dec k n c a = Some m"
    then have "take (1 + length n + length a) c = 1 # n @ a" "m = drop (1 + length n + length a) c"
      by (auto simp: strict_dec_def split: if_splits)
    then have "c = (1 # n @ a) @ m" by (metis append_take_drop_id)
    then show "strict_enc k n m a = Some c" by (simp add: strict_enc_def)
  qed (auto simp: strict_enc_def strict_dec_def)
  then show ?thesis unfolding aead_ok_def by blast
qed

lemma mangle_Inr: "mangle bs = Inr bs' \<longleftrightarrow> (\<exists>b r. bs = b # r \<and> bs' = (b XOR 1) # r)"
  by (auto simp: mangle_def split: list.splits)

lemma xor_one_neq: "(b :: u8) XOR 1 \<noteq> b"
proof
  assume "b XOR 1 = b"
  then have "b XOR (b XOR 1) = b XOR b" by simp
  then show False by (simp flip: xor.assoc)
qed

lemma strict_rejects: "rejects_mangled strict_oaep strict_sgx"
  by (auto simp: rejects_mangled_def strict_sgx_def strict_enc_def strict_dec_def strict_oaep_def mangle_Inr xor_one_neq xor_one_neq [symmetric])

lemma strict_crates: "crates_ok strict_oaep strict_sgx" "crates_total strict_oaep strict_sgx"
proof -
  have "keys_ok strict_sgx" using demo_sgx_ok(1) by (simp add: keys_ok_def strict_sgx_def)
  moreover have "rsa_ok strict_oaep strict_sgx" by (simp add: rsa_ok_def strict_oaep_def strict_sgx_def demo_sgx_def)
  moreover have "aes_ok (aes_block strict_sgx)" using demo_aes_ok by (simp add: strict_sgx_def demo_sgx_def)
  ultimately show "crates_ok strict_oaep strict_sgx" using strict_aead_ok by (simp add: crates_ok_def strict_sgx_def)
  show "crates_total strict_oaep strict_sgx"
    by (simp add: crates_total_def strict_sgx_def demo_sgx_def strict_enc_def strict_oaep_def)
qed

lemma strict_tests_pass:
  assumes "length k = 32"
  shows "test_cloud_reseal strict_oaep strict_sgx (s # n # a # k # r) = Inr ()"
    "test_recover_fail strict_oaep strict_sgx (s # n # a # k # r) = Inr True" "test_unseal strict_sgx csprng = Inr True"
  using test_cloud_reseal_passes [OF strict_crates assms] test_unseal_passes [OF strict_crates strict_rejects]
    test_recover_fail_passes [OF strict_crates assms strict_rejects]
  by (auto simp: strict_sgx_def strict_enc_def)

end
