(* ===== verification/Aes_Fips.thy ===== *)
theory Aes_Fips
  imports Keywrap
begin

unbundle bit_operations_syntax

text \<open>
  The AES-256 block cipher of FIPS 197.  The signer uses the crate \<open>aes\<close>, which is an argument of the model; this is a cipher it can be applied to, so that the published test vector in
  \<open>providers/sgx/sgx-app/src/sgx_app/cloud/keywrap.rs\<close> can be run on the model.  The cipher is shown to be what the code relies on (\<open>aes_ok\<close>).
\<close>

section \<open>The cipher\<close>

definition SBOX :: "bytes list" where
  "SBOX = [
    [0x63, 0x7c, 0x77, 0x7b, 0xf2, 0x6b, 0x6f, 0xc5, 0x30, 0x01, 0x67, 0x2b, 0xfe, 0xd7, 0xab, 0x76],
    [0xca, 0x82, 0xc9, 0x7d, 0xfa, 0x59, 0x47, 0xf0, 0xad, 0xd4, 0xa2, 0xaf, 0x9c, 0xa4, 0x72, 0xc0],
    [0xb7, 0xfd, 0x93, 0x26, 0x36, 0x3f, 0xf7, 0xcc, 0x34, 0xa5, 0xe5, 0xf1, 0x71, 0xd8, 0x31, 0x15],
    [0x04, 0xc7, 0x23, 0xc3, 0x18, 0x96, 0x05, 0x9a, 0x07, 0x12, 0x80, 0xe2, 0xeb, 0x27, 0xb2, 0x75],
    [0x09, 0x83, 0x2c, 0x1a, 0x1b, 0x6e, 0x5a, 0xa0, 0x52, 0x3b, 0xd6, 0xb3, 0x29, 0xe3, 0x2f, 0x84],
    [0x53, 0xd1, 0x00, 0xed, 0x20, 0xfc, 0xb1, 0x5b, 0x6a, 0xcb, 0xbe, 0x39, 0x4a, 0x4c, 0x58, 0xcf],
    [0xd0, 0xef, 0xaa, 0xfb, 0x43, 0x4d, 0x33, 0x85, 0x45, 0xf9, 0x02, 0x7f, 0x50, 0x3c, 0x9f, 0xa8],
    [0x51, 0xa3, 0x40, 0x8f, 0x92, 0x9d, 0x38, 0xf5, 0xbc, 0xb6, 0xda, 0x21, 0x10, 0xff, 0xf3, 0xd2],
    [0xcd, 0x0c, 0x13, 0xec, 0x5f, 0x97, 0x44, 0x17, 0xc4, 0xa7, 0x7e, 0x3d, 0x64, 0x5d, 0x19, 0x73],
    [0x60, 0x81, 0x4f, 0xdc, 0x22, 0x2a, 0x90, 0x88, 0x46, 0xee, 0xb8, 0x14, 0xde, 0x5e, 0x0b, 0xdb],
    [0xe0, 0x32, 0x3a, 0x0a, 0x49, 0x06, 0x24, 0x5c, 0xc2, 0xd3, 0xac, 0x62, 0x91, 0x95, 0xe4, 0x79],
    [0xe7, 0xc8, 0x37, 0x6d, 0x8d, 0xd5, 0x4e, 0xa9, 0x6c, 0x56, 0xf4, 0xea, 0x65, 0x7a, 0xae, 0x08],
    [0xba, 0x78, 0x25, 0x2e, 0x1c, 0xa6, 0xb4, 0xc6, 0xe8, 0xdd, 0x74, 0x1f, 0x4b, 0xbd, 0x8b, 0x8a],
    [0x70, 0x3e, 0xb5, 0x66, 0x48, 0x03, 0xf6, 0x0e, 0x61, 0x35, 0x57, 0xb9, 0x86, 0xc1, 0x1d, 0x9e],
    [0xe1, 0xf8, 0x98, 0x11, 0x69, 0xd9, 0x8e, 0x94, 0x9b, 0x1e, 0x87, 0xe9, 0xce, 0x55, 0x28, 0xdf],
    [0x8c, 0xa1, 0x89, 0x0d, 0xbf, 0xe6, 0x42, 0x68, 0x41, 0x99, 0x2d, 0x0f, 0xb0, 0x54, 0xbb, 0x16]]"

definition INV_SBOX :: "bytes list" where
  "INV_SBOX = [
    [0x52, 0x09, 0x6a, 0xd5, 0x30, 0x36, 0xa5, 0x38, 0xbf, 0x40, 0xa3, 0x9e, 0x81, 0xf3, 0xd7, 0xfb],
    [0x7c, 0xe3, 0x39, 0x82, 0x9b, 0x2f, 0xff, 0x87, 0x34, 0x8e, 0x43, 0x44, 0xc4, 0xde, 0xe9, 0xcb],
    [0x54, 0x7b, 0x94, 0x32, 0xa6, 0xc2, 0x23, 0x3d, 0xee, 0x4c, 0x95, 0x0b, 0x42, 0xfa, 0xc3, 0x4e],
    [0x08, 0x2e, 0xa1, 0x66, 0x28, 0xd9, 0x24, 0xb2, 0x76, 0x5b, 0xa2, 0x49, 0x6d, 0x8b, 0xd1, 0x25],
    [0x72, 0xf8, 0xf6, 0x64, 0x86, 0x68, 0x98, 0x16, 0xd4, 0xa4, 0x5c, 0xcc, 0x5d, 0x65, 0xb6, 0x92],
    [0x6c, 0x70, 0x48, 0x50, 0xfd, 0xed, 0xb9, 0xda, 0x5e, 0x15, 0x46, 0x57, 0xa7, 0x8d, 0x9d, 0x84],
    [0x90, 0xd8, 0xab, 0x00, 0x8c, 0xbc, 0xd3, 0x0a, 0xf7, 0xe4, 0x58, 0x05, 0xb8, 0xb3, 0x45, 0x06],
    [0xd0, 0x2c, 0x1e, 0x8f, 0xca, 0x3f, 0x0f, 0x02, 0xc1, 0xaf, 0xbd, 0x03, 0x01, 0x13, 0x8a, 0x6b],
    [0x3a, 0x91, 0x11, 0x41, 0x4f, 0x67, 0xdc, 0xea, 0x97, 0xf2, 0xcf, 0xce, 0xf0, 0xb4, 0xe6, 0x73],
    [0x96, 0xac, 0x74, 0x22, 0xe7, 0xad, 0x35, 0x85, 0xe2, 0xf9, 0x37, 0xe8, 0x1c, 0x75, 0xdf, 0x6e],
    [0x47, 0xf1, 0x1a, 0x71, 0x1d, 0x29, 0xc5, 0x89, 0x6f, 0xb7, 0x62, 0x0e, 0xaa, 0x18, 0xbe, 0x1b],
    [0xfc, 0x56, 0x3e, 0x4b, 0xc6, 0xd2, 0x79, 0x20, 0x9a, 0xdb, 0xc0, 0xfe, 0x78, 0xcd, 0x5a, 0xf4],
    [0x1f, 0xdd, 0xa8, 0x33, 0x88, 0x07, 0xc7, 0x31, 0xb1, 0x12, 0x10, 0x59, 0x27, 0x80, 0xec, 0x5f],
    [0x60, 0x51, 0x7f, 0xa9, 0x19, 0xb5, 0x4a, 0x0d, 0x2d, 0xe5, 0x7a, 0x9f, 0x93, 0xc9, 0x9c, 0xef],
    [0xa0, 0xe0, 0x3b, 0x4d, 0xae, 0x2a, 0xf5, 0xb0, 0xc8, 0xeb, 0xbb, 0x3c, 0x83, 0x53, 0x99, 0x61],
    [0x17, 0x2b, 0x04, 0x7e, 0xba, 0x77, 0xd6, 0x26, 0xe1, 0x69, 0x14, 0x63, 0x55, 0x21, 0x0c, 0x7d]]"

definition table :: "bytes list \<Rightarrow> u8 \<Rightarrow> u8" where
  "table t b = t ! (unat b div 16) ! (unat b mod 16)"

definition xtime :: "u8 \<Rightarrow> u8" where
  "xtime b = push_bit 1 b XOR (if bit b 7 then 0x1b else 0)"

text \<open>The state is the list of its 16 bytes, column by column.\<close>

definition permute :: "nat list \<Rightarrow> bytes \<Rightarrow> bytes" where
  "permute is s = map (\<lambda>i. s ! i) is"

definition SHIFT_ROWS :: "nat list" where
  "SHIFT_ROWS = [0, 5, 10, 15, 4, 9, 14, 3, 8, 13, 2, 7, 12, 1, 6, 11]"

definition INV_SHIFT_ROWS :: "nat list" where
  "INV_SHIFT_ROWS = [0, 13, 10, 7, 4, 1, 14, 11, 8, 5, 2, 15, 12, 9, 6, 3]"

definition mix_byte :: "u8 \<Rightarrow> u8 \<Rightarrow> u8 \<Rightarrow> u8 \<Rightarrow> u8" where
  "mix_byte a b c d = xtime a XOR (xtime b XOR b) XOR c XOR d"

fun mix_columns :: "bytes \<Rightarrow> bytes" where
  "mix_columns (a # b # c # d # s) =
     mix_byte a b c d # mix_byte b c d a # mix_byte c d a b # mix_byte d a b c # mix_columns s"
| "mix_columns s = s"

definition inv_mix_byte :: "u8 \<Rightarrow> u8 \<Rightarrow> u8 \<Rightarrow> u8 \<Rightarrow> u8" where
  "inv_mix_byte a b c d =
     (xtime (xtime (xtime a)) XOR xtime (xtime a) XOR xtime a)
     XOR (xtime (xtime (xtime b)) XOR xtime b XOR b)
     XOR (xtime (xtime (xtime c)) XOR xtime (xtime c) XOR c)
     XOR (xtime (xtime (xtime d)) XOR d)"

fun inv_mix_columns :: "bytes \<Rightarrow> bytes" where
  "inv_mix_columns (a # b # c # d # s) =
     inv_mix_byte a b c d # inv_mix_byte b c d a # inv_mix_byte c d a b # inv_mix_byte d a b c # inv_mix_columns s"
| "inv_mix_columns s = s"

definition add_round_key :: "bytes \<Rightarrow> bytes \<Rightarrow> bytes" where
  "add_round_key k s = map2 (XOR) s k"

text \<open>The key schedule: 60 words, of which the first eight are the key.\<close>

definition expand_key :: "bytes list \<Rightarrow> nat \<Rightarrow> bytes list" where
  "expand_key w i =
     (let t = w ! (i - 1);
          t' = (if i mod 8 = 0 then map2 (XOR) (map (table SBOX) (rotate1 t)) [push_bit (i div 8 - 1) 1, 0, 0, 0]
                else if i mod 8 = 4 then map (table SBOX) t
                else t)
      in w @ [map2 (XOR) (w ! (i - 8)) t'])"

fun words_of :: "bytes \<Rightarrow> bytes list" where
  "words_of (a # b # c # d # r) = [a, b, c, d] # words_of r"
| "words_of r = []"

fun round_keys_of :: "bytes list \<Rightarrow> bytes list" where
  "round_keys_of (a # b # c # d # r) = (a @ b @ c @ d) # round_keys_of r"
| "round_keys_of r = []"

definition round_keys :: "bytes \<Rightarrow> bytes list" where
  "round_keys key = round_keys_of (foldl expand_key (words_of key) [8..<60])"

definition aes_round :: "bytes \<Rightarrow> bytes \<Rightarrow> bytes" where
  "aes_round s k = add_round_key k (mix_columns (permute SHIFT_ROWS (map (table SBOX) s)))"

definition cipher :: "bytes list \<Rightarrow> bytes \<Rightarrow> bytes" where
  "cipher ks x =
     add_round_key (last ks) (permute SHIFT_ROWS (map (table SBOX)
       (foldl aes_round (add_round_key (hd ks) x) (butlast (tl ks)))))"

definition inv_aes_round :: "bytes \<Rightarrow> bytes \<Rightarrow> bytes" where
  "inv_aes_round s k = map (table INV_SBOX) (permute INV_SHIFT_ROWS (inv_mix_columns (add_round_key k s)))"

definition inv_cipher :: "bytes list \<Rightarrow> bytes \<Rightarrow> bytes" where
  "inv_cipher ks x =
     add_round_key (hd ks) (foldl inv_aes_round
       (map (table INV_SBOX) (permute INV_SHIFT_ROWS (add_round_key (last ks) x))) (rev (butlast (tl ks))))"

definition fips_aes :: aes256 where
  "fips_aes = \<lparr>encrypt_block = (\<lambda>key. cipher (round_keys key)), decrypt_block = (\<lambda>key. inv_cipher (round_keys key))\<rparr>"

section \<open>Values of the tables\<close>

lemma sbox_eval:
  "table SBOX 0 = 99" "table SBOX 1 = 124" "table SBOX 2 = 119" "table SBOX 3 = 123"
  "table SBOX 4 = 242" "table SBOX 5 = 107" "table SBOX 6 = 111" "table SBOX 7 = 197"
  "table SBOX 8 = 48" "table SBOX 9 = 1" "table SBOX 10 = 103" "table SBOX 11 = 43"
  "table SBOX 12 = 254" "table SBOX 13 = 215" "table SBOX 14 = 171" "table SBOX 15 = 118"
  "table SBOX 16 = 202" "table SBOX 17 = 130" "table SBOX 18 = 201" "table SBOX 19 = 125"
  "table SBOX 20 = 250" "table SBOX 21 = 89" "table SBOX 22 = 71" "table SBOX 23 = 240"
  "table SBOX 24 = 173" "table SBOX 25 = 212" "table SBOX 26 = 162" "table SBOX 27 = 175"
  "table SBOX 28 = 156" "table SBOX 29 = 164" "table SBOX 30 = 114" "table SBOX 31 = 192"
  "table SBOX 32 = 183" "table SBOX 33 = 253" "table SBOX 34 = 147" "table SBOX 35 = 38"
  "table SBOX 36 = 54" "table SBOX 37 = 63" "table SBOX 38 = 247" "table SBOX 39 = 204"
  "table SBOX 40 = 52" "table SBOX 41 = 165" "table SBOX 42 = 229" "table SBOX 43 = 241"
  "table SBOX 44 = 113" "table SBOX 45 = 216" "table SBOX 46 = 49" "table SBOX 47 = 21"
  "table SBOX 48 = 4" "table SBOX 49 = 199" "table SBOX 50 = 35" "table SBOX 51 = 195"
  "table SBOX 52 = 24" "table SBOX 53 = 150" "table SBOX 54 = 5" "table SBOX 55 = 154"
  "table SBOX 56 = 7" "table SBOX 57 = 18" "table SBOX 58 = 128" "table SBOX 59 = 226"
  "table SBOX 60 = 235" "table SBOX 61 = 39" "table SBOX 62 = 178" "table SBOX 63 = 117"
  "table SBOX 64 = 9" "table SBOX 65 = 131" "table SBOX 66 = 44" "table SBOX 67 = 26"
  "table SBOX 68 = 27" "table SBOX 69 = 110" "table SBOX 70 = 90" "table SBOX 71 = 160"
  "table SBOX 72 = 82" "table SBOX 73 = 59" "table SBOX 74 = 214" "table SBOX 75 = 179"
  "table SBOX 76 = 41" "table SBOX 77 = 227" "table SBOX 78 = 47" "table SBOX 79 = 132"
  "table SBOX 80 = 83" "table SBOX 81 = 209" "table SBOX 82 = 0" "table SBOX 83 = 237"
  "table SBOX 84 = 32" "table SBOX 85 = 252" "table SBOX 86 = 177" "table SBOX 87 = 91"
  "table SBOX 88 = 106" "table SBOX 89 = 203" "table SBOX 90 = 190" "table SBOX 91 = 57"
  "table SBOX 92 = 74" "table SBOX 93 = 76" "table SBOX 94 = 88" "table SBOX 95 = 207"
  "table SBOX 96 = 208" "table SBOX 97 = 239" "table SBOX 98 = 170" "table SBOX 99 = 251"
  "table SBOX 100 = 67" "table SBOX 101 = 77" "table SBOX 102 = 51" "table SBOX 103 = 133"
  "table SBOX 104 = 69" "table SBOX 105 = 249" "table SBOX 106 = 2" "table SBOX 107 = 127"
  "table SBOX 108 = 80" "table SBOX 109 = 60" "table SBOX 110 = 159" "table SBOX 111 = 168"
  "table SBOX 112 = 81" "table SBOX 113 = 163" "table SBOX 114 = 64" "table SBOX 115 = 143"
  "table SBOX 116 = 146" "table SBOX 117 = 157" "table SBOX 118 = 56" "table SBOX 119 = 245"
  "table SBOX 120 = 188" "table SBOX 121 = 182" "table SBOX 122 = 218" "table SBOX 123 = 33"
  "table SBOX 124 = 16" "table SBOX 125 = 255" "table SBOX 126 = 243" "table SBOX 127 = 210"
  "table SBOX 128 = 205" "table SBOX 129 = 12" "table SBOX 130 = 19" "table SBOX 131 = 236"
  "table SBOX 132 = 95" "table SBOX 133 = 151" "table SBOX 134 = 68" "table SBOX 135 = 23"
  "table SBOX 136 = 196" "table SBOX 137 = 167" "table SBOX 138 = 126" "table SBOX 139 = 61"
  "table SBOX 140 = 100" "table SBOX 141 = 93" "table SBOX 142 = 25" "table SBOX 143 = 115"
  "table SBOX 144 = 96" "table SBOX 145 = 129" "table SBOX 146 = 79" "table SBOX 147 = 220"
  "table SBOX 148 = 34" "table SBOX 149 = 42" "table SBOX 150 = 144" "table SBOX 151 = 136"
  "table SBOX 152 = 70" "table SBOX 153 = 238" "table SBOX 154 = 184" "table SBOX 155 = 20"
  "table SBOX 156 = 222" "table SBOX 157 = 94" "table SBOX 158 = 11" "table SBOX 159 = 219"
  "table SBOX 160 = 224" "table SBOX 161 = 50" "table SBOX 162 = 58" "table SBOX 163 = 10"
  "table SBOX 164 = 73" "table SBOX 165 = 6" "table SBOX 166 = 36" "table SBOX 167 = 92"
  "table SBOX 168 = 194" "table SBOX 169 = 211" "table SBOX 170 = 172" "table SBOX 171 = 98"
  "table SBOX 172 = 145" "table SBOX 173 = 149" "table SBOX 174 = 228" "table SBOX 175 = 121"
  "table SBOX 176 = 231" "table SBOX 177 = 200" "table SBOX 178 = 55" "table SBOX 179 = 109"
  "table SBOX 180 = 141" "table SBOX 181 = 213" "table SBOX 182 = 78" "table SBOX 183 = 169"
  "table SBOX 184 = 108" "table SBOX 185 = 86" "table SBOX 186 = 244" "table SBOX 187 = 234"
  "table SBOX 188 = 101" "table SBOX 189 = 122" "table SBOX 190 = 174" "table SBOX 191 = 8"
  "table SBOX 192 = 186" "table SBOX 193 = 120" "table SBOX 194 = 37" "table SBOX 195 = 46"
  "table SBOX 196 = 28" "table SBOX 197 = 166" "table SBOX 198 = 180" "table SBOX 199 = 198"
  "table SBOX 200 = 232" "table SBOX 201 = 221" "table SBOX 202 = 116" "table SBOX 203 = 31"
  "table SBOX 204 = 75" "table SBOX 205 = 189" "table SBOX 206 = 139" "table SBOX 207 = 138"
  "table SBOX 208 = 112" "table SBOX 209 = 62" "table SBOX 210 = 181" "table SBOX 211 = 102"
  "table SBOX 212 = 72" "table SBOX 213 = 3" "table SBOX 214 = 246" "table SBOX 215 = 14"
  "table SBOX 216 = 97" "table SBOX 217 = 53" "table SBOX 218 = 87" "table SBOX 219 = 185"
  "table SBOX 220 = 134" "table SBOX 221 = 193" "table SBOX 222 = 29" "table SBOX 223 = 158"
  "table SBOX 224 = 225" "table SBOX 225 = 248" "table SBOX 226 = 152" "table SBOX 227 = 17"
  "table SBOX 228 = 105" "table SBOX 229 = 217" "table SBOX 230 = 142" "table SBOX 231 = 148"
  "table SBOX 232 = 155" "table SBOX 233 = 30" "table SBOX 234 = 135" "table SBOX 235 = 233"
  "table SBOX 236 = 206" "table SBOX 237 = 85" "table SBOX 238 = 40" "table SBOX 239 = 223"
  "table SBOX 240 = 140" "table SBOX 241 = 161" "table SBOX 242 = 137" "table SBOX 243 = 13"
  "table SBOX 244 = 191" "table SBOX 245 = 230" "table SBOX 246 = 66" "table SBOX 247 = 104"
  "table SBOX 248 = 65" "table SBOX 249 = 153" "table SBOX 250 = 45" "table SBOX 251 = 15"
  "table SBOX 252 = 176" "table SBOX 253 = 84" "table SBOX 254 = 187" "table SBOX 255 = 22"
  by (simp_all add: table_def SBOX_def)

lemma inv_sbox_eval:
  "table INV_SBOX 0 = 82" "table INV_SBOX 1 = 9" "table INV_SBOX 2 = 106" "table INV_SBOX 3 = 213"
  "table INV_SBOX 4 = 48" "table INV_SBOX 5 = 54" "table INV_SBOX 6 = 165" "table INV_SBOX 7 = 56"
  "table INV_SBOX 8 = 191" "table INV_SBOX 9 = 64" "table INV_SBOX 10 = 163" "table INV_SBOX 11 = 158"
  "table INV_SBOX 12 = 129" "table INV_SBOX 13 = 243" "table INV_SBOX 14 = 215" "table INV_SBOX 15 = 251"
  "table INV_SBOX 16 = 124" "table INV_SBOX 17 = 227" "table INV_SBOX 18 = 57" "table INV_SBOX 19 = 130"
  "table INV_SBOX 20 = 155" "table INV_SBOX 21 = 47" "table INV_SBOX 22 = 255" "table INV_SBOX 23 = 135"
  "table INV_SBOX 24 = 52" "table INV_SBOX 25 = 142" "table INV_SBOX 26 = 67" "table INV_SBOX 27 = 68"
  "table INV_SBOX 28 = 196" "table INV_SBOX 29 = 222" "table INV_SBOX 30 = 233" "table INV_SBOX 31 = 203"
  "table INV_SBOX 32 = 84" "table INV_SBOX 33 = 123" "table INV_SBOX 34 = 148" "table INV_SBOX 35 = 50"
  "table INV_SBOX 36 = 166" "table INV_SBOX 37 = 194" "table INV_SBOX 38 = 35" "table INV_SBOX 39 = 61"
  "table INV_SBOX 40 = 238" "table INV_SBOX 41 = 76" "table INV_SBOX 42 = 149" "table INV_SBOX 43 = 11"
  "table INV_SBOX 44 = 66" "table INV_SBOX 45 = 250" "table INV_SBOX 46 = 195" "table INV_SBOX 47 = 78"
  "table INV_SBOX 48 = 8" "table INV_SBOX 49 = 46" "table INV_SBOX 50 = 161" "table INV_SBOX 51 = 102"
  "table INV_SBOX 52 = 40" "table INV_SBOX 53 = 217" "table INV_SBOX 54 = 36" "table INV_SBOX 55 = 178"
  "table INV_SBOX 56 = 118" "table INV_SBOX 57 = 91" "table INV_SBOX 58 = 162" "table INV_SBOX 59 = 73"
  "table INV_SBOX 60 = 109" "table INV_SBOX 61 = 139" "table INV_SBOX 62 = 209" "table INV_SBOX 63 = 37"
  "table INV_SBOX 64 = 114" "table INV_SBOX 65 = 248" "table INV_SBOX 66 = 246" "table INV_SBOX 67 = 100"
  "table INV_SBOX 68 = 134" "table INV_SBOX 69 = 104" "table INV_SBOX 70 = 152" "table INV_SBOX 71 = 22"
  "table INV_SBOX 72 = 212" "table INV_SBOX 73 = 164" "table INV_SBOX 74 = 92" "table INV_SBOX 75 = 204"
  "table INV_SBOX 76 = 93" "table INV_SBOX 77 = 101" "table INV_SBOX 78 = 182" "table INV_SBOX 79 = 146"
  "table INV_SBOX 80 = 108" "table INV_SBOX 81 = 112" "table INV_SBOX 82 = 72" "table INV_SBOX 83 = 80"
  "table INV_SBOX 84 = 253" "table INV_SBOX 85 = 237" "table INV_SBOX 86 = 185" "table INV_SBOX 87 = 218"
  "table INV_SBOX 88 = 94" "table INV_SBOX 89 = 21" "table INV_SBOX 90 = 70" "table INV_SBOX 91 = 87"
  "table INV_SBOX 92 = 167" "table INV_SBOX 93 = 141" "table INV_SBOX 94 = 157" "table INV_SBOX 95 = 132"
  "table INV_SBOX 96 = 144" "table INV_SBOX 97 = 216" "table INV_SBOX 98 = 171" "table INV_SBOX 99 = 0"
  "table INV_SBOX 100 = 140" "table INV_SBOX 101 = 188" "table INV_SBOX 102 = 211" "table INV_SBOX 103 = 10"
  "table INV_SBOX 104 = 247" "table INV_SBOX 105 = 228" "table INV_SBOX 106 = 88" "table INV_SBOX 107 = 5"
  "table INV_SBOX 108 = 184" "table INV_SBOX 109 = 179" "table INV_SBOX 110 = 69" "table INV_SBOX 111 = 6"
  "table INV_SBOX 112 = 208" "table INV_SBOX 113 = 44" "table INV_SBOX 114 = 30" "table INV_SBOX 115 = 143"
  "table INV_SBOX 116 = 202" "table INV_SBOX 117 = 63" "table INV_SBOX 118 = 15" "table INV_SBOX 119 = 2"
  "table INV_SBOX 120 = 193" "table INV_SBOX 121 = 175" "table INV_SBOX 122 = 189" "table INV_SBOX 123 = 3"
  "table INV_SBOX 124 = 1" "table INV_SBOX 125 = 19" "table INV_SBOX 126 = 138" "table INV_SBOX 127 = 107"
  "table INV_SBOX 128 = 58" "table INV_SBOX 129 = 145" "table INV_SBOX 130 = 17" "table INV_SBOX 131 = 65"
  "table INV_SBOX 132 = 79" "table INV_SBOX 133 = 103" "table INV_SBOX 134 = 220" "table INV_SBOX 135 = 234"
  "table INV_SBOX 136 = 151" "table INV_SBOX 137 = 242" "table INV_SBOX 138 = 207" "table INV_SBOX 139 = 206"
  "table INV_SBOX 140 = 240" "table INV_SBOX 141 = 180" "table INV_SBOX 142 = 230" "table INV_SBOX 143 = 115"
  "table INV_SBOX 144 = 150" "table INV_SBOX 145 = 172" "table INV_SBOX 146 = 116" "table INV_SBOX 147 = 34"
  "table INV_SBOX 148 = 231" "table INV_SBOX 149 = 173" "table INV_SBOX 150 = 53" "table INV_SBOX 151 = 133"
  "table INV_SBOX 152 = 226" "table INV_SBOX 153 = 249" "table INV_SBOX 154 = 55" "table INV_SBOX 155 = 232"
  "table INV_SBOX 156 = 28" "table INV_SBOX 157 = 117" "table INV_SBOX 158 = 223" "table INV_SBOX 159 = 110"
  "table INV_SBOX 160 = 71" "table INV_SBOX 161 = 241" "table INV_SBOX 162 = 26" "table INV_SBOX 163 = 113"
  "table INV_SBOX 164 = 29" "table INV_SBOX 165 = 41" "table INV_SBOX 166 = 197" "table INV_SBOX 167 = 137"
  "table INV_SBOX 168 = 111" "table INV_SBOX 169 = 183" "table INV_SBOX 170 = 98" "table INV_SBOX 171 = 14"
  "table INV_SBOX 172 = 170" "table INV_SBOX 173 = 24" "table INV_SBOX 174 = 190" "table INV_SBOX 175 = 27"
  "table INV_SBOX 176 = 252" "table INV_SBOX 177 = 86" "table INV_SBOX 178 = 62" "table INV_SBOX 179 = 75"
  "table INV_SBOX 180 = 198" "table INV_SBOX 181 = 210" "table INV_SBOX 182 = 121" "table INV_SBOX 183 = 32"
  "table INV_SBOX 184 = 154" "table INV_SBOX 185 = 219" "table INV_SBOX 186 = 192" "table INV_SBOX 187 = 254"
  "table INV_SBOX 188 = 120" "table INV_SBOX 189 = 205" "table INV_SBOX 190 = 90" "table INV_SBOX 191 = 244"
  "table INV_SBOX 192 = 31" "table INV_SBOX 193 = 221" "table INV_SBOX 194 = 168" "table INV_SBOX 195 = 51"
  "table INV_SBOX 196 = 136" "table INV_SBOX 197 = 7" "table INV_SBOX 198 = 199" "table INV_SBOX 199 = 49"
  "table INV_SBOX 200 = 177" "table INV_SBOX 201 = 18" "table INV_SBOX 202 = 16" "table INV_SBOX 203 = 89"
  "table INV_SBOX 204 = 39" "table INV_SBOX 205 = 128" "table INV_SBOX 206 = 236" "table INV_SBOX 207 = 95"
  "table INV_SBOX 208 = 96" "table INV_SBOX 209 = 81" "table INV_SBOX 210 = 127" "table INV_SBOX 211 = 169"
  "table INV_SBOX 212 = 25" "table INV_SBOX 213 = 181" "table INV_SBOX 214 = 74" "table INV_SBOX 215 = 13"
  "table INV_SBOX 216 = 45" "table INV_SBOX 217 = 229" "table INV_SBOX 218 = 122" "table INV_SBOX 219 = 159"
  "table INV_SBOX 220 = 147" "table INV_SBOX 221 = 201" "table INV_SBOX 222 = 156" "table INV_SBOX 223 = 239"
  "table INV_SBOX 224 = 160" "table INV_SBOX 225 = 224" "table INV_SBOX 226 = 59" "table INV_SBOX 227 = 77"
  "table INV_SBOX 228 = 174" "table INV_SBOX 229 = 42" "table INV_SBOX 230 = 245" "table INV_SBOX 231 = 176"
  "table INV_SBOX 232 = 200" "table INV_SBOX 233 = 235" "table INV_SBOX 234 = 187" "table INV_SBOX 235 = 60"
  "table INV_SBOX 236 = 131" "table INV_SBOX 237 = 83" "table INV_SBOX 238 = 153" "table INV_SBOX 239 = 97"
  "table INV_SBOX 240 = 23" "table INV_SBOX 241 = 43" "table INV_SBOX 242 = 4" "table INV_SBOX 243 = 126"
  "table INV_SBOX 244 = 186" "table INV_SBOX 245 = 119" "table INV_SBOX 246 = 214" "table INV_SBOX 247 = 38"
  "table INV_SBOX 248 = 225" "table INV_SBOX 249 = 105" "table INV_SBOX 250 = 20" "table INV_SBOX 251 = 99"
  "table INV_SBOX 252 = 85" "table INV_SBOX 253 = 33" "table INV_SBOX 254 = 12" "table INV_SBOX 255 = 125"
  by (simp_all add: table_def INV_SBOX_def)

lemma xtime_eval:
  "xtime 0 = 0" "xtime 1 = 2" "xtime 2 = 4" "xtime 3 = 6" "xtime 4 = 8" "xtime 5 = 10"
  "xtime 6 = 12" "xtime 7 = 14" "xtime 8 = 16" "xtime 9 = 18" "xtime 10 = 20" "xtime 11 = 22"
  "xtime 12 = 24" "xtime 13 = 26" "xtime 14 = 28" "xtime 15 = 30" "xtime 16 = 32" "xtime 17 = 34"
  "xtime 18 = 36" "xtime 19 = 38" "xtime 20 = 40" "xtime 21 = 42" "xtime 22 = 44" "xtime 23 = 46"
  "xtime 24 = 48" "xtime 25 = 50" "xtime 26 = 52" "xtime 27 = 54" "xtime 28 = 56" "xtime 29 = 58"
  "xtime 30 = 60" "xtime 31 = 62" "xtime 32 = 64" "xtime 33 = 66" "xtime 34 = 68" "xtime 35 = 70"
  "xtime 36 = 72" "xtime 37 = 74" "xtime 38 = 76" "xtime 39 = 78" "xtime 40 = 80" "xtime 41 = 82"
  "xtime 42 = 84" "xtime 43 = 86" "xtime 44 = 88" "xtime 45 = 90" "xtime 46 = 92" "xtime 47 = 94"
  "xtime 48 = 96" "xtime 49 = 98" "xtime 50 = 100" "xtime 51 = 102" "xtime 52 = 104" "xtime 53 = 106"
  "xtime 54 = 108" "xtime 55 = 110" "xtime 56 = 112" "xtime 57 = 114" "xtime 58 = 116" "xtime 59 = 118"
  "xtime 60 = 120" "xtime 61 = 122" "xtime 62 = 124" "xtime 63 = 126" "xtime 64 = 128" "xtime 65 = 130"
  "xtime 66 = 132" "xtime 67 = 134" "xtime 68 = 136" "xtime 69 = 138" "xtime 70 = 140" "xtime 71 = 142"
  "xtime 72 = 144" "xtime 73 = 146" "xtime 74 = 148" "xtime 75 = 150" "xtime 76 = 152" "xtime 77 = 154"
  "xtime 78 = 156" "xtime 79 = 158" "xtime 80 = 160" "xtime 81 = 162" "xtime 82 = 164" "xtime 83 = 166"
  "xtime 84 = 168" "xtime 85 = 170" "xtime 86 = 172" "xtime 87 = 174" "xtime 88 = 176" "xtime 89 = 178"
  "xtime 90 = 180" "xtime 91 = 182" "xtime 92 = 184" "xtime 93 = 186" "xtime 94 = 188" "xtime 95 = 190"
  "xtime 96 = 192" "xtime 97 = 194" "xtime 98 = 196" "xtime 99 = 198" "xtime 100 = 200" "xtime 101 = 202"
  "xtime 102 = 204" "xtime 103 = 206" "xtime 104 = 208" "xtime 105 = 210" "xtime 106 = 212" "xtime 107 = 214"
  "xtime 108 = 216" "xtime 109 = 218" "xtime 110 = 220" "xtime 111 = 222" "xtime 112 = 224" "xtime 113 = 226"
  "xtime 114 = 228" "xtime 115 = 230" "xtime 116 = 232" "xtime 117 = 234" "xtime 118 = 236" "xtime 119 = 238"
  "xtime 120 = 240" "xtime 121 = 242" "xtime 122 = 244" "xtime 123 = 246" "xtime 124 = 248" "xtime 125 = 250"
  "xtime 126 = 252" "xtime 127 = 254" "xtime 128 = 27" "xtime 129 = 25" "xtime 130 = 31" "xtime 131 = 29"
  "xtime 132 = 19" "xtime 133 = 17" "xtime 134 = 23" "xtime 135 = 21" "xtime 136 = 11" "xtime 137 = 9"
  "xtime 138 = 15" "xtime 139 = 13" "xtime 140 = 3" "xtime 141 = 1" "xtime 142 = 7" "xtime 143 = 5"
  "xtime 144 = 59" "xtime 145 = 57" "xtime 146 = 63" "xtime 147 = 61" "xtime 148 = 51" "xtime 149 = 49"
  "xtime 150 = 55" "xtime 151 = 53" "xtime 152 = 43" "xtime 153 = 41" "xtime 154 = 47" "xtime 155 = 45"
  "xtime 156 = 35" "xtime 157 = 33" "xtime 158 = 39" "xtime 159 = 37" "xtime 160 = 91" "xtime 161 = 89"
  "xtime 162 = 95" "xtime 163 = 93" "xtime 164 = 83" "xtime 165 = 81" "xtime 166 = 87" "xtime 167 = 85"
  "xtime 168 = 75" "xtime 169 = 73" "xtime 170 = 79" "xtime 171 = 77" "xtime 172 = 67" "xtime 173 = 65"
  "xtime 174 = 71" "xtime 175 = 69" "xtime 176 = 123" "xtime 177 = 121" "xtime 178 = 127" "xtime 179 = 125"
  "xtime 180 = 115" "xtime 181 = 113" "xtime 182 = 119" "xtime 183 = 117" "xtime 184 = 107" "xtime 185 = 105"
  "xtime 186 = 111" "xtime 187 = 109" "xtime 188 = 99" "xtime 189 = 97" "xtime 190 = 103" "xtime 191 = 101"
  "xtime 192 = 155" "xtime 193 = 153" "xtime 194 = 159" "xtime 195 = 157" "xtime 196 = 147" "xtime 197 = 145"
  "xtime 198 = 151" "xtime 199 = 149" "xtime 200 = 139" "xtime 201 = 137" "xtime 202 = 143" "xtime 203 = 141"
  "xtime 204 = 131" "xtime 205 = 129" "xtime 206 = 135" "xtime 207 = 133" "xtime 208 = 187" "xtime 209 = 185"
  "xtime 210 = 191" "xtime 211 = 189" "xtime 212 = 179" "xtime 213 = 177" "xtime 214 = 183" "xtime 215 = 181"
  "xtime 216 = 171" "xtime 217 = 169" "xtime 218 = 175" "xtime 219 = 173" "xtime 220 = 163" "xtime 221 = 161"
  "xtime 222 = 167" "xtime 223 = 165" "xtime 224 = 219" "xtime 225 = 217" "xtime 226 = 223" "xtime 227 = 221"
  "xtime 228 = 211" "xtime 229 = 209" "xtime 230 = 215" "xtime 231 = 213" "xtime 232 = 203" "xtime 233 = 201"
  "xtime 234 = 207" "xtime 235 = 205" "xtime 236 = 195" "xtime 237 = 193" "xtime 238 = 199" "xtime 239 = 197"
  "xtime 240 = 251" "xtime 241 = 249" "xtime 242 = 255" "xtime 243 = 253" "xtime 244 = 243" "xtime 245 = 241"
  "xtime 246 = 247" "xtime 247 = 245" "xtime 248 = 235" "xtime 249 = 233" "xtime 250 = 239" "xtime 251 = 237"
  "xtime 252 = 227" "xtime 253 = 225" "xtime 254 = 231" "xtime 255 = 229"
  by (simp_all add: xtime_def)

definition all_bytes :: bytes where
  "all_bytes = [
    0, 1, 2, 3, 4, 5, 6, 7, 8, 9, 10, 11, 12, 13, 14, 15, 16, 17, 18, 19, 20, 21, 22, 23, 24, 25, 26, 27, 28, 29, 30, 31,
    32, 33, 34, 35, 36, 37, 38, 39, 40, 41, 42, 43, 44, 45, 46, 47, 48, 49, 50, 51, 52, 53, 54, 55, 56, 57, 58, 59, 60, 61, 62, 63,
    64, 65, 66, 67, 68, 69, 70, 71, 72, 73, 74, 75, 76, 77, 78, 79, 80, 81, 82, 83, 84, 85, 86, 87, 88, 89, 90, 91, 92, 93, 94, 95,
    96, 97, 98, 99, 100, 101, 102, 103, 104, 105, 106, 107, 108, 109, 110, 111, 112, 113, 114, 115, 116, 117, 118, 119, 120, 121, 122, 123, 124, 125, 126, 127,
    128, 129, 130, 131, 132, 133, 134, 135, 136, 137, 138, 139, 140, 141, 142, 143, 144, 145, 146, 147, 148, 149, 150, 151, 152, 153, 154, 155, 156, 157, 158, 159,
    160, 161, 162, 163, 164, 165, 166, 167, 168, 169, 170, 171, 172, 173, 174, 175, 176, 177, 178, 179, 180, 181, 182, 183, 184, 185, 186, 187, 188, 189, 190, 191,
    192, 193, 194, 195, 196, 197, 198, 199, 200, 201, 202, 203, 204, 205, 206, 207, 208, 209, 210, 211, 212, 213, 214, 215, 216, 217, 218, 219, 220, 221, 222, 223,
    224, 225, 226, 227, 228, 229, 230, 231, 232, 233, 234, 235, 236, 237, 238, 239, 240, 241, 242, 243, 244, 245, 246, 247, 248, 249, 250, 251, 252, 253, 254, 255]"

lemma all_bytes: "b \<in> set all_bytes"
proof -
  have "all_bytes = map word_of_nat [0..<256]"
    by (simp add: all_bytes_def upt_rec [of 0] upt_rec [of "Suc 0"] flip: numeral_2_eq_2)
  moreover have "b = word_of_nat (unat b)" "unat b \<in> set [0..<256]" using unsigned_less [of b] by simp_all
  ultimately show ?thesis by (metis image_eqI list.set_map)
qed

section \<open>Every step can be undone\<close>

lemma sbox_undo: "table INV_SBOX (table SBOX b) = b" "table SBOX (table INV_SBOX b) = b"
proof -
  have "list_all (\<lambda>b. table INV_SBOX (table SBOX b) = b) all_bytes" "list_all (\<lambda>b. table SBOX (table INV_SBOX b) = b) all_bytes"
    by (simp_all only: all_bytes_def list.pred_inject sbox_eval inv_sbox_eval simp_thms)
  then show "table INV_SBOX (table SBOX b) = b" "table SBOX (table INV_SBOX b) = b"
    using all_bytes [of b] by (simp_all add: list_all_iff)
qed

lemma xtime_xor: "xtime (a XOR b) = xtime a XOR xtime b"
  by (simp add: xtime_def bit_xor_iff xor.assoc xor.left_commute)

lemma xor_cancel: "(a :: u8) XOR (a XOR b) = b"
  by (simp flip: xor.assoc)

lemmas xor_ac = xor.assoc xor.commute xor.left_commute

lemma mix_undo:
  "inv_mix_byte (mix_byte a b c d) (mix_byte b c d a) (mix_byte c d a b) (mix_byte d a b c) = a"
  "mix_byte (inv_mix_byte a b c d) (inv_mix_byte b c d a) (inv_mix_byte c d a b) (inv_mix_byte d a b c) = a"
  by (simp_all add: inv_mix_byte_def mix_byte_def xtime_xor xor_ac xor_cancel)

lemma mix_columns_undo:
  "inv_mix_columns (mix_columns s) = s" "mix_columns (inv_mix_columns s) = s"
  "length (mix_columns s) = length s" "length (inv_mix_columns s) = length s"
  by (induction s rule: mix_columns.induct) (simp_all add: mix_undo)

lemma permute_undo:
  assumes "length s = 16"
  shows "permute INV_SHIFT_ROWS (permute SHIFT_ROWS s) = s" "permute SHIFT_ROWS (permute INV_SHIFT_ROWS s) = s"
proof -
  have "[0..<16] = [0, 1, 2, 3, 4, 5, 6, 7, 8, 9, 10, 11, 12, 13, 14, 15]"
    by (simp add: upt_rec [of 0] upt_rec [of "Suc 0"] flip: numeral_2_eq_2)
  with assms map_nth [of s] have "map (\<lambda>i. s ! i) [0, 1, 2, 3, 4, 5, 6, 7, 8, 9, 10, 11, 12, 13, 14, 15] = s" by metis
  then show "permute INV_SHIFT_ROWS (permute SHIFT_ROWS s) = s" "permute SHIFT_ROWS (permute INV_SHIFT_ROWS s) = s"
    by (simp_all add: permute_def SHIFT_ROWS_def INV_SHIFT_ROWS_def)
qed

lemma length_permute: "length (permute SHIFT_ROWS s) = 16" "length (permute INV_SHIFT_ROWS s) = 16"
  by (simp_all add: permute_def SHIFT_ROWS_def INV_SHIFT_ROWS_def)

lemma add_round_key_undo: "length k = length s \<Longrightarrow> add_round_key k (add_round_key k s) = s"
  by (induction k s rule: list_induct2) (simp_all add: add_round_key_def xor.assoc)

lemma length_add_round_key: "length k = length s \<Longrightarrow> length (add_round_key k s) = length s"
  by (simp add: add_round_key_def)

text \<open>The key schedule yields round keys of 16 bytes.\<close>

lemma expand_key_words:
  assumes "list_all (\<lambda>v. length v = 4) w" "8 \<le> i" "i \<le> length w"
  shows "list_all (\<lambda>v. length v = 4) (expand_key w i) \<and> length (expand_key w i) = Suc (length w)"
proof -
  have "length (w ! (i - 1)) = 4" "length (w ! (i - 8)) = 4" using assms by (auto simp: list_all_length)
  then show ?thesis using assms(1) by (simp add: expand_key_def Let_def)
qed

lemma expanded_words:
  assumes "list_all (\<lambda>v. length v = 4) w" "length w = 8"
  shows "list_all (\<lambda>v. length v = 4) (foldl expand_key w [8..<8 + n]) \<and> length (foldl expand_key w [8..<8 + n]) = 8 + n"
proof (induction n)
  case (Suc n)
  have "[8..<8 + Suc n] = [8..<8 + n] @ [8 + n]" by (simp only: add_Suc_right upt_Suc le_add1 if_True)
  with Suc expand_key_words [of "foldl expand_key w [8..<8 + n]" "8 + n"] show ?case by (simp del: add_Suc_right)
qed (use assms in simp)

lemma words_of_length:
  "list_all (\<lambda>v. length v = 4) (words_of k) \<and> length (words_of k) = length k div 4"
  by (induction k rule: words_of.induct) auto

lemma round_keys_of_length:
  "list_all (\<lambda>v. length v = 4) w \<Longrightarrow> list_all (\<lambda>v. length v = 16) (round_keys_of w) \<and> length (round_keys_of w) = length w div 4"
  by (induction w rule: round_keys_of.induct) auto

lemma round_keys_length:
  assumes "length key = 32"
  shows "list_all (\<lambda>v. length v = 16) (round_keys key)" "length (round_keys key) = 15"
  using expanded_words [of "words_of key" 52] words_of_length [of key] round_keys_of_length [of "foldl expand_key (words_of key) [8..<60]"] assms
  by (simp_all add: round_keys_def)

section \<open>The cipher is what the code relies on\<close>

lemma round_undo:
  assumes "length s = 16" "length k = 16"
  shows "length (aes_round s k) = 16" "inv_aes_round (aes_round s k) k = s"
    "length (inv_aes_round s k) = 16" "aes_round (inv_aes_round s k) k = s"
  using assms
  by (simp_all add: aes_round_def inv_aes_round_def length_add_round_key length_permute mix_columns_undo add_round_key_undo permute_undo
      sbox_undo o_def)

lemma rounds_undo:
  assumes "list_all (\<lambda>v. length v = 16) ks" "length s = 16"
  shows "foldl inv_aes_round (foldl aes_round s ks) (rev ks) = s \<and> length (foldl aes_round s ks) = 16"
    "foldl aes_round (foldl inv_aes_round s (rev ks)) ks = s \<and> length (foldl inv_aes_round s (rev ks)) = 16"
  using foldl_undo [of "\<lambda>s. length s = 16" ks aes_round inv_aes_round s]
    foldl_undo [of "\<lambda>s. length s = 16" "rev ks" inv_aes_round aes_round s] round_undo assms
  by (auto simp: list_all_iff)

lemma cipher_undo:
  assumes "list_all (\<lambda>v. length v = 16) ks" "2 \<le> length ks" "length x = 16"
  shows "length (cipher ks x) = 16 \<and> inv_cipher ks (cipher ks x) = x"
    "length (inv_cipher ks x) = 16 \<and> cipher ks (inv_cipher ks x) = x"
proof -
  from assms(2) obtain k0 r where "ks = k0 # r" "r \<noteq> []" by (cases ks; cases "tl ks") auto
  then obtain mid kn where ks: "ks = k0 # mid @ [kn]" by (metis append_butlast_last_id)
  with assms(1) have k: "length k0 = 16" "length kn = 16" "list_all (\<lambda>v. length v = 16) mid" by simp_all
  let ?s = "foldl aes_round (add_round_key k0 x) mid"
  have s: "foldl inv_aes_round ?s (rev mid) = add_round_key k0 x" "length ?s = 16"
    using rounds_undo(1) [OF k(3), of "add_round_key k0 x"] assms(3) k by (simp_all add: length_add_round_key)
  show "length (cipher ks x) = 16 \<and> inv_cipher ks (cipher ks x) = x"
    using s assms(3) k
    by (simp add: cipher_def inv_cipher_def ks butlast_append length_add_round_key length_permute add_round_key_undo permute_undo sbox_undo o_def)
  let ?t = "map (table INV_SBOX) (permute INV_SHIFT_ROWS (add_round_key kn x))"
  have t: "foldl aes_round (foldl inv_aes_round ?t (rev mid)) mid = ?t" "length (foldl inv_aes_round ?t (rev mid)) = 16"
    using rounds_undo(2) [OF k(3), of ?t] by (simp_all add: length_permute)
  show "length (inv_cipher ks x) = 16 \<and> cipher ks (inv_cipher ks x) = x"
    using t assms(3) k
    by (simp add: cipher_def inv_cipher_def ks butlast_append length_add_round_key length_permute add_round_key_undo permute_undo sbox_undo o_def)
qed

lemma fips_aes_ok: "aes_ok fips_aes"
proof -
  have "length (cipher (round_keys k) x) = 16 \<and> inv_cipher (round_keys k) (cipher (round_keys k) x) = x"
    "length (inv_cipher (round_keys k) x) = 16 \<and> cipher (round_keys k) (inv_cipher (round_keys k) x) = x"
    if "length k = 32" "length x = 16" for k x
    using cipher_undo [of "round_keys k" x] round_keys_length [OF that(1)] that(2) by simp_all
  then show ?thesis by (simp add: aes_ok_def fips_aes_def)
qed

end
