(* ===== verification/Keywrap_Vectors.thy ===== *)
theory Keywrap_Vectors
  imports Aes_Fips
begin

unbundle bit_operations_syntax

text \<open>
  The three tests of \<open>providers/sgx/sgx-app/src/sgx_app/cloud/keywrap.rs\<close> with fixed inputs, run on the model with the AES of FIPS 197: the vector of
  \<open>test_padded_256bit_kek_and_256bit_key\<close> is wrapped and unwrapped byte for byte, and \<open>test_wrong_auth\<close> and \<open>test_wrong_len\<close> are refused.  The runs are evaluated four blocks at a time.
\<close>

section \<open>Evaluation\<close>

lemma le_bytes_eval: "le_bytes (numeral n) v = word_of_nat (v mod 256) # le_bytes (pred_numeral n) (v div 256)"
  by (simp only: numeral_eq_Suc le_bytes.simps list.inject) (simp add: word_of_nat_eq_iff take_bit_eq_mod)

lemma expanded_range: "[8..<60] = [8, 9, 10, 11, 12, 13, 14, 15, 16, 17, 18, 19, 20, 21, 22, 23, 24, 25, 26, 27, 28, 29, 30, 31, 32, 33,
    34, 35, 36, 37, 38, 39, 40, 41, 42, 43, 44, 45, 46, 47, 48, 49, 50, 51, 52, 53, 54, 55, 56, 57, 58, 59]" by simp

definition step_result :: "u64 \<Rightarrow> bytes \<Rightarrow> nat \<Rightarrow> bytes \<Rightarrow> u64 \<times> bytes" where
  "step_result t block i R = (u64_from_be_bytes (take 8 block) XOR t, copy_at R (i * 8) (drop 8 block))"

lemma wrap_step_eval:
  "wrap_step fips_aes kek (a, R) (t, i)
     = step_result (word_of_nat t) (cipher (round_keys kek) (u64_to_be_bytes a @ take 8 (drop (i * 8) R))) i R"
  by (simp add: wrap_step_def step_result_def fips_aes_def Let_def)

lemma unwrap_step_eval:
  "unwrap_step fips_aes kek (a, R) (t, i)
     = step_result 0 (inv_cipher (round_keys kek) (u64_to_be_bytes (a XOR word_of_nat t) @ take 8 (drop (i * 8) R))) i R"
  by (simp add: unwrap_step_def step_result_def fips_aes_def Let_def)

lemma steps_eval: "steps =
    [(1, 0), (2, 1), (3, 2), (4, 3),
    (5, 0), (6, 1), (7, 2), (8, 3),
    (9, 0), (10, 1), (11, 2), (12, 3),
    (13, 0), (14, 1), (15, 2), (16, 3),
    (17, 0), (18, 1), (19, 2), (20, 3),
    (21, 0), (22, 1), (23, 2), (24, 3)]"
  by (simp add: steps_def upt_rec)

lemmas wrap_eval = wrap_step_eval step_result_def u64_to_be_bytes_def u64_from_be_bytes_def be_bytes_def of_be_bytes_def copy_at_def le_bytes_eval
  cipher_def aes_round_def add_round_key_def permute_def SHIFT_ROWS_def sbox_eval xtime_eval mix_byte_def

lemmas unwrap_eval = unwrap_step_eval step_result_def u64_to_be_bytes_def u64_from_be_bytes_def be_bytes_def of_be_bytes_def copy_at_def le_bytes_eval
  inv_cipher_def inv_aes_round_def add_round_key_def permute_def INV_SHIFT_ROWS_def inv_sbox_eval xtime_eval inv_mix_byte_def

section \<open>The published vector\<close>

definition vector_kek :: bytes where
  "vector_kek = [0x00, 0x01, 0x02, 0x03, 0x04, 0x05, 0x06, 0x07, 0x08, 0x09, 0x0a, 0x0b, 0x0c, 0x0d, 0x0e, 0x0f, 0x10, 0x11, 0x12, 0x13, 0x14, 0x15, 0x16, 0x17, 0x18, 0x19, 0x1a, 0x1b, 0x1c, 0x1d, 0x1e, 0x1f]"

definition vector_cipher :: bytes where
  "vector_cipher = [0x4a, 0x80, 0x29, 0x24, 0x30, 0x27, 0x35, 0x3b, 0x06, 0x94, 0xcf, 0x1b, 0xd8, 0xfc, 0x74, 0x5b, 0xb0, 0xce, 0x8a, 0x73, 0x9b, 0x19, 0xb1, 0x96, 0x0b, 0x12, 0x42, 0x6d, 0x4c, 0x39, 0xcf, 0xed, 0xa9, 0x26, 0xd1, 0x03, 0xab, 0x34, 0xe9, 0xf6]"

definition vector_plain :: bytes where
  "vector_plain = [0x00, 0x11, 0x22, 0x33, 0x44, 0x55, 0x66, 0x77, 0x88, 0x99, 0xaa, 0xbb, 0xcc, 0xdd, 0xee, 0xff, 0x00, 0x01, 0x02, 0x03, 0x04, 0x05, 0x06, 0x07, 0x08, 0x09, 0x0a, 0x0b, 0x0c, 0x0d, 0x0e, 0x0f]"

lemma vector_keys: "round_keys vector_kek = [
    [0x00, 0x01, 0x02, 0x03, 0x04, 0x05, 0x06, 0x07, 0x08, 0x09, 0x0a, 0x0b, 0x0c, 0x0d, 0x0e, 0x0f],
    [0x10, 0x11, 0x12, 0x13, 0x14, 0x15, 0x16, 0x17, 0x18, 0x19, 0x1a, 0x1b, 0x1c, 0x1d, 0x1e, 0x1f],
    [0xa5, 0x73, 0xc2, 0x9f, 0xa1, 0x76, 0xc4, 0x98, 0xa9, 0x7f, 0xce, 0x93, 0xa5, 0x72, 0xc0, 0x9c],
    [0x16, 0x51, 0xa8, 0xcd, 0x02, 0x44, 0xbe, 0xda, 0x1a, 0x5d, 0xa4, 0xc1, 0x06, 0x40, 0xba, 0xde],
    [0xae, 0x87, 0xdf, 0xf0, 0x0f, 0xf1, 0x1b, 0x68, 0xa6, 0x8e, 0xd5, 0xfb, 0x03, 0xfc, 0x15, 0x67],
    [0x6d, 0xe1, 0xf1, 0x48, 0x6f, 0xa5, 0x4f, 0x92, 0x75, 0xf8, 0xeb, 0x53, 0x73, 0xb8, 0x51, 0x8d],
    [0xc6, 0x56, 0x82, 0x7f, 0xc9, 0xa7, 0x99, 0x17, 0x6f, 0x29, 0x4c, 0xec, 0x6c, 0xd5, 0x59, 0x8b],
    [0x3d, 0xe2, 0x3a, 0x75, 0x52, 0x47, 0x75, 0xe7, 0x27, 0xbf, 0x9e, 0xb4, 0x54, 0x07, 0xcf, 0x39],
    [0x0b, 0xdc, 0x90, 0x5f, 0xc2, 0x7b, 0x09, 0x48, 0xad, 0x52, 0x45, 0xa4, 0xc1, 0x87, 0x1c, 0x2f],
    [0x45, 0xf5, 0xa6, 0x60, 0x17, 0xb2, 0xd3, 0x87, 0x30, 0x0d, 0x4d, 0x33, 0x64, 0x0a, 0x82, 0x0a],
    [0x7c, 0xcf, 0xf7, 0x1c, 0xbe, 0xb4, 0xfe, 0x54, 0x13, 0xe6, 0xbb, 0xf0, 0xd2, 0x61, 0xa7, 0xdf],
    [0xf0, 0x1a, 0xfa, 0xfe, 0xe7, 0xa8, 0x29, 0x79, 0xd7, 0xa5, 0x64, 0x4a, 0xb3, 0xaf, 0xe6, 0x40],
    [0x25, 0x41, 0xfe, 0x71, 0x9b, 0xf5, 0x00, 0x25, 0x88, 0x13, 0xbb, 0xd5, 0x5a, 0x72, 0x1c, 0x0a],
    [0x4e, 0x5a, 0x66, 0x99, 0xa9, 0xf2, 0x4f, 0xe0, 0x7e, 0x57, 0x2b, 0xaa, 0xcd, 0xf8, 0xcd, 0xea],
    [0x24, 0xfc, 0x79, 0xcc, 0xbf, 0x09, 0x79, 0xe9, 0x37, 0x1a, 0xc2, 0x3c, 0x6d, 0x68, 0xde, 0x36]]"
  by (simp add: vector_kek_def round_keys_def expand_key_def expanded_range sbox_eval)

lemma vector_round1:
  "foldl (wrap_step fips_aes vector_kek) (0xa65959a600000020, [0x00, 0x11, 0x22, 0x33, 0x44, 0x55, 0x66, 0x77, 0x88, 0x99, 0xaa, 0xbb, 0xcc, 0xdd, 0xee, 0xff, 0x00, 0x01, 0x02, 0x03, 0x04, 0x05, 0x06, 0x07, 0x08, 0x09, 0x0a, 0x0b, 0x0c, 0x0d, 0x0e, 0x0f])
      [(1, 0), (2, 1), (3, 2), (4, 3)]
    = (0xc3046450d4de1d1f, [0x55, 0x95, 0x06, 0x66, 0x39, 0xcf, 0x50, 0x82, 0xe6, 0xf5, 0x1e, 0x7e, 0xfb, 0x5e, 0xa7, 0x0b, 0x04, 0x78, 0xdd, 0x23, 0xe0, 0x21, 0x09, 0xea, 0x87, 0x14, 0x02, 0x81, 0x7c, 0x39, 0xcb, 0x69])"
  by (simp add: vector_keys wrap_eval)

lemma vector_round2:
  "foldl (wrap_step fips_aes vector_kek) (0xc3046450d4de1d1f, [0x55, 0x95, 0x06, 0x66, 0x39, 0xcf, 0x50, 0x82, 0xe6, 0xf5, 0x1e, 0x7e, 0xfb, 0x5e, 0xa7, 0x0b, 0x04, 0x78, 0xdd, 0x23, 0xe0, 0x21, 0x09, 0xea, 0x87, 0x14, 0x02, 0x81, 0x7c, 0x39, 0xcb, 0x69])
      [(5, 0), (6, 1), (7, 2), (8, 3)]
    = (0xd260015b386a9e4, [0xad, 0xb7, 0x4c, 0x99, 0x9e, 0x9f, 0x25, 0x1e, 0x66, 0x71, 0x95, 0x64, 0xd6, 0x8f, 0x0e, 0xa4, 0xf0, 0xff, 0x0d, 0xa2, 0x42, 0xbd, 0x92, 0x4e, 0x0f, 0xd0, 0xa8, 0xc6, 0xd4, 0xb4, 0x4c, 0x1f])"
  by (simp add: vector_keys wrap_eval)

lemma vector_round3:
  "foldl (wrap_step fips_aes vector_kek) (0xd260015b386a9e4, [0xad, 0xb7, 0x4c, 0x99, 0x9e, 0x9f, 0x25, 0x1e, 0x66, 0x71, 0x95, 0x64, 0xd6, 0x8f, 0x0e, 0xa4, 0xf0, 0xff, 0x0d, 0xa2, 0x42, 0xbd, 0x92, 0x4e, 0x0f, 0xd0, 0xa8, 0xc6, 0xd4, 0xb4, 0x4c, 0x1f])
      [(9, 0), (10, 1), (11, 2), (12, 3)]
    = (0xda73a1a00c8369fd, [0x34, 0xfe, 0xe6, 0x0e, 0x76, 0xc2, 0xa2, 0x48, 0x16, 0x29, 0xd1, 0x25, 0x45, 0xad, 0x21, 0xe1, 0x49, 0xf0, 0xec, 0x14, 0xcd, 0xeb, 0xa9, 0xa6, 0x99, 0x3b, 0x9a, 0xbb, 0x4b, 0x2f, 0xaa, 0xdb])"
  by (simp add: vector_keys wrap_eval)

lemma vector_round4:
  "foldl (wrap_step fips_aes vector_kek) (0xda73a1a00c8369fd, [0x34, 0xfe, 0xe6, 0x0e, 0x76, 0xc2, 0xa2, 0x48, 0x16, 0x29, 0xd1, 0x25, 0x45, 0xad, 0x21, 0xe1, 0x49, 0xf0, 0xec, 0x14, 0xcd, 0xeb, 0xa9, 0xa6, 0x99, 0x3b, 0x9a, 0xbb, 0x4b, 0x2f, 0xaa, 0xdb])
      [(13, 0), (14, 1), (15, 2), (16, 3)]
    = (0x1ecdde05e55b3b55, [0xcd, 0x7a, 0x1f, 0x6a, 0x99, 0x5c, 0xe5, 0xb4, 0x95, 0x22, 0x38, 0x8c, 0xf8, 0x49, 0xb6, 0x15, 0x09, 0xf5, 0xbf, 0x93, 0x4b, 0xa9, 0xa9, 0x42, 0x76, 0x50, 0xfa, 0xa1, 0xca, 0x43, 0x69, 0x5e])"
  by (simp add: vector_keys wrap_eval)

lemma vector_round5:
  "foldl (wrap_step fips_aes vector_kek) (0x1ecdde05e55b3b55, [0xcd, 0x7a, 0x1f, 0x6a, 0x99, 0x5c, 0xe5, 0xb4, 0x95, 0x22, 0x38, 0x8c, 0xf8, 0x49, 0xb6, 0x15, 0x09, 0xf5, 0xbf, 0x93, 0x4b, 0xa9, 0xa9, 0x42, 0x76, 0x50, 0xfa, 0xa1, 0xca, 0x43, 0x69, 0x5e])
      [(17, 0), (18, 1), (19, 2), (20, 3)]
    = (0x3440b4cf3693129d, [0xcc, 0xff, 0xf9, 0x55, 0x48, 0xea, 0x7c, 0x36, 0x38, 0x3f, 0xd3, 0xe2, 0x52, 0x59, 0xdd, 0xfc, 0x11, 0x23, 0x4e, 0xad, 0xfe, 0xe2, 0x05, 0x47, 0xfe, 0x25, 0xfd, 0xe3, 0xea, 0x11, 0xa5, 0xa4])"
  by (simp add: vector_keys wrap_eval)

lemma vector_round6:
  "foldl (wrap_step fips_aes vector_kek) (0x3440b4cf3693129d, [0xcc, 0xff, 0xf9, 0x55, 0x48, 0xea, 0x7c, 0x36, 0x38, 0x3f, 0xd3, 0xe2, 0x52, 0x59, 0xdd, 0xfc, 0x11, 0x23, 0x4e, 0xad, 0xfe, 0xe2, 0x05, 0x47, 0xfe, 0x25, 0xfd, 0xe3, 0xea, 0x11, 0xa5, 0xa4])
      [(21, 0), (22, 1), (23, 2), (24, 3)]
    = (0x4a8029243027353b, [0x06, 0x94, 0xcf, 0x1b, 0xd8, 0xfc, 0x74, 0x5b, 0xb0, 0xce, 0x8a, 0x73, 0x9b, 0x19, 0xb1, 0x96, 0x0b, 0x12, 0x42, 0x6d, 0x4c, 0x39, 0xcf, 0xed, 0xa9, 0x26, 0xd1, 0x03, 0xab, 0x34, 0xe9, 0xf6])"
  by (simp add: vector_keys wrap_eval)

lemma vector_wrapped: "aes256_wrap_key_with_pad fips_aes vector_kek vector_plain = vector_cipher"
proof -
  have iv: "u64_from_be_bytes [0xa6, 0x59, 0x59, 0xa6, 0, 0, 0, 32] = 0xa65959a600000020"
    by (simp add: u64_from_be_bytes_def of_be_bytes_def)
  have split: "steps = [(1, 0), (2, 1), (3, 2), (4, 3)] @
      [(5, 0), (6, 1), (7, 2), (8, 3)] @
      [(9, 0), (10, 1), (11, 2), (12, 3)] @
      [(13, 0), (14, 1), (15, 2), (16, 3)] @
      [(17, 0), (18, 1), (19, 2), (20, 3)] @
      [(21, 0), (22, 1), (23, 2), (24, 3)]"
    by (simp add: steps_eval)
  have "foldl (wrap_step fips_aes vector_kek) (0xa65959a600000020, vector_plain) steps
      = (0x4a8029243027353b, [0x06, 0x94, 0xcf, 0x1b, 0xd8, 0xfc, 0x74, 0x5b, 0xb0, 0xce, 0x8a, 0x73, 0x9b, 0x19, 0xb1, 0x96, 0x0b, 0x12, 0x42, 0x6d, 0x4c, 0x39, 0xcf, 0xed, 0xa9, 0x26, 0xd1, 0x03, 0xab, 0x34, 0xe9, 0xf6])"
    by (simp only: split foldl_append vector_plain_def vector_round1 vector_round2 vector_round3 vector_round4 vector_round5 vector_round6)
  moreover have "length vector_plain = 32" by (simp add: vector_plain_def)
  ultimately show ?thesis
    by (simp only: aes256_wrap_key_with_pad_def wrap_key_and_iv_steps iv Let_def fst_conv snd_conv)
       (simp add: vector_cipher_def u64_to_be_bytes_def be_bytes_def le_bytes_eval)
qed

section \<open>A wrapped key that is not authentic\<close>

definition zero_kek :: bytes where
  "zero_kek = [0x00, 0x00, 0x00, 0x00, 0x00, 0x00, 0x00, 0x00, 0x00, 0x00, 0x00, 0x00, 0x00, 0x00, 0x00, 0x00, 0x00, 0x00, 0x00, 0x00, 0x00, 0x00, 0x00, 0x00, 0x00, 0x00, 0x00, 0x00, 0x00, 0x00, 0x00, 0x00]"

lemma zero_keys: "round_keys zero_kek = [
    [0x00, 0x00, 0x00, 0x00, 0x00, 0x00, 0x00, 0x00, 0x00, 0x00, 0x00, 0x00, 0x00, 0x00, 0x00, 0x00],
    [0x00, 0x00, 0x00, 0x00, 0x00, 0x00, 0x00, 0x00, 0x00, 0x00, 0x00, 0x00, 0x00, 0x00, 0x00, 0x00],
    [0x62, 0x63, 0x63, 0x63, 0x62, 0x63, 0x63, 0x63, 0x62, 0x63, 0x63, 0x63, 0x62, 0x63, 0x63, 0x63],
    [0xaa, 0xfb, 0xfb, 0xfb, 0xaa, 0xfb, 0xfb, 0xfb, 0xaa, 0xfb, 0xfb, 0xfb, 0xaa, 0xfb, 0xfb, 0xfb],
    [0x6f, 0x6c, 0x6c, 0xcf, 0x0d, 0x0f, 0x0f, 0xac, 0x6f, 0x6c, 0x6c, 0xcf, 0x0d, 0x0f, 0x0f, 0xac],
    [0x7d, 0x8d, 0x8d, 0x6a, 0xd7, 0x76, 0x76, 0x91, 0x7d, 0x8d, 0x8d, 0x6a, 0xd7, 0x76, 0x76, 0x91],
    [0x53, 0x54, 0xed, 0xc1, 0x5e, 0x5b, 0xe2, 0x6d, 0x31, 0x37, 0x8e, 0xa2, 0x3c, 0x38, 0x81, 0x0e],
    [0x96, 0x8a, 0x81, 0xc1, 0x41, 0xfc, 0xf7, 0x50, 0x3c, 0x71, 0x7a, 0x3a, 0xeb, 0x07, 0x0c, 0xab],
    [0x9e, 0xaa, 0x8f, 0x28, 0xc0, 0xf1, 0x6d, 0x45, 0xf1, 0xc6, 0xe3, 0xe7, 0xcd, 0xfe, 0x62, 0xe9],
    [0x2b, 0x31, 0x2b, 0xdf, 0x6a, 0xcd, 0xdc, 0x8f, 0x56, 0xbc, 0xa6, 0xb5, 0xbd, 0xbb, 0xaa, 0x1e],
    [0x64, 0x06, 0xfd, 0x52, 0xa4, 0xf7, 0x90, 0x17, 0x55, 0x31, 0x73, 0xf0, 0x98, 0xcf, 0x11, 0x19],
    [0x6d, 0xbb, 0xa9, 0x0b, 0x07, 0x76, 0x75, 0x84, 0x51, 0xca, 0xd3, 0x31, 0xec, 0x71, 0x79, 0x2f],
    [0xe7, 0xb0, 0xe8, 0x9c, 0x43, 0x47, 0x78, 0x8b, 0x16, 0x76, 0x0b, 0x7b, 0x8e, 0xb9, 0x1a, 0x62],
    [0x74, 0xed, 0x0b, 0xa1, 0x73, 0x9b, 0x7e, 0x25, 0x22, 0x51, 0xad, 0x14, 0xce, 0x20, 0xd4, 0x3b],
    [0x10, 0xf8, 0x0a, 0x17, 0x53, 0xbf, 0x72, 0x9c, 0x45, 0xc9, 0x79, 0xe7, 0xcb, 0x70, 0x63, 0x85]]"
  by (simp add: zero_kek_def round_keys_def expand_key_def expanded_range sbox_eval)

lemma zero_round1:
  "foldl (unwrap_step fips_aes zero_kek) (0x0, [0x00, 0x00, 0x00, 0x00, 0x00, 0x00, 0x00, 0x00, 0x00, 0x00, 0x00, 0x00, 0x00, 0x00, 0x00, 0x00, 0x00, 0x00, 0x00, 0x00, 0x00, 0x00, 0x00, 0x00, 0x00, 0x00, 0x00, 0x00, 0x00, 0x00, 0x00, 0x00])
      [(24, 3), (23, 2), (22, 1), (21, 0)]
    = (0x9d923b0162d111f4, [0x16, 0x15, 0x7f, 0x82, 0x44, 0xd7, 0x36, 0x1d, 0xdf, 0x43, 0xfb, 0x32, 0x3a, 0xca, 0x63, 0xaa, 0xf7, 0xcb, 0x36, 0xef, 0x37, 0x4d, 0x40, 0x40, 0x1a, 0xeb, 0xf7, 0xd2, 0x67, 0x9d, 0x4b, 0x2f])"
  by (simp add: zero_keys unwrap_eval)

lemma zero_round2:
  "foldl (unwrap_step fips_aes zero_kek) (0x9d923b0162d111f4, [0x16, 0x15, 0x7f, 0x82, 0x44, 0xd7, 0x36, 0x1d, 0xdf, 0x43, 0xfb, 0x32, 0x3a, 0xca, 0x63, 0xaa, 0xf7, 0xcb, 0x36, 0xef, 0x37, 0x4d, 0x40, 0x40, 0x1a, 0xeb, 0xf7, 0xd2, 0x67, 0x9d, 0x4b, 0x2f])
      [(20, 3), (19, 2), (18, 1), (17, 0)]
    = (0xa0fb81338b2f0146, [0x8f, 0x90, 0xe5, 0x77, 0x44, 0xfd, 0x2e, 0xcd, 0xe7, 0xa2, 0x2d, 0x9c, 0x11, 0x05, 0x6c, 0xc3, 0xd1, 0x41, 0x85, 0x66, 0xb0, 0x2a, 0x4b, 0xd6, 0xd8, 0xd6, 0x84, 0x72, 0x76, 0x09, 0x7f, 0x90])"
  by (simp add: zero_keys unwrap_eval)

lemma zero_round3:
  "foldl (unwrap_step fips_aes zero_kek) (0xa0fb81338b2f0146, [0x8f, 0x90, 0xe5, 0x77, 0x44, 0xfd, 0x2e, 0xcd, 0xe7, 0xa2, 0x2d, 0x9c, 0x11, 0x05, 0x6c, 0xc3, 0xd1, 0x41, 0x85, 0x66, 0xb0, 0x2a, 0x4b, 0xd6, 0xd8, 0xd6, 0x84, 0x72, 0x76, 0x09, 0x7f, 0x90])
      [(16, 3), (15, 2), (14, 1), (13, 0)]
    = (0x720c8cb17fb72109, [0xbc, 0x51, 0xeb, 0x22, 0x66, 0xc1, 0x44, 0x44, 0x51, 0x65, 0xed, 0xf3, 0xff, 0x95, 0x50, 0xe9, 0xdc, 0x16, 0x14, 0xa2, 0xd5, 0x08, 0xa5, 0xdf, 0xf2, 0x7b, 0x42, 0xee, 0x09, 0xac, 0x4f, 0x7d])"
  by (simp add: zero_keys unwrap_eval)

lemma zero_round4:
  "foldl (unwrap_step fips_aes zero_kek) (0x720c8cb17fb72109, [0xbc, 0x51, 0xeb, 0x22, 0x66, 0xc1, 0x44, 0x44, 0x51, 0x65, 0xed, 0xf3, 0xff, 0x95, 0x50, 0xe9, 0xdc, 0x16, 0x14, 0xa2, 0xd5, 0x08, 0xa5, 0xdf, 0xf2, 0x7b, 0x42, 0xee, 0x09, 0xac, 0x4f, 0x7d])
      [(12, 3), (11, 2), (10, 1), (9, 0)]
    = (0x9f82dc438208c037, [0x71, 0xe4, 0x93, 0xdd, 0x78, 0x78, 0x7d, 0xad, 0xc3, 0xf2, 0x7b, 0x4e, 0x0e, 0x61, 0x0c, 0x82, 0x40, 0x0a, 0xcc, 0x66, 0xf8, 0xc1, 0xf0, 0xc4, 0x3c, 0x53, 0x67, 0x98, 0xeb, 0x7e, 0xd4, 0x92])"
  by (simp add: zero_keys unwrap_eval)

lemma zero_round5:
  "foldl (unwrap_step fips_aes zero_kek) (0x9f82dc438208c037, [0x71, 0xe4, 0x93, 0xdd, 0x78, 0x78, 0x7d, 0xad, 0xc3, 0xf2, 0x7b, 0x4e, 0x0e, 0x61, 0x0c, 0x82, 0x40, 0x0a, 0xcc, 0x66, 0xf8, 0xc1, 0xf0, 0xc4, 0x3c, 0x53, 0x67, 0x98, 0xeb, 0x7e, 0xd4, 0x92])
      [(8, 3), (7, 2), (6, 1), (5, 0)]
    = (0x45f51c2d1acf3fb9, [0x29, 0x3f, 0xf2, 0xd2, 0x41, 0xd2, 0x11, 0x04, 0xc2, 0x14, 0xb3, 0xd5, 0xdf, 0x12, 0x11, 0xdd, 0xa3, 0xe5, 0xc6, 0x52, 0x98, 0x98, 0xe9, 0x1b, 0x38, 0x44, 0x15, 0xbd, 0x23, 0xb7, 0x89, 0x4d])"
  by (simp add: zero_keys unwrap_eval)

lemma zero_round6:
  "foldl (unwrap_step fips_aes zero_kek) (0x45f51c2d1acf3fb9, [0x29, 0x3f, 0xf2, 0xd2, 0x41, 0xd2, 0x11, 0x04, 0xc2, 0x14, 0xb3, 0xd5, 0xdf, 0x12, 0x11, 0xdd, 0xa3, 0xe5, 0xc6, 0x52, 0x98, 0x98, 0xe9, 0x1b, 0x38, 0x44, 0x15, 0xbd, 0x23, 0xb7, 0x89, 0x4d])
      [(4, 3), (3, 2), (2, 1), (1, 0)]
    = (0x5a3332f128253568, [0xbf, 0xb9, 0x45, 0xa0, 0xd0, 0x97, 0x5d, 0x67, 0x01, 0x22, 0xe8, 0x7d, 0xd2, 0xbb, 0xaf, 0xd0, 0x1f, 0x89, 0xf1, 0xc6, 0xce, 0x8c, 0xaf, 0x1a, 0x4e, 0x3c, 0x5f, 0xa0, 0xb7, 0x50, 0xa6, 0xbc])"
  by (simp add: zero_keys unwrap_eval)

lemma zero_unwrapped:
  "aes256_unwrap_key_and_iv fips_aes zero_kek [0x00, 0x00, 0x00, 0x00, 0x00, 0x00, 0x00, 0x00, 0x00, 0x00, 0x00, 0x00, 0x00, 0x00, 0x00, 0x00, 0x00, 0x00, 0x00, 0x00, 0x00, 0x00, 0x00, 0x00, 0x00, 0x00, 0x00, 0x00, 0x00, 0x00, 0x00, 0x00, 0x00, 0x00, 0x00, 0x00, 0x00, 0x00, 0x00, 0x00] = ([0xbf, 0xb9, 0x45, 0xa0, 0xd0, 0x97, 0x5d, 0x67, 0x01, 0x22, 0xe8, 0x7d, 0xd2, 0xbb, 0xaf, 0xd0, 0x1f, 0x89, 0xf1, 0xc6, 0xce, 0x8c, 0xaf, 0x1a, 0x4e, 0x3c, 0x5f, 0xa0, 0xb7, 0x50, 0xa6, 0xbc], [0x5a, 0x33, 0x32, 0xf1, 0x28, 0x25, 0x35, 0x68])"
proof -
  have "rev steps = [(24, 3), (23, 2), (22, 1), (21, 0)] @
      [(20, 3), (19, 2), (18, 1), (17, 0)] @
      [(16, 3), (15, 2), (14, 1), (13, 0)] @
      [(12, 3), (11, 2), (10, 1), (9, 0)] @
      [(8, 3), (7, 2), (6, 1), (5, 0)] @
      [(4, 3), (3, 2), (2, 1), (1, 0)]"
    by (simp add: steps_eval)
  then have "foldl (unwrap_step fips_aes zero_kek) (0x0, [0x00, 0x00, 0x00, 0x00, 0x00, 0x00, 0x00, 0x00, 0x00, 0x00, 0x00, 0x00, 0x00, 0x00, 0x00, 0x00, 0x00, 0x00, 0x00, 0x00, 0x00, 0x00, 0x00, 0x00, 0x00, 0x00, 0x00, 0x00, 0x00, 0x00, 0x00, 0x00]) (rev steps)
      = (0x5a3332f128253568, [0xbf, 0xb9, 0x45, 0xa0, 0xd0, 0x97, 0x5d, 0x67, 0x01, 0x22, 0xe8, 0x7d, 0xd2, 0xbb, 0xaf, 0xd0, 0x1f, 0x89, 0xf1, 0xc6, 0xce, 0x8c, 0xaf, 0x1a, 0x4e, 0x3c, 0x5f, 0xa0, 0xb7, 0x50, 0xa6, 0xbc])"
    by (simp only: foldl_append zero_round1 zero_round2 zero_round3 zero_round4 zero_round5 zero_round6)
  moreover have "u64_from_be_bytes [0x00, 0x00, 0x00, 0x00, 0x00, 0x00, 0x00, 0x00] = 0x0" by (simp add: u64_from_be_bytes_def of_be_bytes_def)
  ultimately show ?thesis
    by (simp add: unwrap_key_and_iv_steps u64_to_be_bytes_def be_bytes_def le_bytes_eval)
qed

section \<open>The tests\<close>

text \<open>\<open>test_wrong_len\<close>, \<open>test_wrong_auth\<close> and \<open>test_padded_256bit_kek_and_256bit_key\<close>, each with its
assertions in order.\<close>

definition test_wrong_len :: "aes256 \<Rightarrow> bool \<times> bool" where
  "test_wrong_len aes =
     (aes256_unwrap_key_with_pad aes (replicate 10 0) (replicate 40 0) = Inl IncorrectLength,
      aes256_unwrap_key_with_pad aes (replicate 32 0) (replicate 10 0) = Inl IncorrectLength)"

definition test_padded_256bit_kek_and_256bit_key :: "aes256 \<Rightarrow> bool \<times> bool" where
  "test_padded_256bit_kek_and_256bit_key aes =
     (vector_cipher = aes256_wrap_key_with_pad aes vector_kek vector_plain,
      aes256_unwrap_key_with_pad aes vector_kek vector_cipher = Inr vector_plain)"

definition test_wrong_auth :: "aes256 \<Rightarrow> bool" where
  "test_wrong_auth aes \<longleftrightarrow> aes256_unwrap_key_with_pad aes (replicate 32 0) (replicate 40 0) = Inl AuthFailed"

lemma test_padded_256bit_kek_and_256bit_key_passes: "test_padded_256bit_kek_and_256bit_key fips_aes = (True, True)"
proof -
  have "length vector_kek = 32" "length vector_plain = 32" by (simp_all add: vector_kek_def vector_plain_def)
  from unwrap_wrapped [OF fips_aes_ok this] show ?thesis
    by (simp add: test_padded_256bit_kek_and_256bit_key_def vector_wrapped)
qed

lemma test_wrong_len_passes: "test_wrong_len aes = (True, True)"
  by (simp add: test_wrong_len_def aes256_unwrap_key_with_pad_def)

lemma test_wrong_auth_passes: "test_wrong_auth fips_aes"
proof -
  have kek: "replicate 32 0 = zero_kek" and cipher: "replicate 40 0 = ([0x00, 0x00, 0x00, 0x00, 0x00, 0x00, 0x00, 0x00, 0x00, 0x00, 0x00, 0x00, 0x00, 0x00, 0x00, 0x00, 0x00, 0x00, 0x00, 0x00, 0x00, 0x00, 0x00, 0x00, 0x00, 0x00, 0x00, 0x00, 0x00, 0x00, 0x00, 0x00, 0x00, 0x00, 0x00, 0x00, 0x00, 0x00, 0x00, 0x00] :: bytes)"
    by (simp_all add: zero_kek_def numeral_eq_Suc)
  have "length zero_kek = 32" by (simp add: zero_kek_def)
  then show ?thesis
    by (simp add: test_wrong_auth_def kek cipher aes256_unwrap_key_with_pad_def zero_unwrapped IV_5649_def)
qed

end
