(* ===== verification/Spec2Isabelle.thy ===== *)
theory Spec2Isabelle
  imports Enclave_Serve Softsign_Serve Softsign_Main Sgx_Recovery Keywrap_Rfc Nitro_Main Log_Link Source_Tests Sgx_Tests Keywrap_Vectors
begin

text \<open>
  A verification library for tmkms-light, a signer for validators of Tendermint chains.

  \<^bold>\<open>The program.\<close>  A validator node asks the signer over a connection to sign votes and proposals.  The signer must never sign two different blocks for the same height, round and step, so
  it records every state in a double-sign state that is persisted before anything is signed.  The library crate (\<open>src/\<close>) has that state (\<open>chain/state.rs\<close>), the messages (\<open>rpc.rs\<close>), the session that answers one request after
  the other (\<open>session.rs\<close>), connections and the 16-bit frames (\<open>connection.rs\<close>, \<open>utils.rs\<close>).  Three providers use it: \<open>providers/softsign\<close> keeps key and state in local files; \<open>providers/nitro\<close> runs the session in an AWS Nitro enclave
  and \<open>providers/sgx\<close> in an SGX enclave.  The enclaves have no disk: they send every state as a frame to a program on the host, which writes it to a file and hands it back to the next enclave.  The host
  programs also generate and store the sealed keys, start the enclave, and (Nitro) forward the validator's connection and the enclave's log.

  \<^bold>\<open>How the model reads.\<close>  Structs are records, enums datatypes, machine integers words; fallible functions return \<open>error + result\<close>, a panic is an error value of its own, and code that changes state returns it.  A socket is the
  script of what its reads deliver and its writes accept, a file system carries the script of the faults its operations meet (\<open>Std_IO\<close>), so a statement about all sockets and disks covers every chunking and every failure.
  Code of other crates and services (protobuf, JSON, TOML, base64, signatures, AES, RSA, AWS KMS, the SGX instructions, \<open>nitro-cli\<close>, the instance metadata service, clap, the temporary file crate) is an argument: a field of
  \<open>tm_lib\<close>, \<open>state_json\<close>, \<open>tempfile_lib\<close>, \<open>softsign_lib\<close>, \<open>nitro_lib\<close>, \<open>sgx_lib\<close>, \<open>runner_lib\<close>, \<open>helper_lib\<close> or \<open>log_lib\<close>; what the code relies on is a named hypothesis, and \<open>Concrete_Env\<close> and the \<open>demo_\<close> definitions show that it can hold.

  \<^bold>\<open>Loops.\<close>  Loops that end are functions with a termination proof (\<open>read_payload_loop\<close>, \<open>from_raw_loop\<close>, \<open>wait_enclave\<close>).  Loops that may not end are \<open>partial_function (option)\<close>: \<open>request_loop\<close>, \<open>retry_connect\<close>, \<open>connect_retry\<close>, \<open>nitro_sync_loop\<close>,
  \<open>sgx_launch_syncer\<close>; there \<open>None\<close> means that the code does not return, and returning is proved where it is claimed.  Loops that run for ever by design (the enclaves' session loop, which is also run request by request (\<open>session_trace\<close>) to cover rounds that do not end, the log server, the proxy, the listening loop of the enclave) are run for a number
  of rounds, or over the list of the events they meet, and the properties hold for every number and every list.  \<open>usize\<close> has 64 bits.

  \<^bold>\<open>Theories, in the order of the dependencies.\<close>
  \<^item> \<open>Prelude\<close>: results, bytes, decimal text, UTF-8, and the locale \<open>step_invariant\<close> of a step relation with an invariant.  \<open>Std_IO\<close>: sockets, files, paths.  \<open>Tm_Types\<close>, \<open>Errors\<close>: the data and errors (\<open>src/error.rs\<close>, \<open>src/chain/state/error.rs\<close>).
  \<^item> \<open>Chain_State\<close> (\<open>src/chain/state.rs\<close>): the checks refine an abstract register of the last signed state; the accepted states are ordered and never conflict; a failing persistence changes nothing; and where the code
    accepts more than its comment says.
  \<^item> \<open>Connection\<close>, \<open>Rpc\<close>, \<open>Session\<close>, \<open>Kms_Run\<close>, \<open>Session_Live\<close> (\<open>src/connection.rs\<close>, \<open>src/rpc.rs\<close>, \<open>src/session.rs\<close>, \<open>src/config/validator.rs\<close>): what every branch answers; a signature is given only for the configured chain, up to the height limit, and after its state was
    persisted; the locale \<open>available_persistence\<close>: with a persistence that stores every new state, any number of requests on any connection is signed in order; the loop ends at the end of the stream; and, for any persistence that meets the locale \<open>durable_persistence\<close>, no conflicting signatures over requests, reconnections and restarts, and only well-formed states.
  \<^item> \<open>Utils\<close> (\<open>src/utils.rs\<close>): frames, with the locale \<open>framed_channel\<close> and its interpretation, and the display of public keys.
  \<^item> \<open>State_Files\<close>, \<open>Softsign_State\<close>, \<open>Softsign_App\<close>, \<open>Softsign_Main\<close> (\<open>providers/softsign/src\<close>): the state file is a \<open>durable_persistence\<close>; the key file; the three commands and the main function; the main property of the software signer; and that \<open>init\<close> prepares what \<open>start\<close> and \<open>pubkey\<close> need.
  \<^item> \<open>Remote_State\<close> (\<open>state.rs\<close> of both enclaves and both hosts): the locales \<open>framed_persistence\<close>, \<open>state_host\<close> and \<open>remote_state\<close>, interpreted for Nitro and SGX: the host's file holds the last state that the enclave persisted; and what the hosts do not ensure.
  \<^item> \<open>Softsign_Serve\<close>, \<open>Enclave_Serve\<close>: the providers as \<open>available_persistence\<close>; and that whatever an enclave signs in its lifetime, in any number of requests, is free of conflicts.  The software signer signs a whole conversation and leaves its last state in the file; both enclaves do so over the frames of their host (locale \<open>remote_service\<close>), whose file then holds
    the last state and hands it to the next enclave.
  \<^item> \<open>Enclave_Base\<close>, \<open>Nitro_Enclave\<close> (\<open>providers/nitro/nitro-enclave/src\<close>, and \<open>shared.rs\<close>, \<open>key_utils.rs\<close> of the helper): the enclave's requests, key generation across the vsock, the listening loop and the command line.
  \<^item> \<open>Keywrap\<close>, \<open>Keywrap_Rfc\<close>, \<open>Sgx_Seal\<close>, \<open>Sgx_App\<close> (\<open>providers/sgx/sgx-app/src\<close>, and \<open>shared.rs\<close> of the runner): key unwrapping, which equals a reference written from RFC 3394 and RFC 5649; sealing, cloud backup and the enclave program.
  \<^item> \<open>Command_Base\<close>: commands of the host programs as functions of a console (files, output, trace of what was started), with inversion lemmas for their successful runs.
  \<^item> \<open>Sgx_Runner\<close>, \<open>Sgx_Runner_Props\<close> (\<open>providers/sgx/sgx-runner/src\<close>): the runner and its four commands, composed with the enclave program: the keys of \<open>init\<close> are the ones a \<open>start\<close> runs with, \<open>start\<close> resumes the state of the file, \<open>recover\<close>.
  \<^item> \<open>Sgx_Recovery\<close>: the backup protocol between two enclaves on different processors and the provider of the backup key, read over the frames by the host.
  \<^item> \<open>Log_Layer\<close>, \<open>Log_Server\<close>, \<open>Log_Link\<close>, \<open>Proxy_Link\<close> (\<open>tracing_layer.rs\<close>, \<open>enclave_log_server.rs\<close>, \<open>proxy.rs\<close> of the helper): log events are read back field by field, the server logs every connection, what the host logs of an event whose buffer was cut, and the proxy moves bytes unchanged.
  \<^item> \<open>Nitro_Helper\<close>, \<open>Nitro_Launcher\<close>, \<open>Nitro_Main\<close> (the remaining files of \<open>providers/nitro/nitro-helper/src\<close>): configuration, \<open>init\<close>, \<open>start\<close> and the calls of \<open>nitro-cli\<close>; the launcher's threads and the states on their way from the enclave as a step relation in which every single send is a step, with its invariant, how the process ends, and when Ctrl-C leaves it hanging; the
    subcommands and exit codes.
  \<^item> \<open>Source_Tests\<close>, \<open>Sgx_Tests\<close>, \<open>Aes_Fips\<close>, \<open>Keywrap_Vectors\<close>: the repository's unit tests, run on the model.  Tests with fixed inputs are evaluated, the published key wrap vector with the AES-256 of FIPS 197, which is shown to be a cipher as the code relies on;
    tests on random keys are proved for all random numbers.

  \<^bold>\<open>Not modelled.\<close>  Time (sleeps; a socket timeout only shows as a failing read or write), logging of the programs themselves, file modes and directories, zeroizing of secrets, the file descriptors of the attestation device, and the inside of the crates named above.  Of a hash map
  only the contents are kept; the order of iteration is an argument.  The unit tests \<open>test_hash\<close>, \<open>test_rsa\<close>, \<open>test_report\<close> and \<open>test_rsa2\<close> compare values computed by crates (SHA-256, RSA, base64, SGX reports) with literals.  Docker files, build scripts and the Python integration tests are not part of the signer.
\<close>

end
